(* ===== verification/Prelude.thy ===== *)
theory Prelude
  imports Complex_Main
begin

text \<open>
  The shared vocabulary of the development: the part of JavaScript the sources
  under src/ rely on.

  \<^item> Numbers (\<open>jsnum\<close>): the finite numbers, the two infinities and NaN, with the
    operators' behaviour on the special values written out.  Finite numbers are
    exact rationals, so rounding to a double and the sign of zero are idealised.
  \<^item> Strings: HOL strings with the \<open>String.prototype\<close> methods in use.
  \<^item> Dynamic values (\<open>jv\<close>): objects are association lists in insertion order; a
    missing property falls through to \<open>Object.prototype\<close>, and reading a property
    of undefined or null is a TypeError.
  \<^item> Asynchronous, effectful code (\<open>js\<close>): a state monad with exceptions whose
    state is a component state and the log of the external calls made so far.
    External code (network, contracts, Stripe, storage, clock, random source) is
    an environment that answers each call with a value or with an exception; the
    answer may depend on the position of the call in the log.
\<close>

named_theorems js_simps \<open>unfolding rules for monadic code\<close>
named_theorems hoare_intros \<open>structural rules for partial correctness of monadic code\<close>
named_theorems num_simps \<open>evaluation of JavaScript arithmetic\<close>

section \<open>Numbers\<close>

datatype jsnum = NaN | PInf | NInf | Fin rat

fun num_add :: "jsnum \<Rightarrow> jsnum \<Rightarrow> jsnum" where
  "num_add (Fin a) (Fin b) = Fin (a + b)"
| "num_add NaN _ = NaN"
| "num_add _ NaN = NaN"
| "num_add PInf NInf = NaN"
| "num_add NInf PInf = NaN"
| "num_add PInf _ = PInf"
| "num_add NInf _ = NInf"
| "num_add (Fin _) PInf = PInf"
| "num_add (Fin _) NInf = NInf"

fun num_neg :: "jsnum \<Rightarrow> jsnum" where
  "num_neg NaN = NaN"
| "num_neg PInf = NInf"
| "num_neg NInf = PInf"
| "num_neg (Fin a) = Fin (- a)"

definition num_sub :: "jsnum \<Rightarrow> jsnum \<Rightarrow> jsnum" where
  "num_sub x y = num_add x (num_neg y)"

definition num_sgn :: "jsnum \<Rightarrow> int" where
  "num_sgn x = (case x of NaN \<Rightarrow> 0 | PInf \<Rightarrow> 1 | NInf \<Rightarrow> - 1
     | Fin a \<Rightarrow> if a > 0 then 1 else if a < 0 then - 1 else 0)"

definition num_inf :: "int \<Rightarrow> jsnum" where
  "num_inf s = (if s > 0 then PInf else if s < 0 then NInf else NaN)"

fun num_mul :: "jsnum \<Rightarrow> jsnum \<Rightarrow> jsnum" where
  "num_mul (Fin a) (Fin b) = Fin (a * b)"
| "num_mul NaN _ = NaN"
| "num_mul _ NaN = NaN"
| "num_mul x y = num_inf (num_sgn x * num_sgn y)"

text \<open>Division by zero gives an infinity of the dividend's sign, 0/0 gives NaN.\<close>

fun num_div :: "jsnum \<Rightarrow> jsnum \<Rightarrow> jsnum" where
  "num_div (Fin a) (Fin b) =
     (if b = 0 then num_inf (num_sgn (Fin a)) else Fin (a / b))"
| "num_div NaN _ = NaN"
| "num_div _ NaN = NaN"
| "num_div (Fin _) _ = Fin 0"
| "num_div x (Fin b) = (if b < 0 then num_neg x else x)"
| "num_div _ _ = NaN"

text \<open>The relational operators; every comparison with NaN is false.\<close>

fun num_lt :: "jsnum \<Rightarrow> jsnum \<Rightarrow> bool" where
  "num_lt NaN _ = False"
| "num_lt _ NaN = False"
| "num_lt (Fin a) (Fin b) = (a < b)"
| "num_lt NInf y = (y \<noteq> NInf)"
| "num_lt PInf _ = False"
| "num_lt (Fin _) y = (y = PInf)"

definition num_eq :: "jsnum \<Rightarrow> jsnum \<Rightarrow> bool" where
  "num_eq x y = (x \<noteq> NaN \<and> x = y)"

definition num_le :: "jsnum \<Rightarrow> jsnum \<Rightarrow> bool" where
  "num_le x y = (num_lt x y \<or> num_eq x y)"

abbreviation num_gt :: "jsnum \<Rightarrow> jsnum \<Rightarrow> bool" where
  "num_gt x y \<equiv> num_lt y x"

abbreviation num_ge :: "jsnum \<Rightarrow> jsnum \<Rightarrow> bool" where
  "num_ge x y \<equiv> num_le y x"

definition num_max :: "jsnum \<Rightarrow> jsnum \<Rightarrow> jsnum" where
  "num_max x y = (if x = NaN \<or> y = NaN then NaN else if num_lt x y then y else x)"

definition num_min :: "jsnum \<Rightarrow> jsnum \<Rightarrow> jsnum" where
  "num_min x y = (if x = NaN \<or> y = NaN then NaN else if num_lt y x then y else x)"

fun num_floor :: "jsnum \<Rightarrow> jsnum" where
  "num_floor (Fin a) = Fin (of_int \<lfloor>a\<rfloor>)"
| "num_floor x = x"

text \<open>\<open>Math.round\<close> rounds halves towards plus infinity.\<close>

fun num_round :: "jsnum \<Rightarrow> jsnum" where
  "num_round (Fin a) = Fin (of_int \<lfloor>a + 1 / 2\<rfloor>)"
| "num_round x = x"

definition num_truthy :: "jsnum \<Rightarrow> bool" where
  "num_truthy x = (x \<noteq> NaN \<and> x \<noteq> Fin 0)"

abbreviation num_pos :: "jsnum \<Rightarrow> bool" where
  "num_pos x \<equiv> num_lt (Fin 0) x"

lemma num_add_0 [simp]: "num_add (Fin 0) x = x" "num_add x (Fin 0) = x"
  by (cases x; simp)+

lemma num_add_assoc: "num_add (num_add x y) z = num_add x (num_add y z)"
  by (cases x; cases y; cases z) simp_all

lemma num_add_comm: "num_add x y = num_add y x"
  by (cases x; cases y) (simp_all add: add.commute)

lemma num_add_NaN [simp]: "num_add x NaN = NaN" "num_add NaN x = NaN"
  by (cases x; simp)+

lemma num_div_pos [num_simps]: "b > 0 \<Longrightarrow> num_div (Fin a) (Fin b) = Fin (a / b)"
  by simp

lemma num_div_NaN [simp]: "num_div x NaN = NaN" "num_div NaN x = NaN"
  by (cases x; simp)+

lemma num_lt_NaN [simp]: "\<not> num_lt x NaN" "\<not> num_lt NaN x"
  by (cases x; simp)+

lemma num_lt_irrefl [simp]: "\<not> num_lt x x"
  by (cases x) simp_all

lemma num_lt_trans: "num_lt x y \<Longrightarrow> num_lt y z \<Longrightarrow> num_lt x z"
  by (cases x; cases y; cases z) simp_all

lemma num_le_Fin [simp, num_simps]: "num_le (Fin a) (Fin b) = (a \<le> b)"
  by (auto simp: num_le_def num_eq_def)

lemma num_le_NaN [simp]: "\<not> num_le x NaN" "\<not> num_le NaN x"
  by (simp_all add: num_le_def num_eq_def)

lemma num_le_trans: "num_le x y \<Longrightarrow> num_le y z \<Longrightarrow> num_le x z"
  by (cases x; cases y; cases z) (auto simp: num_le_def num_eq_def)

lemma num_sub_Fin [simp, num_simps]: "num_sub (Fin a) (Fin b) = Fin (a - b)"
  by (simp add: num_sub_def)

lemma num_sub_NaN [simp]: "num_sub x NaN = NaN" "num_sub NaN x = NaN"
  by (simp_all add: num_sub_def)

lemma num_max_Fin [simp, num_simps]: "num_max (Fin a) (Fin b) = Fin (max a b)"
  by (simp add: num_max_def)

lemma num_min_Fin [simp, num_simps]: "num_min (Fin a) (Fin b) = Fin (min a b)"
  by (simp add: num_min_def)

lemma num_round_int [simp]: "num_round (Fin (of_int n)) = Fin (of_int n)"
proof -
  have "\<lfloor>of_int n + (1 / 2 :: rat)\<rfloor> = n" by linarith
  then show ?thesis by simp
qed

lemma num_posE:
  assumes "num_pos x"
  obtains "x = PInf" | a where "x = Fin a" "a > 0"
  using assms by (cases x) auto


section \<open>Strings\<close>

definition lower_char :: "char \<Rightarrow> char" where
  "lower_char c = (let n = of_char c :: nat in
     if 65 \<le> n \<and> n \<le> 90 then char_of (n + 32) else c)"

definition upper_char :: "char \<Rightarrow> char" where
  "upper_char c = (let n = of_char c :: nat in
     if 97 \<le> n \<and> n \<le> 122 then char_of (n - 32) else c)"

definition to_lower :: "string \<Rightarrow> string" where
  "to_lower s = map lower_char s"

definition to_upper :: "string \<Rightarrow> string" where
  "to_upper s = map upper_char s"

definition starts_with :: "string \<Rightarrow> string \<Rightarrow> bool" where
  "starts_with s p = (take (length p) s = p)"

definition ends_with :: "string \<Rightarrow> string \<Rightarrow> bool" where
  "ends_with s p = (length p \<le> length s \<and> drop (length s - length p) s = p)"

fun str_includes :: "string \<Rightarrow> string \<Rightarrow> bool" where
  "str_includes [] p = (p = [])"
| "str_includes (c # s) p = (starts_with (c # s) p \<or> str_includes s p)"

text \<open>\<open>String.prototype.replace\<close> with a string pattern replaces the first occurrence.\<close>

fun replace_first :: "string \<Rightarrow> string \<Rightarrow> string \<Rightarrow> string" where
  "replace_first [] p r = (if p = [] then r else [])"
| "replace_first (c # s) p r =
     (if starts_with (c # s) p then r @ drop (length p) (c # s)
      else c # replace_first s p r)"

fun join_with :: "string \<Rightarrow> string list \<Rightarrow> string" where
  "join_with sep [] = []"
| "join_with sep [x] = x"
| "join_with sep (x # y # xs) = x @ sep @ join_with sep (y # xs)"

definition digit_char :: "nat \<Rightarrow> char" where
  "digit_char d = char_of (48 + d)"

fun nat_str :: "nat \<Rightarrow> string" where
  "nat_str n = (if n < 10 then [digit_char n]
                else nat_str (n div 10) @ [digit_char (n mod 10)])"

declare nat_str.simps [simp del]

definition int_str :: "int \<Rightarrow> string" where
  "int_str i = (if i < 0 then ''-'' @ nat_str (nat (- i)) else nat_str (nat i))"

definition pad_left :: "nat \<Rightarrow> string \<Rightarrow> string" where
  "pad_left n s = replicate (n - length s) (CHR ''0'') @ s"

text \<open>\<open>Number.prototype.toFixed\<close>: the integer \<open>n\<close> with \<open>n / 10\<^sup>f\<close> closest to the
  number (the larger one of two), printed with \<open>f\<close> decimals.\<close>

definition fixed_str :: "nat \<Rightarrow> nat \<Rightarrow> string" where
  "fixed_str f n = (let q = n div 10 ^ f; r = n mod 10 ^ f in
     if f = 0 then nat_str q else nat_str q @ ''.'' @ pad_left f (nat_str r))"

definition scaled_round :: "nat \<Rightarrow> rat \<Rightarrow> nat" where
  "scaled_round f a = nat \<lfloor>a * 10 ^ f + 1 / 2\<rfloor>"

fun to_fixed :: "nat \<Rightarrow> jsnum \<Rightarrow> string" where
  "to_fixed f NaN = ''NaN''"
| "to_fixed f PInf = ''Infinity''"
| "to_fixed f NInf = ''-Infinity''"
| "to_fixed f (Fin a) = (if a < 0 then ''-'' @ fixed_str f (scaled_round f (- a))
                         else fixed_str f (scaled_round f a))"

lemma of_char_lower_char:
  "(of_char (lower_char c) :: nat) =
     (if 65 \<le> (of_char c :: nat) \<and> (of_char c :: nat) \<le> 90 then of_char c + 32 else of_char c)"
  by (simp add: lower_char_def Let_def)

lemma lower_char_idem [simp]: "lower_char (lower_char c) = lower_char c"
  unfolding lower_char_def [of "lower_char c"] Let_def of_char_lower_char by (auto split: if_splits)

lemma to_lower_idem [simp]: "to_lower (to_lower s) = to_lower s"
  by (simp add: to_lower_def)

lemma length_to_lower [simp]: "length (to_lower s) = length s"
  by (simp add: to_lower_def)

lemma starts_with_iff: "starts_with s p \<longleftrightarrow> (\<exists>t. s = p @ t)"
  unfolding starts_with_def by (metis append_eq_conv_conj append_take_drop_id)

lemma ends_with_iff: "ends_with s p \<longleftrightarrow> (\<exists>t. s = t @ p)"
proof
  assume "ends_with s p"
  then show "\<exists>t. s = t @ p" unfolding ends_with_def by (metis append_take_drop_id)
qed (auto simp: ends_with_def)

lemma str_includes_iff: "str_includes s p \<longleftrightarrow> (\<exists>u t. s = u @ p @ t)"
proof (induction s)
  case (Cons c s)
  show ?case
  proof
    assume "str_includes (c # s) p"
    then consider "starts_with (c # s) p" | "str_includes s p" by auto
    then show "\<exists>u t. c # s = u @ p @ t"
    proof cases
      case 1
      then show ?thesis unfolding starts_with_iff by (metis append_Nil)
    next
      case 2
      then show ?thesis using Cons.IH by (metis append_Cons)
    qed
  next
    assume "\<exists>u t. c # s = u @ p @ t"
    then obtain u t where u: "c # s = u @ p @ t" by blast
    have "starts_with (c # s) p \<or> (\<exists>u' t. s = u' @ p @ t)"
      using u by (cases u) (auto simp: starts_with_iff)
    then show "str_includes (c # s) p" using Cons.IH by auto
  qed
qed auto

lemma replace_first_no_match: "\<not> str_includes s p \<Longrightarrow> replace_first s p r = s"
  by (induction s) auto

text \<open>The prefix before the first occurrence of a one-character pattern is kept.\<close>

lemma replace_first_char:
  "c \<notin> set u \<Longrightarrow> replace_first (u @ c # t) [c] r = u @ r @ t"
  by (induction u) (auto simp: starts_with_def)

section \<open>Lists\<close>

definition array_toggle :: "'a \<Rightarrow> 'a list \<Rightarrow> 'a list" where
  "array_toggle x xs = (if x \<in> set xs then filter (\<lambda>y. y \<noteq> x) xs else xs @ [x])"

lemma distinct_array_toggle: "distinct xs \<Longrightarrow> distinct (array_toggle x xs)"
  by (simp add: array_toggle_def)

lemma set_array_toggle:
  "set (array_toggle x xs) = (if x \<in> set xs then set xs - {x} else insert x (set xs))"
  by (auto simp: array_toggle_def)

lemma array_toggle_twice: "x \<notin> set xs \<Longrightarrow> array_toggle x (array_toggle x xs) = xs"
  by (auto simp: array_toggle_def intro: filter_True)

lemma map_of_eq_SomeI: "distinct (map fst xs) \<Longrightarrow> (k, v) \<in> set xs \<Longrightarrow> map_of xs k = Some v"
  by simp

end
