(* ===== verification/Values.thy ===== *)
theory Values
  imports Prelude
begin

text \<open>
  Dynamic JavaScript values: objects as association lists, property access with
  its TypeError, truthiness, equality and the conversion to numbers.
\<close>

section \<open>Errors\<close>

datatype js_error = Error string | TypeError string | ReferenceError string

primrec message :: "js_error \<Rightarrow> string" where
  "message (Error m) = m"
| "message (TypeError m) = m"
| "message (ReferenceError m) = m"

section \<open>Values and objects\<close>

datatype jv =
    JUndef | JNull | JBool bool | JNum jsnum | JStr string
  | JArr "jv list" | JObj "(string \<times> jv) list"

type_synonym fields = "(string \<times> jv) list"

abbreviation JInt :: "int \<Rightarrow> jv" where
  "JInt n \<equiv> JNum (Fin (of_int n))"

text \<open>The names every object inherits from \<open>Object.prototype\<close>.  All but \<open>__proto__\<close>
  are functions: truthy values with a name and no further data property in use.\<close>

definition proto_keys :: "string list" where
  "proto_keys = [''constructor'', ''toString'', ''valueOf'', ''hasOwnProperty'',
     ''isPrototypeOf'', ''propertyIsEnumerable'', ''toLocaleString'', ''__proto__'',
     ''__defineGetter__'', ''__defineSetter__'', ''__lookupGetter__'', ''__lookupSetter__'']"

definition proto_value :: "string \<Rightarrow> jv" where
  "proto_value k =
     (if k = ''__proto__'' then JObj []
      else if k = ''constructor'' then JObj [(''name'', JStr ''Object'')]
      else if k \<in> set proto_keys then JObj [(''name'', JStr k)]
      else JUndef)"

definition obj_get :: "fields \<Rightarrow> string \<Rightarrow> jv" where
  "obj_get fs k = (case map_of fs k of Some v \<Rightarrow> v | None \<Rightarrow> proto_value k)"

text \<open>Assignment keeps the position of an existing property and appends a new one.\<close>

fun obj_set :: "fields \<Rightarrow> string \<Rightarrow> jv \<Rightarrow> fields" where
  "obj_set [] k v = [(k, v)]"
| "obj_set ((k', v') # fs) k v =
     (if k' = k then (k, v) # fs else (k', v') # obj_set fs k v)"

text \<open>Object spread: \<open>{...a, ...b}\<close>.\<close>

definition obj_spread :: "fields \<Rightarrow> fields \<Rightarrow> fields" where
  "obj_spread a b = foldl (\<lambda>fs (k, v). obj_set fs k v) a b"

definition cannot_read :: "string \<Rightarrow> string \<Rightarrow> js_error" where
  "cannot_read what k =
     TypeError (''Cannot read properties of '' @ what @ '' (reading '' @ [CHR 0x27] @ k @ [CHR 0x27] @ '')'')"

text \<open>Property access \<open>v.k\<close> and optional chaining \<open>v?.k\<close>.\<close>

fun jget :: "jv \<Rightarrow> string \<Rightarrow> js_error + jv" where
  "jget JUndef k = Inl (cannot_read ''undefined'' k)"
| "jget JNull k = Inl (cannot_read ''null'' k)"
| "jget (JObj fs) k = Inr (obj_get fs k)"
| "jget (JArr xs) k = Inr (if k = ''length'' then JInt (int (length xs)) else proto_value k)"
| "jget (JStr s) k = Inr (if k = ''length'' then JInt (int (length s)) else proto_value k)"
| "jget (JBool b) k = Inr (proto_value k)"
| "jget (JNum n) k = Inr (proto_value k)"

fun jopt :: "jv \<Rightarrow> string \<Rightarrow> jv" where
  "jopt JUndef k = JUndef"
| "jopt JNull k = JUndef"
| "jopt (JObj fs) k = obj_get fs k"
| "jopt (JArr xs) k = (if k = ''length'' then JInt (int (length xs)) else proto_value k)"
| "jopt (JStr s) k = (if k = ''length'' then JInt (int (length s)) else proto_value k)"
| "jopt (JBool b) k = proto_value k"
| "jopt (JNum n) k = proto_value k"

fun truthy :: "jv \<Rightarrow> bool" where
  "truthy JUndef = False"
| "truthy JNull = False"
| "truthy (JBool b) = b"
| "truthy (JNum n) = num_truthy n"
| "truthy (JStr s) = (s \<noteq> [])"
| "truthy (JArr _) = True"
| "truthy (JObj _) = True"

definition js_or :: "jv \<Rightarrow> jv \<Rightarrow> jv" where
  "js_or a b = (if truthy a then a else b)"

definition js_nullish :: "jv \<Rightarrow> jv \<Rightarrow> jv" where
  "js_nullish a b = (if a = JUndef \<or> a = JNull then b else a)"

text \<open>A parameter's default value replaces undefined only.\<close>

definition js_default :: "jv \<Rightarrow> jv \<Rightarrow> jv" where
  "js_default a d = (if a = JUndef then d else a)"

text \<open>Strict equality of primitive values; distinct object literals are never equal.\<close>

fun strict_eq :: "jv \<Rightarrow> jv \<Rightarrow> bool" where
  "strict_eq (JNum a) (JNum b) = num_eq a b"
| "strict_eq (JStr a) (JStr b) = (a = b)"
| "strict_eq (JBool a) (JBool b) = (a = b)"
| "strict_eq JUndef JUndef = True"
| "strict_eq JNull JNull = True"
| "strict_eq _ _ = False"

section \<open>Conversion to numbers\<close>

definition is_digit :: "char \<Rightarrow> bool" where
  "is_digit c = (let n = of_char c :: nat in 48 \<le> n \<and> n \<le> 57)"

definition is_space :: "char \<Rightarrow> bool" where
  "is_space c = (let n = of_char c :: nat in n = 32 \<or> (9 \<le> n \<and> n \<le> 13) \<or> n = 160)"

definition trim_str :: "string \<Rightarrow> string" where
  "trim_str s = rev (dropWhile is_space (rev (dropWhile is_space s)))"

definition digits_val :: "string \<Rightarrow> nat" where
  "digits_val ds = foldl (\<lambda>a c. a * 10 + (of_char c - 48)) 0 ds"

definition pow10 :: "int \<Rightarrow> rat" where
  "pow10 e = (if e \<ge> 0 then 10 ^ nat e else 1 / 10 ^ nat (- e))"

definition split_sign :: "string \<Rightarrow> bool \<times> string" where
  "split_sign s = (case s of [] \<Rightarrow> (False, [])
     | c # r \<Rightarrow> if c = CHR ''-'' then (True, r) else if c = CHR ''+'' then (False, r) else (False, s))"

definition parse_exp :: "string \<Rightarrow> int \<times> string" where
  "parse_exp s = (case s of [] \<Rightarrow> (0, s)
     | c # r \<Rightarrow>
         if c = CHR ''e'' \<or> c = CHR ''E'' then
           (let (neg, t) = split_sign r; ds = takeWhile is_digit t in
            if ds = [] then (0, s)
            else (if neg then - int (digits_val ds) else int (digits_val ds), dropWhile is_digit t))
         else (0, s))"

text \<open>The longest unsigned decimal literal at the start of a string, and the rest.\<close>

definition parse_udec :: "string \<Rightarrow> (rat \<times> string) option" where
  "parse_udec s = (let a = takeWhile is_digit s; r = dropWhile is_digit s;
      (b, r') = (case r of c # t \<Rightarrow>
                   if c = CHR ''.'' \<and> (a \<noteq> [] \<or> takeWhile is_digit t \<noteq> [])
                   then (takeWhile is_digit t, dropWhile is_digit t) else ([], r)
                 | [] \<Rightarrow> ([], r)) in
      if a = [] \<and> b = [] then None
      else let (e, r'') = parse_exp r' in
        Some (of_nat (digits_val (a @ b)) * pow10 (e - int (length b)), r''))"

text \<open>\<open>Number(s)\<close> on a string: the whole trimmed string is a decimal literal.\<close>

definition str_to_num :: "string \<Rightarrow> jsnum" where
  "str_to_num s = (let t = trim_str s; (neg, u) = split_sign t in
     if t = [] then Fin 0
     else if u = ''Infinity'' then (if neg then NInf else PInf)
     else case parse_udec u of
            Some (a, []) \<Rightarrow> Fin (if neg then - a else a)
          | _ \<Rightarrow> NaN)"

text \<open>\<open>parseFloat(s)\<close>: the longest prefix that is a decimal literal.\<close>

definition parse_float :: "string \<Rightarrow> jsnum" where
  "parse_float s = (let (neg, u) = split_sign (dropWhile is_space s) in
     if starts_with u ''Infinity'' then (if neg then NInf else PInf)
     else case parse_udec u of Some (a, _) \<Rightarrow> Fin (if neg then - a else a) | None \<Rightarrow> NaN)"

fun to_number :: "jv \<Rightarrow> jsnum" where
  "to_number JUndef = NaN"
| "to_number JNull = Fin 0"
| "to_number (JBool b) = Fin (if b then 1 else 0)"
| "to_number (JNum n) = n"
| "to_number (JStr s) = str_to_num s"
| "to_number (JArr xs) = (if xs = [] then Fin 0 else NaN)"
| "to_number (JObj _) = NaN"

section \<open>Conversion to strings\<close>

text \<open>A finite number is printed with the least number of decimals that is exact,
  at most twenty; the exponent notation of very large and very small numbers is
  not reproduced.\<close>

fun least_decimals :: "nat \<Rightarrow> nat \<Rightarrow> rat \<Rightarrow> nat" where
  "least_decimals 0 k a = k"
| "least_decimals (Suc n) k a =
     (if of_int \<lfloor>a * 10 ^ k\<rfloor> = a * 10 ^ k then k else least_decimals n (Suc k) a)"

definition rat_str :: "rat \<Rightarrow> string" where
  "rat_str a = (let k = least_decimals 20 0 a in
     if a < 0 then ''-'' @ fixed_str k (scaled_round k (- a)) else fixed_str k (scaled_round k a))"

fun num_str :: "jsnum \<Rightarrow> string" where
  "num_str NaN = ''NaN''"
| "num_str PInf = ''Infinity''"
| "num_str NInf = ''-Infinity''"
| "num_str (Fin a) = rat_str a"

fun to_str :: "jv \<Rightarrow> string" where
  "to_str JUndef = ''undefined''"
| "to_str JNull = ''null''"
| "to_str (JBool b) = (if b then ''true'' else ''false'')"
| "to_str (JNum n) = num_str n"
| "to_str (JStr s) = s"
| "to_str (JArr xs) =
     join_with '','' (map (\<lambda>x. if x = JUndef \<or> x = JNull then [] else to_str x) xs)"
| "to_str (JObj _) = ''[object Object]''"

text \<open>The method call \<open>v.toString()\<close>.\<close>

definition js_toString :: "jv \<Rightarrow> js_error + jv" where
  "js_toString v = (case jget v ''toString'' of Inl e \<Rightarrow> Inl e | Inr _ \<Rightarrow> Inr (JStr (to_str v)))"

text \<open>\<open>new Error(m)\<close>: an undefined message becomes the empty string.\<close>

definition new_error :: "jv \<Rightarrow> js_error" where
  "new_error m = Error (if m = JUndef then [] else to_str m)"

section \<open>The operators + and <\<close>

definition is_text :: "jv \<Rightarrow> bool" where
  "is_text v = (case v of JStr _ \<Rightarrow> True | JArr _ \<Rightarrow> True | JObj _ \<Rightarrow> True | _ \<Rightarrow> False)"

text \<open>\<open>a + b\<close> concatenates as soon as one side is a string or an object.\<close>

definition js_plus :: "jv \<Rightarrow> jv \<Rightarrow> jv" where
  "js_plus a b = (if is_text a \<or> is_text b then JStr (to_str a @ to_str b)
                  else JNum (num_add (to_number a) (to_number b)))"

text \<open>\<open>a < b\<close> compares two strings by their code units, anything else as numbers.\<close>

fun str_lt :: "string \<Rightarrow> string \<Rightarrow> bool" where
  "str_lt _ [] = False"
| "str_lt [] (_ # _) = True"
| "str_lt (a # s) (b # t) =
     ((of_char a :: nat) < of_char b \<or> (a = b \<and> str_lt s t))"

definition js_lt :: "jv \<Rightarrow> jv \<Rightarrow> bool" where
  "js_lt a b = (if is_text a \<and> is_text b then str_lt (to_str a) (to_str b)
                else num_lt (to_number a) (to_number b))"

definition js_le :: "jv \<Rightarrow> jv \<Rightarrow> bool" where
  "js_le a b = (if is_text a \<and> is_text b then \<not> str_lt (to_str b) (to_str a)
                else num_le (to_number a) (to_number b))"

section \<open>Laws\<close>

lemma js_plus_num [simp]: "js_plus (JNum a) (JNum b) = JNum (num_add a b)"
  by (simp add: js_plus_def is_text_def)

lemma js_lt_num [simp]: "js_lt (JNum a) (JNum b) = num_lt a b"
  by (simp add: js_lt_def is_text_def)

lemma js_le_num [simp]: "js_le (JNum a) (JNum b) = num_le a b"
  by (simp add: js_le_def is_text_def)

lemma js_lt_str [simp]: "js_lt (JStr a) (JStr b) = str_lt a b"
  by (simp add: js_lt_def is_text_def)

lemma str_lt_irrefl [simp]: "\<not> str_lt s s"
  by (induction s) auto

lemma str_lt_trans: "str_lt s t \<Longrightarrow> str_lt t u \<Longrightarrow> str_lt s u"
proof (induction s t arbitrary: u rule: str_lt.induct)
  case (2 b t)
  then show ?case by (cases u) auto
next
  case (3 a s b t)
  then show ?case by (cases u) auto
qed simp

lemma str_lt_linear: "str_lt s t \<or> s = t \<or> str_lt t s"
proof (induction s t rule: str_lt.induct)
  case (1 s)
  then show ?case by (cases s) auto
next
  case (3 a s b t)
  have "of_char a = (of_char b :: nat) \<longleftrightarrow> a = b" by simp
  then show ?case using 3 by (metis linorder_less_linear str_lt.simps(3))
qed simp

lemma map_of_obj_set [simp]: "map_of (obj_set fs k v) = (map_of fs)(k \<mapsto> v)"
  by (induction fs k v rule: obj_set.induct) (auto simp: fun_eq_iff)

lemma obj_get_set [simp]: "obj_get (obj_set fs k v) k' = (if k' = k then v else obj_get fs k')"
  by (simp add: obj_get_def)

lemma obj_get_hit [simp]: "obj_get ((k, v) # fs) k = v"
  by (simp add: obj_get_def)

lemma obj_get_skip [simp]: "k' \<noteq> k \<Longrightarrow> obj_get ((k', v) # fs) k = obj_get fs k"
  by (simp add: obj_get_def)

lemma obj_get_Nil [simp]: "obj_get [] k = proto_value k"
  by (simp add: obj_get_def)

lemma proto_value_undef: "k \<notin> set proto_keys \<Longrightarrow> proto_value k = JUndef"
  by (auto simp: proto_value_def proto_keys_def)

lemma truthy_proto_value: "truthy (proto_value k) \<longleftrightarrow> k \<in> set proto_keys"
  by (auto simp: proto_value_def proto_keys_def)

lemma distinct_obj_set: "distinct (map fst fs) \<Longrightarrow> distinct (map fst (obj_set fs k v))"
proof (induction fs k v rule: obj_set.induct)
  case (2 k' v' fs k v)
  have "fst ` set (obj_set fs k v) = insert k (fst ` set fs)"
    by (induction fs k v rule: obj_set.induct) auto
  with 2 show ?case by auto
qed auto

lemma jget_jopt: "v \<noteq> JUndef \<Longrightarrow> v \<noteq> JNull \<Longrightarrow> jget v k = Inr (jopt v k)"
  by (cases v) auto

lemma js_default_or [simp]: "js_default (js_or a (JStr s)) d = js_or a (JStr s)"
  by (cases a) (auto simp: js_default_def js_or_def)

lemma jget_nullish: "v = JUndef \<or> v = JNull \<Longrightarrow> \<exists>e. jget v k = Inl e"
  by auto

end
