(* ===== verification/Effects.thy ===== *)
theory Effects
  imports Values
begin

text \<open>
  Effectful JavaScript as a state monad with exceptions.  The state is a pair of
  a component state and the log of external calls; \<open>await\<close> of an external call is
  \<open>js_ext\<close>.  The second half is a small program logic: \<open>hoare P m Q E\<close> says that
  from a state satisfying \<open>P\<close> the code \<open>m\<close> returns with \<open>Q\<close> or throws with \<open>E\<close>.
\<close>

section \<open>The monad\<close>

datatype call = Call (callee: string) (args: "jv list")

type_synonym env = "nat \<Rightarrow> call \<Rightarrow> js_error + jv"
type_synonym 's world = "'s \<times> call list"
type_synonym ('s, 'a) js = "'s world \<Rightarrow> (js_error + 'a) \<times> 's world"

definition js_return :: "'a \<Rightarrow> ('s, 'a) js" where
  "js_return x = (\<lambda>w. (Inr x, w))"

definition js_throw :: "js_error \<Rightarrow> ('s, 'a) js" where
  "js_throw e = (\<lambda>w. (Inl e, w))"

definition js_bind :: "('s, 'a) js \<Rightarrow> ('a \<Rightarrow> ('s, 'b) js) \<Rightarrow> ('s, 'b) js" where
  "js_bind m f = (\<lambda>w. case m w of (Inl e, w') \<Rightarrow> (Inl e, w') | (Inr x, w') \<Rightarrow> f x w')"

text \<open>\<open>try { m } catch (e) { h e }\<close> and \<open>try { m } finally { f }\<close>.\<close>

definition js_catch :: "('s, 'a) js \<Rightarrow> (js_error \<Rightarrow> ('s, 'a) js) \<Rightarrow> ('s, 'a) js" where
  "js_catch m h = (\<lambda>w. case m w of (Inl e, w') \<Rightarrow> h e w' | (Inr x, w') \<Rightarrow> (Inr x, w'))"

definition js_finally :: "('s, 'a) js \<Rightarrow> ('s \<Rightarrow> 's) \<Rightarrow> ('s, 'a) js" where
  "js_finally m f = (\<lambda>w. case m w of (r, (s, tr)) \<Rightarrow> (r, (f s, tr)))"

definition js_lift :: "js_error + 'a \<Rightarrow> ('s, 'a) js" where
  "js_lift r = (\<lambda>w. (r, w))"

definition js_get :: "jv \<Rightarrow> string \<Rightarrow> ('s, jv) js" where
  "js_get v k = js_lift (jget v k)"

definition js_this :: "('s, 's) js" where
  "js_this = (\<lambda>w. (Inr (fst w), w))"

definition js_update :: "('s \<Rightarrow> 's) \<Rightarrow> ('s, unit) js" where
  "js_update f = (\<lambda>w. (Inr (), (f (fst w), snd w)))"

definition js_ext :: "env \<Rightarrow> call \<Rightarrow> ('s, jv) js" where
  "js_ext env c = (\<lambda>w. (env (length (snd w)) c, (fst w, snd w @ [c])))"

text \<open>A method call on a component object held in a field.\<close>

definition js_zoom :: "('t \<Rightarrow> 's) \<Rightarrow> ('s \<Rightarrow> 't \<Rightarrow> 't) \<Rightarrow> ('s, 'a) js \<Rightarrow> ('t, 'a) js" where
  "js_zoom get put m = (\<lambda>(t, tr). case m (get t, tr) of (r, (s, tr')) \<Rightarrow> (r, (put s t, tr')))"

text \<open>\<open>xs.forEach(f)\<close>.\<close>

fun js_each :: "('a \<Rightarrow> ('s, unit) js) \<Rightarrow> 'a list \<Rightarrow> ('s, unit) js" where
  "js_each f [] = js_return ()"
| "js_each f (x # xs) = js_bind (f x) (\<lambda>_. js_each f xs)"

text \<open>The clock, \<open>Date.now()\<close>; \<open>clock_ok\<close> says that reading it always gives a number.\<close>

definition date_now :: "env \<Rightarrow> ('s, jsnum) js" where
  "date_now env = js_bind (js_ext env (Call ''Date.now'' [])) (\<lambda>v. js_return (to_number v))"

definition clock_ok :: "env \<Rightarrow> bool" where
  "clock_ok env \<longleftrightarrow> (\<forall>i. \<exists>t. env i (Call ''Date.now'' []) = Inr (JNum t))"

text \<open>Likewise for \<open>Math.random()\<close>, which gives a number from 0 up to 1, and for starting a timer.\<close>

definition random_ok :: "env \<Rightarrow> bool" where
  "random_ok env = (\<forall>i. \<exists>q. env i (Call ''Math.random'' []) = Inr (JNum (Fin q)) \<and> 0 \<le> q \<and> q < 1)"

definition timer_ok :: "env \<Rightarrow> bool" where
  "timer_ok env \<longleftrightarrow> (\<forall>i as. \<exists>h. env i (Call ''setTimeout'' as) = Inr h)"

lemmas js_defs = js_return_def js_throw_def js_bind_def js_catch_def js_finally_def
  js_lift_def js_get_def js_this_def js_update_def js_ext_def

lemma js_return_apply [js_simps]: "js_return x w = (Inr x, w)"
  by (simp add: js_return_def)

lemma js_throw_apply [js_simps]: "js_throw e w = (Inl e, w)"
  by (simp add: js_throw_def)

lemma js_lift_apply [js_simps]: "js_lift r w = (r, w)"
  by (simp add: js_lift_def)

lemma js_get_apply [js_simps]: "js_get v k w = (jget v k, w)"
  by (simp add: js_get_def js_lift_def)

lemma js_this_apply [js_simps]: "js_this (s, tr) = (Inr s, (s, tr))"
  by (simp add: js_this_def)

lemma js_update_apply [js_simps]: "js_update f (s, tr) = (Inr (), (f s, tr))"
  by (simp add: js_update_def)

lemma js_ext_apply [js_simps]: "js_ext env c (s, tr) = (env (length tr) c, (s, tr @ [c]))"
  by (simp add: js_ext_def)

lemma js_bind_apply [js_simps]:
  "js_bind m f w = (case m w of (Inl e, w') \<Rightarrow> (Inl e, w') | (Inr x, w') \<Rightarrow> f x w')"
  by (simp add: js_bind_def)

lemma js_catch_apply [js_simps]:
  "js_catch m h w = (case m w of (Inl e, w') \<Rightarrow> h e w' | (Inr x, w') \<Rightarrow> (Inr x, w'))"
  by (simp add: js_catch_def)

lemma js_finally_apply [js_simps]:
  "js_finally m f w = (case m w of (r, (s, tr)) \<Rightarrow> (r, (f s, tr)))"
  by (simp add: js_finally_def)

text \<open>The monad laws.\<close>

lemma js_bind_return [simp]: "js_bind (js_return x) f = f x"
  by (simp add: js_bind_def js_return_def)

lemma js_bind_throw [simp]: "js_bind (js_throw e) f = js_throw e"
  by (simp add: js_bind_def js_throw_def)

lemma js_bind_return_right [simp]: "js_bind m js_return = m"
  by (auto simp: js_bind_def js_return_def fun_eq_iff split: prod.splits sum.splits)

lemma js_bind_assoc: "js_bind (js_bind m f) g = js_bind m (\<lambda>x. js_bind (f x) g)"
  by (auto simp: js_bind_def fun_eq_iff split: prod.splits sum.splits)

lemma js_bind_this: "js_bind js_this f (s, tr) = f s (s, tr)"
  by (simp add: js_bind_def js_this_def)

lemma js_bind_now:
  "env (length tr) (Call ''Date.now'' []) = Inr (JNum t) \<Longrightarrow>
   js_bind (date_now env) f (s, tr) = f t (s, tr @ [Call ''Date.now'' []])"
  by (simp add: js_bind_def date_now_def js_ext_def js_return_def)

lemma js_catch_return [simp]: "js_catch (js_return x) h = js_return x"
  by (simp add: js_catch_def js_return_def)

lemma js_catch_throw [simp]: "js_catch (js_throw e) h = h e"
  by (simp add: js_catch_def js_throw_def)

text \<open>Decomposing a sequence that returned.\<close>

lemma js_bind_okE:
  assumes "js_bind m f w = (Inr y, w'')"
  obtains x w' where "m w = (Inr x, w')" "f x w' = (Inr y, w'')"
  using assms by (auto simp: js_bind_def split: prod.splits sum.splits)

lemma js_ext_okE:
  assumes "js_ext env c w = (Inr y, w')"
  obtains "env (length (snd w)) c = Inr y" "w' = (fst w, snd w @ [c])"
  using assms by (simp add: js_ext_def)

section \<open>A program logic\<close>

definition hoare ::
  "('s world \<Rightarrow> bool) \<Rightarrow> ('s, 'a) js \<Rightarrow> ('a \<Rightarrow> 's world \<Rightarrow> bool) \<Rightarrow> (js_error \<Rightarrow> 's world \<Rightarrow> bool) \<Rightarrow> bool" where
  "hoare P m Q E \<longleftrightarrow> (\<forall>w. P w \<longrightarrow> (case m w of (Inr x, w') \<Rightarrow> Q x w' | (Inl e, w') \<Rightarrow> E e w'))"

lemma hoareI:
  assumes "\<And>w x w'. P w \<Longrightarrow> m w = (Inr x, w') \<Longrightarrow> Q x w'"
    and "\<And>w e w'. P w \<Longrightarrow> m w = (Inl e, w') \<Longrightarrow> E e w'"
  shows "hoare P m Q E"
  using assms by (auto simp: hoare_def split: prod.splits sum.splits)

lemma hoareD_ok: "hoare P m Q E \<Longrightarrow> P w \<Longrightarrow> m w = (Inr x, w') \<Longrightarrow> Q x w'"
  by (cases w; cases w') (auto simp: hoare_def split: prod.splits sum.splits)

lemma hoareD_err: "hoare P m Q E \<Longrightarrow> P w \<Longrightarrow> m w = (Inl e, w') \<Longrightarrow> E e w'"
  by (cases w; cases w') (auto simp: hoare_def split: prod.splits sum.splits)

lemma hoare_conseq:
  assumes "hoare P' m Q' E'" "\<And>w. P w \<Longrightarrow> P' w"
    "\<And>x w. Q' x w \<Longrightarrow> Q x w" "\<And>e w. E' e w \<Longrightarrow> E e w"
  shows "hoare P m Q E"
  using assms by (fastforce simp: hoare_def split: prod.splits sum.splits)

lemma hoare_return [hoare_intros]: "(\<And>w. P w \<Longrightarrow> Q x w) \<Longrightarrow> hoare P (js_return x) Q E"
  by (simp add: hoare_def js_return_def)

lemma hoare_throw [hoare_intros]: "(\<And>w. P w \<Longrightarrow> E e w) \<Longrightarrow> hoare P (js_throw e) Q E"
  by (simp add: hoare_def js_throw_def)

lemma hoare_bind [hoare_intros]:
  "hoare P m R E \<Longrightarrow> (\<And>x. hoare (R x) (f x) Q E) \<Longrightarrow> hoare P (js_bind m f) Q E"
  by (fastforce simp: hoare_def js_bind_def split: prod.splits sum.splits)

lemma hoare_catch [hoare_intros]:
  "hoare P m Q R \<Longrightarrow> (\<And>e. hoare (R e) (h e) Q E) \<Longrightarrow> hoare P (js_catch m h) Q E"
  by (fastforce simp: hoare_def js_catch_def split: prod.splits sum.splits)

lemma hoare_lift:
  "(\<And>w x. P w \<Longrightarrow> r = Inr x \<Longrightarrow> Q x w) \<Longrightarrow> (\<And>w e. P w \<Longrightarrow> r = Inl e \<Longrightarrow> E e w)
   \<Longrightarrow> hoare P (js_lift r) Q E"
  by (auto simp: hoare_def js_lift_def split: sum.splits)

lemma hoare_true: "hoare P m (\<lambda>_ _. True) (\<lambda>_ _. True)"
  by (auto simp: hoare_def split: prod.splits sum.splits)

section \<open>Invariants over the log of external calls\<close>

text \<open>\<open>js_inv I m\<close>: the code keeps \<open>I\<close>, whether it returns or throws.\<close>

definition js_inv :: "('s world \<Rightarrow> bool) \<Rightarrow> ('s, 'a) js \<Rightarrow> bool" where
  "js_inv I m \<longleftrightarrow> hoare I m (\<lambda>_. I) (\<lambda>_. I)"

named_theorems inv_intros \<open>structural rules for invariants of monadic code\<close>

lemma js_invD: "js_inv I m \<Longrightarrow> I w \<Longrightarrow> I (snd (m w))"
  by (cases w; cases "m w") (auto simp: js_inv_def hoare_def split: prod.splits sum.splits)

lemma js_invI: "(\<And>w. I w \<Longrightarrow> I (snd (m w))) \<Longrightarrow> js_inv I m"
  by (fastforce simp: js_inv_def hoare_def split: prod.splits sum.splits)

lemma js_inv_return [inv_intros]: "js_inv I (js_return x)"
  by (simp add: js_inv_def hoare_return)

lemma js_inv_throw [inv_intros]: "js_inv I (js_throw e)"
  by (simp add: js_inv_def hoare_throw)

lemma js_inv_lift [inv_intros]: "js_inv I (js_lift r)"
  by (simp add: js_inv_def hoare_lift)

lemma js_inv_get [inv_intros]: "js_inv I (js_get v k)"
  by (simp add: js_get_def js_inv_lift)

lemma js_inv_this [inv_intros]: "js_inv I js_this"
  by (simp add: js_inv_def hoare_def js_this_def)

lemma js_inv_bind [inv_intros]:
  "js_inv I m \<Longrightarrow> (\<And>x. js_inv I (f x)) \<Longrightarrow> js_inv I (js_bind m f)"
  unfolding js_inv_def by (rule hoare_bind)

lemma js_inv_catch [inv_intros]:
  "js_inv I m \<Longrightarrow> (\<And>e. js_inv I (h e)) \<Longrightarrow> js_inv I (js_catch m h)"
  unfolding js_inv_def by (rule hoare_catch)

lemma js_inv_finally [inv_intros]:
  fixes m :: "('a, 'b) js"
  shows "js_inv (\<lambda>w. P (fst w)) m \<Longrightarrow> (\<And>s. P s \<Longrightarrow> P (f s)) \<Longrightarrow> js_inv (\<lambda>w. P (fst w)) (js_finally m f)"
proof (rule js_invI)
  fix w :: "'a world" assume a: "js_inv (\<lambda>w. P (fst w)) m" "\<And>s. P s \<Longrightarrow> P (f s)" "P (fst w)"
  from js_invD [OF a(1), of w] a(3) have "P (fst (snd (m w)))" by simp
  then show "P (fst (snd (js_finally m f w)))" using a(2) by (cases "m w") (auto simp: js_finally_def split: prod.splits)
qed

lemma js_inv_if [inv_intros]:
  "(b \<Longrightarrow> js_inv I m) \<Longrightarrow> (\<not> b \<Longrightarrow> js_inv I n) \<Longrightarrow> js_inv I (if b then m else n)"
  by simp

lemma js_inv_stateI [inv_intros]:
  "(\<And>s. P s \<Longrightarrow> P (f s)) \<Longrightarrow> js_inv (\<lambda>w. P (fst w)) (js_update f)"
  by (auto intro!: js_invI simp: js_update_def)

lemma js_inv_state_ext [inv_intros]: "js_inv (\<lambda>w. P (fst w)) (js_ext env c)"
  by (auto intro!: js_invI simp: js_ext_def)

lemma js_inv_option [inv_intros]:
  "(r = None \<Longrightarrow> js_inv I m) \<Longrightarrow> (\<And>x. r = Some x \<Longrightarrow> js_inv I (f x))
   \<Longrightarrow> js_inv I (case r of None \<Rightarrow> m | Some x \<Rightarrow> f x)"
  by (cases r) auto

lemma js_inv_each [inv_intros]:
  "(\<And>x. js_inv I (f x)) \<Longrightarrow> js_inv I (js_each f xs)"
  by (induction xs) (auto intro: js_inv_return js_inv_bind)

lemma js_inv_now [inv_intros]: "js_inv (\<lambda>w. P (fst w)) (date_now env)"
  unfolding date_now_def by (intro inv_intros)

text \<open>Code that makes no external call satisfying \<open>B\<close>.\<close>

definition avoids :: "(call \<Rightarrow> bool) \<Rightarrow> ('s, 'a) js \<Rightarrow> bool" where
  "avoids B m \<longleftrightarrow> (\<forall>w. \<exists>cs. snd (snd (m w)) = snd w @ cs \<and> (\<forall>c\<in>set cs. \<not> B c))"

named_theorems avoids_intros \<open>structural rules for the calls made by monadic code\<close>

lemma avoids_pure: "(\<And>w. snd (snd (m w)) = snd w) \<Longrightarrow> avoids B m"
  by (simp add: avoids_def)

lemma avoids_return [avoids_intros]: "avoids B (js_return x)"
  by (simp add: avoids_pure js_return_def)

lemma avoids_throw [avoids_intros]: "avoids B (js_throw e)"
  by (simp add: avoids_pure js_throw_def)

lemma avoids_lift [avoids_intros]: "avoids B (js_lift r)"
  by (simp add: avoids_pure js_lift_def)

lemma avoids_get [avoids_intros]: "avoids B (js_get v k)"
  by (simp add: js_get_def avoids_lift)

lemma avoids_this [avoids_intros]: "avoids B js_this"
  by (simp add: avoids_pure js_this_def)

lemma avoids_update [avoids_intros]: "avoids B (js_update f)"
  by (simp add: avoids_pure js_update_def)

lemma avoids_ext [avoids_intros]: "\<not> B c \<Longrightarrow> avoids B (js_ext env c)"
  by (simp add: avoids_def js_ext_def)

lemma avoidsD:
  "avoids B m \<Longrightarrow> m w = (r, w') \<Longrightarrow> \<exists>cs. snd w' = snd w @ cs \<and> (\<forall>c\<in>set cs. \<not> B c)"
  unfolding avoids_def by (metis snd_conv)

lemma avoidsI:
  "(\<And>w r w'. m w = (r, w') \<Longrightarrow> \<exists>cs. snd w' = snd w @ cs \<and> (\<forall>c\<in>set cs. \<not> B c)) \<Longrightarrow> avoids B m"
  unfolding avoids_def by (metis prod.collapse)

lemma appends_trans:
  assumes "\<exists>cs. t' = t @ cs \<and> (\<forall>c\<in>set cs. P c)" "\<exists>cs. t'' = t' @ cs \<and> (\<forall>c\<in>set cs. P c)"
  shows "\<exists>cs. t'' = t @ cs \<and> (\<forall>c\<in>set cs. P c)"
  using assms by (metis append.assoc Un_iff set_append)

lemma avoids_bind [avoids_intros]:
  assumes "avoids B m" "\<And>x. avoids B (f x)"
  shows "avoids B (js_bind m f)"
proof (rule avoidsI)
  fix w r w' assume "js_bind m f w = (r, w')"
  then consider e where "m w = (Inl e, w')" | x w1 where "m w = (Inr x, w1)" "f x w1 = (r, w')"
    by (auto simp: js_bind_def split: prod.splits sum.splits)
  then show "\<exists>cs. snd w' = snd w @ cs \<and> (\<forall>c\<in>set cs. \<not> B c)"
    by cases (use assms in \<open>blast dest: avoidsD intro: appends_trans\<close>)+
qed

lemma avoids_catch [avoids_intros]:
  assumes "avoids B m" "\<And>e. avoids B (h e)"
  shows "avoids B (js_catch m h)"
proof (rule avoidsI)
  fix w r w' assume "js_catch m h w = (r, w')"
  then consider x where "m w = (Inr x, w')" | e w1 where "m w = (Inl e, w1)" "h e w1 = (r, w')"
    by (auto simp: js_catch_def split: prod.splits sum.splits)
  then show "\<exists>cs. snd w' = snd w @ cs \<and> (\<forall>c\<in>set cs. \<not> B c)"
    by cases (use assms in \<open>blast dest: avoidsD intro: appends_trans\<close>)+
qed

lemma avoids_finally [avoids_intros]: "avoids B m \<Longrightarrow> avoids B (js_finally m f)"
  unfolding avoids_def js_finally_def by (metis (no_types, lifting) case_prod_unfold snd_conv)

lemma avoids_zoom [avoids_intros]: "avoids B m \<Longrightarrow> avoids B (js_zoom get put m)"
proof (rule avoidsI)
  fix w r w' assume "avoids B m" "js_zoom get put m w = (r, w')"
  then show "\<exists>cs. snd w' = snd w @ cs \<and> (\<forall>c\<in>set cs. \<not> B c)"
    by (auto simp: js_zoom_def split: prod.splits dest: avoidsD)
qed

lemma avoids_if [avoids_intros]:
  "(b \<Longrightarrow> avoids B m) \<Longrightarrow> (\<not> b \<Longrightarrow> avoids B n) \<Longrightarrow> avoids B (if b then m else n)"
  by simp

lemma avoids_now [avoids_intros]: "\<not> B (Call ''Date.now'' []) \<Longrightarrow> avoids B (date_now env)"
  unfolding date_now_def by (intro avoids_intros)

lemma avoids_option [avoids_intros]:
  "(r = None \<Longrightarrow> avoids B m) \<Longrightarrow> (\<And>x. r = Some x \<Longrightarrow> avoids B (f x))
   \<Longrightarrow> avoids B (case r of None \<Rightarrow> m | Some x \<Rightarrow> f x)"
  by (cases r) auto

lemma avoids_each [avoids_intros]: "(\<And>x. x \<in> set xs \<Longrightarrow> avoids B (f x)) \<Longrightarrow> avoids B (js_each f xs)"
  by (induction xs) (auto intro!: avoids_intros)

lemma avoids_case_prod [avoids_intros]:
  "(\<And>a b. avoids B (f a b)) \<Longrightarrow> avoids B (case p of (a, b) \<Rightarrow> f a b)"
  by (cases p) simp

text \<open>Code that does not touch the component state.\<close>

definition keeps_state :: "('s, 'a) js \<Rightarrow> bool" where
  "keeps_state m \<longleftrightarrow> (\<forall>w. fst (snd (m w)) = fst w)"

named_theorems keeps_intros \<open>structural rules for code that keeps the component state\<close>

lemma keeps_basic [keeps_intros]:
  "keeps_state (js_return x)" "keeps_state (js_throw e)" "keeps_state (js_lift r)"
  "keeps_state (js_get v k)" "keeps_state js_this" "keeps_state (js_ext env c)"
  by (simp_all add: keeps_state_def js_defs)

lemma keeps_bind [keeps_intros]:
  "keeps_state m \<Longrightarrow> (\<And>x. keeps_state (f x)) \<Longrightarrow> keeps_state (js_bind m f)"
  unfolding keeps_state_def js_bind_def
  by (auto split: prod.splits sum.splits) (metis fst_conv snd_conv)+

lemma keeps_catch [keeps_intros]:
  "keeps_state m \<Longrightarrow> (\<And>e. keeps_state (h e)) \<Longrightarrow> keeps_state (js_catch m h)"
  unfolding keeps_state_def js_catch_def
  by (auto split: prod.splits sum.splits) (metis fst_conv snd_conv)+

lemma keeps_if [keeps_intros]:
  "(b \<Longrightarrow> keeps_state m) \<Longrightarrow> (\<not> b \<Longrightarrow> keeps_state n) \<Longrightarrow> keeps_state (if b then m else n)"
  by simp

lemma keeps_now [keeps_intros]: "keeps_state (date_now env)"
  unfolding date_now_def by (intro keeps_intros)

lemma keeps_option [keeps_intros]:
  "(r = None \<Longrightarrow> keeps_state m) \<Longrightarrow> (\<And>x. r = Some x \<Longrightarrow> keeps_state (f x))
   \<Longrightarrow> keeps_state (case r of None \<Rightarrow> m | Some x \<Rightarrow> f x)"
  by (cases r) auto

lemma keeps_each [keeps_intros]: "(\<And>x. x \<in> set xs \<Longrightarrow> keeps_state (f x)) \<Longrightarrow> keeps_state (js_each f xs)"
  by (induction xs) (auto intro!: keeps_intros)

lemma keeps_case_prod [keeps_intros]:
  "(\<And>a b. keeps_state (f a b)) \<Longrightarrow> keeps_state (case p of (a, b) \<Rightarrow> f a b)"
  by (cases p) simp

lemma js_inv_keeps: "keeps_state m \<Longrightarrow> js_inv (\<lambda>w. P (fst w)) m"
  by (rule js_invI) (metis keeps_state_def)

lemma keeps_stateD: "keeps_state m \<Longrightarrow> m (s, tr) = (r, (s', tr')) \<Longrightarrow> s' = s"
  by (metis fst_conv keeps_state_def snd_conv)

text \<open>Code that never throws.\<close>

definition never_throws :: "('s, 'a) js \<Rightarrow> bool" where
  "never_throws m \<longleftrightarrow> (\<forall>w. \<exists>x. fst (m w) = Inr x)"

named_theorems total_intros \<open>structural rules for code that never throws\<close>

lemma never_throwsE:
  assumes "never_throws m"
  obtains x w' where "m w = (Inr x, w')"
  using assms unfolding never_throws_def by (metis prod.collapse)

lemma never_throwsI: "(\<And>w. \<exists>x w'. m w = (Inr x, w')) \<Longrightarrow> never_throws m"
  unfolding never_throws_def by (metis fst_conv)

lemma never_throws_basic [total_intros]:
  "never_throws (js_return x)" "never_throws js_this" "never_throws (js_update f)"
  by (simp_all add: never_throws_def js_defs)

lemma never_throws_bind [total_intros]:
  assumes "never_throws m" "\<And>x. never_throws (f x)"
  shows "never_throws (js_bind m f)"
proof (rule never_throwsI)
  fix w
  obtain x w1 where m: "m w = (Inr x, w1)" using never_throwsE [OF assms(1)] .
  obtain y w2 where f: "f x w1 = (Inr y, w2)" using never_throwsE [OF assms(2)] .
  show "\<exists>x w'. js_bind m f w = (Inr x, w')" using m f by (simp add: js_bind_def)
qed

lemma never_throws_catch [total_intros]:
  assumes "\<And>e. never_throws (h e)"
  shows "never_throws (js_catch m h)"
proof (rule never_throwsI)
  fix w
  obtain r w1 where m: "m w = (r, w1)" by (metis surj_pair)
  show "\<exists>x w'. js_catch m h w = (Inr x, w')"
  proof (cases r)
    case (Inl e)
    obtain y w2 where "h e w1 = (Inr y, w2)" using never_throwsE [OF assms] .
    then show ?thesis using m Inl by (simp add: js_catch_def)
  qed (simp add: js_catch_def m)
qed

lemma never_throws_finally [total_intros]: "never_throws m \<Longrightarrow> never_throws (js_finally m f)"
  by (auto simp: never_throws_def js_finally_def split: prod.splits) (metis fst_conv)

lemma js_finally_state: "fst (snd (js_finally m f w)) = f (fst (snd (m w)))"
  by (simp add: js_finally_def split: prod.splits)

lemma never_throws_if [total_intros]:
  "(b \<Longrightarrow> never_throws m) \<Longrightarrow> (\<not> b \<Longrightarrow> never_throws n) \<Longrightarrow> never_throws (if b then m else n)"
  by simp

lemma never_throws_option [total_intros]:
  "(r = None \<Longrightarrow> never_throws m) \<Longrightarrow> (\<And>x. r = Some x \<Longrightarrow> never_throws (f x))
   \<Longrightarrow> never_throws (case r of None \<Rightarrow> m | Some x \<Rightarrow> f x)"
  by (cases r) auto

lemma never_throws_each [total_intros]:
  "(\<And>x. never_throws (f x)) \<Longrightarrow> never_throws (js_each f xs)"
  by (induction xs) (auto intro!: total_intros)

lemma never_throws_now [total_intros]: "clock_ok env \<Longrightarrow> never_throws (date_now env)"
  unfolding date_now_def never_throws_def clock_ok_def js_bind_def js_ext_def js_return_def
  by (auto split: sum.splits) (metis Inl_Inr_False)

text \<open>Code that never returns a value: it throws on every environment.\<close>

definition always_throws :: "('s, 'a) js \<Rightarrow> bool" where
  "always_throws m \<longleftrightarrow> (\<forall>w. \<exists>e. fst (m w) = Inl e)"

named_theorems throws_intros \<open>structural rules for code that always throws\<close>

lemma always_throwsE:
  assumes "always_throws m"
  obtains e w' where "m w = (Inl e, w')"
  using assms unfolding always_throws_def by (metis prod.collapse)

lemma always_throws_throw [throws_intros]: "always_throws (js_throw e)"
  by (simp add: always_throws_def js_throw_def)

lemma always_throwsI: "(\<And>w. \<exists>e w'. m w = (Inl e, w')) \<Longrightarrow> always_throws m"
  unfolding always_throws_def by (metis fst_conv)

lemma always_throws_bind [throws_intros]:
  "(\<And>x. always_throws (f x)) \<Longrightarrow> always_throws (js_bind m f)"
  by (auto simp: always_throws_def js_bind_def split: prod.splits sum.splits)

lemma always_throws_bind_left:
  assumes "always_throws m"
  shows "always_throws (js_bind m f)"
proof (rule always_throwsI)
  fix w obtain e w' where "m w = (Inl e, w')" using always_throwsE [OF assms] .
  then show "\<exists>e w'. js_bind m f w = (Inl e, w')" by (simp add: js_bind_def)
qed

lemma always_throws_catch [throws_intros]:
  "always_throws m \<Longrightarrow> (\<And>e. always_throws (h e)) \<Longrightarrow> always_throws (js_catch m h)"
  by (auto simp: always_throws_def js_catch_def split: prod.splits sum.splits)
     (metis Inl_Inr_False fst_conv)+

lemma always_throws_if [throws_intros]:
  "(b \<Longrightarrow> always_throws m) \<Longrightarrow> (\<not> b \<Longrightarrow> always_throws n) \<Longrightarrow> always_throws (if b then m else n)"
  by simp

lemma always_throws_run:
  assumes "always_throws m" "avoids B m" "keeps_state m"
  shows "\<exists>e cs. m (s, tr) = (Inl e, (s, tr @ cs)) \<and> (\<forall>c\<in>set cs. \<not> B c)"
proof -
  obtain e w' where m: "m (s, tr) = (Inl e, w')" using always_throwsE [OF assms(1)] .
  then obtain cs where cs: "snd w' = tr @ cs" "\<forall>c\<in>set cs. \<not> B c"
    using avoidsD [OF assms(2)] by fastforce
  have "fst w' = s" using assms(3) m unfolding keeps_state_def by (metis fst_conv snd_conv)
  then have "w' = (s, tr @ cs)" using cs(1) by (simp add: prod_eq_iff)
  then show ?thesis using m cs(2) by blast
qed

lemma never_throws_keeps_run:
  assumes "never_throws m" "keeps_state m"
  obtains x tr' where "m (s, tr) = (Inr x, (s, tr'))"
proof -
  obtain x w' where m: "m (s, tr) = (Inr x, w')" using never_throwsE [OF assms(1)] .
  then have "fst w' = s" using keeps_stateD [OF assms(2)] by (metis prod.collapse)
  then show thesis using m that by (metis prod.collapse)
qed

section \<open>Timers\<close>

definition is_timer :: "call \<Rightarrow> bool" where
  "is_timer c = (callee c = ''setInterval'' \<or> callee c = ''clearInterval'')"

text \<open>Intervals created and not cleared.\<close>

definition live_intervals :: "call list \<Rightarrow> int" where
  "live_intervals tr = int (length (filter (\<lambda>c. callee c = ''setInterval'') tr))
                     - int (length (filter (\<lambda>c. callee c = ''clearInterval'') tr))"

lemma live_intervals_quiet: "\<forall>c\<in>set cs. \<not> is_timer c \<Longrightarrow> live_intervals (tr @ cs) = live_intervals tr"
  by (simp add: live_intervals_def is_timer_def filter_empty_conv)

lemma live_intervals_snoc:
  "live_intervals (tr @ [c]) = live_intervals tr +
     (if callee c = ''setInterval'' then 1 else if callee c = ''clearInterval'' then - 1 else 0)"
  by (simp add: live_intervals_def)

end
