(* ===== verification/Pricing.thy ===== *)
theory Pricing
  imports Effects "HOL-Library.Multiset"
begin

text \<open>
  What the token, NFT and bundle monetization systems share: the shape of the
  system objects, the state of their React payment modals, the classification
  of external calls into charges and deployments, and the interface of a priced
  add-on catalogue with the laws of its running total.
\<close>

section \<open>Shared data\<close>

record monetization_system =
  config :: fields
  premiumAddOns :: fields
  paymentMethods :: fields

record modal_state =
  selectedAddOns :: "string list"
  paymentMethod :: string
  loading :: bool
  priceData :: jv
  errors :: "string list"
  tier :: string

definition strs :: "string list \<Rightarrow> jv" where
  "strs xs = JArr (map JStr xs)"

text \<open>\<open>Math.round(amount.totalUSD * 100)\<close>.\<close>

definition usd_cents :: "jv \<Rightarrow> jsnum" where
  "usd_cents usd = num_round (num_mul (to_number usd) (Fin 100))"

text \<open>\<open>!v || v.length < 1\<close>: after the first disjunct \<open>v\<close> is truthy, so its length can be read.\<close>

definition blank :: "jv \<Rightarrow> bool" where
  "blank v = (\<not> truthy v \<or> num_lt (to_number (jopt v ''length'')) (Fin 1))"

definition nl :: string where
  "nl = [CHR 0x0A]"

text \<open>A contract-code transformer applied to a value: only strings have \<open>replace\<close>.\<close>

definition js_replacing :: "(string \<Rightarrow> string) \<Rightarrow> jv \<Rightarrow> ('s, jv) js" where
  "js_replacing f v = (case v of JStr s \<Rightarrow> js_return (JStr (f s))
     | JUndef \<Rightarrow> js_throw (cannot_read ''undefined'' ''replace'')
     | JNull \<Rightarrow> js_throw (cannot_read ''null'' ''replace'')
     | _ \<Rightarrow> js_throw (TypeError ''contractCode.replace is not a function''))"

text \<open>The external calls that move money, and those that deploy a contract.\<close>

definition charge_callees :: "string list" where
  "charge_callees = [''shahFactory.payTokenCreationFee'', ''shahFactory.payNFTCreationFee'',
     ''shahFactory.payBundleCreationFee'', ''shahFactory.payWithShahToken'',
     ''shahFactory.payBundleWithShahToken'',
     ''stripe.confirmCardPayment'']"

definition is_charge :: "call \<Rightarrow> bool" where
  "is_charge c = (callee c \<in> set charge_callees)"

definition is_deploy :: "call \<Rightarrow> bool" where
  "is_deploy c = (callee c \<in> {''this.deployContract'', ''shahFactory.deployToken'', ''shahFactory.deployNFT''})"

lemmas charge_defs = is_charge_def charge_callees_def is_deploy_def

text \<open>Every deployment in a log is preceded by a charge.\<close>

definition paid_before_deploy :: "call list \<Rightarrow> bool" where
  "paid_before_deploy tr =
     (\<forall>j<length tr. is_deploy (tr ! j) \<longrightarrow> (\<exists>i<j. is_charge (tr ! i)))"

lemma paid_before_deploy_Nil [simp]: "paid_before_deploy []"
  by (simp add: paid_before_deploy_def)

lemma paid_before_deploy_append:
  assumes "paid_before_deploy tr" "\<forall>c\<in>set cs. \<not> is_deploy c"
  shows "paid_before_deploy (tr @ cs)"
  unfolding paid_before_deploy_def
proof (intro allI impI)
  fix j assume j: "j < length (tr @ cs)" "is_deploy ((tr @ cs) ! j)"
  have lt: "j < length tr"
  proof (rule ccontr)
    assume "\<not> j < length tr"
    then have "(tr @ cs) ! j \<in> set cs" using j(1) by (simp add: nth_append)
    with assms(2) j(2) show False by blast
  qed
  then obtain i where "i < j" "is_charge (tr ! i)"
    using assms(1) j(2) unfolding paid_before_deploy_def by (auto simp: nth_append)
  with lt have "i < j \<and> is_charge ((tr @ cs) ! i)" by (simp add: nth_append)
  then show "\<exists>i<j. is_charge ((tr @ cs) ! i)" by blast
qed

lemma paid_before_deploy_charged:
  assumes "paid_before_deploy tr" "\<exists>c\<in>set tr. is_charge c"
  shows "paid_before_deploy (tr @ cs)"
  unfolding paid_before_deploy_def
proof (intro allI impI)
  fix j assume j: "j < length (tr @ cs)" "is_deploy ((tr @ cs) ! j)"
  obtain i where i: "i < length tr" "is_charge (tr ! i)"
    using assms(2) by (auto simp: in_set_conv_nth)
  show "\<exists>i<j. is_charge ((tr @ cs) ! i)"
  proof (cases "j < length tr")
    case True
    then obtain i' where "i' < j" "is_charge (tr ! i')"
      using assms(1) j(2) unfolding paid_before_deploy_def by (auto simp: nth_append)
    with True have "i' < j \<and> is_charge ((tr @ cs) ! i')" by (simp add: nth_append)
    then show ?thesis by blast
  next
    case False
    with i have "i < j \<and> is_charge ((tr @ cs) ! i)" by (simp add: nth_append)
    then show ?thesis by blast
  qed
qed

section \<open>The interface of an add-on catalogue\<close>

text \<open>\<open>step p\<close> is the body of the \<open>forEach\<close> loop of a price calculation at SHAH price
  \<open>p\<close>; it extends the running total and the list of details.  A key that is not in
  the catalogue and not inherited from \<open>Object.prototype\<close> is skipped.\<close>

definition addon_usd :: "fields \<Rightarrow> string \<Rightarrow> rat" where
  "addon_usd cat k = (case map_of cat k of
       Some a \<Rightarrow> (case jopt a ''priceUSD'' of JNum (Fin q) \<Rightarrow> q | _ \<Rightarrow> 0) | None \<Rightarrow> 0)"

definition addon_detail :: "fields \<Rightarrow> jv \<Rightarrow> string \<Rightarrow> jv" where
  "addon_detail cat p k = (let a = obj_get cat k in
     JObj [(''key'', JStr k), (''name'', jopt a ''name''), (''priceUSD'', jopt a ''priceUSD''),
           (''priceSHAH'', JNum (num_div (to_number (jopt a ''priceUSD'')) (to_number p)))])"

locale addon_catalogue =
  fixes cat :: fields
    and step :: "jv \<Rightarrow> jsnum \<times> jv list \<Rightarrow> string \<Rightarrow> jsnum \<times> jv list"
  assumes step_known:
      "k \<in> dom (map_of cat) \<Longrightarrow>
       step p (t, ds) k = (num_add t (Fin (addon_usd cat k)), ds @ [addon_detail cat p k])"
    and step_unknown:
      "k \<notin> dom (map_of cat) \<Longrightarrow> k \<notin> set proto_keys \<Longrightarrow> step p (t, ds) k = (t, ds)"
    and step_inherited:
      "k \<in> set proto_keys \<Longrightarrow> fst (step p (t, ds) k) = NaN"
    and usd_pos: "k \<in> dom (map_of cat) \<Longrightarrow> 0 < addon_usd cat k"
begin

definition sum_usd :: "string list \<Rightarrow> rat" where
  "sum_usd ks = (\<Sum>k\<leftarrow>ks. addon_usd cat k)"

definition details :: "jv \<Rightarrow> string list \<Rightarrow> jv list" where
  "details p ks = map (addon_detail cat p) (filter (\<lambda>k. k \<in> dom (map_of cat)) ks)"

lemma usd_unknown: "k \<notin> dom (map_of cat) \<Longrightarrow> addon_usd cat k = 0"
  by (simp add: addon_usd_def domIff)

lemma usd_nonneg: "0 \<le> addon_usd cat k"
  using usd_pos [of k] usd_unknown [of k] by fastforce

lemma fold_steps:
  assumes "\<forall>k\<in>set ks. k \<notin> set proto_keys"
  shows "foldl (step p) (t, ds) ks = (num_add t (Fin (sum_usd ks)), ds @ details p ks)"
  using assms
proof (induction ks arbitrary: t ds)
  case Nil
  then show ?case by (simp add: sum_usd_def details_def)
next
  case (Cons k ks)
  then have IH: "foldl (step p) (t', ds') ks = (num_add t' (Fin (sum_usd ks)), ds' @ details p ks)"
    for t' ds' by simp
  have k: "k \<notin> set proto_keys" using Cons.prems by simp
  have sum: "sum_usd (k # ks) = addon_usd cat k + sum_usd ks" by (simp add: sum_usd_def)
  show ?case
  proof (cases "k \<in> dom (map_of cat)")
    case True
    then have "details p (k # ks) = addon_detail cat p k # details p ks" by (simp add: details_def)
    then show ?thesis by (simp add: step_known [OF True] IH sum num_add_assoc)
  next
    case False
    then have "details p (k # ks) = details p ks" by (simp add: details_def)
    then show ?thesis by (simp add: step_unknown [OF False k] IH sum usd_unknown [OF False])
  qed
qed

lemma step_NaN: "fst (step p (NaN, ds) k) = NaN"
proof -
  consider "k \<in> dom (map_of cat)" | "k \<in> set proto_keys"
    | "k \<notin> dom (map_of cat)" "k \<notin> set proto_keys" by blast
  then show ?thesis by cases (simp_all add: step_known step_unknown step_inherited)
qed

lemma fold_NaN: "fst (foldl (step p) (NaN, ds) ks) = NaN"
proof (induction ks arbitrary: ds)
  case (Cons k ks)
  obtain ds' where "step p (NaN, ds) k = (NaN, ds')"
    using step_NaN by (metis prod.collapse)
  then show ?case using Cons by simp
qed simp

lemma fold_inherited:
  assumes "\<exists>k\<in>set ks. k \<in> set proto_keys"
  shows "fst (foldl (step p) (t, ds) ks) = NaN"
  using assms
proof (induction ks arbitrary: t ds)
  case (Cons k ks)
  obtain t' ds' where s: "step p (t, ds) k = (t', ds')" by fastforce
  show ?case
  proof (cases "k \<in> set proto_keys")
    case True
    then have "t' = NaN" using step_inherited [of k p t ds] s by simp
    then show ?thesis using s by (simp add: fold_NaN)
  next
    case False
    then show ?thesis using Cons s by simp
  qed
qed simp

lemma sum_usd_nonneg: "0 \<le> sum_usd ks"
  unfolding sum_usd_def by (rule sum_list_nonneg) (auto simp: usd_nonneg)

lemma sum_usd_remove: "k \<in> set ks \<Longrightarrow> sum_usd ks = addon_usd cat k + sum_usd (remove1 k ks)"
  unfolding sum_usd_def by (induction ks) auto

lemma sum_usd_perm: "mset ks = mset ls \<Longrightarrow> sum_usd ks = sum_usd ls"
  unfolding sum_usd_def by (metis mset_map sum_mset_sum_list)

end

section \<open>The interface of a paid creation flow\<close>

definition charged :: "call list \<Rightarrow> bool" where
  "charged tr = (\<exists>c\<in>set tr. is_charge c)"

abbreviation deploy_safe :: "'s world \<Rightarrow> bool" where
  "deploy_safe w \<equiv> paid_before_deploy (snd w)"

lemma avoids_keeps_deploy_safe:
  assumes "avoids is_deploy m"
  shows "hoare deploy_safe m (\<lambda>_. deploy_safe) (\<lambda>_. deploy_safe)"
  by (rule hoareI; drule avoidsD [OF assms]) (auto simp: paid_before_deploy_append)

lemma charged_keeps_deploy_safe:
  assumes "\<And>w r w'. m w = (r, w') \<Longrightarrow> \<exists>cs. snd w' = snd w @ cs"
  shows "hoare (\<lambda>w. deploy_safe w \<and> charged (snd w)) m
           (\<lambda>_ w. deploy_safe w \<and> charged (snd w)) (\<lambda>_. deploy_safe)"
  unfolding charged_def
  by (rule hoareI) (use assms in \<open>fastforce intro: paid_before_deploy_charged\<close>)+

lemma avoids_extends: "avoids B m \<Longrightarrow> m w = (r, w') \<Longrightarrow> \<exists>cs. snd w' = snd w @ cs"
  by (blast dest: avoidsD)

lemma quiet_filter:
  assumes "avoids (\<lambda>c. is_charge c \<or> is_deploy c) m" "m w = (r, w')"
  shows "filter is_charge (snd w') = filter is_charge (snd w)"
  using avoidsD [OF assms] by (auto simp: filter_empty_conv)

lemma quiet_set:
  assumes "avoids B m" "m w = (r, w')"
  shows "set (snd w) \<subseteq> set (snd w')"
  using avoidsD [OF assms] by auto

lemma js_ext_extends: "js_ext env c w = (r, w') \<Longrightarrow> \<exists>cs. snd w' = snd w @ cs"
  by (auto simp: js_ext_def)

text \<open>Price, pay, record the payment, generate the contract, deploy it: the order the
  creation classes run their steps in.  A provider promises that quoting and
  recording do not deploy, and that a payment that returns has made a charge.\<close>

locale paid_creation =
  fixes env :: env
    and price :: "('s, jv) js"
    and pay :: "jv \<Rightarrow> ('s, jv) js"
    and save :: "jv \<Rightarrow> ('s, jv) js"
    and gen :: "('s, jv) js"
    and deploy :: "jv \<Rightarrow> call"
    and result :: "jv \<Rightarrow> jv \<Rightarrow> jv \<Rightarrow> jv"
  assumes price_quiet: "avoids (\<lambda>c. is_charge c \<or> is_deploy c) price"
    and pay_no_deploy: "avoids is_deploy (pay a)"
    and pay_charges: "pay a w = (Inr r, w') \<Longrightarrow> charged (snd w')"
    and save_no_deploy: "avoids is_deploy (save r)"
    and gen_no_deploy: "avoids is_deploy gen"
begin

definition flow :: "('s, jv) js" where
  "flow = js_bind price (\<lambda>pd. js_bind (pay pd) (\<lambda>r. js_bind (save r) (\<lambda>_.
     js_bind gen (\<lambda>c. js_bind (js_ext env (deploy c)) (\<lambda>a. js_return (result a r pd))))))"

lemma price_no_deploy: "avoids is_deploy price"
  using price_quiet unfolding avoids_def by blast

lemma pay_hoare:
  "hoare deploy_safe (pay a) (\<lambda>_ w. deploy_safe w \<and> charged (snd w)) (\<lambda>_. deploy_safe)"
  by (rule hoareI)
     (auto dest: pay_charges hoareD_ok [OF avoids_keeps_deploy_safe [OF pay_no_deploy]]
                 hoareD_err [OF avoids_keeps_deploy_safe [OF pay_no_deploy]])

lemma flow_hoare: "hoare deploy_safe flow (\<lambda>_. deploy_safe) (\<lambda>_. deploy_safe)"
proof -
  let ?C = "\<lambda>w :: 's world. deploy_safe w \<and> charged (snd w)"
  have ext: "hoare ?C (js_ext env c) (\<lambda>_. ?C) (\<lambda>_. deploy_safe)" for c
    by (rule charged_keeps_deploy_safe) (rule js_ext_extends)
  have gen: "hoare ?C gen (\<lambda>_. ?C) (\<lambda>_. deploy_safe)"
    by (rule charged_keeps_deploy_safe) (rule avoids_extends [OF gen_no_deploy])
  have save: "hoare ?C (save r) (\<lambda>_. ?C) (\<lambda>_. deploy_safe)" for r
    by (rule charged_keeps_deploy_safe) (rule avoids_extends [OF save_no_deploy])
  show ?thesis
    unfolding flow_def
    by (rule hoare_bind [OF avoids_keeps_deploy_safe [OF price_no_deploy]]
             hoare_bind [OF pay_hoare] hoare_bind [OF save] hoare_bind [OF gen] hoare_bind [OF ext]
             hoare_return | simp)+
qed

lemma flow_safe: "paid_before_deploy tr \<Longrightarrow> paid_before_deploy (snd (snd (flow (s, tr))))"
  using js_invD [of deploy_safe flow "(s, tr)"] flow_hoare by (simp add: js_inv_def)

text \<open>If no payment goes through, nothing is deployed and the flow throws.\<close>

lemma flow_unpaid:
  assumes "\<And>pd w w1. price w = (Inr pd, w1) \<Longrightarrow>
             \<exists>e w2. pay pd w1 = (Inl e, w2) \<and> (\<exists>cs. snd w2 = snd w1 @ cs \<and> (\<forall>c\<in>set cs. \<not> is_charge c))"
  shows "\<exists>e w' cs. flow w = (Inl e, w') \<and> snd w' = snd w @ cs \<and>
           (\<forall>c\<in>set cs. \<not> is_charge c \<and> \<not> is_deploy c)"
proof -
  obtain r w1 where p: "price w = (r, w1)" by (cases "price w") blast
  obtain cs1 where cs1: "snd w1 = snd w @ cs1" "\<forall>c\<in>set cs1. \<not> is_charge c \<and> \<not> is_deploy c"
    using avoidsD [OF price_quiet p] by blast
  show ?thesis
  proof (cases r)
    case (Inl e)
    then have "flow w = (Inl e, w1)" using p by (simp add: flow_def js_bind_def)
    then show ?thesis using cs1 by blast
  next
    case (Inr pd)
    then obtain e w2 cs2 where pay: "pay pd w1 = (Inl e, w2)"
      "snd w2 = snd w1 @ cs2" "\<forall>c\<in>set cs2. \<not> is_charge c"
      using assms p by blast
    have "\<forall>c\<in>set cs2. \<not> is_deploy c"
      using avoidsD [OF pay_no_deploy pay(1)] pay(2) by simp
    then have "snd w2 = snd w @ (cs1 @ cs2)"
      "\<forall>c\<in>set (cs1 @ cs2). \<not> is_charge c \<and> \<not> is_deploy c"
      using cs1 pay by auto
    moreover have "flow w = (Inl e, w2)" using p Inr pay by (simp add: flow_def js_bind_def)
    ultimately show ?thesis by blast
  qed
qed

end

section \<open>Shared laws\<close>

lemma avoids_replacing [avoids_intros]: "avoids B (js_replacing f v)"
  by (cases v) (simp_all add: js_replacing_def avoids_intros)

lemma avoids_weaken: "avoids B m \<Longrightarrow> (\<And>c. B' c \<Longrightarrow> B c) \<Longrightarrow> avoids B' m"
  unfolding avoids_def by blast

lemma usd_cents_nat: "usd_cents (JNum (Fin (of_int n))) = Fin (of_int (100 * n))"
  using num_round_int [of "n * 100"] by (simp add: usd_cents_def mult.commute)

lemma usd_cents_int:
  assumes "q \<in> \<int>"
  shows "usd_cents (JNum (Fin q)) = Fin (100 * q)"
proof -
  obtain n where "q = of_int n" using assms by (auto elim: Ints_cases)
  then show ?thesis using usd_cents_nat [of n] by simp
qed

section \<open>Sample environments\<close>

text \<open>Every request succeeds and the price service answers with \<open>q\<close>.\<close>

definition price_env :: "rat \<Rightarrow> env" where
  "price_env q = (\<lambda>n c. if callee c = ''response.json''
     then Inr (JObj [(''shah'', JObj [(''usd'', JNum (Fin q))])]) else Inr (JStr ''ok''))"

text \<open>An environment in which every request, card payment and deployment succeeds.\<close>

definition stripe_env :: "rat \<Rightarrow> env" where
  "stripe_env q = (\<lambda>n c.
     if callee c = ''response.json'' then
       Inr (JObj [(''shah'', JObj [(''usd'', JNum (Fin q))]), (''clientSecret'', JStr ''cs'')])
     else if callee c = ''stripe.confirmCardPayment'' then
       Inr (JObj [(''paymentIntent'', JObj [(''id'', JStr ''pi'')])])
     else Inr (JStr ''ok''))"

end
