(* ===== verification/TokenMonetization.thy ===== *)
theory TokenMonetization
  imports Pricing
begin

text \<open>
  sdk-core/smart-contract-toolkit/token-monetization.js: the pricing and payment
  system of token creation, the payment modal's state handlers and the one-shot
  creation flow.  Every contract call, HTTP request, Stripe call and the hooks a
  deployment supplies (\<open>saveToDatabase\<close>, \<open>generateBaseContract\<close>, \<open>deployContract\<close>)
  is an external call.
\<close>

section \<open>TokenMonetizationSystem\<close>

definition token_premiumAddOns :: fields where
  "token_premiumAddOns =
    [(''customLogo'', JObj [(''name'', JStr ''Custom Logo Upload''), (''priceUSD'', JInt 10),
        (''description'', JStr ''Upload your own logo for the token'')]),
     (''verifiedBadge'', JObj [(''name'', JStr ''Verified Badge''), (''priceUSD'', JInt 20),
        (''description'', JStr ''Get verified badge in ShahExplorer and Web Wallet'')]),
     (''upgradeableContract'', JObj [(''name'', JStr ''Upgradeable Contract''), (''priceUSD'', JInt 15),
        (''description'', JStr ''Make your contract upgradeable for future improvements'')]),
     (''airdropTool'', JObj [(''name'', JStr ''Token Airdrop Tool''), (''priceUSD'', JInt 8),
        (''description'', JStr ''Built-in airdrop functionality for your token'')])]"

definition token_paymentMethods :: fields where
  "token_paymentMethods = [(''shah'', JStr ''Native SHAH''),
     (''shahToken'', JStr ''SHAHtoken (SHI-20)''), (''stripe'', JStr ''Credit Card (USD)'')]"

definition new_TokenMonetizationSystem :: "fields \<Rightarrow> monetization_system" where
  "new_TokenMonetizationSystem cfg =
     \<lparr>config = obj_spread [(''baseFeeUSD'', JInt 49),
         (''shahSwapAPI'', JStr ''https://api.shah.vip/price''),
         (''stripePublicKey'', obj_get cfg ''stripePublicKey'')] cfg,
      premiumAddOns = token_premiumAddOns, paymentMethods = token_paymentMethods\<rparr>"

definition token_getTierUsd :: "jv \<Rightarrow> rat" where
  "token_getTierUsd tr = (let t = js_default tr (JStr ''Basic'') in
     if strict_eq t (JStr ''Premium'') then 129 else if strict_eq t (JStr ''Pro'') then 79 else 49)"

definition token_getShahPrice :: "env \<Rightarrow> monetization_system \<Rightarrow> ('s, jv) js" where
  "token_getShahPrice env sys =
     js_catch
       (js_bind (js_ext env (Call ''fetch'' [obj_get (config sys) ''shahSwapAPI''])) (\<lambda>response.
        js_bind (js_ext env (Call ''response.json'' [response])) (\<lambda>dat.
        js_bind (js_get dat ''shah'') (\<lambda>shah. js_get shah ''usd''))))
       (\<lambda>_. js_throw (Error ''Unable to fetch current SHAH price''))"

definition token_calculateUpgradePrice ::
  "env \<Rightarrow> monetization_system \<Rightarrow> jv \<Rightarrow> jv \<Rightarrow> ('s, jv) js" where
  "token_calculateUpgradePrice env sys currentTier newTier =
     js_bind (token_getShahPrice env sys) (\<lambda>shahPrice.
       let usd = num_max (Fin 0) (num_sub (Fin (token_getTierUsd (js_default newTier (JStr ''Pro''))))
                                          (Fin (token_getTierUsd currentTier)));
           shah = num_div usd (to_number shahPrice)
       in js_return (JObj [(''usd'', JNum usd), (''shah'', JNum shah), (''shahPrice'', shahPrice)]))"

definition token_calculateBaseFee :: "env \<Rightarrow> monetization_system \<Rightarrow> jv \<Rightarrow> ('s, jv) js" where
  "token_calculateBaseFee env sys tr =
     js_bind (token_getShahPrice env sys) (\<lambda>shahPrice.
       let tierUsd = Fin (token_getTierUsd tr);
           baseFeeSHAH = num_div tierUsd (to_number shahPrice)
       in js_return (JObj [(''usd'', JNum tierUsd), (''shah'', JNum baseFeeSHAH),
                           (''shahPrice'', shahPrice)]))"

text \<open>The body of the \<open>selectedAddOns.forEach\<close> loop.\<close>

definition token_addOnStep ::
  "fields \<Rightarrow> jv \<Rightarrow> jsnum \<times> jv list \<Rightarrow> string \<Rightarrow> jsnum \<times> jv list" where
  "token_addOnStep addOns shahPrice acc addOnKey =
     (let (addOnsTotalUSD, addOnsDetails) = acc; addOn = obj_get addOns addOnKey in
      if truthy addOn then
        (num_add addOnsTotalUSD (to_number (jopt addOn ''priceUSD'')),
         addOnsDetails @ [JObj [(''key'', JStr addOnKey), (''name'', jopt addOn ''name''),
           (''priceUSD'', jopt addOn ''priceUSD''),
           (''priceSHAH'', JNum (num_div (to_number (jopt addOn ''priceUSD'')) (to_number shahPrice)))]])
      else (addOnsTotalUSD, addOnsDetails))"

definition token_calculateTotalPrice ::
  "env \<Rightarrow> monetization_system \<Rightarrow> string list \<Rightarrow> jv \<Rightarrow> ('s, jv) js" where
  "token_calculateTotalPrice env sys selected options =
     (let tr = js_or (jopt options ''tier'') (JStr ''Basic'') in
      js_bind (token_calculateBaseFee env sys tr) (\<lambda>baseFee.
      js_bind (js_get baseFee ''shahPrice'') (\<lambda>shahPrice.
      js_bind (js_get baseFee ''usd'') (\<lambda>usd.
        let (addOnsTotalUSD, addOnsDetails) =
              foldl (token_addOnStep (premiumAddOns sys) shahPrice) (Fin 0, []) selected;
            totalUSD = num_add (to_number usd) addOnsTotalUSD;
            totalSHAH = num_div totalUSD (to_number shahPrice)
        in js_return (JObj
             [(''baseFee'', baseFee), (''tier'', tr), (''addOns'', JArr addOnsDetails),
              (''totalUSD'', JNum totalUSD), (''totalSHAH'', JNum totalSHAH),
              (''breakdown'', JObj [(''base'', usd), (''addOns'', JNum addOnsTotalUSD),
                                    (''total'', JNum totalUSD)])])))))"

definition token_processShahPayment :: "env \<Rightarrow> jv \<Rightarrow> ('s, jv) js" where
  "token_processShahPayment env amount =
     js_catch
       (js_bind (js_ext env (Call ''new ethers.providers.JsonRpcProvider'' [JStr ''https://rpc.shah.vip''])) (\<lambda>provider.
        js_bind (js_ext env (Call ''provider.getSigner'' [provider])) (\<lambda>signer.
        js_bind (js_ext env (Call ''new ethers.Contract'' [JStr ''SHAHFACTORY_ADDRESS'', signer])) (\<lambda>shahFactory.
        js_bind (js_get amount ''shah'') (\<lambda>shah.
        js_bind (js_lift (js_toString shah)) (\<lambda>s.
        js_bind (js_ext env (Call ''ethers.utils.parseEther'' [s])) (\<lambda>v.
        js_bind (js_ext env (Call ''shahFactory.payTokenCreationFee'' [shahFactory, JObj [(''value'', v)]])) (\<lambda>tx.
        js_bind (js_ext env (Call ''tx.wait'' [tx])) (\<lambda>receipt.
        js_bind (js_get receipt ''transactionHash'') (\<lambda>txHash.
        js_return (JObj [(''success'', JBool True), (''txHash'', txHash),
                         (''method'', JStr ''shah''), (''amount'', amount)])))))))))))
       (\<lambda>e. js_throw (Error (''SHAH payment failed: '' @ message e)))"

definition token_processShahTokenPayment :: "env \<Rightarrow> jv \<Rightarrow> ('s, jv) js" where
  "token_processShahTokenPayment env amount =
     js_catch
       (js_bind (js_ext env (Call ''new ethers.providers.JsonRpcProvider'' [JStr ''https://rpc.shah.vip''])) (\<lambda>provider.
        js_bind (js_ext env (Call ''provider.getSigner'' [provider])) (\<lambda>signer.
        js_bind (js_ext env (Call ''new ethers.Contract'' [JStr ''SHAHTOKEN_ADDRESS'', signer])) (\<lambda>shahToken.
        js_bind (js_get amount ''shah'') (\<lambda>shah.
        js_bind (js_lift (js_toString shah)) (\<lambda>s.
        js_bind (js_ext env (Call ''ethers.utils.parseEther'' [s])) (\<lambda>shahTokenAmount.
        js_bind (js_ext env (Call ''shahToken.approve'' [shahToken, JStr ''SHAHFACTORY_ADDRESS'', shahTokenAmount])) (\<lambda>_.
        js_bind (js_ext env (Call ''new ethers.Contract'' [JStr ''SHAHFACTORY_ADDRESS'', signer])) (\<lambda>shahFactory.
        js_bind (js_ext env (Call ''shahFactory.payWithShahToken'' [shahFactory, shahTokenAmount])) (\<lambda>tx.
        js_bind (js_ext env (Call ''tx.wait'' [tx])) (\<lambda>receipt.
        js_bind (js_get receipt ''transactionHash'') (\<lambda>txHash.
        js_return (JObj [(''success'', JBool True), (''txHash'', txHash),
                         (''method'', JStr ''shahToken''), (''amount'', amount)])))))))))))))
       (\<lambda>e. js_throw (Error (''SHAHtoken payment failed: '' @ message e)))"

definition token_processStripePayment :: "env \<Rightarrow> monetization_system \<Rightarrow> jv \<Rightarrow> ('s, jv) js" where
  "token_processStripePayment env sys amount =
     js_catch
       (js_bind (js_ext env (Call ''Stripe'' [obj_get (config sys) ''stripePublicKey''])) (\<lambda>stripe.
        js_bind (js_get amount ''totalUSD'') (\<lambda>totalUSD.
        js_bind (js_ext env (Call ''fetch'' [JStr ''/api/create-payment-intent'',
            JObj [(''amount'', JNum (usd_cents totalUSD)), (''currency'', JStr ''usd'')]])) (\<lambda>response.
        js_bind (js_ext env (Call ''response.json'' [response])) (\<lambda>body.
        js_bind (js_get body ''clientSecret'') (\<lambda>clientSecret.
        js_bind (js_ext env (Call ''elements.getElement'' [JStr ''card''])) (\<lambda>card.
        js_bind (js_ext env (Call ''stripe.confirmCardPayment'' [stripe, clientSecret, card, JStr ''Token Creator''])) (\<lambda>res.
        js_bind (js_get res ''error'') (\<lambda>err.
        js_bind (js_get res ''paymentIntent'') (\<lambda>paymentIntent.
        if truthy err then js_bind (js_get err ''message'') (\<lambda>m. js_throw (new_error m))
        else js_bind (js_get paymentIntent ''id'') (\<lambda>i.
          js_return (JObj [(''success'', JBool True), (''paymentIntentId'', i),
                           (''method'', JStr ''stripe''), (''amount'', amount)]))))))))))))
       (\<lambda>e. js_throw (Error (''Stripe payment failed: '' @ message e)))"

definition token_processPayment ::
  "env \<Rightarrow> monetization_system \<Rightarrow> string \<Rightarrow> jv \<Rightarrow> jv \<Rightarrow> ('s, jv) js" where
  "token_processPayment env sys method amount tokenConfig =
     (if method = ''shah'' then token_processShahPayment env amount
      else if method = ''shahToken'' then token_processShahTokenPayment env amount
      else if method = ''stripe'' then token_processStripePayment env sys amount
      else js_throw (Error ''Invalid payment method''))"

definition token_savePaymentData ::
  "env \<Rightarrow> jv \<Rightarrow> jv \<Rightarrow> string list \<Rightarrow> ('s, jv) js" where
  "token_savePaymentData env paymentResult tokenConfig selected =
     js_catch
       (js_bind (js_ext env (Call ''new Date().toISOString'' [])) (\<lambda>timestamp.
        js_bind (js_get paymentResult ''method'') (\<lambda>method.
        js_bind (js_get paymentResult ''amount'') (\<lambda>amount.
        js_bind (js_get paymentResult ''txHash'') (\<lambda>txHash.
        js_bind (if truthy txHash then js_return txHash
                 else js_get paymentResult ''paymentIntentId'') (\<lambda>tx.
        let paymentData = JObj [(''timestamp'', timestamp), (''paymentMethod'', method),
              (''amount'', amount), (''tokenConfig'', tokenConfig),
              (''selectedAddOns'', strs selected), (''txHash'', tx), (''status'', JStr ''completed'')]
        in js_bind (js_ext env (Call ''this.saveToDatabase'' [paymentData])) (\<lambda>_.
           js_return paymentData)))))))
       (\<lambda>_. js_return JUndef)"

definition getPremiumAddOns :: "monetization_system \<Rightarrow> fields" where
  "getPremiumAddOns sys = premiumAddOns sys"

definition getPaymentMethods :: "monetization_system \<Rightarrow> fields" where
  "getPaymentMethods sys = paymentMethods sys"

definition validateTokenConfig :: "fields \<Rightarrow> string list" where
  "validateTokenConfig cfg =
     (if blank (obj_get cfg ''name'') then [''Token name is required''] else []) @
     (if blank (obj_get cfg ''symbol'') then [''Token symbol is required''] else []) @
     (let d = to_number (obj_get cfg ''decimals'') in
      if num_lt d (Fin 0) \<or> num_lt (Fin 18) d then [''Decimals must be between 0 and 18''] else []) @
     (if num_le (to_number (obj_get cfg ''maxSupply'')) (Fin 0)
      then [''Max supply must be greater than 0''] else [])"

section \<open>TokenCreationPaymentModal\<close>

definition token_modal_init :: modal_state where
  "token_modal_init = \<lparr>selectedAddOns = [], paymentMethod = ''shah'', loading = False,
     priceData = JNull, errors = [], tier = ''Basic''\<rparr>"

text \<open>The arguments are read from \<open>this.state\<close> when the method is called, before the
  first await; \<open>st\<close> is that snapshot.\<close>

definition token_modal_calculatePrice ::
  "env \<Rightarrow> monetization_system \<Rightarrow> modal_state \<Rightarrow> (modal_state, unit) js" where
  "token_modal_calculatePrice env sys st =
     js_catch
       (js_bind (token_calculateTotalPrice env sys (selectedAddOns st)
                   (JObj [(''tier'', JStr (tier st))])) (\<lambda>pd.
        js_update (\<lambda>s. s\<lparr>priceData := pd\<rparr>)))
       (\<lambda>e. js_update (\<lambda>s. s\<lparr>errors := [message e]\<rparr>))"

definition token_modal_componentDidMount ::
  "env \<Rightarrow> monetization_system \<Rightarrow> (modal_state, unit) js" where
  "token_modal_componentDidMount env sys =
     js_bind js_this (token_modal_calculatePrice env sys)"

text \<open>In an event handler React batches \<open>setState\<close>: \<open>calculatePrice\<close>, called before the
  batch is flushed, still reads the selection the handler started with.\<close>

definition token_modal_handleAddOnToggle ::
  "env \<Rightarrow> monetization_system \<Rightarrow> string \<Rightarrow> (modal_state, unit) js" where
  "token_modal_handleAddOnToggle env sys addOnKey =
     js_bind js_this (\<lambda>st.
       let newSelectedAddOns =
             (if addOnKey \<in> set (selectedAddOns st)
              then filter (\<lambda>key. key \<noteq> addOnKey) (selectedAddOns st)
              else selectedAddOns st @ [addOnKey])
       in js_bind (js_update (\<lambda>s. s\<lparr>selectedAddOns := newSelectedAddOns\<rparr>)) (\<lambda>_.
          token_modal_calculatePrice env sys st))"

definition token_modal_handlePaymentMethodChange :: "string \<Rightarrow> (modal_state, unit) js" where
  "token_modal_handlePaymentMethodChange method = js_update (\<lambda>s. s\<lparr>paymentMethod := method\<rparr>)"

text \<open>Here \<open>calculatePrice\<close> runs in the callback of \<open>setState\<close>, after the update.\<close>

definition token_modal_handleTierChange ::
  "env \<Rightarrow> monetization_system \<Rightarrow> string \<Rightarrow> (modal_state, unit) js" where
  "token_modal_handleTierChange env sys newTier =
     js_bind (js_update (\<lambda>s. s\<lparr>tier := newTier\<rparr>)) (\<lambda>_.
     js_bind js_this (token_modal_calculatePrice env sys))"

definition token_modal_handlePayment ::
  "env \<Rightarrow> monetization_system \<Rightarrow> fields \<Rightarrow> (modal_state, unit) js" where
  "token_modal_handlePayment env sys tokenConfig =
     js_bind js_this (\<lambda>st.
       let cfg = obj_set tokenConfig ''tier'' (JStr (tier st));
           errs = validateTokenConfig cfg
       in if errs \<noteq> [] then js_update (\<lambda>s. s\<lparr>errors := errs\<rparr>)
          else js_bind (js_update (\<lambda>s. s\<lparr>loading := True, errors := []\<rparr>)) (\<lambda>_.
            js_finally
              (js_catch
                (js_bind (token_processPayment env sys (paymentMethod st) (priceData st) (JObj cfg)) (\<lambda>paymentResult.
                 js_bind (token_savePaymentData env paymentResult (JObj cfg) (selectedAddOns st)) (\<lambda>_.
                 js_bind (js_ext env (Call ''onSuccess'' [paymentResult, JObj cfg])) (\<lambda>_.
                 js_return ()))))
                (\<lambda>e. js_bind (js_update (\<lambda>s. s\<lparr>errors := [message e]\<rparr>)) (\<lambda>_.
                     js_bind (js_ext env (Call ''onError'' [JStr (message e)])) (\<lambda>_. js_return ()))))
              (\<lambda>s. s\<lparr>loading := False\<rparr>)))"

section \<open>TokenCreationWithMonetization\<close>

definition token_addUpgradeableFeature :: "string \<Rightarrow> string" where
  "token_addUpgradeableFeature contractCode =
     replace_first contractCode ''contract MyToken is ERC20, Ownable, Pausable {''
       ''contract MyToken is ERC20, Ownable, Pausable, Initializable, UUPSUpgradeable {''"

definition token_airdropFunction :: string where
  "token_airdropFunction = nl @
    ''    function airdrop(address[] memory recipients, uint256[] memory amounts) public onlyOwner {'' @ nl @
    ''        require(recipients.length == amounts.length, '' @ [CHR 0x22] @ ''Arrays length mismatch'' @ [CHR 0x22] @ '');'' @ nl @
    ''        for (uint256 i = 0; i < recipients.length; i++) {'' @ nl @
    ''            _mint(recipients[i], amounts[i]);'' @ nl @
    ''        }'' @ nl @
    ''    }''"

definition token_addAirdropFeature :: "string \<Rightarrow> string" where
  "token_addAirdropFeature contractCode =
     replace_first contractCode ''}'' (token_airdropFunction @ nl @ ''}'')"

definition token_generateContractWithAddOns ::
  "env \<Rightarrow> jv \<Rightarrow> string list \<Rightarrow> ('s, jv) js" where
  "token_generateContractWithAddOns env tokenConfig selected =
     js_bind (js_ext env (Call ''this.generateBaseContract'' [tokenConfig])) (\<lambda>code.
     js_bind (if ''upgradeableContract'' \<in> set selected
              then js_replacing token_addUpgradeableFeature code else js_return code) (\<lambda>code.
     if ''airdropTool'' \<in> set selected
     then js_replacing token_addAirdropFeature code else js_return code))"

definition createToken ::
  "env \<Rightarrow> monetization_system \<Rightarrow> jv \<Rightarrow> string list \<Rightarrow> string \<Rightarrow> ('s, jv) js" where
  "createToken env sys tokenConfig selected method =
     js_bind (token_calculateTotalPrice env sys selected
       (JObj [(''tier'', js_or (jopt tokenConfig ''tier'') (JStr ''Basic''))])) (\<lambda>pd.
     js_bind (token_processPayment env sys method pd tokenConfig) (\<lambda>paymentResult.
     js_bind (token_savePaymentData env paymentResult tokenConfig selected) (\<lambda>_.
     js_bind (token_generateContractWithAddOns env tokenConfig selected) (\<lambda>contractCode.
     js_bind (js_ext env (Call ''this.deployContract'' [contractCode, tokenConfig])) (\<lambda>deployedAddress.
     js_return (JObj [(''success'', JBool True), (''contractAddress'', deployedAddress),
                      (''paymentResult'', paymentResult), (''priceData'', pd)]))))))"

section \<open>Laws\<close>

interpretation tok: addon_catalogue token_premiumAddOns "token_addOnStep token_premiumAddOns"
proof unfold_locales
  fix k p t ds
  show "k \<in> dom (map_of token_premiumAddOns) \<Longrightarrow>
    token_addOnStep token_premiumAddOns p (t, ds) k =
      (num_add t (Fin (addon_usd token_premiumAddOns k)), ds @ [addon_detail token_premiumAddOns p k])"
    by (auto simp: token_addOnStep_def token_premiumAddOns_def addon_usd_def addon_detail_def
          obj_get_def split: if_splits)
  show "k \<notin> dom (map_of token_premiumAddOns) \<Longrightarrow> k \<notin> set proto_keys \<Longrightarrow>
    token_addOnStep token_premiumAddOns p (t, ds) k = (t, ds)"
    by (simp add: token_addOnStep_def obj_get_def domIff proto_value_undef)
  show "k \<in> set proto_keys \<Longrightarrow> fst (token_addOnStep token_premiumAddOns p (t, ds) k) = NaN"
    by (auto simp: token_addOnStep_def token_premiumAddOns_def proto_keys_def proto_value_def)
  show "k \<in> dom (map_of token_premiumAddOns) \<Longrightarrow> 0 < addon_usd token_premiumAddOns k"
    by (auto simp: token_premiumAddOns_def addon_usd_def split: if_splits)
qed

lemma premiumAddOns_new [simp]:
  "premiumAddOns (new_TokenMonetizationSystem cfg) = token_premiumAddOns"
  by (simp add: new_TokenMonetizationSystem_def)

lemma token_calculateTotalPrice_run:
  assumes "token_getShahPrice env (new_TokenMonetizationSystem cfg) w = (Inr p, w')"
    and "\<forall>k\<in>set ks. k \<notin> set proto_keys"
    and T: "T = token_getTierUsd (js_or (jopt opts ''tier'') (JStr ''Basic''))"
  shows "token_calculateTotalPrice env (new_TokenMonetizationSystem cfg) ks opts w =
    (Inr (JObj
      [(''baseFee'', JObj [(''usd'', JNum (Fin T)), (''shah'', JNum (num_div (Fin T) (to_number p))),
                          (''shahPrice'', p)]),
       (''tier'', js_or (jopt opts ''tier'') (JStr ''Basic'')), (''addOns'', JArr (tok.details p ks)),
       (''totalUSD'', JNum (Fin (T + tok.sum_usd ks))),
       (''totalSHAH'', JNum (num_div (Fin (T + tok.sum_usd ks)) (to_number p))),
       (''breakdown'', JObj [(''base'', JNum (Fin T)), (''addOns'', JNum (Fin (tok.sum_usd ks))),
                            (''total'', JNum (Fin (T + tok.sum_usd ks)))])]), w')"
  using assms(1) unfolding T
  by (simp add: token_calculateTotalPrice_def token_calculateBaseFee_def js_simps Let_def
      tok.fold_steps [OF assms(2)])

lemma token_calculateTotalPrice_fails:
  assumes "token_getShahPrice env sys w = (Inl e, w')"
  shows "token_calculateTotalPrice env sys ks opts w = (Inl e, w')"
  using assms by (simp add: token_calculateTotalPrice_def token_calculateBaseFee_def js_simps Let_def)

text \<open>A quote never carries the property \<open>shah\<close> that the SHAH payments read.\<close>

lemma token_quote_shape:
  assumes "token_calculateTotalPrice env sys ks opts w = (Inr pd, w')"
  shows "\<exists>fs. pd = JObj fs \<and> obj_get fs ''shah'' = JUndef"
  using assms
  by (auto simp: token_calculateTotalPrice_def token_calculateBaseFee_def js_simps Let_def
      proto_value_def proto_keys_def split: prod.splits sum.splits)

lemma token_price_quiet:
  "avoids (\<lambda>c. is_charge c \<or> is_deploy c) (token_calculateTotalPrice env sys ks opts)"
  unfolding token_calculateTotalPrice_def token_calculateBaseFee_def token_getShahPrice_def Let_def
  by (intro avoids_intros; simp add: charge_defs)

lemma token_pay_no_deploy: "avoids is_deploy (token_processPayment env sys m a c)"
  unfolding token_processPayment_def token_processShahPayment_def
    token_processShahTokenPayment_def token_processStripePayment_def
  by (intro avoids_intros; simp add: charge_defs)

lemma token_save_quiet:
  "avoids (\<lambda>c. is_charge c \<or> is_deploy c) (token_savePaymentData env r c ks)"
  unfolding token_savePaymentData_def Let_def
  by (intro avoids_intros; simp add: charge_defs)

lemma token_gen_quiet:
  "avoids (\<lambda>c. is_charge c \<or> is_deploy c) (token_generateContractWithAddOns env c ks)"
  unfolding token_generateContractWithAddOns_def
  by (intro avoids_intros; simp add: charge_defs)

lemma token_pay_charges:
  assumes "token_processPayment env sys m a c w = (Inr r, w')"
  shows "charged (snd w')"
proof (cases w)
  case (Pair s tr)
  show ?thesis
    using assms unfolding Pair token_processPayment_def token_processShahPayment_def
      token_processShahTokenPayment_def token_processStripePayment_def
    by (auto simp: js_simps charged_def charge_defs split: if_splits sum.splits)
qed

interpretation tokflow: paid_creation env
  "token_calculateTotalPrice env sys ks opts"
  "\<lambda>pd. token_processPayment env sys m pd c"
  "\<lambda>r. token_savePaymentData env r c ks"
  "token_generateContractWithAddOns env c ks"
  "\<lambda>code. Call ''this.deployContract'' [code, c]"
  "\<lambda>a r pd. JObj [(''success'', JBool True), (''contractAddress'', a),
      (''paymentResult'', r), (''priceData'', pd)]"
  for env sys ks opts m c
  by unfold_locales
     (auto intro: token_price_quiet token_pay_no_deploy token_pay_charges
        avoids_weaken [OF token_save_quiet] avoids_weaken [OF token_gen_quiet])

lemma createToken_flow:
  "createToken env sys c ks m =
     tokflow.flow env sys ks (JObj [(''tier'', js_or (jopt c ''tier'') (JStr ''Basic''))]) m c"
  by (simp add: createToken_def tokflow.flow_def)

lemma token_shah_payment_unreadable:
  assumes "obj_get fs ''shah'' = JUndef" "m = ''shah'' \<or> m = ''shahToken''"
  shows "\<exists>e w2. token_processPayment env sys m (JObj fs) c w1 = (Inl e, w2) \<and>
           (\<exists>cs. snd w2 = snd w1 @ cs \<and> (\<forall>c\<in>set cs. \<not> is_charge c))"
proof (cases w1)
  case (Pair s tr)
  then show ?thesis
    using assms unfolding token_processPayment_def token_processShahPayment_def
      token_processShahTokenPayment_def
    by (auto simp: js_simps js_toString_def charge_defs split: if_splits sum.splits)
qed

text \<open>A Stripe payment that returns made exactly the six calls of the code, in order.\<close>

lemma token_stripe_success:
  assumes "token_processStripePayment env sys (JObj fs) (s, tr) = (Inr r, w')"
  shows "\<exists>a b c d. w' = (s, tr @
      [Call ''Stripe'' [obj_get (config sys) ''stripePublicKey''],
       Call ''fetch'' [JStr ''/api/create-payment-intent'',
         JObj [(''amount'', JNum (usd_cents (obj_get fs ''totalUSD''))), (''currency'', JStr ''usd'')]],
       Call ''response.json'' [a], Call ''elements.getElement'' [JStr ''card''],
       Call ''stripe.confirmCardPayment'' [b, c, d, JStr ''Token Creator'']])"
  using assms unfolding token_processStripePayment_def
  by (auto simp: js_simps split: if_splits sum.splits)

lemma tok_sum_int: "tok.sum_usd ks \<in> \<int>"
proof -
  have "addon_usd token_premiumAddOns k \<in> \<int>" for k
    by (auto simp: addon_usd_def token_premiumAddOns_def)
  then show ?thesis unfolding tok.sum_usd_def by (induction ks) auto
qed

lemma token_tier_int: "token_getTierUsd t \<in> \<int>"
  by (auto simp: token_getTierUsd_def Let_def)

section \<open>Properties\<close>

text \<open>C1: Whenever the SHAH price can be fetched, the quote for a selection of add-ons
  is returned, its USD total is the tier fee plus the catalogue price of every
  selected add-on (repetitions counted, unknown keys free), its SHAH total is that
  divided by the fetched price, and its breakdown adds up.\<close>

theorem token_quote_total:
  assumes "token_getShahPrice env (new_TokenMonetizationSystem cfg) w = (Inr p, w')"
    and "\<forall>k\<in>set ks. k \<notin> set proto_keys"
  shows "\<exists>pd. token_calculateTotalPrice env (new_TokenMonetizationSystem cfg) ks opts w = (Inr pd, w') \<and>
    (let base = token_getTierUsd (js_or (jopt opts ''tier'') (JStr ''Basic''));
         extra = (\<Sum>k\<leftarrow>ks. addon_usd token_premiumAddOns k) in
     jopt pd ''totalUSD'' = JNum (Fin (base + extra)) \<and>
     jopt pd ''totalSHAH'' = JNum (num_div (Fin (base + extra)) (to_number p)) \<and>
     jopt (jopt pd ''breakdown'') ''base'' = JNum (Fin base) \<and>
     jopt (jopt pd ''breakdown'') ''addOns'' = JNum (Fin extra) \<and> 0 \<le> extra)"
  using tok.sum_usd_nonneg [of ks]
  by (simp add: token_calculateTotalPrice_run [OF assms refl] tok.sum_usd_def Let_def)

lemma token_getShahPrice_price_env:
  "token_getShahPrice (price_env q) sys (s, tr) =
     (Inr (JNum (Fin q)), (s, tr @ [Call ''fetch'' [obj_get (config sys) ''shahSwapAPI''],
                                    Call ''response.json'' [JStr ''ok'']]))"
  by (simp add: token_getShahPrice_def js_simps price_env_def)

theorem token_quote_total_witness:
  "\<exists>pd w'. token_calculateTotalPrice (price_env (1/2)) (new_TokenMonetizationSystem [])
       [''customLogo'', ''airdropTool'', ''nonsense''] (JObj [(''tier'', JStr ''Pro'')]) ((), []) = (Inr pd, w') \<and>
     jopt pd ''totalUSD'' = JNum (Fin 97) \<and> jopt pd ''totalSHAH'' = JNum (Fin 194)"
  using token_quote_total [OF token_getShahPrice_price_env,
      where ks = "[''customLogo'', ''airdropTool'', ''nonsense'']" and q1 = "1/2" and cfg = "[]"
        and s1 = "()" and tr1 = "[]" and opts = "JObj [(''tier'', JStr ''Pro'')]"]
  by (auto simp: Let_def addon_usd_def token_premiumAddOns_def token_getTierUsd_def js_or_def
      js_default_def proto_keys_def)

text \<open>With either SHAH payment method, including the default one, token creation
  never completes: the quote has no property \<open>shah\<close>, the payment throws before any
  charge is made, and nothing is deployed.\<close>

theorem createToken_shah_never_completes:
  assumes "m = ''shah'' \<or> m = ''shahToken''"
  shows "\<exists>e w' cs. createToken env sys c ks m w = (Inl e, w') \<and> snd w' = snd w @ cs \<and>
           (\<forall>x\<in>set cs. \<not> is_charge x \<and> \<not> is_deploy x)"
  unfolding createToken_flow
proof (rule tokflow.flow_unpaid)
  fix pd and w w1 :: "'a world"
  assume "token_calculateTotalPrice env sys ks
      (JObj [(''tier'', js_or (jopt c ''tier'') (JStr ''Basic''))]) w = (Inr pd, w1)"
  from token_quote_shape [OF this] obtain fs where pd: "pd = JObj fs" and "obj_get fs ''shah'' = JUndef"
    by blast
  then show "\<exists>e w2. token_processPayment env sys m pd c w1 = (Inl e, w2) \<and>
      (\<exists>cs. snd w2 = snd w1 @ cs \<and> (\<forall>c\<in>set cs. \<not> is_charge c))"
    using token_shah_payment_unreadable [OF _ assms] by (simp only: pd)
qed

theorem createToken_shah_never_completes_witness:
  "\<exists>e w' cs. createToken (price_env 2) (new_TokenMonetizationSystem []) (JObj []) [] ''shah'' ((), [])
       = (Inl e, w') \<and> snd w' = snd ((), [] :: call list) @ cs \<and>
     (\<forall>x\<in>set cs. \<not> is_charge x \<and> \<not> is_deploy x)"
  by (rule createToken_shah_never_completes) simp

text \<open>C2: Token creation never deploys a contract before a charge has been made, on any
  answer of the environment and on every error path.\<close>

theorem createToken_pays_before_deploy:
  "paid_before_deploy (snd (snd (createToken env sys c ks m (s, []))))"
  unfolding createToken_flow by (rule tokflow.flow_safe) simp

lemma token_quote_totalUSD:
  assumes "token_calculateTotalPrice env (new_TokenMonetizationSystem cfg) ks opts w = (Inr pd, w')"
    and "\<forall>k\<in>set ks. k \<notin> set proto_keys"
  shows "\<exists>fs. pd = JObj fs \<and> obj_get fs ''totalUSD'' =
    JNum (Fin (token_getTierUsd (js_or (jopt opts ''tier'') (JStr ''Basic'')) + tok.sum_usd ks))"
proof -
  obtain r w1 where r: "token_getShahPrice env (new_TokenMonetizationSystem cfg) w = (r, w1)"
    by (cases "token_getShahPrice env (new_TokenMonetizationSystem cfg) w") blast
  show ?thesis
  proof (cases r)
    case (Inl e)
    then show ?thesis using token_calculateTotalPrice_fails r assms(1) by fastforce
  next
    case (Inr p)
    then show ?thesis
      using token_calculateTotalPrice_run [OF r [unfolded Inr] assms(2) refl, of opts] assms(1) by simp
  qed
qed



text \<open>An upgrade costs the difference of the two tier fees and nothing when the new
  tier is not dearer; going up through an intermediate tier costs the same in total,
  and the SHAH amount is the USD amount at the fetched price.\<close>

theorem token_upgrade_price:
  assumes "token_getShahPrice env sys w = (Inr p, w')"
    and "a \<noteq> JUndef" "b \<noteq> JUndef"
  shows "token_calculateUpgradePrice env sys a b w =
      (Inr (JObj [(''usd'', JNum (Fin (max 0 (token_getTierUsd b - token_getTierUsd a)))),
        (''shah'', JNum (num_div (Fin (max 0 (token_getTierUsd b - token_getTierUsd a))) (to_number p))),
        (''shahPrice'', p)]), w') \<and>
    (token_getTierUsd a \<le> token_getTierUsd m \<and> token_getTierUsd m \<le> token_getTierUsd b \<longrightarrow>
       max 0 (token_getTierUsd b - token_getTierUsd a) =
       max 0 (token_getTierUsd m - token_getTierUsd a) + max 0 (token_getTierUsd b - token_getTierUsd m))"
  using assms
  by (auto simp: token_calculateUpgradePrice_def js_simps Let_def js_default_def)

theorem token_upgrade_price_witness:
  "\<exists>w'. token_calculateUpgradePrice (price_env 2) (new_TokenMonetizationSystem [])
      (JStr ''Basic'') (JStr ''Premium'') ((), []) =
    (Inr (JObj [(''usd'', JNum (Fin 80)), (''shah'', JNum (Fin 40)), (''shahPrice'', JNum (Fin 2))]), w')"
  using token_upgrade_price [OF token_getShahPrice_price_env, of "JStr ''Basic''" "JStr ''Premium''"
      2 "new_TokenMonetizationSystem []" "()" "[]"]
  by (simp add: token_getTierUsd_def js_default_def)

lemma token_getShahPrice_any_state:
  assumes "token_getShahPrice env sys (s, tr) = (r, (s', tr'))"
  shows "token_getShahPrice env sys (t, tr) = (r, (t, tr'))"
  using assms by (auto simp: token_getShahPrice_def js_simps split: sum.splits)

text \<open>After an add-on is toggled in the payment modal, the selection is the new one
  but the price that is displayed, and charged by a payment made then, is still the
  quote for the selection before the toggle.\<close>

theorem token_modal_toggle_price_is_stale:
  assumes "token_getShahPrice env (new_TokenMonetizationSystem cfg) (st, tr) = (Inr p, (st, tr1))"
    and "\<forall>k\<in>set (selectedAddOns st). k \<notin> set proto_keys" "tier st \<noteq> []"
  shows "\<exists>pd. token_modal_handleAddOnToggle env (new_TokenMonetizationSystem cfg) k (st, tr) =
      (Inr (), (st\<lparr>selectedAddOns := array_toggle k (selectedAddOns st), priceData := pd\<rparr>, tr1)) \<and>
    jopt pd ''totalUSD'' = JNum (Fin (token_getTierUsd (JStr (tier st)) +
      (\<Sum>k\<leftarrow>selectedAddOns st. addon_usd token_premiumAddOns k)))"
proof -
  let ?st = "st\<lparr>selectedAddOns := array_toggle k (selectedAddOns st)\<rparr>"
  have "token_getShahPrice env (new_TokenMonetizationSystem cfg) (?st, tr) = (Inr p, (?st, tr1))"
    by (rule token_getShahPrice_any_state [OF assms(1)])
  note run = token_calculateTotalPrice_run [OF this assms(2) refl, of "JObj [(''tier'', JStr (tier st))]"]
  show ?thesis
    using assms(3)
    by (simp add: token_modal_handleAddOnToggle_def token_modal_calculatePrice_def
        array_toggle_def [symmetric] run js_simps Let_def tok.sum_usd_def js_or_def)
       (rule exI, rule conjI [OF refl], simp)
qed

theorem token_modal_toggle_price_is_stale_witness:
  "\<exists>pd tr. token_modal_handleAddOnToggle (price_env 2) (new_TokenMonetizationSystem []) ''verifiedBadge''
      (token_modal_init, []) =
    (Inr (), (token_modal_init\<lparr>selectedAddOns := [''verifiedBadge''], priceData := pd\<rparr>, tr)) \<and>
    jopt pd ''totalUSD'' = JNum (Fin 49)"
  using token_modal_toggle_price_is_stale [OF token_getShahPrice_price_env, where cfg = "[]"
      and q1 = 2 and tr = "[]" and st = token_modal_init and k = "''verifiedBadge''"]
  by (auto simp: token_modal_init_def array_toggle_def token_getTierUsd_def js_default_def)

text \<open>The pay button of the modal with an invalid configuration reports the validation
  errors and makes no external call; with a valid one the modal always leaves its
  loading state, whether the payment, the callbacks or neither succeed.\<close>

theorem token_modal_payment_guard:
  "let errs = validateTokenConfig (obj_set c ''tier'' (JStr (tier st)));
       out = token_modal_handlePayment env sys c (st, tr) in
   if errs \<noteq> [] then out = (Inr (), (st\<lparr>errors := errs\<rparr>, tr))
   else loading (fst (snd out)) = False"
  by (auto simp: token_modal_handlePayment_def js_simps Let_def split: prod.splits)

text \<open>A token configuration with a name, a symbol and numeric fields passes the
  validation exactly when the decimals lie between 0 and 18 and the supply is positive.\<close>

theorem validateTokenConfig_iff:
  assumes "obj_get cfg ''name'' = JStr n" "obj_get cfg ''symbol'' = JStr y"
    and "obj_get cfg ''decimals'' = JNum (Fin d)" "obj_get cfg ''maxSupply'' = JNum (Fin m)"
  shows "validateTokenConfig cfg = [] \<longleftrightarrow> n \<noteq> [] \<and> y \<noteq> [] \<and> 0 \<le> d \<and> d \<le> 18 \<and> 0 < m"
  using assms by (auto simp: validateTokenConfig_def blank_def Let_def Suc_le_eq)

theorem validateTokenConfig_iff_witness:
  "validateTokenConfig [(''name'', JStr ''My Token''), (''symbol'', JStr ''MTK''),
     (''decimals'', JInt 18), (''maxSupply'', JInt 1000)] = []"
  using validateTokenConfig_iff [of "[(''name'', JStr ''My Token''), (''symbol'', JStr ''MTK''),
     (''decimals'', JInt 18), (''maxSupply'', JInt 1000)]" "''My Token''" "''MTK''" 18 1000]
  by simp

end
