(* ===== verification/NFTMonetization.thy ===== *)
theory NFTMonetization
  imports Pricing
begin

text \<open>
  sdk-core/smart-contract-toolkit/NFTMonetization.js: the pricing and payment system
  of NFT creation, the payment modal's state handlers and the creation flow.  The
  file repeats the structure of the token system with its own catalogue, tiers and
  contract features; the laws it shares with it come from the two interfaces of
  Pricing.
\<close>

section \<open>NFTMonetizationSystem\<close>

definition nft_premiumAddOns :: fields where
  "nft_premiumAddOns =
    [(''customImageUpload'', JObj [(''name'', JStr ''Custom Image Upload''), (''priceUSD'', JInt 5),
        (''description'', JStr ''Upload your own artwork (SVG, PNG, GIF)'')]),
     (''verifiedBadge'', JObj [(''name'', JStr ''Verified Badge''), (''priceUSD'', JInt 10),
        (''description'', JStr ''ShahExplorer + Wallet badge'')]),
     (''unlockableContent'', JObj [(''name'', JStr ''Unlockable Content''), (''priceUSD'', JInt 8),
        (''description'', JStr ''Add secret content (text, file, video)'')]),
     (''tradeLock'', JObj [(''name'', JStr ''Trade Lock (Soulbound)''), (''priceUSD'', JInt 6),
        (''description'', JStr ''Prevent transfer - great for proof NFTs'')]),
     (''boosterTag'', JObj [(''name'', JStr ''Booster Tag''), (''priceUSD'', JInt 9),
        (''description'', JStr ''Eligible for staking/APR bonuses'')])]"

definition nft_paymentMethods :: fields where
  "nft_paymentMethods = [(''shah'', JStr ''Native SHAH''),
     (''shahToken'', JStr ''SHAHtoken (SHI-20)''), (''stripe'', JStr ''Credit Card (USD)'')]"

definition new_NFTMonetizationSystem :: "fields \<Rightarrow> monetization_system" where
  "new_NFTMonetizationSystem cfg =
     \<lparr>config = obj_spread [(''baseFeeUSD'', JInt 25),
         (''shahSwapAPI'', JStr ''https://api.shah.vip/price''),
         (''stripePublicKey'', obj_get cfg ''stripePublicKey'')] cfg,
      premiumAddOns = nft_premiumAddOns, paymentMethods = nft_paymentMethods\<rparr>"

definition nft_getTierUsd :: "jv \<Rightarrow> rat" where
  "nft_getTierUsd tr = (let t = js_default tr (JStr ''Basic'') in
     if strict_eq t (JStr ''Premium'') then 39 else if strict_eq t (JStr ''Pro'') then 25 else 15)"

definition nft_getShahPrice :: "env \<Rightarrow> monetization_system \<Rightarrow> ('s, jv) js" where
  "nft_getShahPrice env sys =
     js_catch
       (js_bind (js_ext env (Call ''fetch'' [obj_get (config sys) ''shahSwapAPI''])) (\<lambda>response.
        js_bind (js_ext env (Call ''response.json'' [response])) (\<lambda>dat.
        js_bind (js_get dat ''shah'') (\<lambda>shah. js_get shah ''usd''))))
       (\<lambda>_. js_throw (Error ''Unable to fetch current SHAH price''))"

definition nft_calculateUpgradePrice ::
  "env \<Rightarrow> monetization_system \<Rightarrow> jv \<Rightarrow> jv \<Rightarrow> ('s, jv) js" where
  "nft_calculateUpgradePrice env sys currentTier newTier =
     js_bind (nft_getShahPrice env sys) (\<lambda>shahPrice.
       let usd = num_max (Fin 0) (num_sub (Fin (nft_getTierUsd (js_default newTier (JStr ''Pro''))))
                                          (Fin (nft_getTierUsd currentTier)));
           shah = num_div usd (to_number shahPrice)
       in js_return (JObj [(''usd'', JNum usd), (''shah'', JNum shah), (''shahPrice'', shahPrice)]))"

definition nft_calculateBaseFee :: "env \<Rightarrow> monetization_system \<Rightarrow> jv \<Rightarrow> ('s, jv) js" where
  "nft_calculateBaseFee env sys tr =
     js_bind (nft_getShahPrice env sys) (\<lambda>shahPrice.
       let baseUsd = Fin (nft_getTierUsd tr);
           baseFeeSHAH = num_div baseUsd (to_number shahPrice)
       in js_return (JObj [(''usd'', JNum baseUsd), (''shah'', JNum baseFeeSHAH),
                           (''shahPrice'', shahPrice), (''tier'', js_default tr (JStr ''Basic''))]))"

text \<open>The body of the \<open>selectedAddOns.forEach\<close> loop.\<close>

definition nft_addOnStep ::
  "fields \<Rightarrow> jv \<Rightarrow> jsnum \<times> jv list \<Rightarrow> string \<Rightarrow> jsnum \<times> jv list" where
  "nft_addOnStep addOns shahPrice acc addOnKey =
     (let (addOnsTotalUSD, addOnsDetails) = acc; addOn = obj_get addOns addOnKey in
      if truthy addOn then
        (num_add addOnsTotalUSD (to_number (jopt addOn ''priceUSD'')),
         addOnsDetails @ [JObj [(''key'', JStr addOnKey), (''name'', jopt addOn ''name''),
           (''priceUSD'', jopt addOn ''priceUSD''),
           (''priceSHAH'', JNum (num_div (to_number (jopt addOn ''priceUSD'')) (to_number shahPrice)))]])
      else (addOnsTotalUSD, addOnsDetails))"

definition nft_calculateTotalPrice ::
  "env \<Rightarrow> monetization_system \<Rightarrow> string list \<Rightarrow> jv \<Rightarrow> ('s, jv) js" where
  "nft_calculateTotalPrice env sys selected options =
     (let tr = js_or (jopt options ''tier'') (JStr ''Basic'') in
      js_bind (nft_calculateBaseFee env sys tr) (\<lambda>baseFee.
      js_bind (js_get baseFee ''shahPrice'') (\<lambda>shahPrice.
      js_bind (js_get baseFee ''usd'') (\<lambda>usd.
        let (addOnsTotalUSD, addOnsDetails) =
              foldl (nft_addOnStep (premiumAddOns sys) shahPrice) (Fin 0, []) selected;
            totalUSD = num_add (to_number usd) addOnsTotalUSD;
            totalSHAH = num_div totalUSD (to_number shahPrice)
        in js_return (JObj
             [(''baseFee'', baseFee), (''tier'', tr), (''addOns'', JArr addOnsDetails),
              (''totalUSD'', JNum totalUSD), (''totalSHAH'', JNum totalSHAH),
              (''breakdown'', JObj [(''base'', usd), (''addOns'', JNum addOnsTotalUSD),
                                    (''total'', JNum totalUSD)])])))))"

definition nft_processShahPayment :: "env \<Rightarrow> jv \<Rightarrow> ('s, jv) js" where
  "nft_processShahPayment env amount =
     js_catch
       (js_bind (js_ext env (Call ''new ethers.providers.JsonRpcProvider'' [JStr ''https://rpc.shah.vip''])) (\<lambda>provider.
        js_bind (js_ext env (Call ''provider.getSigner'' [provider])) (\<lambda>signer.
        js_bind (js_ext env (Call ''new ethers.Contract'' [JStr ''SHAHFACTORY_ADDRESS'', signer])) (\<lambda>shahFactory.
        js_bind (js_get amount ''shah'') (\<lambda>shah.
        js_bind (js_lift (js_toString shah)) (\<lambda>s.
        js_bind (js_ext env (Call ''ethers.utils.parseEther'' [s])) (\<lambda>v.
        js_bind (js_ext env (Call ''shahFactory.payNFTCreationFee'' [shahFactory, JObj [(''value'', v)]])) (\<lambda>tx.
        js_bind (js_ext env (Call ''tx.wait'' [tx])) (\<lambda>receipt.
        js_bind (js_get receipt ''transactionHash'') (\<lambda>txHash.
        js_return (JObj [(''success'', JBool True), (''txHash'', txHash),
                         (''method'', JStr ''shah''), (''amount'', amount)])))))))))))
       (\<lambda>e. js_throw (Error (''SHAH payment failed: '' @ message e)))"

definition nft_processShahTokenPayment :: "env \<Rightarrow> jv \<Rightarrow> ('s, jv) js" where
  "nft_processShahTokenPayment env amount =
     js_catch
       (js_bind (js_ext env (Call ''new ethers.providers.JsonRpcProvider'' [JStr ''https://rpc.shah.vip''])) (\<lambda>provider.
        js_bind (js_ext env (Call ''provider.getSigner'' [provider])) (\<lambda>signer.
        js_bind (js_ext env (Call ''new ethers.Contract'' [JStr ''SHAHTOKEN_ADDRESS'', signer])) (\<lambda>shahToken.
        js_bind (js_get amount ''shah'') (\<lambda>shah.
        js_bind (js_lift (js_toString shah)) (\<lambda>s.
        js_bind (js_ext env (Call ''ethers.utils.parseEther'' [s])) (\<lambda>shahTokenAmount.
        js_bind (js_ext env (Call ''shahToken.approve'' [shahToken, JStr ''SHAHFACTORY_ADDRESS'', shahTokenAmount])) (\<lambda>_.
        js_bind (js_ext env (Call ''new ethers.Contract'' [JStr ''SHAHFACTORY_ADDRESS'', signer])) (\<lambda>shahFactory.
        js_bind (js_ext env (Call ''shahFactory.payWithShahToken'' [shahFactory, shahTokenAmount])) (\<lambda>tx.
        js_bind (js_ext env (Call ''tx.wait'' [tx])) (\<lambda>receipt.
        js_bind (js_get receipt ''transactionHash'') (\<lambda>txHash.
        js_return (JObj [(''success'', JBool True), (''txHash'', txHash),
                         (''method'', JStr ''shahToken''), (''amount'', amount)])))))))))))))
       (\<lambda>e. js_throw (Error (''SHAHtoken payment failed: '' @ message e)))"

definition nft_processStripePayment :: "env \<Rightarrow> monetization_system \<Rightarrow> jv \<Rightarrow> ('s, jv) js" where
  "nft_processStripePayment env sys amount =
     js_catch
       (js_bind (js_ext env (Call ''Stripe'' [obj_get (config sys) ''stripePublicKey''])) (\<lambda>stripe.
        js_bind (js_get amount ''totalUSD'') (\<lambda>totalUSD.
        js_bind (js_ext env (Call ''fetch'' [JStr ''/api/create-payment-intent'',
            JObj [(''amount'', JNum (usd_cents totalUSD)), (''currency'', JStr ''usd'')]])) (\<lambda>response.
        js_bind (js_ext env (Call ''response.json'' [response])) (\<lambda>body.
        js_bind (js_get body ''clientSecret'') (\<lambda>clientSecret.
        js_bind (js_ext env (Call ''elements.getElement'' [JStr ''card''])) (\<lambda>card.
        js_bind (js_ext env (Call ''stripe.confirmCardPayment'' [stripe, clientSecret, card, JStr ''NFT Creator''])) (\<lambda>res.
        js_bind (js_get res ''error'') (\<lambda>err.
        js_bind (js_get res ''paymentIntent'') (\<lambda>paymentIntent.
        if truthy err then js_bind (js_get err ''message'') (\<lambda>m. js_throw (new_error m))
        else js_bind (js_get paymentIntent ''id'') (\<lambda>i.
          js_return (JObj [(''success'', JBool True), (''paymentIntentId'', i),
                           (''method'', JStr ''stripe''), (''amount'', amount)]))))))))))))
       (\<lambda>e. js_throw (Error (''Stripe payment failed: '' @ message e)))"

definition nft_processPayment ::
  "env \<Rightarrow> monetization_system \<Rightarrow> string \<Rightarrow> jv \<Rightarrow> jv \<Rightarrow> ('s, jv) js" where
  "nft_processPayment env sys method amount nftConfig =
     (if method = ''shah'' then nft_processShahPayment env amount
      else if method = ''shahToken'' then nft_processShahTokenPayment env amount
      else if method = ''stripe'' then nft_processStripePayment env sys amount
      else js_throw (Error ''Invalid payment method''))"

definition nft_savePaymentData ::
  "env \<Rightarrow> jv \<Rightarrow> jv \<Rightarrow> string list \<Rightarrow> ('s, jv) js" where
  "nft_savePaymentData env paymentResult nftConfig selected =
     js_catch
       (js_bind (js_ext env (Call ''new Date().toISOString'' [])) (\<lambda>timestamp.
        js_bind (js_get paymentResult ''method'') (\<lambda>method.
        js_bind (js_get paymentResult ''amount'') (\<lambda>amount.
        js_bind (js_get paymentResult ''txHash'') (\<lambda>txHash.
        js_bind (if truthy txHash then js_return txHash
                 else js_get paymentResult ''paymentIntentId'') (\<lambda>tx.
        let paymentData = JObj [(''timestamp'', timestamp), (''paymentMethod'', method),
              (''amount'', amount), (''nftConfig'', nftConfig),
              (''selectedAddOns'', strs selected), (''txHash'', tx), (''status'', JStr ''completed'')]
        in js_bind (js_ext env (Call ''this.saveToDatabase'' [paymentData])) (\<lambda>_.
           js_return paymentData)))))))
       (\<lambda>_. js_return JUndef)"

definition validateNFTConfig :: "fields \<Rightarrow> string list" where
  "validateNFTConfig cfg =
     (if blank (obj_get cfg ''name'') then [''NFT name is required''] else []) @
     (if blank (obj_get cfg ''description'') then [''NFT description is required''] else []) @
     (if blank (obj_get cfg ''imageURI'') then [''NFT image URI is required''] else []) @
     (if truthy (obj_get cfg ''maxSupply'') \<and> num_le (to_number (obj_get cfg ''maxSupply'')) (Fin 0)
      then [''Max supply must be greater than 0''] else [])"

section \<open>NFTCreationPaymentModal\<close>

definition nft_modal_init :: modal_state where
  "nft_modal_init = \<lparr>selectedAddOns = [], paymentMethod = ''shah'', loading = False,
     priceData = JNull, errors = [], tier = ''Basic''\<rparr>"

text \<open>The arguments are read from \<open>this.state\<close> when the method is called, before the
  first await; \<open>st\<close> is that snapshot.\<close>

definition nft_modal_calculatePrice ::
  "env \<Rightarrow> monetization_system \<Rightarrow> modal_state \<Rightarrow> (modal_state, unit) js" where
  "nft_modal_calculatePrice env sys st =
     js_catch
       (js_bind (nft_calculateTotalPrice env sys (selectedAddOns st)
                   (JObj [(''tier'', JStr (tier st))])) (\<lambda>pd.
        js_update (\<lambda>s. s\<lparr>priceData := pd\<rparr>)))
       (\<lambda>e. js_update (\<lambda>s. s\<lparr>errors := [message e]\<rparr>))"

definition nft_modal_componentDidMount ::
  "env \<Rightarrow> monetization_system \<Rightarrow> (modal_state, unit) js" where
  "nft_modal_componentDidMount env sys =
     js_bind js_this (nft_modal_calculatePrice env sys)"

text \<open>In an event handler React batches \<open>setState\<close>: \<open>calculatePrice\<close>, called before the
  batch is flushed, still reads the selection the handler started with.\<close>

definition nft_modal_handleAddOnToggle ::
  "env \<Rightarrow> monetization_system \<Rightarrow> string \<Rightarrow> (modal_state, unit) js" where
  "nft_modal_handleAddOnToggle env sys addOnKey =
     js_bind js_this (\<lambda>st.
       let newSelectedAddOns =
             (if addOnKey \<in> set (selectedAddOns st)
              then filter (\<lambda>key. key \<noteq> addOnKey) (selectedAddOns st)
              else selectedAddOns st @ [addOnKey])
       in js_bind (js_update (\<lambda>s. s\<lparr>selectedAddOns := newSelectedAddOns\<rparr>)) (\<lambda>_.
          nft_modal_calculatePrice env sys st))"

definition nft_modal_handlePaymentMethodChange :: "string \<Rightarrow> (modal_state, unit) js" where
  "nft_modal_handlePaymentMethodChange method = js_update (\<lambda>s. s\<lparr>paymentMethod := method\<rparr>)"

text \<open>Here \<open>calculatePrice\<close> runs in the callback of \<open>setState\<close>, after the update.\<close>

definition nft_modal_handleTierChange ::
  "env \<Rightarrow> monetization_system \<Rightarrow> string \<Rightarrow> (modal_state, unit) js" where
  "nft_modal_handleTierChange env sys newTier =
     js_bind (js_update (\<lambda>s. s\<lparr>tier := newTier\<rparr>)) (\<lambda>_.
     js_bind js_this (nft_modal_calculatePrice env sys))"

definition nft_modal_handlePayment ::
  "env \<Rightarrow> monetization_system \<Rightarrow> fields \<Rightarrow> (modal_state, unit) js" where
  "nft_modal_handlePayment env sys nftConfig =
     js_bind js_this (\<lambda>st.
       let cfg = obj_set nftConfig ''tier'' (JStr (tier st));
           errs = validateNFTConfig cfg
       in if errs \<noteq> [] then js_update (\<lambda>s. s\<lparr>errors := errs\<rparr>)
          else js_bind (js_update (\<lambda>s. s\<lparr>loading := True, errors := []\<rparr>)) (\<lambda>_.
            js_finally
              (js_catch
                (js_bind (nft_processPayment env sys (paymentMethod st) (priceData st) (JObj cfg)) (\<lambda>paymentResult.
                 js_bind (nft_savePaymentData env paymentResult (JObj cfg) (selectedAddOns st)) (\<lambda>_.
                 js_bind (js_ext env (Call ''onSuccess'' [paymentResult, JObj cfg])) (\<lambda>_.
                 js_return ()))))
                (\<lambda>e. js_bind (js_update (\<lambda>s. s\<lparr>errors := [message e]\<rparr>)) (\<lambda>_.
                     js_bind (js_ext env (Call ''onError'' [JStr (message e)])) (\<lambda>_. js_return ()))))
              (\<lambda>s. s\<lparr>loading := False\<rparr>)))"

section \<open>NFTCreationWithMonetization\<close>

definition nft_unlockableFunction :: string where
  "nft_unlockableFunction =
    nl @
    ''    mapping(uint256 => string) private unlockableContent;'' @ nl @
    ''    '' @ nl @
    ''    function setUnlockableContent(uint256 tokenId, string memory content) public onlyOwner {'' @ nl @
    ''        unlockableContent[tokenId] = content;'' @ nl @
    ''    }'' @ nl @
    ''    '' @ nl @
    ''    function getUnlockableContent(uint256 tokenId) public view returns (string memory) {'' @ nl @
    ''        require(_exists(tokenId), '' @ [CHR 0x22] @ ''Token does not exist'' @ [CHR 0x22] @ '');'' @ nl @
    ''        return unlockableContent[tokenId];'' @ nl @
    ''    }''"

definition nft_addUnlockableContentFeature :: "string \<Rightarrow> string" where
  "nft_addUnlockableContentFeature contractCode =
     replace_first contractCode ''}'' (nft_unlockableFunction @ nl @ ''}'')"

definition nft_tradeLockFunction :: string where
  "nft_tradeLockFunction =
    nl @
    ''    mapping(uint256 => bool) private tradeLocked;'' @ nl @
    ''    '' @ nl @
    ''    function setTradeLock(uint256 tokenId, bool locked) public onlyOwner {'' @ nl @
    ''        tradeLocked[tokenId] = locked;'' @ nl @
    ''    }'' @ nl @
    ''    '' @ nl @
    ''    function isTradeLocked(uint256 tokenId) public view returns (bool) {'' @ nl @
    ''        return tradeLocked[tokenId];'' @ nl @
    ''    }'' @ nl @
    ''    '' @ nl @
    ''    function _beforeTokenTransfer('' @ nl @
    ''        address from,'' @ nl @
    ''        address to,'' @ nl @
    ''        uint256 tokenId'' @ nl @
    ''    ) internal override {'' @ nl @
    ''        require(!tradeLocked[tokenId], '' @ [CHR 0x22] @ ''Token is trade locked'' @ [CHR 0x22] @ '');'' @ nl @
    ''        super._beforeTokenTransfer(from, to, tokenId);'' @ nl @
    ''    }''"

definition nft_addTradeLockFeature :: "string \<Rightarrow> string" where
  "nft_addTradeLockFeature contractCode =
     replace_first contractCode ''}'' (nft_tradeLockFunction @ nl @ ''}'')"

definition nft_boosterFunction :: string where
  "nft_boosterFunction =
    nl @
    ''    mapping(uint256 => bool) private boosterTagged;'' @ nl @
    ''    '' @ nl @
    ''    function setBoosterTag(uint256 tokenId, bool tagged) public onlyOwner {'' @ nl @
    ''        boosterTagged[tokenId] = tagged;'' @ nl @
    ''    }'' @ nl @
    ''    '' @ nl @
    ''    function hasBoosterTag(uint256 tokenId) public view returns (bool) {'' @ nl @
    ''        return boosterTagged[tokenId];'' @ nl @
    ''    }''"

definition nft_addBoosterTagFeature :: "string \<Rightarrow> string" where
  "nft_addBoosterTagFeature contractCode =
     replace_first contractCode ''}'' (nft_boosterFunction @ nl @ ''}'')"

definition nft_generateContractWithAddOns ::
  "env \<Rightarrow> jv \<Rightarrow> string list \<Rightarrow> ('s, jv) js" where
  "nft_generateContractWithAddOns env nftConfig selected =
     js_bind (js_ext env (Call ''this.generateBaseContract'' [nftConfig])) (\<lambda>code.
     js_bind (if ''unlockableContent'' \<in> set selected
              then js_replacing nft_addUnlockableContentFeature code else js_return code) (\<lambda>code.
     js_bind (if ''tradeLock'' \<in> set selected
              then js_replacing nft_addTradeLockFeature code else js_return code) (\<lambda>code.
     if ''boosterTag'' \<in> set selected
     then js_replacing nft_addBoosterTagFeature code else js_return code)))"

definition createNFT ::
  "env \<Rightarrow> monetization_system \<Rightarrow> jv \<Rightarrow> string list \<Rightarrow> string \<Rightarrow> ('s, jv) js" where
  "createNFT env sys nftConfig selected method =
     js_bind (nft_calculateTotalPrice env sys selected
       (JObj [(''tier'', js_or (jopt nftConfig ''tier'') (JStr ''Basic''))])) (\<lambda>pd.
     js_bind (nft_processPayment env sys method pd nftConfig) (\<lambda>paymentResult.
     js_bind (nft_savePaymentData env paymentResult nftConfig selected) (\<lambda>_.
     js_bind (nft_generateContractWithAddOns env nftConfig selected) (\<lambda>contractCode.
     js_bind (js_ext env (Call ''this.deployContract'' [contractCode, nftConfig])) (\<lambda>deployedAddress.
     js_return (JObj [(''success'', JBool True), (''contractAddress'', deployedAddress),
                      (''paymentResult'', paymentResult), (''priceData'', pd)]))))))"

section \<open>Laws\<close>

interpretation nft: addon_catalogue nft_premiumAddOns "nft_addOnStep nft_premiumAddOns"
proof unfold_locales
  fix k p t ds
  show "k \<in> dom (map_of nft_premiumAddOns) \<Longrightarrow>
    nft_addOnStep nft_premiumAddOns p (t, ds) k =
      (num_add t (Fin (addon_usd nft_premiumAddOns k)), ds @ [addon_detail nft_premiumAddOns p k])"
    by (auto simp: nft_addOnStep_def nft_premiumAddOns_def addon_usd_def addon_detail_def
          obj_get_def split: if_splits)
  show "k \<notin> dom (map_of nft_premiumAddOns) \<Longrightarrow> k \<notin> set proto_keys \<Longrightarrow>
    nft_addOnStep nft_premiumAddOns p (t, ds) k = (t, ds)"
    by (simp add: nft_addOnStep_def obj_get_def domIff proto_value_undef)
  show "k \<in> set proto_keys \<Longrightarrow> fst (nft_addOnStep nft_premiumAddOns p (t, ds) k) = NaN"
    by (auto simp: nft_addOnStep_def nft_premiumAddOns_def proto_keys_def proto_value_def)
  show "k \<in> dom (map_of nft_premiumAddOns) \<Longrightarrow> 0 < addon_usd nft_premiumAddOns k"
    by (auto simp: nft_premiumAddOns_def addon_usd_def split: if_splits)
qed

lemma nft_premiumAddOns_new [simp]:
  "premiumAddOns (new_NFTMonetizationSystem cfg) = nft_premiumAddOns"
  by (simp add: new_NFTMonetizationSystem_def)

lemma nft_calculateTotalPrice_run:
  assumes "nft_getShahPrice env (new_NFTMonetizationSystem cfg) w = (Inr p, w')"
    and "\<forall>k\<in>set ks. k \<notin> set proto_keys"
    and T: "T = nft_getTierUsd (js_or (jopt opts ''tier'') (JStr ''Basic''))"
  shows "nft_calculateTotalPrice env (new_NFTMonetizationSystem cfg) ks opts w =
    (Inr (JObj
      [(''baseFee'', JObj [(''usd'', JNum (Fin T)), (''shah'', JNum (num_div (Fin T) (to_number p))),
                          (''shahPrice'', p), (''tier'', js_or (jopt opts ''tier'') (JStr ''Basic''))]),
       (''tier'', js_or (jopt opts ''tier'') (JStr ''Basic'')), (''addOns'', JArr (nft.details p ks)),
       (''totalUSD'', JNum (Fin (T + nft.sum_usd ks))),
       (''totalSHAH'', JNum (num_div (Fin (T + nft.sum_usd ks)) (to_number p))),
       (''breakdown'', JObj [(''base'', JNum (Fin T)), (''addOns'', JNum (Fin (nft.sum_usd ks))),
                            (''total'', JNum (Fin (T + nft.sum_usd ks)))])]), w')"
  using assms(1) unfolding T
  by (simp add: nft_calculateTotalPrice_def nft_calculateBaseFee_def js_simps Let_def
      nft.fold_steps [OF assms(2)])

lemma nft_calculateTotalPrice_fails:
  assumes "nft_getShahPrice env sys w = (Inl e, w')"
  shows "nft_calculateTotalPrice env sys ks opts w = (Inl e, w')"
  using assms by (simp add: nft_calculateTotalPrice_def nft_calculateBaseFee_def js_simps Let_def)

text \<open>A quote never carries the property \<open>shah\<close> that the SHAH payments read.\<close>

lemma nft_quote_shape:
  assumes "nft_calculateTotalPrice env sys ks opts w = (Inr pd, w')"
  shows "\<exists>fs. pd = JObj fs \<and> obj_get fs ''shah'' = JUndef"
  using assms
  by (auto simp: nft_calculateTotalPrice_def nft_calculateBaseFee_def js_simps Let_def
      proto_value_def proto_keys_def split: prod.splits sum.splits)

lemma nft_price_quiet:
  "avoids (\<lambda>c. is_charge c \<or> is_deploy c) (nft_calculateTotalPrice env sys ks opts)"
  unfolding nft_calculateTotalPrice_def nft_calculateBaseFee_def nft_getShahPrice_def Let_def
  by (intro avoids_intros; simp add: charge_defs)

lemma nft_pay_no_deploy: "avoids is_deploy (nft_processPayment env sys m a c)"
  unfolding nft_processPayment_def nft_processShahPayment_def
    nft_processShahTokenPayment_def nft_processStripePayment_def
  by (intro avoids_intros; simp add: charge_defs)

lemma nft_save_quiet:
  "avoids (\<lambda>c. is_charge c \<or> is_deploy c) (nft_savePaymentData env r c ks)"
  unfolding nft_savePaymentData_def Let_def
  by (intro avoids_intros; simp add: charge_defs)

lemma nft_gen_quiet:
  "avoids (\<lambda>c. is_charge c \<or> is_deploy c) (nft_generateContractWithAddOns env c ks)"
  unfolding nft_generateContractWithAddOns_def
  by (intro avoids_intros; simp add: charge_defs)

lemma nft_pay_charges:
  assumes "nft_processPayment env sys m a c w = (Inr r, w')"
  shows "charged (snd w')"
proof (cases w)
  case (Pair s tr)
  show ?thesis
    using assms unfolding Pair nft_processPayment_def nft_processShahPayment_def
      nft_processShahTokenPayment_def nft_processStripePayment_def
    by (auto simp: js_simps charged_def charge_defs split: if_splits sum.splits)
qed

interpretation nftflow: paid_creation env
  "nft_calculateTotalPrice env sys ks opts"
  "\<lambda>pd. nft_processPayment env sys m pd c"
  "\<lambda>r. nft_savePaymentData env r c ks"
  "nft_generateContractWithAddOns env c ks"
  "\<lambda>code. Call ''this.deployContract'' [code, c]"
  "\<lambda>a r pd. JObj [(''success'', JBool True), (''contractAddress'', a),
      (''paymentResult'', r), (''priceData'', pd)]"
  for env sys ks opts m c
  by unfold_locales
     (auto intro: nft_price_quiet nft_pay_no_deploy nft_pay_charges
        avoids_weaken [OF nft_save_quiet] avoids_weaken [OF nft_gen_quiet])

lemma createNFT_flow:
  "createNFT env sys c ks m =
     nftflow.flow env sys ks (JObj [(''tier'', js_or (jopt c ''tier'') (JStr ''Basic''))]) m c"
  by (simp add: createNFT_def nftflow.flow_def)

lemma nft_shah_payment_unreadable:
  assumes "obj_get fs ''shah'' = JUndef" "m = ''shah'' \<or> m = ''shahToken''"
  shows "\<exists>e w2. nft_processPayment env sys m (JObj fs) c w1 = (Inl e, w2) \<and>
           (\<exists>cs. snd w2 = snd w1 @ cs \<and> (\<forall>c\<in>set cs. \<not> is_charge c))"
proof (cases w1)
  case (Pair s tr)
  then show ?thesis
    using assms unfolding nft_processPayment_def nft_processShahPayment_def
      nft_processShahTokenPayment_def
    by (auto simp: js_simps js_toString_def charge_defs split: if_splits sum.splits)
qed

text \<open>A Stripe payment that returns made exactly the six calls of the code, in order.\<close>

lemma nft_stripe_success:
  assumes "nft_processStripePayment env sys (JObj fs) (s, tr) = (Inr r, w')"
  shows "\<exists>a b c d. w' = (s, tr @
      [Call ''Stripe'' [obj_get (config sys) ''stripePublicKey''],
       Call ''fetch'' [JStr ''/api/create-payment-intent'',
         JObj [(''amount'', JNum (usd_cents (obj_get fs ''totalUSD''))), (''currency'', JStr ''usd'')]],
       Call ''response.json'' [a], Call ''elements.getElement'' [JStr ''card''],
       Call ''stripe.confirmCardPayment'' [b, c, d, JStr ''NFT Creator'']])"
  using assms unfolding nft_processStripePayment_def
  by (auto simp: js_simps split: if_splits sum.splits)

lemma nft_sum_int: "nft.sum_usd ks \<in> \<int>"
proof -
  have "addon_usd nft_premiumAddOns k \<in> \<int>" for k
    by (auto simp: addon_usd_def nft_premiumAddOns_def)
  then show ?thesis unfolding nft.sum_usd_def by (induction ks) auto
qed

lemma nft_tier_int: "nft_getTierUsd t \<in> \<int>"
  by (auto simp: nft_getTierUsd_def Let_def)

lemma nft_getShahPrice_price_env:
  "nft_getShahPrice (price_env q) sys (s, tr) =
     (Inr (JNum (Fin q)), (s, tr @ [Call ''fetch'' [obj_get (config sys) ''shahSwapAPI''],
                                    Call ''response.json'' [JStr ''ok'']]))"
  by (simp add: nft_getShahPrice_def js_simps price_env_def)

text \<open>Each contract feature replaces the first closing brace of the code.\<close>

lemmas nft_feature_defs = nft_addUnlockableContentFeature_def nft_addTradeLockFeature_def
  nft_addBoosterTagFeature_def

lemma nft_feature_insertion:
  assumes "CHR ''}'' \<notin> set u"
  shows "nft_addUnlockableContentFeature (u @ CHR ''}'' # t) = u @ nft_unlockableFunction @ nl @ ''}'' @ t"
    "nft_addTradeLockFeature (u @ CHR ''}'' # t) = u @ nft_tradeLockFunction @ nl @ ''}'' @ t"
    "nft_addBoosterTagFeature (u @ CHR ''}'' # t) = u @ nft_boosterFunction @ nl @ ''}'' @ t"
  using assms by (simp_all add: nft_feature_defs replace_first_char)

section \<open>Properties\<close>

text \<open>C15: Whenever the SHAH price can be fetched, the NFT quote is returned; its USD total
  is the tier fee (15, 25 or 39) plus the price of every selected add-on, it does not
  depend on the order of the selection, and its SHAH total is the USD total at the
  fetched price.\<close>

theorem nft_quote_total:
  assumes "nft_getShahPrice env (new_NFTMonetizationSystem cfg) w = (Inr p, w')"
    and "\<forall>k\<in>set ks. k \<notin> set proto_keys" "mset ls = mset ks"
  shows "\<exists>pd pd'. nft_calculateTotalPrice env (new_NFTMonetizationSystem cfg) ks opts w = (Inr pd, w') \<and>
    nft_calculateTotalPrice env (new_NFTMonetizationSystem cfg) ls opts w = (Inr pd', w') \<and>
    (let total = nft_getTierUsd (js_or (jopt opts ''tier'') (JStr ''Basic'')) +
                 (\<Sum>k\<leftarrow>ks. addon_usd nft_premiumAddOns k) in
     jopt pd ''totalUSD'' = JNum (Fin total) \<and> jopt pd' ''totalUSD'' = JNum (Fin total) \<and>
     jopt pd ''totalSHAH'' = JNum (num_div (Fin total) (to_number p)) \<and> 15 \<le> total)"
proof -
  have ls: "\<forall>k\<in>set ls. k \<notin> set proto_keys" using assms(2,3) by (metis set_mset_mset)
  have "15 \<le> nft_getTierUsd t" for t by (simp add: nft_getTierUsd_def Let_def)
  then have "15 \<le> nft_getTierUsd t + nft.sum_usd ks" for t
    using nft.sum_usd_nonneg [of ks] by (meson add_increasing2)
  then show ?thesis
    using nft.sum_usd_perm [OF assms(3)]
    by (simp add: nft_calculateTotalPrice_run [OF assms(1,2) refl]
        nft_calculateTotalPrice_run [OF assms(1) ls refl] nft.sum_usd_def [symmetric] Let_def)
qed

theorem nft_quote_total_witness:
  "\<exists>pd pd' w'. nft_calculateTotalPrice (price_env 3) (new_NFTMonetizationSystem [])
       [''tradeLock'', ''boosterTag''] (JObj []) ((), []) = (Inr pd, w') \<and>
     nft_calculateTotalPrice (price_env 3) (new_NFTMonetizationSystem [])
       [''boosterTag'', ''tradeLock''] (JObj []) ((), []) = (Inr pd', w') \<and>
     jopt pd ''totalUSD'' = JNum (Fin 30) \<and> jopt pd' ''totalUSD'' = JNum (Fin 30) \<and>
     jopt pd ''totalSHAH'' = JNum (Fin 10)"
  using nft_quote_total [OF nft_getShahPrice_price_env, where ks = "[''tradeLock'', ''boosterTag'']"
      and ls = "[''boosterTag'', ''tradeLock'']" and q1 = 3 and cfg = "[]" and s1 = "()" and tr1 = "[]"
      and opts = "JObj []"]
  by (auto simp: Let_def addon_usd_def nft_premiumAddOns_def nft_getTierUsd_def js_or_def
      js_default_def proto_keys_def proto_value_def)

text \<open>C16: NFT creation never deploys before a charge, and with a SHAH payment method it
  never completes, charges nothing and deploys nothing.\<close>

theorem createNFT_payment_safety:
  "paid_before_deploy (snd (snd (createNFT env sys c ks m (s, [])))) \<and>
   (m \<in> {''shah'', ''shahToken''} \<longrightarrow>
     (\<exists>e w'. createNFT env sys c ks m (s, []) = (Inl e, w') \<and>
        (\<forall>x\<in>set (snd w'). \<not> is_charge x \<and> \<not> is_deploy x)))"
proof (intro conjI impI)
  show "paid_before_deploy (snd (snd (createNFT env sys c ks m (s, []))))"
    unfolding createNFT_flow by (rule nftflow.flow_safe) simp
next
  assume "m \<in> {''shah'', ''shahToken''}"
  then have m: "m = ''shah'' \<or> m = ''shahToken''" by simp
  have "\<exists>e w' cs. createNFT env sys c ks m (s, []) = (Inl e, w') \<and> snd w' = snd (s, [] :: call list) @ cs \<and>
           (\<forall>x\<in>set cs. \<not> is_charge x \<and> \<not> is_deploy x)"
    unfolding createNFT_flow
  proof (rule nftflow.flow_unpaid)
    fix pd and w w1 :: "'a world"
    assume "nft_calculateTotalPrice env sys ks
        (JObj [(''tier'', js_or (jopt c ''tier'') (JStr ''Basic''))]) w = (Inr pd, w1)"
    from nft_quote_shape [OF this] obtain fs where pd: "pd = JObj fs" and "obj_get fs ''shah'' = JUndef"
      by blast
    then show "\<exists>e w2. nft_processPayment env sys m pd c w1 = (Inl e, w2) \<and>
        (\<exists>cs. snd w2 = snd w1 @ cs \<and> (\<forall>c\<in>set cs. \<not> is_charge c))"
      using nft_shah_payment_unreadable [OF _ m] by (simp only: pd)
  qed
  then show "\<exists>e w'. createNFT env sys c ks m (s, []) = (Inl e, w') \<and>
        (\<forall>x\<in>set (snd w'). \<not> is_charge x \<and> \<not> is_deploy x)" by auto
qed

theorem createNFT_payment_safety_witness:
  "\<exists>e w'. createNFT (price_env 1) (new_NFTMonetizationSystem []) (JObj []) [''tradeLock''] ''shah'' ((), [])
     = (Inl e, w') \<and> (\<forall>x\<in>set (snd w'). \<not> is_charge x \<and> \<not> is_deploy x)"
  using createNFT_payment_safety [of "price_env 1" "new_NFTMonetizationSystem []" "JObj []"
      "[''tradeLock'']" "''shah''" "()"] by simp

text \<open>The trade-lock feature is spliced in at the first closing brace of the generated
  contract: for a contract whose first function body is \<open>body\<close>, the hook that should
  be a member of the contract ends up inside that function.\<close>

theorem nft_trade_lock_inside_first_function:
  assumes "CHR ''}'' \<notin> set header" "CHR ''}'' \<notin> set body"
  shows "nft_addTradeLockFeature (header @ ''{'' @ body @ ''}'' @ rest) =
           header @ ''{'' @ body @ nft_tradeLockFunction @ nl @ ''}'' @ rest"
  using nft_feature_insertion(2) [of "header @ ''{'' @ body" rest] assms by simp

theorem nft_trade_lock_inside_first_function_witness:
  "nft_addTradeLockFeature (''contract C { function f() public '' @ ''{'' @ '' x = 1; '' @ ''}'' @ '' }'') =
     ''contract C { function f() public '' @ ''{'' @ '' x = 1; '' @ nft_tradeLockFunction @ nl @ ''}'' @ '' }''"
  by (rule nft_trade_lock_inside_first_function) simp_all

end
