(* ===== verification/BundleMonetization.thy ===== *)
theory BundleMonetization
  imports TokenMonetization NFTMonetization
begin

text \<open>
  sdk-core/smart-contract-toolkit/BundleMonetization.js: the discounted token and NFT
  bundle.  The price calculation reads the constant \<open>totalWithDiscountSHAH\<close> in its own
  initialiser, which is a ReferenceError; the code after it is translated as well, as
  the continuation of that read.  ethers' BigNumber values are opaque results of
  external calls.
\<close>

section \<open>BundleMonetizationSystem\<close>

record bundle_system =
  bconfig :: fields
  tokenMonetization :: monetization_system
  nftMonetization :: monetization_system
  bpaymentMethods :: fields

definition new_BundleMonetizationSystem :: "fields \<Rightarrow> bundle_system" where
  "new_BundleMonetizationSystem cfg =
     \<lparr>bconfig = obj_spread [(''bundleDiscountUSD'', JInt 15),
         (''shahSwapAPI'', JStr ''https://api.shah.vip/price''),
         (''stripePublicKey'', obj_get cfg ''stripePublicKey'')] cfg,
      tokenMonetization = new_TokenMonetizationSystem cfg,
      nftMonetization = new_NFTMonetizationSystem cfg,
      bpaymentMethods = [(''shah'', JStr ''Native SHAH''),
        (''shahToken'', JStr ''SHAHtoken (SHI-20)''), (''stripe'', JStr ''Credit Card (USD)'')]\<rparr>"

definition bundle_getShahPrice :: "env \<Rightarrow> bundle_system \<Rightarrow> ('s, jv) js" where
  "bundle_getShahPrice env sys =
     js_catch
       (js_bind (js_ext env (Call ''fetch'' [obj_get (bconfig sys) ''shahSwapAPI''])) (\<lambda>response.
        js_bind (js_ext env (Call ''response.json'' [response])) (\<lambda>dat.
        js_bind (js_get dat ''shah'') (\<lambda>shah. js_get shah ''usd''))))
       (\<lambda>_. js_throw (Error ''Unable to fetch current SHAH price''))"

text \<open>Reading a \<open>const\<close> before its initialiser has completed.\<close>

definition uninitialised :: "string \<Rightarrow> ('s, jv) js" where
  "uninitialised x =
     js_throw (ReferenceError (''Cannot access '' @ [CHR 0x27] @ x @ [CHR 0x27] @ '' before initialization''))"

definition calculateBundlePrice ::
  "env \<Rightarrow> bundle_system \<Rightarrow> jv \<Rightarrow> jv \<Rightarrow> string list \<Rightarrow> ('s, jv) js" where
  "calculateBundlePrice env sys tokenConfig nftConfig selected =
     js_bind (bundle_getShahPrice env sys) (\<lambda>shahPrice.
     js_bind (token_calculateBaseFee env (tokenMonetization sys) JUndef) (\<lambda>tokenPrice.
     js_bind (nft_calculateTotalPrice env (nftMonetization sys) selected (JObj [])) (\<lambda>nftPrice.
     js_bind (js_get tokenPrice ''usd'') (\<lambda>tokenUsd.
     js_bind (js_get nftPrice ''totalUSD'') (\<lambda>nftUsd.
       let discount = obj_get (bconfig sys) ''bundleDiscountUSD'';
           totalWithoutDiscountUSD = num_add (to_number tokenUsd) (to_number nftUsd);
           totalWithoutDiscountSHAH = num_div totalWithoutDiscountUSD (to_number shahPrice);
           bundleDiscountSHAH = num_div (to_number discount) (to_number shahPrice);
           totalWithDiscountUSD = num_sub totalWithoutDiscountUSD (to_number discount)
       in js_bind (uninitialised ''totalWithDiscountSHAH'') (\<lambda>old.
       let totalWithDiscountSHAH = num_sub (to_number old) bundleDiscountSHAH
       in js_return (JObj
         [(''tokenPrice'', tokenPrice), (''nftPrice'', nftPrice),
          (''bundleDiscount'', JObj [(''usd'', discount), (''shah'', JNum bundleDiscountSHAH)]),
          (''pricing'', JObj
            [(''withoutDiscount'', JObj [(''usd'', JNum totalWithoutDiscountUSD), (''shah'', JNum totalWithoutDiscountSHAH)]),
             (''withDiscount'', JObj [(''usd'', JNum totalWithDiscountUSD), (''shah'', JNum totalWithDiscountSHAH)]),
             (''savings'', JObj [(''usd'', discount), (''shah'', JNum bundleDiscountSHAH),
                (''percentage'', JStr (to_fixed 1 (num_mul (num_div (to_number discount) totalWithoutDiscountUSD) (Fin 100))))])]),
          (''breakdown'', JObj
            [(''token'', JObj [(''name'', JStr ''SHI-20 Token''), (''priceUSD'', tokenUsd), (''priceSHAH'', jopt tokenPrice ''shah'')]),
             (''nft'', JObj [(''name'', JStr ''Basic NFT''), (''priceUSD'', nftUsd),
                (''priceSHAH'', jopt nftPrice ''totalSHAH''), (''addOns'', jopt nftPrice ''addOns'')]),
             (''discount'', JObj [(''name'', JStr ''Bundle Discount''), (''priceUSD'', JNum (num_neg (to_number discount))),
                (''priceSHAH'', JNum (num_neg bundleDiscountSHAH))])])])))))))"

text \<open>\<open>bundlePrice.pricing.withDiscount\<close>.\<close>

definition withDiscount :: "jv \<Rightarrow> ('s, jv) js" where
  "withDiscount bundlePrice =
     js_bind (js_get bundlePrice ''pricing'') (\<lambda>pricing. js_get pricing ''withDiscount'')"

definition processShahBundlePayment :: "env \<Rightarrow> jv \<Rightarrow> ('s, jv) js" where
  "processShahBundlePayment env bundlePrice =
     js_catch
       (js_bind (js_ext env (Call ''new ethers.providers.JsonRpcProvider'' [JStr ''https://rpc.shah.vip''])) (\<lambda>provider.
        js_bind (js_ext env (Call ''provider.getSigner'' [provider])) (\<lambda>signer.
        js_bind (js_ext env (Call ''new ethers.Contract'' [JStr ''SHAHFACTORY_ADDRESS'', signer])) (\<lambda>shahFactory.
        js_bind (withDiscount bundlePrice) (\<lambda>amount.
        js_bind (js_get amount ''shah'') (\<lambda>shah.
        js_bind (js_lift (js_toString shah)) (\<lambda>s.
        js_bind (js_ext env (Call ''ethers.utils.parseEther'' [s])) (\<lambda>v.
        js_bind (js_ext env (Call ''shahFactory.payBundleCreationFee'' [shahFactory, JObj [(''value'', v)]])) (\<lambda>tx.
        js_bind (js_ext env (Call ''tx.wait'' [tx])) (\<lambda>receipt.
        js_bind (js_get receipt ''transactionHash'') (\<lambda>txHash.
        js_bind (js_get bundlePrice ''bundleDiscount'') (\<lambda>bd.
        js_return (JObj [(''success'', JBool True), (''txHash'', txHash), (''method'', JStr ''shah''),
                         (''amount'', amount), (''bundleDiscount'', bd)])))))))))))))
       (\<lambda>e. js_throw (Error (''SHAH bundle payment failed: '' @ message e)))"

definition processShahTokenBundlePayment :: "env \<Rightarrow> jv \<Rightarrow> ('s, jv) js" where
  "processShahTokenBundlePayment env bundlePrice =
     js_catch
       (js_bind (js_ext env (Call ''new ethers.providers.JsonRpcProvider'' [JStr ''https://rpc.shah.vip''])) (\<lambda>provider.
        js_bind (js_ext env (Call ''provider.getSigner'' [provider])) (\<lambda>signer.
        js_bind (js_ext env (Call ''new ethers.Contract'' [JStr ''SHAHTOKEN_ADDRESS'', signer])) (\<lambda>shahToken.
        js_bind (withDiscount bundlePrice) (\<lambda>amount.
        js_bind (js_get amount ''shah'') (\<lambda>shah.
        js_bind (js_lift (js_toString shah)) (\<lambda>s.
        js_bind (js_ext env (Call ''ethers.utils.parseEther'' [s])) (\<lambda>shahTokenAmount.
        js_bind (js_ext env (Call ''shahToken.approve'' [shahToken, JStr ''SHAHFACTORY_ADDRESS'', shahTokenAmount])) (\<lambda>_.
        js_bind (js_ext env (Call ''new ethers.Contract'' [JStr ''SHAHFACTORY_ADDRESS'', signer])) (\<lambda>shahFactory.
        js_bind (js_ext env (Call ''shahFactory.payBundleWithShahToken'' [shahFactory, shahTokenAmount])) (\<lambda>tx.
        js_bind (js_ext env (Call ''tx.wait'' [tx])) (\<lambda>receipt.
        js_bind (js_get receipt ''transactionHash'') (\<lambda>txHash.
        js_bind (js_get bundlePrice ''bundleDiscount'') (\<lambda>bd.
        js_return (JObj [(''success'', JBool True), (''txHash'', txHash), (''method'', JStr ''shahToken''),
                         (''amount'', amount), (''bundleDiscount'', bd)])))))))))))))))
       (\<lambda>e. js_throw (Error (''SHAHtoken bundle payment failed: '' @ message e)))"

definition processStripeBundlePayment :: "env \<Rightarrow> bundle_system \<Rightarrow> jv \<Rightarrow> ('s, jv) js" where
  "processStripeBundlePayment env sys bundlePrice =
     js_catch
       (js_bind (js_ext env (Call ''Stripe'' [obj_get (bconfig sys) ''stripePublicKey''])) (\<lambda>stripe.
        js_bind (withDiscount bundlePrice) (\<lambda>amount.
        js_bind (js_get amount ''usd'') (\<lambda>usd.
        js_bind (js_ext env (Call ''fetch'' [JStr ''/api/create-bundle-payment-intent'',
            JObj [(''amount'', JNum (usd_cents usd)), (''currency'', JStr ''usd''),
                  (''bundleType'', JStr ''token-nft'')]])) (\<lambda>response.
        js_bind (js_ext env (Call ''response.json'' [response])) (\<lambda>body.
        js_bind (js_get body ''clientSecret'') (\<lambda>clientSecret.
        js_bind (js_ext env (Call ''elements.getElement'' [JStr ''card''])) (\<lambda>card.
        js_bind (js_ext env (Call ''stripe.confirmCardPayment'' [stripe, clientSecret, card, JStr ''Bundle Creator''])) (\<lambda>res.
        js_bind (js_get res ''error'') (\<lambda>err.
        js_bind (js_get res ''paymentIntent'') (\<lambda>paymentIntent.
        if truthy err then js_bind (js_get err ''message'') (\<lambda>m. js_throw (new_error m))
        else js_bind (js_get paymentIntent ''id'') (\<lambda>i.
          js_bind (js_get bundlePrice ''bundleDiscount'') (\<lambda>bd.
          js_return (JObj [(''success'', JBool True), (''paymentIntentId'', i), (''method'', JStr ''stripe''),
                           (''amount'', amount), (''bundleDiscount'', bd)]))))))))))))))
       (\<lambda>e. js_throw (Error (''Stripe bundle payment failed: '' @ message e)))"

definition processBundlePayment ::
  "env \<Rightarrow> bundle_system \<Rightarrow> string \<Rightarrow> jv \<Rightarrow> ('s, jv) js" where
  "processBundlePayment env sys method bundlePrice =
     (if method = ''shah'' then processShahBundlePayment env bundlePrice
      else if method = ''shahToken'' then processShahTokenBundlePayment env bundlePrice
      else if method = ''stripe'' then processStripeBundlePayment env sys bundlePrice
      else js_throw (Error ''Invalid payment method''))"

definition saveBundlePaymentData ::
  "env \<Rightarrow> jv \<Rightarrow> jv \<Rightarrow> jv \<Rightarrow> string list \<Rightarrow> ('s, jv) js" where
  "saveBundlePaymentData env paymentResult tokenConfig nftConfig selected =
     js_catch
       (js_bind (js_ext env (Call ''new Date().toISOString'' [])) (\<lambda>timestamp.
        js_bind (js_get paymentResult ''method'') (\<lambda>method.
        js_bind (js_get paymentResult ''amount'') (\<lambda>amount.
        js_bind (js_get paymentResult ''bundleDiscount'') (\<lambda>bd.
        js_bind (js_get paymentResult ''txHash'') (\<lambda>txHash.
        js_bind (if truthy txHash then js_return txHash
                 else js_get paymentResult ''paymentIntentId'') (\<lambda>tx.
        let paymentData = JObj [(''timestamp'', timestamp), (''paymentMethod'', method),
              (''amount'', amount), (''bundleDiscount'', bd), (''tokenConfig'', tokenConfig),
              (''nftConfig'', nftConfig), (''selectedNFTAddOns'', strs selected), (''txHash'', tx),
              (''status'', JStr ''completed''), (''bundleType'', JStr ''token-nft'')]
        in js_bind (js_ext env (Call ''this.saveToDatabase'' [paymentData])) (\<lambda>_.
           js_return paymentData))))))))
       (\<lambda>_. js_return JUndef)"

definition getAvailableNFTAddOns :: "bundle_system \<Rightarrow> fields" where
  "getAvailableNFTAddOns sys = premiumAddOns (nftMonetization sys)"

definition bundle_getPaymentMethods :: "bundle_system \<Rightarrow> fields" where
  "bundle_getPaymentMethods sys = bpaymentMethods sys"

definition validateBundleConfig :: "fields \<Rightarrow> fields \<Rightarrow> string list" where
  "validateBundleConfig tokenConfig nftConfig =
     map (\<lambda>e. ''Token: '' @ e) (validateTokenConfig tokenConfig) @
     map (\<lambda>e. ''NFT: '' @ e) (validateNFTConfig nftConfig)"

definition bundle_estimateTokenDeploymentGas :: "env \<Rightarrow> ('s, jv) js" where
  "bundle_estimateTokenDeploymentGas env =
     js_bind (js_ext env (Call ''ethers.BigNumber.from'' [JStr ''2000000''])) (\<lambda>g.
     js_return (JObj [(''gasEstimate'', g), (''costInShah'', JStr ''0.002''), (''costInUSD'', JStr ''0.50'')]))"

definition add_gas :: "env \<Rightarrow> bool \<Rightarrow> string \<Rightarrow> jv \<Rightarrow> ('s, jv) js" where
  "add_gas env sel amount baseGas =
     (if sel then js_bind (js_ext env (Call ''ethers.BigNumber.from'' [JStr amount])) (\<lambda>g.
                  js_ext env (Call ''baseGas.add'' [baseGas, g]))
      else js_return baseGas)"

definition bundle_estimateNFTDeploymentGas :: "env \<Rightarrow> string list \<Rightarrow> ('s, jv) js" where
  "bundle_estimateNFTDeploymentGas env selected =
     js_bind (js_ext env (Call ''ethers.BigNumber.from'' [JStr ''1500000''])) (\<lambda>g0.
     js_bind (add_gas env (''unlockableContent'' \<in> set selected) ''100000'' g0) (\<lambda>g1.
     js_bind (add_gas env (''tradeLock'' \<in> set selected) ''50000'' g1) (\<lambda>g2.
     js_bind (add_gas env (''boosterTag'' \<in> set selected) ''75000'' g2) (\<lambda>g3.
     js_return (JObj [(''gasEstimate'', g3), (''costInShah'', JStr ''0.0015''), (''costInUSD'', JStr ''0.38'')])))))"

text \<open>The operator \<open>+\<close> yields a number or a string, and neither has a method \<open>mul\<close>: the
  statements after that call are never reached.\<close>

definition estimateBundleDeploymentGas ::
  "env \<Rightarrow> bundle_system \<Rightarrow> string list \<Rightarrow> ('s, jv) js" where
  "estimateBundleDeploymentGas env sys selected =
     js_catch
       (js_bind (bundle_estimateTokenDeploymentGas env) (\<lambda>tokenGasEstimate.
        js_bind (bundle_estimateNFTDeploymentGas env selected) (\<lambda>nftGasEstimate.
        js_bind (js_get tokenGasEstimate ''gasEstimate'') (\<lambda>a.
        js_bind (js_get nftGasEstimate ''gasEstimate'') (\<lambda>b.
        js_bind (js_ext env (Call ''new ethers.providers.JsonRpcProvider'' [JStr ''https://rpc.shah.vip''])) (\<lambda>provider.
        js_bind (js_ext env (Call ''provider.getGasPrice'' [provider])) (\<lambda>gasPrice.
        js_throw (TypeError ''totalGasEstimate.mul is not a function''))))))))
       (\<lambda>e. js_throw (Error (''Bundle gas estimation failed: '' @ message e)))"

section \<open>BundleCreationPaymentModal\<close>

record bundle_modal =
  selectedNFTAddOns :: "string list"
  bm_paymentMethod :: string
  bm_loading :: bool
  bundlePrice :: jv
  bm_errors :: "string list"

definition bundle_modal_init :: bundle_modal where
  "bundle_modal_init = \<lparr>selectedNFTAddOns = [], bm_paymentMethod = ''shah'', bm_loading = False,
     bundlePrice = JNull, bm_errors = []\<rparr>"

definition bundle_modal_calculateBundlePrice ::
  "env \<Rightarrow> bundle_system \<Rightarrow> jv \<Rightarrow> jv \<Rightarrow> bundle_modal \<Rightarrow> (bundle_modal, unit) js" where
  "bundle_modal_calculateBundlePrice env sys tokenConfig nftConfig st =
     js_catch
       (js_bind (calculateBundlePrice env sys tokenConfig nftConfig (selectedNFTAddOns st)) (\<lambda>bp.
        js_update (\<lambda>s. s\<lparr>bundlePrice := bp\<rparr>)))
       (\<lambda>e. js_update (\<lambda>s. s\<lparr>bm_errors := [message e]\<rparr>))"

definition bundle_modal_componentDidMount ::
  "env \<Rightarrow> bundle_system \<Rightarrow> jv \<Rightarrow> jv \<Rightarrow> (bundle_modal, unit) js" where
  "bundle_modal_componentDidMount env sys tc nc =
     js_bind js_this (bundle_modal_calculateBundlePrice env sys tc nc)"

definition bundle_modal_handleNFTAddOnToggle ::
  "env \<Rightarrow> bundle_system \<Rightarrow> jv \<Rightarrow> jv \<Rightarrow> string \<Rightarrow> (bundle_modal, unit) js" where
  "bundle_modal_handleNFTAddOnToggle env sys tc nc addOnKey =
     js_bind js_this (\<lambda>st.
       let newSelected = (if addOnKey \<in> set (selectedNFTAddOns st)
              then filter (\<lambda>key. key \<noteq> addOnKey) (selectedNFTAddOns st)
              else selectedNFTAddOns st @ [addOnKey])
       in js_bind (js_update (\<lambda>s. s\<lparr>selectedNFTAddOns := newSelected\<rparr>)) (\<lambda>_.
          bundle_modal_calculateBundlePrice env sys tc nc st))"

definition bundle_modal_handlePaymentMethodChange :: "string \<Rightarrow> (bundle_modal, unit) js" where
  "bundle_modal_handlePaymentMethodChange method = js_update (\<lambda>s. s\<lparr>bm_paymentMethod := method\<rparr>)"

definition bundle_modal_handlePayment ::
  "env \<Rightarrow> bundle_system \<Rightarrow> fields \<Rightarrow> fields \<Rightarrow> (bundle_modal, unit) js" where
  "bundle_modal_handlePayment env sys tokenConfig nftConfig =
     js_bind js_this (\<lambda>st.
       let errs = validateBundleConfig tokenConfig nftConfig
       in if errs \<noteq> [] then js_update (\<lambda>s. s\<lparr>bm_errors := errs\<rparr>)
          else js_bind (js_update (\<lambda>s. s\<lparr>bm_loading := True, bm_errors := []\<rparr>)) (\<lambda>_.
            js_finally
              (js_catch
                (js_bind (processBundlePayment env sys (bm_paymentMethod st) (bundlePrice st)) (\<lambda>paymentResult.
                 js_bind (saveBundlePaymentData env paymentResult (JObj tokenConfig) (JObj nftConfig)
                            (selectedNFTAddOns st)) (\<lambda>_.
                 js_bind (js_ext env (Call ''onSuccess'' [paymentResult])) (\<lambda>_. js_return ()))))
                (\<lambda>e. js_bind (js_update (\<lambda>s. s\<lparr>bm_errors := [message e]\<rparr>)) (\<lambda>_.
                     js_bind (js_ext env (Call ''onError'' [JStr (message e)])) (\<lambda>_. js_return ()))))
              (\<lambda>s. s\<lparr>bm_loading := False\<rparr>)))"

section \<open>BundleCreationWithMonetization\<close>

definition bundle_mock_contracts :: "env \<Rightarrow> ('s, jv) js" where
  "bundle_mock_contracts env =
     js_bind (js_ext env (Call ''new Date().toISOString'' [])) (\<lambda>t.
     js_return (JObj [(''tokenAddress'', JStr ''0x1234567890123456789012345678901234567890''),
       (''nftAddress'', JStr ''0x0987654321098765432109876543210987654321''), (''deployedAt'', t)]))"

definition createBundle ::
  "env \<Rightarrow> bundle_system \<Rightarrow> jv \<Rightarrow> jv \<Rightarrow> string list \<Rightarrow> string \<Rightarrow> ('s, jv) js" where
  "createBundle env sys tokenConfig nftConfig selected method =
     js_bind (calculateBundlePrice env sys tokenConfig nftConfig selected) (\<lambda>bp.
     js_bind (processBundlePayment env sys method bp) (\<lambda>paymentResult.
     js_bind (saveBundlePaymentData env paymentResult tokenConfig nftConfig selected) (\<lambda>_.
     js_bind (bundle_mock_contracts env) (\<lambda>contractResult.
     js_bind (js_get contractResult ''tokenAddress'') (\<lambda>ta.
     js_bind (js_get contractResult ''nftAddress'') (\<lambda>na.
     js_return (JObj [(''success'', JBool True), (''tokenAddress'', ta), (''nftAddress'', na),
                      (''paymentResult'', paymentResult), (''bundlePrice'', bp)])))))))"

section \<open>Laws\<close>

lemma uninitialised_throw [simp]: "js_bind (uninitialised x) f =
    js_throw (ReferenceError (''Cannot access '' @ [CHR 0x27] @ x @ [CHR 0x27] @ '' before initialization''))"
  by (simp add: uninitialised_def)

lemma calculateBundlePrice_throws: "always_throws (calculateBundlePrice env sys tc nc ks)"
  unfolding calculateBundlePrice_def Let_def uninitialised_throw by (intro throws_intros)

lemmas price_code_defs = calculateBundlePrice_def bundle_getShahPrice_def token_calculateBaseFee_def
  token_getShahPrice_def nft_calculateTotalPrice_def nft_calculateBaseFee_def nft_getShahPrice_def

lemma calculateBundlePrice_quiet:
  "avoids (\<lambda>c. is_charge c \<or> is_deploy c) (calculateBundlePrice env sys tc nc ks)"
  unfolding price_code_defs Let_def uninitialised_throw
  by (intro avoids_intros; simp add: charge_defs)

lemma calculateBundlePrice_keeps: "keeps_state (calculateBundlePrice env sys tc nc ks)"
  unfolding price_code_defs Let_def uninitialised_throw by (intro keeps_intros)

lemma withDiscount_null [simp]: "withDiscount JNull = js_throw (cannot_read ''null'' ''pricing'')"
  by (simp add: withDiscount_def js_get_def js_lift_def js_bind_def js_throw_def)

lemmas bundle_pay_defs = processBundlePayment_def processShahBundlePayment_def
  processShahTokenBundlePayment_def processStripeBundlePayment_def

lemma null_bundle_payment:
  "always_throws (processBundlePayment env sys m JNull)"
  "avoids (\<lambda>c. is_charge c \<or> is_deploy c) (processBundlePayment env sys m JNull)"
  "keeps_state (processBundlePayment env sys m JNull)"
  unfolding bundle_pay_defs withDiscount_null js_bind_throw
  by (intro throws_intros, (intro avoids_intros; simp add: charge_defs), intro keeps_intros)

section \<open>The modal as a state machine\<close>

text \<open>The events of the payment modal, in any order, on any environment.\<close>

inductive bundle_modal_step ::
  "env \<Rightarrow> bundle_system \<Rightarrow> fields \<Rightarrow> fields \<Rightarrow> bundle_modal world \<Rightarrow> bundle_modal world \<Rightarrow> bool"
  for env sys tc nc where
  mount: "bundle_modal_step env sys tc nc w (snd (bundle_modal_componentDidMount env sys (JObj tc) (JObj nc) w))"
| toggle: "bundle_modal_step env sys tc nc w (snd (bundle_modal_handleNFTAddOnToggle env sys (JObj tc) (JObj nc) k w))"
| set_method: "bundle_modal_step env sys tc nc w (snd (bundle_modal_handlePaymentMethodChange m w))"
| pay: "bundle_modal_step env sys tc nc w (snd (bundle_modal_handlePayment env sys tc nc w))"

inductive bundle_modal_reach ::
  "env \<Rightarrow> bundle_system \<Rightarrow> fields \<Rightarrow> fields \<Rightarrow> bundle_modal world \<Rightarrow> bool"
  for env sys tc nc where
  init: "bundle_modal_reach env sys tc nc (bundle_modal_init, [])"
| step: "bundle_modal_reach env sys tc nc w \<Longrightarrow> bundle_modal_step env sys tc nc w w'
    \<Longrightarrow> bundle_modal_reach env sys tc nc w'"

definition unpriced :: "bundle_modal world \<Rightarrow> bool" where
  "unpriced w = (bundlePrice (fst w) = JNull \<and> (\<forall>c\<in>set (snd w). \<not> is_charge c))"

lemma bundle_modal_calculate_run:
  "\<exists>e cs. bundle_modal_calculateBundlePrice env sys tc nc st (s, tr) =
     (Inr (), (s\<lparr>bm_errors := [message e]\<rparr>, tr @ cs)) \<and> (\<forall>c\<in>set cs. \<not> (is_charge c \<or> is_deploy c))"
proof -
  obtain e cs where "calculateBundlePrice env sys tc nc (selectedNFTAddOns st) (s, tr) = (Inl e, (s, tr @ cs))"
    "\<forall>c\<in>set cs. \<not> (is_charge c \<or> is_deploy c)"
    using always_throws_run [OF calculateBundlePrice_throws calculateBundlePrice_quiet
        calculateBundlePrice_keeps, where s = s and tr = tr] by blast
  then show ?thesis
    by (intro exI [of _ e] exI [of _ cs]) (simp add: bundle_modal_calculateBundlePrice_def js_simps)
qed

lemma unpriced_calculate:
  assumes "unpriced (s, tr)"
  shows "unpriced (snd (bundle_modal_calculateBundlePrice env sys tc nc st (s, tr)))"
proof -
  obtain e cs where "bundle_modal_calculateBundlePrice env sys tc nc st (s, tr) =
     (Inr (), (s\<lparr>bm_errors := [message e]\<rparr>, tr @ cs))" "\<forall>c\<in>set cs. \<not> (is_charge c \<or> is_deploy c)"
    using bundle_modal_calculate_run by blast
  then show ?thesis using assms by (auto simp: unpriced_def)
qed

lemma unpriced_pay:
  assumes "unpriced (s, tr)"
  shows "unpriced (snd (bundle_modal_handlePayment env sys tc nc (s, tr)))"
proof -
  let ?s = "s\<lparr>bm_loading := True, bm_errors := []\<rparr>"
  let ?pay = "processBundlePayment env sys (bm_paymentMethod s) (bundlePrice s)"
  have bp: "bundlePrice s = JNull" using assms by (simp add: unpriced_def)
  obtain e cs where p: "?pay (?s, tr) = (Inl e, (?s, tr @ cs))"
    and cs: "\<forall>c\<in>set cs. \<not> (is_charge c \<or> is_deploy c)"
    unfolding bp using always_throws_run [OF null_bundle_payment, where s = ?s and tr = tr] by blast
  have onError: "\<not> is_charge (Call ''onError'' xs)" for xs by (simp add: charge_defs)
  show ?thesis
  proof (cases "validateBundleConfig tc nc = []")
    case True
    have "snd (bundle_modal_handlePayment env sys tc nc (s, tr)) =
        (s\<lparr>bm_loading := False, bm_errors := [message e]\<rparr>, tr @ cs @ [Call ''onError'' [JStr (message e)]])"
      by (simp add: bundle_modal_handlePayment_def js_simps Let_def True p split: sum.split)
    then show ?thesis using assms cs onError by (auto simp: unpriced_def)
  next
    case False
    then show ?thesis
      using assms by (simp add: bundle_modal_handlePayment_def js_simps Let_def unpriced_def)
  qed
qed

lemma unpriced_step:
  assumes "bundle_modal_step env sys tc nc w w'" "unpriced w"
  shows "unpriced w'"
  using assms(1)
proof (cases rule: bundle_modal_step.cases)
  case mount
  then show ?thesis using assms(2) unpriced_calculate
    by (cases w) (simp add: bundle_modal_componentDidMount_def js_simps)
next
  case (toggle k)
  have "unpriced (s\<lparr>selectedNFTAddOns := ks\<rparr>, tr)" if "w = (s, tr)" for s tr ks
    using assms(2) that by (simp add: unpriced_def)
  then show ?thesis using toggle unpriced_calculate
    by (cases w) (simp add: bundle_modal_handleNFTAddOnToggle_def js_simps Let_def)
next
  case (set_method m)
  then show ?thesis using assms(2)
    by (cases w) (simp add: bundle_modal_handlePaymentMethodChange_def js_simps unpriced_def)
next
  case pay
  then show ?thesis using assms(2) unpriced_pay by (cases w) simp
qed

section \<open>Properties\<close>

text \<open>C24: The bundle price is never computed: on every environment the calculation throws,
  without a charge or a deployment, and hence so does the creation of a bundle.\<close>

theorem createBundle_never_completes:
  "\<exists>e w'. createBundle env sys tc nc ks m (s, tr) = (Inl e, w') \<and>
     (\<exists>cs. snd w' = tr @ cs \<and> (\<forall>c\<in>set cs. \<not> is_charge c \<and> \<not> is_deploy c))"
proof -
  obtain e w' where c: "calculateBundlePrice env sys tc nc ks (s, tr) = (Inl e, w')"
    using always_throwsE [OF calculateBundlePrice_throws] .
  then have "createBundle env sys tc nc ks m (s, tr) = (Inl e, w')"
    by (simp add: createBundle_def js_bind_apply)
  then show ?thesis using avoidsD [OF calculateBundlePrice_quiet c] by auto
qed

theorem createBundle_never_completes_witness:
  "\<exists>e w'. createBundle (stripe_env 2) (new_BundleMonetizationSystem []) (JObj []) (JObj []) [] ''stripe'' ((), []) = (Inl e, w') \<and>
     (\<exists>cs. snd w' = [] @ cs \<and> (\<forall>c\<in>set cs. \<not> is_charge c \<and> \<not> is_deploy c))"
  by (rule createBundle_never_completes)

text \<open>In every reachable state of the bundle payment modal the price is still unset and
  no charge has been attempted, whatever the user clicks and whatever the services answer.\<close>

theorem bundle_modal_never_charges:
  assumes "bundle_modal_reach env sys tc nc w"
  shows "bundlePrice (fst w) = JNull \<and> (\<forall>c\<in>set (snd w). \<not> is_charge c)"
proof -
  from assms have "unpriced w"
  proof induction
    case init
    then show ?case by (simp add: unpriced_def bundle_modal_init_def)
  next
    case (step w w')
    then show ?case by (blast intro: unpriced_step)
  qed
  then show ?thesis by (simp add: unpriced_def)
qed

theorem bundle_modal_never_charges_witness:
  "let w = snd (bundle_modal_handlePaymentMethodChange ''stripe'' (bundle_modal_init, [])) in
   bundle_modal_reach (stripe_env 2) (new_BundleMonetizationSystem []) [] [] w \<and>
   bundlePrice (fst w) = JNull \<and> (\<forall>c\<in>set (snd w). \<not> is_charge c)"
proof -
  let ?w = "snd (bundle_modal_handlePaymentMethodChange ''stripe'' (bundle_modal_init, []))"
  have r: "bundle_modal_reach (stripe_env 2) (new_BundleMonetizationSystem []) [] [] ?w"
    by (rule bundle_modal_reach.step [OF bundle_modal_reach.init bundle_modal_step.set_method])
  show ?thesis using r bundle_modal_never_charges [OF r] by (simp add: Let_def)
qed

text \<open>The gas estimate of a bundle deployment always fails: the sum of the two
  estimates is not a big number and cannot be multiplied by the gas price.\<close>

theorem estimateBundleDeploymentGas_always_fails:
  "\<exists>e. fst (estimateBundleDeploymentGas env sys ks w) = Inl e \<and>
     starts_with (message e) ''Bundle gas estimation failed: ''"
proof -
  have "hoare (\<lambda>_. True) (estimateBundleDeploymentGas env sys ks) (\<lambda>_ _. False)
      (\<lambda>e _. starts_with (message e) ''Bundle gas estimation failed: '')"
    unfolding estimateBundleDeploymentGas_def
    by (intro hoare_catch [where R = "\<lambda>_ _. True"] hoare_bind [where R = "\<lambda>_ _. True"] hoare_true hoare_throw)
       (simp_all add: starts_with_def)
  then show ?thesis
    by (cases "estimateBundleDeploymentGas env sys ks w"; cases "fst (estimateBundleDeploymentGas env sys ks w)")
       (auto dest: hoareD_ok hoareD_err)
qed

end
