(* ===== verification/Sessions.thy ===== *)
theory Sessions
  imports Pricing
begin

text \<open>
  What the token and NFT creation integrations share: the session object, the
  integration object that holds at most one session, and the interface of the
  payment-then-deployment procedure with the laws of its session states.

  A method of an integration is one atomic step; the interleaving of two methods
  of the same object at their await points is not modelled.
\<close>

section \<open>Session objects\<close>

record creation_session =
  s_id :: string
  s_config :: fields
  s_addOns :: "string list"
  s_method :: string
  s_tier :: jv
  s_priceData :: jv
  s_status :: string
  s_createdAt :: jv
  s_paymentResult :: jv
  s_contractResult :: jv
  s_error :: jv

record integration =
  monetizationSystem :: monetization_system
  isInitialized :: bool
  currentSession :: "creation_session option"

definition session_statuses :: "string list" where
  "session_statuses = [''created'', ''processing_payment'', ''payment_completed'', ''completed'', ''failed'']"

definition upd_session :: "(creation_session \<Rightarrow> creation_session) \<Rightarrow> (integration, unit) js" where
  "upd_session f = js_update (\<lambda>i. i\<lparr>currentSession := map_option f (currentSession i)\<rparr>)"

definition the_session :: "(integration, creation_session) js" where
  "the_session = js_bind js_this (\<lambda>i. case currentSession i of
      Some s \<Rightarrow> js_return s | None \<Rightarrow> js_throw (cannot_read ''null'' ''status''))"

text \<open>The session as the object the methods return.\<close>

definition session_obj :: "string \<Rightarrow> creation_session \<Rightarrow> jv" where
  "session_obj cfgKey s = JObj [(''id'', JStr (s_id s)), (cfgKey, JObj (s_config s)),
     (''selectedAddOns'', strs (s_addOns s)), (''paymentMethod'', JStr (s_method s)),
     (''tier'', s_tier s), (''priceData'', s_priceData s), (''status'', JStr (s_status s)),
     (''createdAt'', s_createdAt s)]"

text \<open>\<open>name.replace(/\s+/g, '')\<close> on a string.\<close>

definition strip_ws :: "jv \<Rightarrow> js_error + string" where
  "strip_ws v = (case v of JStr s \<Rightarrow> Inr (filter (\<lambda>c. \<not> is_space c) s)
     | JUndef \<Rightarrow> Inl (cannot_read ''undefined'' ''replace'')
     | JNull \<Rightarrow> Inl (cannot_read ''null'' ''replace'')
     | _ \<Rightarrow> Inl (TypeError ''name.replace is not a function''))"

text \<open>\<open>receipt.events.find(e => e.event === name)?.args?.key\<close>.\<close>

fun find_event :: "string \<Rightarrow> jv list \<Rightarrow> js_error + jv" where
  "find_event name [] = Inr JUndef"
| "find_event name (e # es) = (case jget e ''event'' of Inl err \<Rightarrow> Inl err
     | Inr v \<Rightarrow> if strict_eq v (JStr name) then Inr e else find_event name es)"

definition event_arg :: "string \<Rightarrow> string \<Rightarrow> jv \<Rightarrow> js_error + jv" where
  "event_arg name key receipt = (case jget receipt ''events'' of Inl e \<Rightarrow> Inl e
     | Inr (JArr es) \<Rightarrow> (case find_event name es of Inl e \<Rightarrow> Inl e
          | Inr ev \<Rightarrow> Inr (jopt (jopt ev ''args'') key))
     | Inr JUndef \<Rightarrow> Inl (cannot_read ''undefined'' ''find'')
     | Inr JNull \<Rightarrow> Inl (cannot_read ''null'' ''find'')
     | Inr _ \<Rightarrow> Inl (TypeError ''receipt.events.find is not a function''))"

text \<open>The result of \<open>validateSession\<close>.\<close>

definition invalid_session :: "string \<Rightarrow> jv" where
  "invalid_session m = JObj [(''valid'', JBool False), (''error'', JStr m)]"

definition valid_session :: jv where
  "valid_session = JObj [(''valid'', JBool True)]"

section \<open>The interface of a paid session\<close>

definition session_ok :: "integration world \<Rightarrow> bool" where
  "session_ok w = (paid_before_deploy (snd w) \<and>
     (case currentSession (fst w) of None \<Rightarrow> True
      | Some s \<Rightarrow> s_status s \<in> set session_statuses \<and>
          (s_status s \<in> {''payment_completed'', ''completed''} \<longrightarrow> charged (snd w))))"

lemma session_ok_none: "paid_before_deploy (snd w) \<Longrightarrow> currentSession (fst w) = None \<Longrightarrow> session_ok w"
  by (simp add: session_ok_def)

lemma session_ok_mono:
  assumes "session_ok w" "snd w' = snd w @ cs" "\<forall>c\<in>set cs. \<not> is_deploy c"
    "map_option s_status (currentSession (fst w')) = map_option s_status (currentSession (fst w))"
  shows "session_ok w'"
proof -
  have "paid_before_deploy (snd w')"
    using assms(1-3) by (simp add: session_ok_def paid_before_deploy_append)
  moreover have "charged (snd w) \<Longrightarrow> charged (snd w')" using assms(2) by (auto simp: charged_def)
  ultimately show ?thesis
    using assms(1,4) unfolding session_ok_def
    by (cases "currentSession (fst w)"; cases "currentSession (fst w')") auto
qed

abbreviation session_paid :: "integration world \<Rightarrow> bool" where
  "session_paid w \<equiv> session_ok w \<and> charged (snd w)"

lemma hoare_update: "(\<And>s tr. P (s, tr) \<Longrightarrow> Q () (f s, tr)) \<Longrightarrow> hoare P (js_update f) Q E"
  by (auto simp: hoare_def js_update_def)

lemma hoare_the_session: "hoare P the_session (\<lambda>_. P) (\<lambda>_. P)"
  by (auto simp: hoare_def the_session_def js_simps split: option.splits)

lemma session_ok_status:
  assumes "session_ok (i, tr)" "\<And>s. s_status (f s) = st" "st \<in> set session_statuses"
    "st \<in> {''payment_completed'', ''completed''} \<longrightarrow> charged tr"
  shows "session_ok (i\<lparr>currentSession := map_option f (currentSession i)\<rparr>, tr)"
  using assms by (auto simp: session_ok_def split: option.splits)

lemma hoare_upd_unpaid:
  assumes "\<And>s. s_status (f s) = st" "st \<in> set session_statuses" "st \<notin> {''payment_completed'', ''completed''}"
  shows "hoare session_ok (upd_session f) (\<lambda>_. session_ok) (\<lambda>_. session_ok)"
  unfolding upd_session_def
  by (rule hoare_update) (use assms in \<open>auto intro: session_ok_status\<close>)

lemma hoare_upd_paid:
  assumes "\<And>s. s_status (f s) = st" "st \<in> set session_statuses"
  shows "hoare session_paid (upd_session f) (\<lambda>_. session_paid) (\<lambda>_. session_ok)"
  unfolding upd_session_def
  by (rule hoare_update) (use assms in \<open>auto intro: session_ok_status\<close>)

lemma hoare_quiet_session:
  assumes "avoids is_deploy m"
    and "\<And>w r w'. m w = (r, w') \<Longrightarrow>
      map_option s_status (currentSession (fst w')) = map_option s_status (currentSession (fst w))"
  shows "hoare session_ok m (\<lambda>_. session_ok) (\<lambda>_. session_ok)"
  by (rule hoareI) (metis assms avoidsD session_ok_mono)+

lemma keeps_status:
  "keeps_state m \<Longrightarrow> m w = (r, w') \<Longrightarrow>
   map_option s_status (currentSession (fst w')) = map_option s_status (currentSession (fst w))"
  unfolding keeps_state_def by (metis snd_conv)

lemma hoare_paid_session:
  assumes "avoids B m" "keeps_state m"
  shows "hoare session_paid m (\<lambda>_. session_paid) (\<lambda>_. session_ok)"
proof -
  have "session_paid w'" if w: "session_paid w" and m: "m w = (r, w')" for w r w'
  proof -
    obtain cs where cs: "snd w' = snd w @ cs" using avoidsD [OF assms(1) m] by blast
    have "fst w' = fst w" using assms(2) m unfolding keeps_state_def by (metis snd_conv)
    moreover have "charged (snd w')" using w cs by (auto simp: charged_def)
    moreover have "paid_before_deploy (snd w')"
      unfolding cs using w by (auto simp: session_ok_def charged_def intro: paid_before_deploy_charged)
    ultimately show ?thesis using w by (auto simp: session_ok_def split: option.splits)
  qed
  then show ?thesis by (blast intro: hoareI)
qed

lemma avoids_the_session [avoids_intros]: "avoids B the_session"
  by (rule avoids_pure) (auto simp: the_session_def js_defs split: option.splits)

lemma keeps_the_session [keeps_intros]: "keeps_state the_session"
  by (auto simp: the_session_def keeps_state_def js_defs split: option.splits)

lemma keeps_replacing [keeps_intros]: "keeps_state (js_replacing f v)"
  by (cases v) (simp_all add: js_replacing_def keeps_intros)

lemma avoids_case_option [avoids_intros]:
  "avoids B m \<Longrightarrow> (\<And>x. avoids B (f x)) \<Longrightarrow> avoids B (case y of None \<Rightarrow> m | Some x \<Rightarrow> f x)"
  by (cases y) simp_all

lemma avoids_upd_session [avoids_intros]: "avoids B (upd_session f)"
  by (simp add: upd_session_def avoids_update)

lemma session_inv_keeps:
  assumes "avoids is_deploy m" "keeps_state m"
  shows "js_inv session_ok m"
  unfolding js_inv_def by (rule hoare_quiet_session [OF assms(1) keeps_status [OF assms(2)]])

lemma session_inv_upd:
  assumes "\<And>s. s_status (f s) = s_status s"
  shows "js_inv session_ok (upd_session f)"
  using assms by (intro js_invI) (auto simp: upd_session_def js_update_def session_ok_def split: option.splits)

lemma session_inv_ext: "\<not> is_deploy c \<Longrightarrow> js_inv session_ok (js_ext env c)"
  by (rule session_inv_keeps) (simp_all add: avoids_ext keeps_basic)

lemma session_inv_the: "js_inv session_ok the_session"
  by (rule session_inv_keeps) (intro avoids_intros keeps_intros)+

lemma js_inv_case_option [inv_intros]:
  "js_inv I m \<Longrightarrow> (\<And>x. js_inv I (f x)) \<Longrightarrow> js_inv I (case y of None \<Rightarrow> m | Some x \<Rightarrow> f x)"
  by (cases y) simp_all

locale session_flow =
  fixes msg :: string
    and update :: "(integration, jv) js"
    and pay :: "integration \<Rightarrow> creation_session \<Rightarrow> (integration, jv) js"
    and save :: "jv \<Rightarrow> creation_session \<Rightarrow> (integration, jv) js"
    and deploy :: "(integration, jv) js"
    and cfgKey :: string
  assumes update_quiet: "avoids (\<lambda>c. is_charge c \<or> is_deploy c) update"
    and update_status: "update w = (r, w') \<Longrightarrow>
      map_option s_status (currentSession (fst w')) = map_option s_status (currentSession (fst w))"
    and pay_no_deploy: "avoids is_deploy (pay i s)"
    and pay_keeps: "keeps_state (pay i s)"
    and pay_charges: "pay i s w = (Inr x, w') \<Longrightarrow> charged (snd w')"
    and save_no_deploy: "avoids is_deploy (save x s)"
    and save_keeps: "keeps_state (save x s)"
    and deploy_extends: "avoids (\<lambda>_. False) deploy"
    and deploy_keeps: "keeps_state deploy"
begin

definition body :: "integration \<Rightarrow> (integration, jv) js" where
  "body i =
     js_bind (upd_session (\<lambda>s. s\<lparr>s_status := ''processing_payment''\<rparr>)) (\<lambda>_.
     js_bind the_session (\<lambda>s.
     js_bind (pay i s) (\<lambda>paymentResult.
     js_bind (save paymentResult s) (\<lambda>_.
     js_bind (upd_session (\<lambda>s. s\<lparr>s_status := ''payment_completed'', s_paymentResult := paymentResult\<rparr>)) (\<lambda>_.
     js_bind deploy (\<lambda>contractResult.
     js_bind (upd_session (\<lambda>s. s\<lparr>s_status := ''completed'', s_contractResult := contractResult\<rparr>)) (\<lambda>_.
     js_bind the_session (\<lambda>s'.
     js_bind (js_get contractResult ''contractAddress'') (\<lambda>addr.
     js_return (JObj [(''success'', JBool True), (''session'', session_obj cfgKey s'),
       (''contractAddress'', addr), (''paymentResult'', paymentResult)]))))))))))"

definition process :: "(integration, jv) js" where
  "process = js_bind js_this (\<lambda>i. case currentSession i of None \<Rightarrow> js_throw (Error msg)
     | Some s0 \<Rightarrow>
         js_bind (if truthy (s_priceData s0) then js_return JUndef else update) (\<lambda>_.
         js_catch (body i)
           (\<lambda>e. js_bind (upd_session (\<lambda>s. s\<lparr>s_status := ''failed'', s_error := JStr (message e)\<rparr>)) (\<lambda>_.
                js_throw e))))"

lemma update_hoare: "hoare session_ok update (\<lambda>_. session_ok) (\<lambda>_. session_ok)"
proof (rule hoare_quiet_session)
  show "avoids is_deploy update" using update_quiet unfolding avoids_def by blast
qed (rule update_status)

lemma pay_hoare: "hoare session_ok (pay i s) (\<lambda>_. session_paid) (\<lambda>_. session_ok)"
proof -
  have "hoare session_ok (pay i s) (\<lambda>_. session_ok) (\<lambda>_. session_ok)"
    by (rule hoare_quiet_session [OF pay_no_deploy keeps_status [OF pay_keeps]])
  then show ?thesis
    by (intro hoareI conjI) (blast dest: hoareD_ok hoareD_err intro: pay_charges)+
qed

lemma body_hoare: "hoare session_ok (body i) (\<lambda>_. session_paid) (\<lambda>_. session_ok)"
proof -
  have 1: "hoare session_ok (upd_session (\<lambda>s. s\<lparr>s_status := ''processing_payment''\<rparr>))
      (\<lambda>_. session_ok) (\<lambda>_. session_ok)"
    by (rule hoare_upd_unpaid [where st = "''processing_payment''"]) (simp_all add: session_statuses_def)
  have 2: "hoare session_paid (upd_session (\<lambda>s. s\<lparr>s_status := ''payment_completed'', s_paymentResult := x\<rparr>))
      (\<lambda>_. session_paid) (\<lambda>_. session_ok)" for x
    by (rule hoare_upd_paid [where st = "''payment_completed''"]) (simp_all add: session_statuses_def)
  have 3: "hoare session_paid (upd_session (\<lambda>s. s\<lparr>s_status := ''completed'', s_contractResult := x\<rparr>))
      (\<lambda>_. session_paid) (\<lambda>_. session_ok)" for x
    by (rule hoare_upd_paid [where st = "''completed''"]) (simp_all add: session_statuses_def)
  have 4: "hoare session_paid the_session (\<lambda>_. session_paid) (\<lambda>_. session_ok)"
    by (rule hoare_conseq [OF hoare_the_session [where P = session_paid]]) auto
  have 5: "hoare session_paid (js_get v k) (\<lambda>_. session_paid) (\<lambda>_. session_ok)" for v k
    unfolding js_get_def by (rule hoare_lift) auto
  show ?thesis
    unfolding body_def
    apply (rule hoare_bind [OF 1])
    apply (rule hoare_bind [OF hoare_the_session])
    apply (rule hoare_bind [OF pay_hoare])
    apply (rule hoare_bind [OF hoare_paid_session [OF save_no_deploy save_keeps]])
    apply (rule hoare_bind [OF 2])
    apply (rule hoare_bind [OF hoare_paid_session [OF deploy_extends deploy_keeps]])
    apply (rule hoare_bind [OF 3])
    apply (rule hoare_bind [OF 4])
    apply (rule hoare_bind [OF 5])
    apply (rule hoare_return, assumption)
    done
qed

text \<open>The procedure keeps the session invariant; when it returns, the session is completed
  and paid, and when the guarded part throws, the session is failed.\<close>

lemma process_hoare: "hoare session_ok process (\<lambda>_. session_paid) (\<lambda>_. session_ok)"
proof (rule hoareI)
  have handler: "hoare session_ok
      (js_bind (upd_session (\<lambda>s. s\<lparr>s_status := ''failed'', s_error := JStr (message e)\<rparr>)) (\<lambda>_. js_throw e))
      (\<lambda>_. session_paid) (\<lambda>_. session_ok)" for e
    by (rule hoare_bind [OF hoare_upd_unpaid [where st = "''failed''"] hoare_throw]) (simp_all add: session_statuses_def)
  have upd: "hoare session_ok (if b then js_return JUndef else update) (\<lambda>_. session_ok) (\<lambda>_. session_ok)" for b
    using update_hoare by (simp add: hoare_return)
  have rest: "hoare session_ok
      (js_bind (if b then js_return JUndef else update) (\<lambda>_.
         js_catch (body i)
           (\<lambda>e. js_bind (upd_session (\<lambda>s. s\<lparr>s_status := ''failed'', s_error := JStr (message e)\<rparr>)) (\<lambda>_.
                js_throw e)))) (\<lambda>_. session_paid) (\<lambda>_. session_ok)" for b i
    by (rule hoare_bind [OF upd hoare_catch [OF body_hoare handler]])
  fix w r w'
  assume ok: "session_ok w"
  {
    fix x assume "process w = (Inr x, w')"
    then show "session_paid w'"
      using hoareD_ok [OF rest ok] by (cases w) (auto simp: process_def js_simps split: option.splits)
  }
  fix e assume "process w = (Inl e, w')"
  then show "session_ok w'"
    using hoareD_err [OF rest ok] ok
    by (cases w) (auto simp: process_def js_bind_apply js_this_apply js_throw_apply split: option.splits)
qed

lemma body_active: "js_inv (\<lambda>w. currentSession (fst w) \<noteq> None) (body i)"
proof -
  let ?A = "\<lambda>w :: integration world. currentSession (fst w) \<noteq> None"
  have keeps: "js_inv ?A m" if "keeps_state m" for m :: "(integration, jv) js"
    using that unfolding keeps_state_def by (intro js_invI) metis
  have upd: "js_inv ?A (upd_session f)" for f
    by (rule js_invI) (auto simp: upd_session_def js_update_def)
  have the: "js_inv ?A the_session"
    by (rule js_invI) (auto simp: the_session_def js_defs split: option.splits)
  show ?thesis
    unfolding body_def
    by (intro inv_intros upd the keeps [OF pay_keeps] keeps [OF save_keeps] keeps [OF deploy_keeps])
qed

lemma process_completed:
  assumes "process w = (Inr x, w')"
  shows "\<exists>s. currentSession (fst w') = Some s \<and> s_status s = ''completed''"
proof -
  from assms obtain i w1 where "js_catch (body i) (\<lambda>e. js_bind (upd_session
      (\<lambda>s. s\<lparr>s_status := ''failed'', s_error := JStr (message e)\<rparr>)) (\<lambda>_. js_throw e)) w1 = (Inr x, w')"
    unfolding process_def
    by (auto elim!: js_bind_okE simp: js_throw_apply split: option.splits)
  then have "body i w1 = (Inr x, w')"
    by (auto simp: js_catch_def js_bind_def js_throw_def split: prod.splits sum.splits)
  then obtain c w2 w3 s' w4 where
      upd: "upd_session (\<lambda>s. s\<lparr>s_status := ''completed'', s_contractResult := c\<rparr>) w2 = (Inr (), w3)"
    and the: "the_session w3 = (Inr s', w4)" and w4: "w' = w4"
    unfolding body_def
    by (auto elim!: js_bind_okE simp: js_return_apply js_get_apply)
  from the have "currentSession (fst w3) \<noteq> None" "w4 = w3"
    by (auto simp: the_session_def js_defs split: option.splits)
  with upd w4 show ?thesis by (cases "currentSession (fst w2)") (auto simp: upd_session_def js_update_def)
qed

lemma process_failed:
  assumes "process w = (Inl e, w')" "currentSession (fst w) = Some s" "truthy (s_priceData s)"
  shows "\<exists>s. currentSession (fst w') = Some s \<and> s_status s = ''failed'' \<and> s_error s = JStr (message e)"
proof -
  from assms have "js_catch (body (fst w)) (\<lambda>e. js_bind (upd_session
      (\<lambda>s. s\<lparr>s_status := ''failed'', s_error := JStr (message e)\<rparr>)) (\<lambda>_. js_throw e)) w = (Inl e, w')"
    unfolding process_def by (cases w) (simp add: js_bind_apply [of js_this] js_this_apply)
  then obtain w1 where b: "body (fst w) w = (Inl e, w1)"
    and u: "upd_session (\<lambda>s. s\<lparr>s_status := ''failed'', s_error := JStr (message e)\<rparr>) w1 = (Inr (), w')"
    by (auto simp: js_catch_def js_bind_def js_throw_def upd_session_def js_update_def
        split: prod.splits sum.splits)
  have "currentSession (fst w1) \<noteq> None" using js_invD [OF body_active, of w "fst w"] assms(2) b by simp
  then show ?thesis using u by (auto simp: upd_session_def js_update_def)
qed

text \<open>Nothing in the procedure looks at the status: a session that is already completed or
  failed is charged again.\<close>

lemma process_charges_again:
  assumes "currentSession i = Some s" "truthy (s_priceData s)"
    and "pay i (s\<lparr>s_status := ''processing_payment''\<rparr>)
           (i\<lparr>currentSession := Some (s\<lparr>s_status := ''processing_payment''\<rparr>)\<rparr>, tr) = (Inr x, (i', tr @ cs))"
  shows "\<exists>ds. snd (snd (process (i, tr))) = tr @ cs @ ds"
proof -
  let ?i = "i\<lparr>currentSession := Some (s\<lparr>s_status := ''processing_payment''\<rparr>)\<rparr>"
  let ?rest = "js_bind (save x (s\<lparr>s_status := ''processing_payment''\<rparr>)) (\<lambda>_.
     js_bind (upd_session (\<lambda>s. s\<lparr>s_status := ''payment_completed'', s_paymentResult := x\<rparr>)) (\<lambda>_.
     js_bind deploy (\<lambda>contractResult.
     js_bind (upd_session (\<lambda>s. s\<lparr>s_status := ''completed'', s_contractResult := contractResult\<rparr>)) (\<lambda>_.
     js_bind the_session (\<lambda>s'.
     js_bind (js_get contractResult ''contractAddress'') (\<lambda>addr.
     js_return (JObj [(''success'', JBool True), (''session'', session_obj cfgKey s'),
       (''contractAddress'', addr), (''paymentResult'', x)])))))))"
  have ext: "avoids (\<lambda>_. False) m" if "avoids B m" for B and m :: "(integration, 'b) js"
    using that unfolding avoids_def by blast
  have the: "avoids (\<lambda>_. False) the_session"
    by (rule avoids_pure) (auto simp: the_session_def js_defs split: option.splits)
  have rest: "avoids (\<lambda>_. False) ?rest"
    unfolding upd_session_def by (intro avoids_intros ext [OF save_no_deploy] deploy_extends the)
  have "body i (i, tr) = ?rest (i', tr @ cs)"
    using assms(1,3) by (simp add: body_def upd_session_def the_session_def js_simps)
  moreover obtain r w1 where r: "?rest (i', tr @ cs) = (r, w1)" by (cases "?rest (i', tr @ cs)") blast
  moreover obtain ds where "snd w1 = tr @ cs @ ds" using avoidsD [OF rest r] by auto
  ultimately show ?thesis
    using assms(1,2)
    by (cases r) (auto simp: process_def js_bind_def js_this_def js_catch_def js_throw_def
        upd_session_def js_update_def js_return_def)
qed

end

end
