(* ===== verification/TokenCreationIntegration.thy ===== *)
theory TokenCreationIntegration
  imports Sessions TokenMonetization
begin

text \<open>
  sdk-core/smart-contract-toolkit/TokenCreationIntegration.js: token creation sessions,
  the generated SHI-20 contract with its optional features, deployment, tier upgrades
  and gas estimation.  The monetization system is the one of TokenMonetization.
\<close>

section \<open>Contract generation\<close>

definition tci_baseContract :: "string \<Rightarrow> string" where
  "tci_baseContract cname =
    ''// SPDX-License-Identifier: MIT'' @ nl @
    ''pragma solidity ^0.8.0;'' @ nl @
    nl @
    ''import '' @ [CHR 0x22] @ ''@openzeppelin/contracts/token/ERC20/ERC20.sol'' @ [CHR 0x22] @ '';'' @ nl @
    ''import '' @ [CHR 0x22] @ ''@openzeppelin/contracts/access/Ownable.sol'' @ [CHR 0x22] @ '';'' @ nl @
    ''import '' @ [CHR 0x22] @ ''@openzeppelin/contracts/security/Pausable.sol'' @ [CHR 0x22] @ '';'' @ nl @
    nl @
    ''contract '' @ cname @ '' is ERC20, Ownable, Pausable {'' @ nl @
    ''    uint256 public maxSupply;'' @ nl @
    ''    '' @ nl @
    ''    // SHI-20 Metadata'' @ nl @
    ''    string public constant TOKEN_STANDARD = '' @ [CHR 0x22] @ ''shahcoin.token.standard.v1'' @ [CHR 0x22] @ '';'' @ nl @
    ''    string public constant TOKEN_TYPE = '' @ [CHR 0x22] @ ''SHI-20'' @ [CHR 0x22] @ '';'' @ nl @
    ''    string public constant CREATED_BY = '' @ [CHR 0x22] @ ''ShahFactory'' @ [CHR 0x22] @ '';'' @ nl @
    ''    bool public verified = false;'' @ nl @
    ''    string public tier;'' @ nl @
    ''    '' @ nl @
    ''    constructor('' @ nl @
    ''        string memory name_,'' @ nl @
    ''        string memory symbol_,'' @ nl @
    ''        uint256 initialSupply_,'' @ nl @
    ''        uint256 maxSupply_,'' @ nl @
    ''        string memory tier_'' @ nl @
    ''    ) ERC20(name_, symbol_) {'' @ nl @
    ''        _mint(msg.sender, initialSupply_ * 10**decimals());'' @ nl @
    ''        maxSupply = maxSupply_ * 10**decimals();'' @ nl @
    ''        tier = tier_;'' @ nl @
    ''    }'' @ nl @
    ''    '' @ nl @
    ''    function mint(address to, uint256 amount) public onlyOwner {'' @ nl @
    ''        require(totalSupply() + amount <= maxSupply, '' @ [CHR 0x22] @ ''Exceeds max supply'' @ [CHR 0x22] @ '');'' @ nl @
    ''        _mint(to, amount);'' @ nl @
    ''    }'' @ nl @
    ''    '' @ nl @
    ''    function pause() public onlyOwner {'' @ nl @
    ''        _pause();'' @ nl @
    ''    }'' @ nl @
    ''    '' @ nl @
    ''    function unpause() public onlyOwner {'' @ nl @
    ''        _unpause();'' @ nl @
    ''    }'' @ nl @
    ''    '' @ nl @
    ''    function _beforeTokenTransfer('' @ nl @
    ''        address from,'' @ nl @
    ''        address to,'' @ nl @
    ''        uint256 amount'' @ nl @
    ''    ) internal override whenNotPaused {'' @ nl @
    ''        super._beforeTokenTransfer(from, to, amount);'' @ nl @
    ''    }'' @ nl @
    ''    '' @ nl @
    ''    // Metadata getter'' @ nl @
    ''    function getTokenMetadata() public view returns ('' @ nl @
    ''        string memory standard,'' @ nl @
    ''        string memory type_,'' @ nl @
    ''        string memory name_,'' @ nl @
    ''        string memory symbol_,'' @ nl @
    ''        uint8 decimals_,'' @ nl @
    ''        uint256 totalSupply_,'' @ nl @
    ''        uint256 maxSupply_,'' @ nl @
    ''        string memory createdBy,'' @ nl @
    ''        bool verified_,'' @ nl @
    ''        string memory tier_'' @ nl @
    ''    ) {'' @ nl @
    ''        return ('' @ nl @
    ''            TOKEN_STANDARD,'' @ nl @
    ''            TOKEN_TYPE,'' @ nl @
    ''            name(),'' @ nl @
    ''            symbol(),'' @ nl @
    ''            decimals(),'' @ nl @
    ''            totalSupply(),'' @ nl @
    ''            maxSupply,'' @ nl @
    ''            CREATED_BY,'' @ nl @
    ''            verified,'' @ nl @
    ''            tier'' @ nl @
    ''        );'' @ nl @
    ''    }'' @ nl @
    ''    '' @ nl @
    ''    // Admin function to set verification status'' @ nl @
    ''    function setVerified(bool _verified) public onlyOwner {'' @ nl @
    ''        verified = _verified;'' @ nl @
    ''    }'' @ nl @
    ''}''"

definition tci_generateBaseContract :: "jv \<Rightarrow> ('s, jv) js" where
  "tci_generateBaseContract tokenConfig =
     js_bind (js_get tokenConfig ''name'') (\<lambda>name.
     js_bind (js_lift (strip_ws name)) (\<lambda>cname.
     js_return (JStr (tci_baseContract cname))))"

definition tci_upgradeableContract :: "string \<Rightarrow> string" where
  "tci_upgradeableContract cname =
    ''// SPDX-License-Identifier: MIT'' @ nl @
    ''pragma solidity ^0.8.0;'' @ nl @
    nl @
    ''import '' @ [CHR 0x22] @ ''@openzeppelin/contracts-upgradeable/token/ERC20/ERC20Upgradeable.sol'' @ [CHR 0x22] @ '';'' @ nl @
    ''import '' @ [CHR 0x22] @ ''@openzeppelin/contracts-upgradeable/access/OwnableUpgradeable.sol'' @ [CHR 0x22] @ '';'' @ nl @
    ''import '' @ [CHR 0x22] @ ''@openzeppelin/contracts-upgradeable/security/PausableUpgradeable.sol'' @ [CHR 0x22] @ '';'' @ nl @
    ''import '' @ [CHR 0x22] @ ''@openzeppelin/contracts-upgradeable/proxy/utils/Initializable.sol'' @ [CHR 0x22] @ '';'' @ nl @
    ''import '' @ [CHR 0x22] @ ''@openzeppelin/contracts-upgradeable/proxy/utils/UUPSUpgradeable.sol'' @ [CHR 0x22] @ '';'' @ nl @
    nl @
    ''contract '' @ cname @ '' is '' @ nl @
    ''    Initializable, '' @ nl @
    ''    ERC20Upgradeable, '' @ nl @
    ''    OwnableUpgradeable, '' @ nl @
    ''    PausableUpgradeable, '' @ nl @
    ''    UUPSUpgradeable '' @ nl @
    ''{'' @ nl @
    ''    uint256 public maxSupply;'' @ nl @
    ''    '' @ nl @
    ''    /// @custom:oz-upgrades-unsafe-allow constructor'' @ nl @
    ''    constructor() {'' @ nl @
    ''        _disableInitializers();'' @ nl @
    ''    }'' @ nl @
    ''    '' @ nl @
    ''    function initialize('' @ nl @
    ''        string memory name_,'' @ nl @
    ''        string memory symbol_,'' @ nl @
    ''        uint256 initialSupply_,'' @ nl @
    ''        uint256 maxSupply_'' @ nl @
    ''    ) public initializer {'' @ nl @
    ''        __ERC20_init(name_, symbol_);'' @ nl @
    ''        __Ownable_init();'' @ nl @
    ''        __Pausable_init();'' @ nl @
    ''        __UUPSUpgradeable_init();'' @ nl @
    ''        '' @ nl @
    ''        _mint(msg.sender, initialSupply_ * 10**decimals());'' @ nl @
    ''        maxSupply = maxSupply_ * 10**decimals();'' @ nl @
    ''    }'' @ nl @
    ''    '' @ nl @
    ''    function mint(address to, uint256 amount) public onlyOwner {'' @ nl @
    ''        require(totalSupply() + amount <= maxSupply, '' @ [CHR 0x22] @ ''Exceeds max supply'' @ [CHR 0x22] @ '');'' @ nl @
    ''        _mint(to, amount);'' @ nl @
    ''    }'' @ nl @
    ''    '' @ nl @
    ''    function pause() public onlyOwner {'' @ nl @
    ''        _pause();'' @ nl @
    ''    }'' @ nl @
    ''    '' @ nl @
    ''    function unpause() public onlyOwner {'' @ nl @
    ''        _unpause();'' @ nl @
    ''    }'' @ nl @
    ''    '' @ nl @
    ''    function _authorizeUpgrade(address newImplementation) internal override onlyOwner {}'' @ nl @
    ''    '' @ nl @
    ''    function _beforeTokenTransfer('' @ nl @
    ''        address from,'' @ nl @
    ''        address to,'' @ nl @
    ''        uint256 amount'' @ nl @
    ''    ) internal override whenNotPaused {'' @ nl @
    ''        super._beforeTokenTransfer(from, to, amount);'' @ nl @
    ''    }'' @ nl @
    ''}''"

text \<open>The upgradeable contract replaces the code it is given.\<close>

definition tci_addUpgradeableFeature :: "jv \<Rightarrow> jv \<Rightarrow> ('s, jv) js" where
  "tci_addUpgradeableFeature contractCode tokenConfig =
     js_bind (js_get tokenConfig ''name'') (\<lambda>name.
     js_bind (js_lift (strip_ws name)) (\<lambda>cname.
     js_return (JStr (tci_upgradeableContract cname))))"

definition tci_airdropFunction :: string where
  "tci_airdropFunction =
    nl @
    ''    function airdrop(address[] memory recipients, uint256[] memory amounts) public onlyOwner {'' @ nl @
    ''        require(recipients.length == amounts.length, '' @ [CHR 0x22] @ ''Arrays length mismatch'' @ [CHR 0x22] @ '');'' @ nl @
    ''        for (uint256 i = 0; i < recipients.length; i++) {'' @ nl @
    ''            require(totalSupply() + amounts[i] <= maxSupply, '' @ [CHR 0x22] @ ''Exceeds max supply'' @ [CHR 0x22] @ '');'' @ nl @
    ''            _mint(recipients[i], amounts[i]);'' @ nl @
    ''        }'' @ nl @
    ''    }'' @ nl @
    ''    '' @ nl @
    ''    function batchTransfer(address[] memory recipients, uint256[] memory amounts) public {'' @ nl @
    ''        require(recipients.length == amounts.length, '' @ [CHR 0x22] @ ''Arrays length mismatch'' @ [CHR 0x22] @ '');'' @ nl @
    ''        for (uint256 i = 0; i < recipients.length; i++) {'' @ nl @
    ''            _transfer(msg.sender, recipients[i], amounts[i]);'' @ nl @
    ''        }'' @ nl @
    ''    }''"

definition tci_addAirdropFeature :: "jv \<Rightarrow> ('s, jv) js" where
  "tci_addAirdropFeature contractCode =
     js_replacing (\<lambda>c. replace_first c ''}'' (tci_airdropFunction @ nl @ ''}'')) contractCode"

definition tci_logoFunction :: string where
  "tci_logoFunction =
    nl @
    ''    string public logoURI;'' @ nl @
    ''    '' @ nl @
    ''    function setLogoURI(string memory _logoURI) public onlyOwner {'' @ nl @
    ''        logoURI = _logoURI;'' @ nl @
    ''    }''"

definition tci_addCustomLogoFeature :: "jv \<Rightarrow> ('s, jv) js" where
  "tci_addCustomLogoFeature contractCode =
     js_replacing (\<lambda>c. replace_first c ''}'' (tci_logoFunction @ nl @ ''}'')) contractCode"

definition tci_applyAddOns :: "string list \<Rightarrow> jv \<Rightarrow> jv \<Rightarrow> ('s, jv) js" where
  "tci_applyAddOns selected tokenConfig code =
     js_bind (if ''upgradeableContract'' \<in> set selected
              then tci_addUpgradeableFeature code tokenConfig else js_return code) (\<lambda>code.
     js_bind (if ''airdropTool'' \<in> set selected
              then tci_addAirdropFeature code else js_return code) (\<lambda>code.
     if ''customLogo'' \<in> set selected then tci_addCustomLogoFeature code else js_return code))"

section \<open>Deployment\<close>

definition tci_deployContract :: "env \<Rightarrow> jv \<Rightarrow> fields \<Rightarrow> ('s, jv) js" where
  "tci_deployContract env contractCode tokenConfig =
     js_catch
       (js_bind (js_ext env (Call ''new ethers.providers.JsonRpcProvider'' [JStr ''https://rpc.shah.vip''])) (\<lambda>provider.
        js_bind (js_ext env (Call ''provider.getSigner'' [provider])) (\<lambda>signer.
        js_bind (js_ext env (Call ''new ethers.Contract'' [JStr ''SHAHFACTORY_ADDRESS'', signer])) (\<lambda>shahFactory.
        let constructorArgs = JArr [obj_get tokenConfig ''name'', obj_get tokenConfig ''symbol'',
              obj_get tokenConfig ''initialSupply'', obj_get tokenConfig ''maxSupply'',
              js_or (obj_get tokenConfig ''tier'') (JStr ''Basic'')]
        in js_bind (js_ext env (Call ''shahFactory.deployToken''
              [shahFactory, contractCode, constructorArgs, JObj [(''gasLimit'', JInt 5000000)]])) (\<lambda>tx.
        js_bind (js_ext env (Call ''tx.wait'' [tx])) (\<lambda>receipt.
        js_bind (js_lift (event_arg ''TokenDeployed'' ''tokenAddress'' receipt)) (\<lambda>deployedAddress.
        if \<not> truthy deployedAddress
        then js_throw (Error ''Failed to extract deployed contract address'')
        else js_return deployedAddress)))))))
       (\<lambda>e. js_throw (Error (''Deployment failed: '' @ message e)))"

definition tci_generateAndDeployContract :: "env \<Rightarrow> (integration, jv) js" where
  "tci_generateAndDeployContract env =
     js_bind the_session (\<lambda>s.
       let cfg = s_config s;
           withTier = obj_set cfg ''tier'' (js_or (s_tier s) (js_or (obj_get cfg ''tier'') (JStr ''Basic'')))
       in js_bind (tci_generateBaseContract (JObj withTier)) (\<lambda>code.
          js_bind (tci_applyAddOns (s_addOns s) (JObj cfg) code) (\<lambda>code.
          js_bind (tci_deployContract env code withTier) (\<lambda>deployedAddress.
          js_bind (js_ext env (Call ''new Date().toISOString'' [])) (\<lambda>t.
          js_return (JObj [(''contractAddress'', deployedAddress), (''contractCode'', code),
                           (''deployedAt'', t)]))))))"

section \<open>Sessions\<close>

definition new_TokenCreationIntegration :: "fields \<Rightarrow> integration" where
  "new_TokenCreationIntegration cfg =
     \<lparr>monetizationSystem = new_TokenMonetizationSystem cfg, isInitialized = False, currentSession = None\<rparr>"

definition tci_initialize :: "env \<Rightarrow> (integration, jv) js" where
  "tci_initialize env =
     js_bind js_this (\<lambda>i.
     js_bind (token_getShahPrice env (monetizationSystem i)) (\<lambda>_.
     js_bind (js_update (\<lambda>i. i\<lparr>isInitialized := True\<rparr>)) (\<lambda>_.
     js_return (JBool True))))"

definition tci_generateSessionId :: "env \<Rightarrow> ('s, string) js" where
  "tci_generateSessionId env =
     js_bind (js_ext env (Call ''Date.now'' [])) (\<lambda>t.
     js_bind (js_ext env (Call ''Math.random().toString(36).substr(2, 9)'' [])) (\<lambda>r.
     js_return (''session_'' @ to_str t @ ''_'' @ to_str r)))"

definition tci_updateSessionPrice :: "env \<Rightarrow> (integration, jv) js" where
  "tci_updateSessionPrice env =
     js_bind js_this (\<lambda>i. case currentSession i of
       None \<Rightarrow> js_throw (Error ''No active token creation session'')
     | Some s \<Rightarrow>
         js_bind (token_calculateTotalPrice env (monetizationSystem i) (s_addOns s)
           (JObj [(''tier'', js_or (s_tier s) (js_or (obj_get (s_config s) ''tier'') (JStr ''Basic'')))])) (\<lambda>pd.
         js_bind (upd_session (\<lambda>s. s\<lparr>s_priceData := pd\<rparr>)) (\<lambda>_.
         js_return pd)))"

definition startTokenCreationSession :: "env \<Rightarrow> fields \<Rightarrow> (integration, jv) js" where
  "startTokenCreationSession env tokenConfig =
     js_bind js_this (\<lambda>i.
     js_bind (if isInitialized i then js_return (JBool True) else tci_initialize env) (\<lambda>_.
       let errs = validateTokenConfig tokenConfig in
       if errs \<noteq> [] then js_throw (Error (''Token configuration errors: '' @ join_with '', '' errs))
       else
         js_bind (tci_generateSessionId env) (\<lambda>sid.
         js_bind (js_ext env (Call ''new Date().toISOString'' [])) (\<lambda>t.
         js_bind (js_update (\<lambda>i. i\<lparr>currentSession := Some
            \<lparr>s_id = sid, s_config = tokenConfig, s_addOns = [], s_method = ''shah'',
             s_tier = js_or (obj_get tokenConfig ''tier'') (JStr ''Basic''), s_priceData = JNull,
             s_status = ''created'', s_createdAt = t, s_paymentResult = JUndef,
             s_contractResult = JUndef, s_error = JUndef\<rparr>\<rparr>)) (\<lambda>_.
         js_bind (tci_updateSessionPrice env) (\<lambda>_.
         js_bind the_session (\<lambda>s. js_return (session_obj ''tokenConfig'' s))))))))"

definition tci_updateAddOns :: "env \<Rightarrow> string list \<Rightarrow> (integration, jv) js" where
  "tci_updateAddOns env selected =
     js_bind js_this (\<lambda>i. case currentSession i of
       None \<Rightarrow> js_throw (Error ''No active token creation session'')
     | Some _ \<Rightarrow>
         js_bind (upd_session (\<lambda>s. s\<lparr>s_addOns := selected\<rparr>)) (\<lambda>_.
         js_bind (tci_updateSessionPrice env) (\<lambda>_.
         js_bind the_session (\<lambda>s. js_return (session_obj ''tokenConfig'' s)))))"

definition tci_updatePaymentMethod :: "string \<Rightarrow> (integration, jv) js" where
  "tci_updatePaymentMethod method =
     js_bind js_this (\<lambda>i. case currentSession i of
       None \<Rightarrow> js_throw (Error ''No active token creation session'')
     | Some _ \<Rightarrow>
         js_bind (upd_session (\<lambda>s. s\<lparr>s_method := method\<rparr>)) (\<lambda>_.
         js_bind the_session (\<lambda>s. js_return (session_obj ''tokenConfig'' s))))"

definition processTokenCreation :: "env \<Rightarrow> (integration, jv) js" where
  "processTokenCreation env =
     js_bind js_this (\<lambda>i. case currentSession i of
       None \<Rightarrow> js_throw (Error ''No active token creation session'')
     | Some s0 \<Rightarrow>
         js_bind (if truthy (s_priceData s0) then js_return JUndef else tci_updateSessionPrice env) (\<lambda>_.
         js_catch
           (js_bind (upd_session (\<lambda>s. s\<lparr>s_status := ''processing_payment''\<rparr>)) (\<lambda>_.
            js_bind the_session (\<lambda>s.
            js_bind (token_processPayment env (monetizationSystem i) (s_method s) (s_priceData s) (JObj (s_config s))) (\<lambda>paymentResult.
            js_bind (token_savePaymentData env paymentResult (JObj (s_config s)) (s_addOns s)) (\<lambda>_.
            js_bind (upd_session (\<lambda>s. s\<lparr>s_status := ''payment_completed'', s_paymentResult := paymentResult\<rparr>)) (\<lambda>_.
            js_bind (tci_generateAndDeployContract env) (\<lambda>contractResult.
            js_bind (upd_session (\<lambda>s. s\<lparr>s_status := ''completed'', s_contractResult := contractResult\<rparr>)) (\<lambda>_.
            js_bind the_session (\<lambda>s'.
            js_bind (js_get contractResult ''contractAddress'') (\<lambda>addr.
            js_return (JObj [(''success'', JBool True), (''session'', session_obj ''tokenConfig'' s'),
              (''contractAddress'', addr), (''paymentResult'', paymentResult)])))))))))))
           (\<lambda>e. js_bind (upd_session (\<lambda>s. s\<lparr>s_status := ''failed'', s_error := JStr (message e)\<rparr>)) (\<lambda>_.
                js_throw e))))"

section \<open>Tier upgrades\<close>

definition recordTierUpgrade :: "env \<Rightarrow> jv \<Rightarrow> jv \<Rightarrow> ('s, jv) js" where
  "recordTierUpgrade env contractAddress newTier =
     js_catch
       (js_bind (js_ext env (Call ''fetch'' [JStr ''/api/shahfactory/registry/tier'',
          JObj [(''contractAddress'', contractAddress), (''newTier'', newTier)]])) (\<lambda>_. js_return JUndef))
       (\<lambda>_. js_return JUndef)"

definition tci_upgradeTier ::
  "env \<Rightarrow> jv \<Rightarrow> jv \<Rightarrow> jv \<Rightarrow> string \<Rightarrow> (integration, jv) js" where
  "tci_upgradeTier env contractAddress cur new method =
     (let currentTier = js_default cur (JStr ''Basic''); newTier = js_default new (JStr ''Pro'');
          info = JObj [(''contractAddress'', contractAddress), (''currentTier'', currentTier), (''newTier'', newTier)] in
      if \<not> truthy contractAddress then js_throw (Error ''Missing contractAddress'')
      else if strict_eq currentTier newTier then js_throw (Error ''Already at requested tier'')
      else js_bind js_this (\<lambda>i.
        js_bind (token_calculateUpgradePrice env (monetizationSystem i) currentTier newTier) (\<lambda>upgradeAmount.
        js_bind (js_get upgradeAmount ''usd'') (\<lambda>usd.
        js_bind (js_get upgradeAmount ''shah'') (\<lambda>shah.
        js_bind (js_get upgradeAmount ''shahPrice'') (\<lambda>shahPrice.
        js_bind (token_processPayment env (monetizationSystem i) method
          (JObj [(''totalUSD'', usd), (''totalSHAH'', shah),
                 (''baseFee'', JObj [(''usd'', usd), (''shah'', shah), (''shahPrice'', shahPrice)]),
                 (''addOns'', JArr [])]) info) (\<lambda>paymentResult.
        js_bind (token_savePaymentData env paymentResult info []) (\<lambda>_.
        js_bind (recordTierUpgrade env contractAddress newTier) (\<lambda>_.
        js_return (JObj [(''success'', JBool True), (''paymentResult'', paymentResult),
          (''contractAddress'', contractAddress), (''newTier'', newTier)]))))))))))"

section \<open>Queries\<close>

definition tci_getCurrentSession :: "integration \<Rightarrow> creation_session option" where
  "tci_getCurrentSession i = currentSession i"

definition tci_clearSession :: "(integration, unit) js" where
  "tci_clearSession = js_update (\<lambda>i. i\<lparr>currentSession := None\<rparr>)"

definition tci_getSessionHistory :: "integration \<Rightarrow> creation_session list" where
  "tci_getSessionHistory i = (case currentSession i of Some s \<Rightarrow> [s] | None \<Rightarrow> [])"

definition tci_validateSession :: "integration \<Rightarrow> jv" where
  "tci_validateSession i = (case currentSession i of
      None \<Rightarrow> invalid_session ''No active session''
    | Some s \<Rightarrow> (let errs = validateTokenConfig (s_config s) in
        if errs \<noteq> [] then invalid_session (''Configuration errors: '' @ join_with '', '' errs)
        else valid_session))"

definition tci_estimateDeploymentGas :: "env \<Rightarrow> fields \<Rightarrow> string list \<Rightarrow> (integration, jv) js" where
  "tci_estimateDeploymentGas env tokenConfig selected =
     js_catch
       (js_bind js_this (\<lambda>i.
        js_bind (tci_generateBaseContract (JObj tokenConfig)) (\<lambda>code.
        js_bind (tci_applyAddOns selected (JObj tokenConfig) code) (\<lambda>code.
        js_bind (js_ext env (Call ''new ethers.providers.JsonRpcProvider'' [JStr ''https://rpc.shah.vip''])) (\<lambda>provider.
        js_bind (js_ext env (Call ''provider.estimateGas'' [provider, JObj [(''data'', code), (''value'', JInt 0)]])) (\<lambda>gasEstimate.
        js_bind (js_ext env (Call ''provider.getGasPrice'' [provider])) (\<lambda>gasPrice.
        js_bind (js_ext env (Call ''gasEstimate.mul'' [gasEstimate, gasPrice])) (\<lambda>costInWei.
        js_bind (js_ext env (Call ''ethers.utils.formatEther'' [costInWei])) (\<lambda>costInShah.
        js_bind (token_getShahPrice env (monetizationSystem i)) (\<lambda>shahPrice.
        js_bind (js_ext env (Call ''gasEstimate.toString'' [gasEstimate])) (\<lambda>ge.
        js_bind (js_ext env (Call ''ethers.utils.formatUnits'' [gasPrice, JStr ''gwei''])) (\<lambda>gwei.
        let cost = parse_float (to_str costInShah); costInUSD = num_mul cost (to_number shahPrice)
        in js_return (JObj [(''gasEstimate'', ge), (''gasPrice'', JStr (to_str gwei @ '' gwei'')),
             (''costInShah'', JStr (to_fixed 6 cost)), (''costInUSD'', JStr (to_fixed 2 costInUSD)),
             (''shahPrice'', shahPrice)])))))))))))))
       (\<lambda>e. js_throw (Error (''Gas estimation failed: '' @ message e)))"

section \<open>Laws\<close>

lemma tci_contract_pure [avoids_intros]:
  "avoids B (tci_generateBaseContract c)" "avoids B (tci_applyAddOns ks c code)"
  unfolding tci_generateBaseContract_def tci_applyAddOns_def tci_addUpgradeableFeature_def
    tci_addAirdropFeature_def tci_addCustomLogoFeature_def
  by (intro avoids_intros)+

lemma tci_contract_keeps [keeps_intros]:
  "keeps_state (tci_generateBaseContract c)" "keeps_state (tci_applyAddOns ks c code)"
  unfolding tci_generateBaseContract_def tci_applyAddOns_def tci_addUpgradeableFeature_def
    tci_addAirdropFeature_def tci_addCustomLogoFeature_def
  by (intro keeps_intros)+

lemma tci_deploy_extends: "avoids (\<lambda>_. False) (tci_generateAndDeployContract env)"
  unfolding tci_generateAndDeployContract_def tci_deployContract_def Let_def
  by (intro avoids_intros; simp)

lemma tci_deploy_keeps: "keeps_state (tci_generateAndDeployContract env)"
  unfolding tci_generateAndDeployContract_def tci_deployContract_def Let_def
  by (intro keeps_intros)

lemma token_pay_keeps: "keeps_state (token_processPayment env sys m a c)"
  unfolding token_processPayment_def token_processShahPayment_def
    token_processShahTokenPayment_def token_processStripePayment_def
  by (intro keeps_intros)

lemma token_save_keeps: "keeps_state (token_savePaymentData env r c ks)"
  unfolding token_savePaymentData_def Let_def by (intro keeps_intros)

lemma token_price_keeps: "keeps_state (token_calculateTotalPrice env sys ks opts)"
  unfolding token_calculateTotalPrice_def token_calculateBaseFee_def token_getShahPrice_def Let_def
  by (intro keeps_intros)

lemma tci_update_quiet: "avoids (\<lambda>c. is_charge c \<or> is_deploy c) (tci_updateSessionPrice env)"
  unfolding tci_updateSessionPrice_def by (intro avoids_intros token_price_quiet)

lemma tci_update_status:
  assumes "tci_updateSessionPrice env w = (r, w')"
  shows "map_option s_status (currentSession (fst w')) = map_option s_status (currentSession (fst w))"
proof (cases "currentSession (fst w)")
  case None
  then show ?thesis using assms by (auto simp: tci_updateSessionPrice_def js_defs)
next
  case (Some s)
  let ?m = "token_calculateTotalPrice env (monetizationSystem (fst w)) (s_addOns s)
     (JObj [(''tier'', js_or (s_tier s) (js_or (obj_get (s_config s) ''tier'') (JStr ''Basic'')))])"
  have k: "fst (snd (?m w)) = fst w" using token_price_keeps unfolding keeps_state_def by blast
  show ?thesis
    using assms k Some
    by (cases "?m w"; cases "fst (?m w)")
       (auto simp: tci_updateSessionPrice_def upd_session_def js_defs)
qed

interpretation tciflow: session_flow "''No active token creation session''"
  "tci_updateSessionPrice env"
  "\<lambda>i s. token_processPayment env (monetizationSystem i) (s_method s) (s_priceData s) (JObj (s_config s))"
  "\<lambda>x s. token_savePaymentData env x (JObj (s_config s)) (s_addOns s)"
  "tci_generateAndDeployContract env" "''tokenConfig''" for env
  by unfold_locales
     (auto intro: tci_update_quiet token_pay_no_deploy token_pay_keeps token_pay_charges
        avoids_weaken [OF token_save_quiet] token_save_keeps tci_deploy_extends tci_deploy_keeps
        dest: tci_update_status)

lemma processTokenCreation_flow: "processTokenCreation env = tciflow.process env"
  unfolding processTokenCreation_def tciflow.process_def tciflow.body_def ..

section \<open>The integration as a state machine\<close>

text \<open>One step is one call of a state-changing method, with any arguments.\<close>

inductive tci_step :: "env \<Rightarrow> integration world \<Rightarrow> integration world \<Rightarrow> bool" for env where
  initialize: "tci_step env w (snd (tci_initialize env w))"
| start: "tci_step env w (snd (startTokenCreationSession env cfg w))"
| addons: "tci_step env w (snd (tci_updateAddOns env ks w))"
| set_method: "tci_step env w (snd (tci_updatePaymentMethod m w))"
| price: "tci_step env w (snd (tci_updateSessionPrice env w))"
| process: "tci_step env w (snd (processTokenCreation env w))"
| upgrade: "tci_step env w (snd (tci_upgradeTier env a cur new m w))"
| clear: "tci_step env w (snd (tci_clearSession w))"

inductive tci_reach :: "env \<Rightarrow> fields \<Rightarrow> integration world \<Rightarrow> bool" for env cfg where
  init: "tci_reach env cfg (new_TokenCreationIntegration cfg, [])"
| step: "tci_reach env cfg w \<Longrightarrow> tci_step env w w' \<Longrightarrow> tci_reach env cfg w'"

named_theorems tci_inv \<open>each method keeps the session invariant\<close>

lemma tci_inv_price [tci_inv]: "js_inv session_ok (tci_updateSessionPrice env)"
  using tciflow.update_hoare by (simp add: js_inv_def)

lemma tci_inv_initialize [tci_inv]: "js_inv session_ok (tci_initialize env)"
proof -
  have "js_inv session_ok (token_getShahPrice env sys)" for sys
    by (rule session_inv_keeps; unfold token_getShahPrice_def; intro avoids_intros keeps_intros)
       (simp_all add: charge_defs)
  moreover have "js_inv session_ok (js_update (\<lambda>i. i\<lparr>isInitialized := True\<rparr>))"
    by (rule js_invI) (auto simp: js_update_def session_ok_def split: option.splits)
  ultimately show ?thesis unfolding tci_initialize_def by (intro inv_intros)
qed

lemma tci_inv_addons [tci_inv]: "js_inv session_ok (tci_updateAddOns env ks)"
  unfolding tci_updateAddOns_def by (intro inv_intros tci_inv session_inv_the session_inv_upd) simp

lemma tci_inv_method [tci_inv]: "js_inv session_ok (tci_updatePaymentMethod m)"
  unfolding tci_updatePaymentMethod_def by (intro inv_intros tci_inv session_inv_the session_inv_upd) simp

lemma tci_inv_start [tci_inv]: "js_inv session_ok (startTokenCreationSession env cfg)"
proof -
  have new: "js_inv session_ok (js_update (\<lambda>i. i\<lparr>currentSession := Some
            \<lparr>s_id = sid, s_config = cfg, s_addOns = [], s_method = ''shah'', s_tier = ti, s_priceData = JNull,
             s_status = ''created'', s_createdAt = t, s_paymentResult = JUndef,
             s_contractResult = JUndef, s_error = JUndef\<rparr>\<rparr>))" for sid ti t
    by (rule js_invI) (auto simp: js_update_def session_ok_def session_statuses_def split: option.splits)
  show ?thesis
    unfolding startTokenCreationSession_def Let_def tci_generateSessionId_def
    by (intro inv_intros tci_inv session_inv_the new session_inv_ext) (simp_all add: charge_defs)
qed

lemma tci_inv_process [tci_inv]: "js_inv session_ok (processTokenCreation env)"
  unfolding processTokenCreation_flow js_inv_def
  by (rule hoare_conseq [OF tciflow.process_hoare]) auto

lemma tci_inv_upgrade [tci_inv]: "js_inv session_ok (tci_upgradeTier env a cur new m)"
proof (rule session_inv_keeps)
  show "avoids is_deploy (tci_upgradeTier env a cur new m)"
    unfolding tci_upgradeTier_def Let_def recordTierUpgrade_def token_calculateUpgradePrice_def token_getShahPrice_def
    by (intro avoids_intros token_pay_no_deploy avoids_weaken [OF token_save_quiet]) (simp_all add: charge_defs)
  show "keeps_state (tci_upgradeTier env a cur new m)"
    unfolding tci_upgradeTier_def Let_def recordTierUpgrade_def token_calculateUpgradePrice_def token_getShahPrice_def
    by (intro keeps_intros token_pay_keeps token_save_keeps)
qed

lemma tci_inv_clear [tci_inv]: "js_inv session_ok tci_clearSession"
  unfolding tci_clearSession_def
  by (rule js_invI) (auto simp: js_update_def session_ok_def split: option.splits)

lemma tci_step_ok: "tci_step env w w' \<Longrightarrow> session_ok w \<Longrightarrow> session_ok w'"
  by (erule tci_step.cases) (auto intro: js_invD tci_inv)

section \<open>Properties\<close>



text \<open>C22: Processing a priced session ends in one of two ways: it returns and the session is
  completed, or it throws and the session is failed and carries the error message.\<close>

theorem processTokenCreation_outcome:
  assumes "currentSession i = Some s" "truthy (s_priceData s)"
    and "processTokenCreation env (i, tr) = (r, (i', tr'))"
  shows "\<exists>s'. currentSession i' = Some s' \<and>
    (case r of Inr _ \<Rightarrow> s_status s' = ''completed''
     | Inl e \<Rightarrow> s_status s' = ''failed'' \<and> s_error s' = JStr (message e))"
proof (cases r)
  case (Inl e)
  then show ?thesis
    using tciflow.process_failed [of env "(i, tr)" e "(i', tr')" s] assms
    by (simp add: processTokenCreation_flow)
next
  case (Inr x)
  then show ?thesis
    using tciflow.process_completed [of env "(i, tr)" x "(i', tr')"] assms
    by (simp add: processTokenCreation_flow)
qed

text \<open>A priced session and the integration that holds it.\<close>

definition sample_session :: creation_session where
  "sample_session = \<lparr>s_id = ''session_1'', s_config = [(''name'', JStr ''T'')], s_addOns = [], s_method = ''stripe'',
     s_tier = JStr ''Basic'', s_priceData = JObj [(''totalUSD'', JInt 49)], s_status = ''completed'',
     s_createdAt = JUndef, s_paymentResult = JUndef, s_contractResult = JUndef, s_error = JUndef\<rparr>"

definition sample_integration :: integration where
  "sample_integration = \<lparr>monetizationSystem = new_TokenMonetizationSystem [], isInitialized = True,
     currentSession = Some sample_session\<rparr>"

theorem processTokenCreation_outcome_witness:
  "\<exists>e i' tr' s'. processTokenCreation (\<lambda>n c. Inl (Error ''offline'')) (sample_integration, []) = (Inl e, (i', tr')) \<and>
     currentSession i' = Some s' \<and> s_status s' = ''failed''"
proof -
  let ?env = "\<lambda>n c. Inl (Error ''offline'')"
  obtain r i' tr' where run: "processTokenCreation ?env (sample_integration, []) = (r, (i', tr'))"
    by (cases "processTokenCreation ?env (sample_integration, [])") (metis prod.collapse)
  have "\<exists>e. r = Inl e"
    using run by (auto simp: processTokenCreation_def sample_integration_def sample_session_def js_simps
        upd_session_def the_session_def token_processPayment_def token_processStripePayment_def)
  moreover have "currentSession sample_integration = Some sample_session" "truthy (s_priceData sample_session)"
    by (simp_all add: sample_integration_def sample_session_def)
  ultimately show ?thesis using processTokenCreation_outcome [OF _ _ run] run by fastforce
qed

text \<open>Processing a session charges for it whatever its status, so a session that is
  already completed, or that failed after its payment, is charged a second time.\<close>

theorem processTokenCreation_charges_any_status:
  assumes "currentSession i = Some s" "truthy (s_priceData s)"
    and "token_processPayment env (monetizationSystem i) (s_method s) (s_priceData s) (JObj (s_config s))
           (i\<lparr>currentSession := Some (s\<lparr>s_status := ''processing_payment''\<rparr>)\<rparr>, tr) = (Inr x, (i', tr @ cs))"
  shows "length (filter is_charge (snd (snd (processTokenCreation env (i, tr))))) \<ge>
         length (filter is_charge tr) + length (filter is_charge cs)"
proof -
  obtain ds where "snd (snd (processTokenCreation env (i, tr))) = tr @ cs @ ds"
    using tciflow.process_charges_again [OF assms(1,2), of env tr x i' cs] assms(3)
    by (auto simp: processTokenCreation_flow)
  then show ?thesis by simp
qed

theorem processTokenCreation_charges_any_status_witness:
  "s_status sample_session = ''completed'' \<and>
   length (filter is_charge (snd (snd (processTokenCreation (stripe_env 2) (sample_integration, []))))) \<ge> 1"
proof -
  let ?cs = "[Call ''Stripe'' [obj_get (config (new_TokenMonetizationSystem [])) ''stripePublicKey''],
       Call ''fetch'' [JStr ''/api/create-payment-intent'',
         JObj [(''amount'', JNum (usd_cents (JInt 49))), (''currency'', JStr ''usd'')]],
       Call ''response.json'' [JStr ''ok''], Call ''elements.getElement'' [JStr ''card''],
       Call ''stripe.confirmCardPayment'' [JStr ''ok'', JStr ''cs'', JStr ''ok'', JStr ''Token Creator'']]"
  have "\<exists>x i'. token_processPayment (stripe_env 2) (monetizationSystem sample_integration) (s_method sample_session)
      (s_priceData sample_session) (JObj (s_config sample_session))
      (sample_integration\<lparr>currentSession := Some (sample_session\<lparr>s_status := ''processing_payment''\<rparr>)\<rparr>, []) =
        (Inr x, (i', [] @ ?cs))"
    by (simp add: token_processPayment_def token_processStripePayment_def js_simps stripe_env_def
        sample_integration_def sample_session_def proto_value_def proto_keys_def)
  then obtain x i' where pay: "token_processPayment (stripe_env 2) (monetizationSystem sample_integration) (s_method sample_session)
      (s_priceData sample_session) (JObj (s_config sample_session))
      (sample_integration\<lparr>currentSession := Some (sample_session\<lparr>s_status := ''processing_payment''\<rparr>)\<rparr>, []) =
        (Inr x, (i', [] @ ?cs))" by blast
  have "length (filter is_charge ?cs) = 1" by (simp add: charge_defs)
  then show ?thesis
    using processTokenCreation_charges_any_status [OF _ _ pay]
    by (simp add: sample_integration_def sample_session_def)
qed

end
