(* ===== verification/NFTCreationIntegration.thy ===== *)
theory NFTCreationIntegration
  imports Sessions NFTMonetization
begin

text \<open>
  sdk-core/smart-contract-toolkit/NFTCreationIntegration.js: NFT creation sessions, the
  generated SHI-30 contract with its optional features, deployment, minting, tier
  upgrades and gas estimation.  The session object has no \<open>tier\<close> property of its own
  (the tier lives in the configuration), so that field stays undefined.
\<close>

section \<open>Contract generation\<close>

definition nci_baseContract :: "string \<Rightarrow> string" where
  "nci_baseContract cname =
    ''// SPDX-License-Identifier: MIT'' @ nl @
    ''pragma solidity ^0.8.0;'' @ nl @
    nl @
    ''import '' @ [CHR 0x22] @ ''@openzeppelin/contracts/token/ERC721/ERC721.sol'' @ [CHR 0x22] @ '';'' @ nl @
    ''import '' @ [CHR 0x22] @ ''@openzeppelin/contracts/access/Ownable.sol'' @ [CHR 0x22] @ '';'' @ nl @
    ''import '' @ [CHR 0x22] @ ''@openzeppelin/contracts/utils/Counters.sol'' @ [CHR 0x22] @ '';'' @ nl @
    nl @
    ''// SHI-30 NFT (Shahcoin Standard)'' @ nl @
    ''contract '' @ cname @ '' is ERC721, Ownable {'' @ nl @
    ''    using Counters for Counters.Counter;'' @ nl @
    ''    '' @ nl @
    ''    Counters.Counter private _tokenIds;'' @ nl @
    ''    string private _baseTokenURI;'' @ nl @
    ''    string public collectionTier; // Basic | Pro | Premium'' @ nl @
    ''    '' @ nl @
    ''    constructor('' @ nl @
    ''        string memory name_,'' @ nl @
    ''        string memory symbol_,'' @ nl @
    ''        string memory baseURI_,'' @ nl @
    ''        string memory tier_'' @ nl @
    ''    ) ERC721(name_, symbol_) {'' @ nl @
    ''        _baseTokenURI = baseURI_;'' @ nl @
    ''        collectionTier = tier_;'' @ nl @
    ''    }'' @ nl @
    ''    '' @ nl @
    ''    function setCollectionTier(string memory newTier) public onlyOwner {'' @ nl @
    ''        collectionTier = newTier;'' @ nl @
    ''    }'' @ nl @
    ''    '' @ nl @
    ''    function getCollectionMetadata() external view returns ('' @ nl @
    ''        string memory nameOut,'' @ nl @
    ''        string memory symbolOut,'' @ nl @
    ''        string memory baseURIOut,'' @ nl @
    ''        string memory tierOut'' @ nl @
    ''    ) {'' @ nl @
    ''        nameOut = name();'' @ nl @
    ''        symbolOut = symbol();'' @ nl @
    ''        baseURIOut = _baseTokenURI;'' @ nl @
    ''        tierOut = collectionTier;'' @ nl @
    ''    }'' @ nl @
    ''    '' @ nl @
    ''    function mint(address to) public onlyOwner returns (uint256) {'' @ nl @
    ''        _tokenIds.increment();'' @ nl @
    ''        uint256 newTokenId = _tokenIds.current();'' @ nl @
    ''        _mint(to, newTokenId);'' @ nl @
    ''        return newTokenId;'' @ nl @
    ''    }'' @ nl @
    ''    '' @ nl @
    ''    function _baseURI() internal view override returns (string memory) {'' @ nl @
    ''        return _baseTokenURI;'' @ nl @
    ''    }'' @ nl @
    ''    '' @ nl @
    ''    function setBaseURI(string memory baseURI_) public onlyOwner {'' @ nl @
    ''        _baseTokenURI = baseURI_;'' @ nl @
    ''    }'' @ nl @
    ''}''"

definition nci_generateBaseContract :: "jv \<Rightarrow> ('s, jv) js" where
  "nci_generateBaseContract nftConfig =
     js_bind (js_get nftConfig ''name'') (\<lambda>name.
     js_bind (js_lift (strip_ws name)) (\<lambda>cname.
     js_return (JStr (nci_baseContract cname))))"

definition nci_unlockableFunction :: string where
  "nci_unlockableFunction =
    nl @
    ''    mapping(uint256 => string) private unlockableContent;'' @ nl @
    ''    '' @ nl @
    ''    function setUnlockableContent(uint256 tokenId, string memory content) public onlyOwner {'' @ nl @
    ''        require(_exists(tokenId), '' @ [CHR 0x22] @ ''Token does not exist'' @ [CHR 0x22] @ '');'' @ nl @
    ''        unlockableContent[tokenId] = content;'' @ nl @
    ''    }'' @ nl @
    ''    '' @ nl @
    ''    function getUnlockableContent(uint256 tokenId) public view returns (string memory) {'' @ nl @
    ''        require(_exists(tokenId), '' @ [CHR 0x22] @ ''Token does not exist'' @ [CHR 0x22] @ '');'' @ nl @
    ''        return unlockableContent[tokenId];'' @ nl @
    ''    }'' @ nl @
    ''    '' @ nl @
    ''    function hasUnlockableContent(uint256 tokenId) public view returns (bool) {'' @ nl @
    ''        require(_exists(tokenId), '' @ [CHR 0x22] @ ''Token does not exist'' @ [CHR 0x22] @ '');'' @ nl @
    ''        return bytes(unlockableContent[tokenId]).length > 0;'' @ nl @
    ''    }''"

definition nci_addUnlockableContentFeature :: "jv \<Rightarrow> ('s, jv) js" where
  "nci_addUnlockableContentFeature contractCode =
     js_replacing (\<lambda>c. replace_first c ''}'' (nci_unlockableFunction @ nl @ ''}'')) contractCode"

definition nci_tradeLockFunction :: string where
  "nci_tradeLockFunction =
    nl @
    ''    mapping(uint256 => bool) private tradeLocked;'' @ nl @
    ''    '' @ nl @
    ''    function setTradeLock(uint256 tokenId, bool locked) public onlyOwner {'' @ nl @
    ''        require(_exists(tokenId), '' @ [CHR 0x22] @ ''Token does not exist'' @ [CHR 0x22] @ '');'' @ nl @
    ''        tradeLocked[tokenId] = locked;'' @ nl @
    ''    }'' @ nl @
    ''    '' @ nl @
    ''    function isTradeLocked(uint256 tokenId) public view returns (bool) {'' @ nl @
    ''        require(_exists(tokenId), '' @ [CHR 0x22] @ ''Token does not exist'' @ [CHR 0x22] @ '');'' @ nl @
    ''        return tradeLocked[tokenId];'' @ nl @
    ''    }'' @ nl @
    ''    '' @ nl @
    ''    function _beforeTokenTransfer('' @ nl @
    ''        address from,'' @ nl @
    ''        address to,'' @ nl @
    ''        uint256 tokenId'' @ nl @
    ''    ) internal override {'' @ nl @
    ''        require(!tradeLocked[tokenId], '' @ [CHR 0x22] @ ''Token is trade locked (soulbound)'' @ [CHR 0x22] @ '');'' @ nl @
    ''        super._beforeTokenTransfer(from, to, tokenId);'' @ nl @
    ''    }''"

definition nci_addTradeLockFeature :: "jv \<Rightarrow> ('s, jv) js" where
  "nci_addTradeLockFeature contractCode =
     js_replacing (\<lambda>c. replace_first c ''}'' (nci_tradeLockFunction @ nl @ ''}'')) contractCode"

definition nci_boosterFunction :: string where
  "nci_boosterFunction =
    nl @
    ''    mapping(uint256 => bool) private boosterTagged;'' @ nl @
    ''    '' @ nl @
    ''    function setBoosterTag(uint256 tokenId, bool tagged) public onlyOwner {'' @ nl @
    ''        require(_exists(tokenId), '' @ [CHR 0x22] @ ''Token does not exist'' @ [CHR 0x22] @ '');'' @ nl @
    ''        boosterTagged[tokenId] = tagged;'' @ nl @
    ''    }'' @ nl @
    ''    '' @ nl @
    ''    function hasBoosterTag(uint256 tokenId) public view returns (bool) {'' @ nl @
    ''        require(_exists(tokenId), '' @ [CHR 0x22] @ ''Token does not exist'' @ [CHR 0x22] @ '');'' @ nl @
    ''        return boosterTagged[tokenId];'' @ nl @
    ''    }'' @ nl @
    ''    '' @ nl @
    ''    function getBoosterMultiplier(uint256 tokenId) public view returns (uint256) {'' @ nl @
    ''        require(_exists(tokenId), '' @ [CHR 0x22] @ ''Token does not exist'' @ [CHR 0x22] @ '');'' @ nl @
    ''        return boosterTagged[tokenId] ? 2 : 1; // 2x multiplier for staking/APR'' @ nl @
    ''    }''"

definition nci_addBoosterTagFeature :: "jv \<Rightarrow> ('s, jv) js" where
  "nci_addBoosterTagFeature contractCode =
     js_replacing (\<lambda>c. replace_first c ''}'' (nci_boosterFunction @ nl @ ''}'')) contractCode"

definition nci_customImageFunction :: string where
  "nci_customImageFunction =
    nl @
    ''    mapping(uint256 => string) private customImageURIs;'' @ nl @
    ''    '' @ nl @
    ''    function setCustomImageURI(uint256 tokenId, string memory imageURI) public onlyOwner {'' @ nl @
    ''        require(_exists(tokenId), '' @ [CHR 0x22] @ ''Token does not exist'' @ [CHR 0x22] @ '');'' @ nl @
    ''        customImageURIs[tokenId] = imageURI;'' @ nl @
    ''    }'' @ nl @
    ''    '' @ nl @
    ''    function getCustomImageURI(uint256 tokenId) public view returns (string memory) {'' @ nl @
    ''        require(_exists(tokenId), '' @ [CHR 0x22] @ ''Token does not exist'' @ [CHR 0x22] @ '');'' @ nl @
    ''        return customImageURIs[tokenId];'' @ nl @
    ''    }'' @ nl @
    ''    '' @ nl @
    ''    function hasCustomImage(uint256 tokenId) public view returns (bool) {'' @ nl @
    ''        require(_exists(tokenId), '' @ [CHR 0x22] @ ''Token does not exist'' @ [CHR 0x22] @ '');'' @ nl @
    ''        return bytes(customImageURIs[tokenId]).length > 0;'' @ nl @
    ''    }''"

definition nci_addCustomImageFeature :: "jv \<Rightarrow> ('s, jv) js" where
  "nci_addCustomImageFeature contractCode =
     js_replacing (\<lambda>c. replace_first c ''}'' (nci_customImageFunction @ nl @ ''}'')) contractCode"

definition nci_verifiedFunction :: string where
  "nci_verifiedFunction =
    nl @
    ''    mapping(uint256 => bool) private verifiedBadges;'' @ nl @
    ''    '' @ nl @
    ''    function setVerifiedBadge(uint256 tokenId, bool verified) public onlyOwner {'' @ nl @
    ''        require(_exists(tokenId), '' @ [CHR 0x22] @ ''Token does not exist'' @ [CHR 0x22] @ '');'' @ nl @
    ''        verifiedBadges[tokenId] = verified;'' @ nl @
    ''    }'' @ nl @
    ''    '' @ nl @
    ''    function isVerified(uint256 tokenId) public view returns (bool) {'' @ nl @
    ''        require(_exists(tokenId), '' @ [CHR 0x22] @ ''Token does not exist'' @ [CHR 0x22] @ '');'' @ nl @
    ''        return verifiedBadges[tokenId];'' @ nl @
    ''    }'' @ nl @
    ''    '' @ nl @
    ''    function getVerifiedBadgeURI(uint256 tokenId) public view returns (string memory) {'' @ nl @
    ''        require(_exists(tokenId), '' @ [CHR 0x22] @ ''Token does not exist'' @ [CHR 0x22] @ '');'' @ nl @
    ''        return verifiedBadges[tokenId] ? '' @ [CHR 0x22] @ ''https://shah.vip/badges/verified.svg'' @ [CHR 0x22] @ '' : '' @ [CHR 0x22] @ [CHR 0x22] @ '';'' @ nl @
    ''    }''"

definition nci_addVerifiedBadgeFeature :: "jv \<Rightarrow> ('s, jv) js" where
  "nci_addVerifiedBadgeFeature contractCode =
     js_replacing (\<lambda>c. replace_first c ''}'' (nci_verifiedFunction @ nl @ ''}'')) contractCode"

definition nci_applyAddOns :: "string list \<Rightarrow> jv \<Rightarrow> ('s, jv) js" where
  "nci_applyAddOns selected code =
     js_bind (if ''unlockableContent'' \<in> set selected
              then nci_addUnlockableContentFeature code else js_return code) (\<lambda>code.
     js_bind (if ''tradeLock'' \<in> set selected then nci_addTradeLockFeature code else js_return code) (\<lambda>code.
     js_bind (if ''boosterTag'' \<in> set selected then nci_addBoosterTagFeature code else js_return code) (\<lambda>code.
     js_bind (if ''customImageUpload'' \<in> set selected
              then nci_addCustomImageFeature code else js_return code) (\<lambda>code.
     if ''verifiedBadge'' \<in> set selected then nci_addVerifiedBadgeFeature code else js_return code))))"

section \<open>Deployment\<close>

definition nci_deployContract :: "env \<Rightarrow> jv \<Rightarrow> fields \<Rightarrow> ('s, jv) js" where
  "nci_deployContract env contractCode nftConfig =
     js_catch
       (js_bind (js_ext env (Call ''new ethers.providers.JsonRpcProvider'' [JStr ''https://rpc.shah.vip''])) (\<lambda>provider.
        js_bind (js_ext env (Call ''provider.getSigner'' [provider])) (\<lambda>signer.
        js_bind (js_ext env (Call ''new ethers.Contract'' [JStr ''SHAHFACTORY_ADDRESS'', signer])) (\<lambda>shahFactory.
        let constructorArgs = JArr [obj_get nftConfig ''name'', obj_get nftConfig ''symbol'',
              js_or (obj_get nftConfig ''baseURI'') (JStr []),
              js_or (obj_get nftConfig ''tier'') (JStr ''Basic'')]
        in js_bind (js_ext env (Call ''shahFactory.deployNFT''
              [shahFactory, contractCode, constructorArgs, JObj [(''gasLimit'', JInt 5000000)]])) (\<lambda>tx.
        js_bind (js_ext env (Call ''tx.wait'' [tx])) (\<lambda>receipt.
        js_bind (js_lift (event_arg ''NFTDeployed'' ''nftAddress'' receipt)) (\<lambda>deployedAddress.
        if \<not> truthy deployedAddress
        then js_throw (Error ''Failed to extract deployed contract address'')
        else js_return deployedAddress)))))))
       (\<lambda>e. js_throw (Error (''Deployment failed: '' @ message e)))"

definition nci_generateAndDeployContract :: "env \<Rightarrow> (integration, jv) js" where
  "nci_generateAndDeployContract env =
     js_bind the_session (\<lambda>s.
     js_bind (nci_generateBaseContract (JObj (s_config s))) (\<lambda>code.
     js_bind (nci_applyAddOns (s_addOns s) code) (\<lambda>code.
     js_bind (nci_deployContract env code (s_config s)) (\<lambda>deployedAddress.
     js_bind (js_ext env (Call ''new Date().toISOString'' [])) (\<lambda>t.
     js_return (JObj [(''contractAddress'', deployedAddress), (''contractCode'', code),
                      (''deployedAt'', t)]))))))"

section \<open>Sessions\<close>

definition new_NFTCreationIntegration :: "fields \<Rightarrow> integration" where
  "new_NFTCreationIntegration cfg =
     \<lparr>monetizationSystem = new_NFTMonetizationSystem cfg, isInitialized = False, currentSession = None\<rparr>"

definition nci_initialize :: "env \<Rightarrow> (integration, jv) js" where
  "nci_initialize env =
     js_bind js_this (\<lambda>i.
     js_bind (nft_getShahPrice env (monetizationSystem i)) (\<lambda>_.
     js_bind (js_update (\<lambda>i. i\<lparr>isInitialized := True\<rparr>)) (\<lambda>_.
     js_return (JBool True))))"

definition nci_generateSessionId :: "env \<Rightarrow> ('s, string) js" where
  "nci_generateSessionId env =
     js_bind (js_ext env (Call ''Date.now'' [])) (\<lambda>t.
     js_bind (js_ext env (Call ''Math.random().toString(36).substr(2, 9)'' [])) (\<lambda>r.
     js_return (''nft_session_'' @ to_str t @ ''_'' @ to_str r)))"

definition nci_updateSessionPrice :: "env \<Rightarrow> (integration, jv) js" where
  "nci_updateSessionPrice env =
     js_bind js_this (\<lambda>i. case currentSession i of
       None \<Rightarrow> js_throw (Error ''No active NFT creation session'')
     | Some s \<Rightarrow>
         js_bind (nft_calculateTotalPrice env (monetizationSystem i) (s_addOns s)
           (JObj [(''tier'', js_or (obj_get (s_config s) ''tier'') (JStr ''Basic''))])) (\<lambda>pd.
         js_bind (upd_session (\<lambda>s. s\<lparr>s_priceData := pd\<rparr>)) (\<lambda>_.
         js_return pd)))"

definition startNFTCreationSession :: "env \<Rightarrow> fields \<Rightarrow> (integration, jv) js" where
  "startNFTCreationSession env nftConfig =
     js_bind js_this (\<lambda>i.
     js_bind (if isInitialized i then js_return (JBool True) else nci_initialize env) (\<lambda>_.
       let errs = validateNFTConfig nftConfig in
       if errs \<noteq> [] then js_throw (Error (''NFT configuration errors: '' @ join_with '', '' errs))
       else
         js_bind (nci_generateSessionId env) (\<lambda>sid.
         js_bind (js_ext env (Call ''new Date().toISOString'' [])) (\<lambda>t.
         js_bind (js_update (\<lambda>i. i\<lparr>currentSession := Some
            \<lparr>s_id = sid,
             s_config = obj_set nftConfig ''tier'' (js_or (obj_get nftConfig ''tier'') (JStr ''Basic'')),
             s_addOns = [], s_method = ''shah'', s_tier = JUndef, s_priceData = JNull,
             s_status = ''created'', s_createdAt = t, s_paymentResult = JUndef,
             s_contractResult = JUndef, s_error = JUndef\<rparr>\<rparr>)) (\<lambda>_.
         js_bind (nci_updateSessionPrice env) (\<lambda>_.
         js_bind the_session (\<lambda>s. js_return (session_obj ''nftConfig'' s))))))))"

definition nci_updateAddOns :: "env \<Rightarrow> string list \<Rightarrow> (integration, jv) js" where
  "nci_updateAddOns env selected =
     js_bind js_this (\<lambda>i. case currentSession i of
       None \<Rightarrow> js_throw (Error ''No active NFT creation session'')
     | Some _ \<Rightarrow>
         js_bind (upd_session (\<lambda>s. s\<lparr>s_addOns := selected\<rparr>)) (\<lambda>_.
         js_bind (nci_updateSessionPrice env) (\<lambda>_.
         js_bind the_session (\<lambda>s. js_return (session_obj ''nftConfig'' s)))))"

definition nci_updatePaymentMethod :: "string \<Rightarrow> (integration, jv) js" where
  "nci_updatePaymentMethod method =
     js_bind js_this (\<lambda>i. case currentSession i of
       None \<Rightarrow> js_throw (Error ''No active NFT creation session'')
     | Some _ \<Rightarrow>
         js_bind (upd_session (\<lambda>s. s\<lparr>s_method := method\<rparr>)) (\<lambda>_.
         js_bind the_session (\<lambda>s. js_return (session_obj ''nftConfig'' s))))"

definition processNFTCreation :: "env \<Rightarrow> (integration, jv) js" where
  "processNFTCreation env =
     js_bind js_this (\<lambda>i. case currentSession i of
       None \<Rightarrow> js_throw (Error ''No active NFT creation session'')
     | Some s0 \<Rightarrow>
         js_bind (if truthy (s_priceData s0) then js_return JUndef else nci_updateSessionPrice env) (\<lambda>_.
         js_catch
           (js_bind (upd_session (\<lambda>s. s\<lparr>s_status := ''processing_payment''\<rparr>)) (\<lambda>_.
            js_bind the_session (\<lambda>s.
            js_bind (nft_processPayment env (monetizationSystem i) (s_method s) (s_priceData s) (JObj (s_config s))) (\<lambda>paymentResult.
            js_bind (nft_savePaymentData env paymentResult (JObj (s_config s)) (s_addOns s)) (\<lambda>_.
            js_bind (upd_session (\<lambda>s. s\<lparr>s_status := ''payment_completed'', s_paymentResult := paymentResult\<rparr>)) (\<lambda>_.
            js_bind (nci_generateAndDeployContract env) (\<lambda>contractResult.
            js_bind (upd_session (\<lambda>s. s\<lparr>s_status := ''completed'', s_contractResult := contractResult\<rparr>)) (\<lambda>_.
            js_bind the_session (\<lambda>s'.
            js_bind (js_get contractResult ''contractAddress'') (\<lambda>addr.
            js_return (JObj [(''success'', JBool True), (''session'', session_obj ''nftConfig'' s'),
              (''contractAddress'', addr), (''paymentResult'', paymentResult)])))))))))))
           (\<lambda>e. js_bind (upd_session (\<lambda>s. s\<lparr>s_status := ''failed'', s_error := JStr (message e)\<rparr>)) (\<lambda>_.
                js_throw e))))"

section \<open>Queries\<close>

definition nci_getCurrentSession :: "integration \<Rightarrow> creation_session option" where
  "nci_getCurrentSession i = currentSession i"

definition nci_clearSession :: "(integration, unit) js" where
  "nci_clearSession = js_update (\<lambda>i. i\<lparr>currentSession := None\<rparr>)"

definition nci_getSessionHistory :: "integration \<Rightarrow> creation_session list" where
  "nci_getSessionHistory i = (case currentSession i of Some s \<Rightarrow> [s] | None \<Rightarrow> [])"

definition nci_validateSession :: "integration \<Rightarrow> jv" where
  "nci_validateSession i = (case currentSession i of
      None \<Rightarrow> invalid_session ''No active session''
    | Some s \<Rightarrow> (let errs = validateNFTConfig (s_config s) in
        if errs \<noteq> [] then invalid_session (''Configuration errors: '' @ join_with '', '' errs)
        else valid_session))"

definition nci_estimateDeploymentGas :: "env \<Rightarrow> fields \<Rightarrow> string list \<Rightarrow> (integration, jv) js" where
  "nci_estimateDeploymentGas env nftConfig selected =
     js_catch
       (js_bind js_this (\<lambda>i.
        js_bind (nci_generateBaseContract (JObj nftConfig)) (\<lambda>code.
        js_bind (nci_applyAddOns selected code) (\<lambda>code.
        js_bind (js_ext env (Call ''new ethers.providers.JsonRpcProvider'' [JStr ''https://rpc.shah.vip''])) (\<lambda>provider.
        js_bind (js_ext env (Call ''provider.estimateGas'' [provider, JObj [(''data'', code), (''value'', JInt 0)]])) (\<lambda>gasEstimate.
        js_bind (js_ext env (Call ''provider.getGasPrice'' [provider])) (\<lambda>gasPrice.
        js_bind (js_ext env (Call ''gasEstimate.mul'' [gasEstimate, gasPrice])) (\<lambda>costInWei.
        js_bind (js_ext env (Call ''ethers.utils.formatEther'' [costInWei])) (\<lambda>costInShah.
        js_bind (nft_getShahPrice env (monetizationSystem i)) (\<lambda>shahPrice.
        js_bind (js_ext env (Call ''gasEstimate.toString'' [gasEstimate])) (\<lambda>ge.
        js_bind (js_ext env (Call ''ethers.utils.formatUnits'' [gasPrice, JStr ''gwei''])) (\<lambda>gwei.
        let cost = parse_float (to_str costInShah); costInUSD = num_mul cost (to_number shahPrice)
        in js_return (JObj [(''gasEstimate'', ge), (''gasPrice'', JStr (to_str gwei @ '' gwei'')),
             (''costInShah'', JStr (to_fixed 6 cost)), (''costInUSD'', JStr (to_fixed 2 costInUSD)),
             (''shahPrice'', shahPrice)])))))))))))))
       (\<lambda>e. js_throw (Error (''Gas estimation failed: '' @ message e)))"

section \<open>Minting\<close>

text \<open>The optional setter calls after a mint, each guarded by a metadata field.\<close>

definition nci_set_if :: "env \<Rightarrow> jv \<Rightarrow> string \<Rightarrow> string \<Rightarrow> jv \<Rightarrow> jv \<Rightarrow> (jv \<Rightarrow> jv) \<Rightarrow> ('s, unit) js" where
  "nci_set_if env metadata key method nftContract tokenId val =
     js_bind (js_get metadata key) (\<lambda>v.
     if truthy v then js_bind (js_ext env (Call method [nftContract, tokenId, val v])) (\<lambda>_. js_return ())
     else js_return ())"

definition mintNFT :: "env \<Rightarrow> jv \<Rightarrow> jv \<Rightarrow> (integration, jv) js" where
  "mintNFT env tokenId metadata =
     js_catch
       (js_bind (js_ext env (Call ''new ethers.providers.JsonRpcProvider'' [JStr ''https://rpc.shah.vip''])) (\<lambda>provider.
        js_bind (js_ext env (Call ''provider.getSigner'' [provider])) (\<lambda>signer.
        js_bind the_session (\<lambda>s.
        js_bind (js_get (s_contractResult s) ''contractAddress'') (\<lambda>addr.
        js_bind (js_ext env (Call ''new ethers.Contract'' [addr, JStr ''NFT_ABI'', signer])) (\<lambda>nftContract.
        js_bind (js_get metadata ''owner'') (\<lambda>owner.
        js_bind (if truthy owner then js_return owner
                 else js_ext env (Call ''signer.getAddress'' [signer])) (\<lambda>recipient.
        js_bind (js_ext env (Call ''nftContract.mint'' [nftContract, recipient])) (\<lambda>tx.
        js_bind (js_ext env (Call ''tx.wait'' [tx])) (\<lambda>receipt.
        js_bind (nci_set_if env metadata ''unlockableContent'' ''nftContract.setUnlockableContent'' nftContract tokenId (\<lambda>v. v)) (\<lambda>_.
        js_bind (nci_set_if env metadata ''customImageURI'' ''nftContract.setCustomImageURI'' nftContract tokenId (\<lambda>v. v)) (\<lambda>_.
        js_bind (nci_set_if env metadata ''verifiedBadge'' ''nftContract.setVerifiedBadge'' nftContract tokenId (\<lambda>_. JBool True)) (\<lambda>_.
        js_bind (nci_set_if env metadata ''tradeLocked'' ''nftContract.setTradeLock'' nftContract tokenId (\<lambda>_. JBool True)) (\<lambda>_.
        js_bind (nci_set_if env metadata ''boosterTag'' ''nftContract.setBoosterTag'' nftContract tokenId (\<lambda>_. JBool True)) (\<lambda>_.
        js_bind (js_get receipt ''transactionHash'') (\<lambda>h.
        js_return (JObj [(''success'', JBool True), (''tokenId'', tokenId), (''txHash'', h),
                         (''metadata'', metadata)])))))))))))))))))
       (\<lambda>e. js_throw (Error (''Minting failed: '' @ message e)))"

section \<open>Tier upgrades\<close>

text \<open>\<open>calculateUpgradePrice\<close> is not awaited: the price request is sent, but the value the
  method works with is the promise, an object without properties \<open>usd\<close> and \<open>shah\<close>.
  What the promise does later is not part of this run.\<close>

definition nci_unawaited_price :: "env \<Rightarrow> monetization_system \<Rightarrow> ('s, jv) js" where
  "nci_unawaited_price env sys =
     js_catch (js_bind (js_ext env (Call ''fetch'' [obj_get (config sys) ''shahSwapAPI''])) (\<lambda>_. js_return (JObj [])))
              (\<lambda>_. js_return (JObj []))"

definition nci_updateOnChainTier :: "env \<Rightarrow> jv \<Rightarrow> jv \<Rightarrow> ('s, unit) js" where
  "nci_updateOnChainTier env contractAddress newTier =
     js_catch
       (js_bind (js_ext env (Call ''new ethers.providers.JsonRpcProvider'' [JStr ''https://rpc.shah.vip''])) (\<lambda>provider.
        js_bind (js_ext env (Call ''provider.getSigner'' [provider])) (\<lambda>signer.
        js_bind (js_ext env (Call ''new ethers.Contract'' [contractAddress, JStr ''NFT_ABI'', signer])) (\<lambda>nftContract.
        js_bind (js_get nftContract ''functions'') (\<lambda>functions.
        if truthy functions \<and> truthy (jopt functions ''setCollectionTier'') then
          js_bind (js_ext env (Call ''nftContract.setCollectionTier'' [nftContract, newTier])) (\<lambda>tx.
          js_bind (js_ext env (Call ''tx.wait'' [tx])) (\<lambda>_. js_return ()))
        else js_return ())))))
       (\<lambda>_. js_return ())"

definition recordNFTTierUpgrade :: "jv \<Rightarrow> jv \<Rightarrow> ('s, jv) js" where
  "recordNFTTierUpgrade contractAddress newTier = js_return (JBool True)"

definition nci_upgradeTier :: "env \<Rightarrow> jv \<Rightarrow> jv \<Rightarrow> jv \<Rightarrow> string \<Rightarrow> (integration, jv) js" where
  "nci_upgradeTier env contractAddress currentTier newTier method =
     js_bind js_this (\<lambda>i.
     js_bind (nci_unawaited_price env (monetizationSystem i)) (\<lambda>priceDiff.
     js_bind (js_get priceDiff ''usd'') (\<lambda>usd.
     if num_le (to_number usd) (Fin 0)
     then js_return (JObj [(''success'', JBool True), (''message'', JStr ''No upgrade needed'')])
     else
       js_bind (js_get priceDiff ''shah'') (\<lambda>shah.
       let pd = JObj [(''usdTotal'', usd), (''shahTotal'', shah), (''tier'', newTier)];
           info = JObj [(''contractAddress'', contractAddress), (''currentTier'', currentTier), (''newTier'', newTier)]
       in js_bind (nft_processPayment env (monetizationSystem i) method pd
            (JObj [(''type'', JStr ''nftTierUpgrade''), (''contractAddress'', contractAddress),
                   (''currentTier'', currentTier), (''newTier'', newTier)])) (\<lambda>paymentResult.
          js_bind (nft_savePaymentData env paymentResult info []) (\<lambda>_.
          js_bind (nci_updateOnChainTier env contractAddress newTier) (\<lambda>_.
          js_bind (recordNFTTierUpgrade contractAddress newTier) (\<lambda>_.
          js_return (JObj [(''success'', JBool True), (''paymentResult'', paymentResult)])))))))))"

section \<open>Laws\<close>

lemma nci_contract_pure [avoids_intros]:
  "avoids B (nci_generateBaseContract c)" "avoids B (nci_applyAddOns ks code)"
  unfolding nci_generateBaseContract_def nci_applyAddOns_def nci_addUnlockableContentFeature_def
    nci_addTradeLockFeature_def nci_addBoosterTagFeature_def nci_addCustomImageFeature_def nci_addVerifiedBadgeFeature_def
  by (intro avoids_intros)+

lemma nci_contract_keeps [keeps_intros]:
  "keeps_state (nci_generateBaseContract c)" "keeps_state (nci_applyAddOns ks code)"
  unfolding nci_generateBaseContract_def nci_applyAddOns_def nci_addUnlockableContentFeature_def
    nci_addTradeLockFeature_def nci_addBoosterTagFeature_def nci_addCustomImageFeature_def nci_addVerifiedBadgeFeature_def
  by (intro keeps_intros)+

lemma nci_deploy_extends: "avoids (\<lambda>_. False) (nci_generateAndDeployContract env)"
  unfolding nci_generateAndDeployContract_def nci_deployContract_def Let_def
  by (intro avoids_intros; simp)

lemma nci_deploy_keeps: "keeps_state (nci_generateAndDeployContract env)"
  unfolding nci_generateAndDeployContract_def nci_deployContract_def Let_def
  by (intro keeps_intros)

lemma nft_pay_keeps: "keeps_state (nft_processPayment env sys m a c)"
  unfolding nft_processPayment_def nft_processShahPayment_def
    nft_processShahTokenPayment_def nft_processStripePayment_def
  by (intro keeps_intros)

lemma nft_save_keeps: "keeps_state (nft_savePaymentData env r c ks)"
  unfolding nft_savePaymentData_def Let_def by (intro keeps_intros)

lemma nft_price_keeps: "keeps_state (nft_calculateTotalPrice env sys ks opts)"
  unfolding nft_calculateTotalPrice_def nft_calculateBaseFee_def nft_getShahPrice_def Let_def
  by (intro keeps_intros)

lemma nci_update_quiet: "avoids (\<lambda>c. is_charge c \<or> is_deploy c) (nci_updateSessionPrice env)"
  unfolding nci_updateSessionPrice_def by (intro avoids_intros nft_price_quiet)

lemma nci_update_status:
  assumes "nci_updateSessionPrice env w = (r, w')"
  shows "map_option s_status (currentSession (fst w')) = map_option s_status (currentSession (fst w))"
proof (cases "currentSession (fst w)")
  case None
  then show ?thesis using assms by (auto simp: nci_updateSessionPrice_def js_defs)
next
  case (Some s)
  let ?m = "nft_calculateTotalPrice env (monetizationSystem (fst w)) (s_addOns s)
     (JObj [(''tier'', js_or (obj_get (s_config s) ''tier'') (JStr ''Basic''))])"
  have k: "fst (snd (?m w)) = fst w" using nft_price_keeps unfolding keeps_state_def by blast
  show ?thesis
    using assms k Some
    by (cases "?m w"; cases "fst (?m w)")
       (auto simp: nci_updateSessionPrice_def upd_session_def js_defs)
qed

interpretation nciflow: session_flow "''No active NFT creation session''"
  "nci_updateSessionPrice env"
  "\<lambda>i s. nft_processPayment env (monetizationSystem i) (s_method s) (s_priceData s) (JObj (s_config s))"
  "\<lambda>x s. nft_savePaymentData env x (JObj (s_config s)) (s_addOns s)"
  "nci_generateAndDeployContract env" "''nftConfig''" for env
  by unfold_locales
     (auto intro: nci_update_quiet nft_pay_no_deploy nft_pay_keeps nft_pay_charges
        avoids_weaken [OF nft_save_quiet] nft_save_keeps nci_deploy_extends nci_deploy_keeps
        dest: nci_update_status)

lemma processNFTCreation_flow: "processNFTCreation env = nciflow.process env"
  unfolding processNFTCreation_def nciflow.process_def nciflow.body_def ..

section \<open>The integration as a state machine\<close>

text \<open>One step is one call of a state-changing method, with any arguments.\<close>

inductive nci_step :: "env \<Rightarrow> integration world \<Rightarrow> integration world \<Rightarrow> bool" for env where
  initialize: "nci_step env w (snd (nci_initialize env w))"
| start: "nci_step env w (snd (startNFTCreationSession env cfg w))"
| addons: "nci_step env w (snd (nci_updateAddOns env ks w))"
| set_method: "nci_step env w (snd (nci_updatePaymentMethod m w))"
| price: "nci_step env w (snd (nci_updateSessionPrice env w))"
| process: "nci_step env w (snd (processNFTCreation env w))"
| upgrade: "nci_step env w (snd (nci_upgradeTier env a cur new m w))"
| mint: "nci_step env w (snd (mintNFT env tokenId metadata w))"
| clear: "nci_step env w (snd (nci_clearSession w))"

inductive nci_reach :: "env \<Rightarrow> fields \<Rightarrow> integration world \<Rightarrow> bool" for env cfg where
  init: "nci_reach env cfg (new_NFTCreationIntegration cfg, [])"
| step: "nci_reach env cfg w \<Longrightarrow> nci_step env w w' \<Longrightarrow> nci_reach env cfg w'"

named_theorems nci_inv \<open>each method keeps the session invariant\<close>

lemma nci_inv_price [nci_inv]: "js_inv session_ok (nci_updateSessionPrice env)"
  using nciflow.update_hoare by (simp add: js_inv_def)

lemma nci_inv_initialize [nci_inv]: "js_inv session_ok (nci_initialize env)"
proof -
  have "js_inv session_ok (nft_getShahPrice env sys)" for sys
    by (rule session_inv_keeps; unfold nft_getShahPrice_def; intro avoids_intros keeps_intros)
       (simp_all add: charge_defs)
  moreover have "js_inv session_ok (js_update (\<lambda>i. i\<lparr>isInitialized := True\<rparr>))"
    by (rule js_invI) (auto simp: js_update_def session_ok_def split: option.splits)
  ultimately show ?thesis unfolding nci_initialize_def by (intro inv_intros)
qed

lemma nci_inv_addons [nci_inv]: "js_inv session_ok (nci_updateAddOns env ks)"
  unfolding nci_updateAddOns_def by (intro inv_intros nci_inv session_inv_the session_inv_upd) simp

lemma nci_inv_method [nci_inv]: "js_inv session_ok (nci_updatePaymentMethod m)"
  unfolding nci_updatePaymentMethod_def by (intro inv_intros nci_inv session_inv_the session_inv_upd) simp

lemma nci_inv_start [nci_inv]: "js_inv session_ok (startNFTCreationSession env cfg)"
proof -
  have new: "js_inv session_ok (js_update (\<lambda>i. i\<lparr>currentSession := Some
            \<lparr>s_id = sid, s_config = c', s_addOns = [], s_method = ''shah'', s_tier = JUndef, s_priceData = JNull,
             s_status = ''created'', s_createdAt = t, s_paymentResult = JUndef,
             s_contractResult = JUndef, s_error = JUndef\<rparr>\<rparr>))" for sid c' t
    by (rule js_invI) (auto simp: js_update_def session_ok_def session_statuses_def split: option.splits)
  show ?thesis
    unfolding startNFTCreationSession_def Let_def nci_generateSessionId_def
    by (intro inv_intros nci_inv session_inv_the new session_inv_ext) (simp_all add: charge_defs)
qed

lemma nci_inv_process [nci_inv]: "js_inv session_ok (processNFTCreation env)"
  unfolding processNFTCreation_flow js_inv_def
  by (rule hoare_conseq [OF nciflow.process_hoare]) auto

lemma nci_inv_upgrade [nci_inv]: "js_inv session_ok (nci_upgradeTier env a cur new m)"
proof (rule session_inv_keeps)
  show "avoids is_deploy (nci_upgradeTier env a cur new m)"
    unfolding nci_upgradeTier_def Let_def recordNFTTierUpgrade_def nci_unawaited_price_def nci_updateOnChainTier_def
    by (intro avoids_intros nft_pay_no_deploy avoids_weaken [OF nft_save_quiet]) (simp_all add: charge_defs)
  show "keeps_state (nci_upgradeTier env a cur new m)"
    unfolding nci_upgradeTier_def Let_def recordNFTTierUpgrade_def nci_unawaited_price_def nci_updateOnChainTier_def
    by (intro keeps_intros nft_pay_keeps nft_save_keeps)
qed

lemma nci_inv_mint [nci_inv]: "js_inv session_ok (mintNFT env tokenId metadata)"
proof (rule session_inv_keeps)
  show "avoids is_deploy (mintNFT env tokenId metadata)"
    unfolding mintNFT_def nci_set_if_def by (intro avoids_intros) (simp_all add: charge_defs)
  show "keeps_state (mintNFT env tokenId metadata)"
    unfolding mintNFT_def nci_set_if_def by (intro keeps_intros)
qed

lemma nci_inv_clear [nci_inv]: "js_inv session_ok nci_clearSession"
  unfolding nci_clearSession_def
  by (rule js_invI) (auto simp: js_update_def session_ok_def split: option.splits)

lemma nci_step_ok: "nci_step env w w' \<Longrightarrow> session_ok w \<Longrightarrow> session_ok w'"
  by (erule nci_step.cases) (auto intro: js_invD nci_inv)

section \<open>Properties\<close>



lemma nci_unawaited_run:
  "\<exists>tr'. nci_unawaited_price env sys (s, tr) = (Inr (JObj []), (s, tr @ [tr'])) \<and> \<not> is_charge tr'"
  by (auto simp: nci_unawaited_price_def js_simps charge_defs split: sum.splits)

text \<open>What an upgrade does after its payment.\<close>

abbreviation nci_afterPayment :: "env \<Rightarrow> jv \<Rightarrow> jv \<Rightarrow> jv \<Rightarrow> jv \<Rightarrow> (integration, jv) js" where
  "nci_afterPayment env a cur new r \<equiv>
     js_bind (nft_savePaymentData env r
       (JObj [(''contractAddress'', a), (''currentTier'', cur), (''newTier'', new)]) []) (\<lambda>_.
     js_bind (nci_updateOnChainTier env a new) (\<lambda>_.
     js_bind (recordNFTTierUpgrade a new) (\<lambda>_.
     js_return (JObj [(''success'', JBool True), (''paymentResult'', r)]))))"

lemma nci_afterPayment_extends: "avoids (\<lambda>_. False) (nci_afterPayment env a cur new r)"
  unfolding nft_savePaymentData_def recordNFTTierUpgrade_def nci_updateOnChainTier_def Let_def
  by (intro avoids_intros) simp_all

lemma nci_upgrade_run:
  "\<exists>t0. nci_upgradeTier env a cur new ''stripe'' (i, []) =
     js_bind (nft_processStripePayment env (monetizationSystem i)
       (JObj [(''usdTotal'', JUndef), (''shahTotal'', JUndef), (''tier'', new)]))
       (nci_afterPayment env a cur new) (i, [t0])"
proof -
  obtain t0 where p: "nci_unawaited_price env (monetizationSystem i) (i, []) = (Inr (JObj []), (i, [t0]))"
    using nci_unawaited_run [of env "monetizationSystem i" i "[]"] by auto
  have undef: "proto_value ''usd'' = JUndef" "proto_value ''shah'' = JUndef"
    by (simp_all add: proto_value_def proto_keys_def)
  show ?thesis
    unfolding nci_upgradeTier_def
    by (rule exI [of _ t0])
       (simp add: js_bind_apply [of js_this] js_this_apply js_bind_apply [of "nci_unawaited_price env (monetizationSystem i)"]
          p js_bind_apply [of "js_get (JObj []) k" for k] js_get_apply undef nft_processPayment_def Let_def)
qed

text \<open>Because the price difference is not awaited, an NFT tier upgrade that completes by
  card has always gone through a payment, even between equal tiers, and the payment
  intent it requested had the amount NaN.\<close>

theorem nft_upgrade_charges_nan:
  assumes "nci_upgradeTier env a cur new ''stripe'' (i, []) = (Inr v, (i', tr))"
  shows "charged tr \<and> Call ''fetch'' [JStr ''/api/create-payment-intent'',
    JObj [(''amount'', JNum NaN), (''currency'', JStr ''usd'')]] \<in> set tr"
proof -
  let ?fs = "[(''usdTotal'', JUndef), (''shahTotal'', JUndef), (''tier'', new)]"
  obtain t0 where "js_bind (nft_processStripePayment env (monetizationSystem i) (JObj ?fs))
      (nci_afterPayment env a cur new) (i, [t0]) = (Inr v, (i', tr))"
    using nci_upgrade_run [of env a cur new i] assms by auto
  then obtain r w1 where pay: "nft_processStripePayment env (monetizationSystem i) (JObj ?fs) (i, [t0]) = (Inr r, w1)"
    and rest: "nci_afterPayment env a cur new r w1 = (Inr v, (i', tr))"
    by (rule js_bind_okE)
  have nan: "usd_cents (obj_get ?fs ''totalUSD'') = NaN"
    by (simp add: usd_cents_def proto_value_def proto_keys_def)
  have sub: "set (snd w1) \<subseteq> set tr" using quiet_set [OF nci_afterPayment_extends rest] by simp
  have "charged (snd w1)"
    using nft_pay_charges [of env "monetizationSystem i" "''stripe''" "JObj ?fs"] pay
    by (simp add: nft_processPayment_def)
  then have "charged tr" using sub by (auto simp: charged_def)
  then show ?thesis using nft_stripe_success [OF pay] sub unfolding nan by auto
qed

theorem nft_upgrade_charges_nan_witness:
  "\<exists>v i' tr. nci_upgradeTier (stripe_env 2) (JStr ''0x1'') (JStr ''Pro'') (JStr ''Pro'') ''stripe''
      (new_NFTCreationIntegration [], []) = (Inr v, (i', tr)) \<and> charged tr"
proof -
  have "\<exists>v i' tr. nci_upgradeTier (stripe_env 2) (JStr ''0x1'') (JStr ''Pro'') (JStr ''Pro'') ''stripe''
      (new_NFTCreationIntegration [], []) = (Inr v, (i', tr))"
    by (simp add: nci_upgradeTier_def js_simps nci_unawaited_price_def nft_processPayment_def
        nft_processStripePayment_def nft_savePaymentData_def recordNFTTierUpgrade_def nci_updateOnChainTier_def
        stripe_env_def Let_def
        proto_value_def proto_keys_def)
  then obtain v i' tr where run: "nci_upgradeTier (stripe_env 2) (JStr ''0x1'') (JStr ''Pro'') (JStr ''Pro'') ''stripe''
      (new_NFTCreationIntegration [], []) = (Inr v, (i', tr))" by blast
  show ?thesis using run nft_upgrade_charges_nan [OF run] by blast
qed

end
