(* ===== verification/BundleCreationIntegration.thy ===== *)
theory BundleCreationIntegration
  imports BundleMonetization TokenCreationIntegration NFTCreationIntegration
begin

text \<open>
  sdk-core/smart-contract-toolkit/BundleCreationIntegration.js: sessions that create a
  token and an NFT together, on top of the token and NFT integrations.  The bundle
  monetization system has no method \<open>initialize\<close>, so that call is a TypeError.
\<close>

section \<open>State\<close>

record bundle_session =
  bs_id :: string
  bs_tokenConfig :: fields
  bs_nftConfig :: fields
  bs_addOns :: "string list"
  bs_method :: string
  bs_price :: jv
  bs_status :: string
  bs_createdAt :: jv
  bs_paymentResult :: jv
  bs_contractResult :: jv
  bs_error :: jv

record bundle_integration =
  bundleMonetization :: bundle_system
  tokenIntegration :: integration
  nftIntegration :: integration
  b_isInitialized :: bool
  b_session :: "bundle_session option"

definition new_BundleCreationIntegration :: "fields \<Rightarrow> bundle_integration" where
  "new_BundleCreationIntegration cfg =
     \<lparr>bundleMonetization = new_BundleMonetizationSystem cfg,
      tokenIntegration = new_TokenCreationIntegration cfg,
      nftIntegration = new_NFTCreationIntegration cfg, b_isInitialized = False, b_session = None\<rparr>"

definition on_token :: "(integration, 'a) js \<Rightarrow> (bundle_integration, 'a) js" where
  "on_token = js_zoom tokenIntegration (\<lambda>i b. b\<lparr>tokenIntegration := i\<rparr>)"

definition on_nft :: "(integration, 'a) js \<Rightarrow> (bundle_integration, 'a) js" where
  "on_nft = js_zoom nftIntegration (\<lambda>i b. b\<lparr>nftIntegration := i\<rparr>)"

definition upd_bundle :: "(bundle_session \<Rightarrow> bundle_session) \<Rightarrow> (bundle_integration, unit) js" where
  "upd_bundle f = js_update (\<lambda>b. b\<lparr>b_session := map_option f (b_session b)\<rparr>)"

definition the_bundle :: "(bundle_integration, bundle_session) js" where
  "the_bundle = js_bind js_this (\<lambda>b. case b_session b of
      Some s \<Rightarrow> js_return s | None \<Rightarrow> js_throw (cannot_read ''null'' ''status''))"

definition bundle_session_obj :: "bundle_session \<Rightarrow> jv" where
  "bundle_session_obj s = JObj [(''id'', JStr (bs_id s)), (''tokenConfig'', JObj (bs_tokenConfig s)),
     (''nftConfig'', JObj (bs_nftConfig s)), (''selectedNFTAddOns'', strs (bs_addOns s)),
     (''paymentMethod'', JStr (bs_method s)), (''bundlePrice'', bs_price s), (''status'', JStr (bs_status s)),
     (''createdAt'', bs_createdAt s)]"

section \<open>Sessions\<close>

definition bci_initialize :: "env \<Rightarrow> (bundle_integration, jv) js" where
  "bci_initialize env =
     js_bind (js_throw (TypeError ''this.bundleMonetization.initialize is not a function'')) (\<lambda>_ :: unit.
     js_bind (on_token (tci_initialize env)) (\<lambda>_.
     js_bind (on_nft (nci_initialize env)) (\<lambda>_.
     js_bind (js_update (\<lambda>b. b\<lparr>b_isInitialized := True\<rparr>)) (\<lambda>_.
     js_return (JBool True)))))"

definition bci_generateSessionId :: "env \<Rightarrow> ('s, string) js" where
  "bci_generateSessionId env =
     js_bind (js_ext env (Call ''Date.now'' [])) (\<lambda>t.
     js_bind (js_ext env (Call ''Math.random().toString(36).substr(2, 9)'' [])) (\<lambda>r.
     js_return (''bundle_session_'' @ to_str t @ ''_'' @ to_str r)))"

definition updateBundlePrice :: "env \<Rightarrow> (bundle_integration, jv) js" where
  "updateBundlePrice env =
     js_bind js_this (\<lambda>b. case b_session b of
       None \<Rightarrow> js_throw (Error ''No active bundle creation session'')
     | Some s \<Rightarrow>
         js_bind (calculateBundlePrice env (bundleMonetization b) (JObj (bs_tokenConfig s))
                    (JObj (bs_nftConfig s)) (bs_addOns s)) (\<lambda>bp.
         js_bind (upd_bundle (\<lambda>s. s\<lparr>bs_price := bp\<rparr>)) (\<lambda>_.
         js_return bp)))"

definition startBundleCreationSession :: "env \<Rightarrow> fields \<Rightarrow> fields \<Rightarrow> (bundle_integration, jv) js" where
  "startBundleCreationSession env tokenConfig nftConfig =
     js_bind js_this (\<lambda>b.
     js_bind (if b_isInitialized b then js_return (JBool True) else bci_initialize env) (\<lambda>_.
       let errs = validateBundleConfig tokenConfig nftConfig in
       if errs \<noteq> [] then js_throw (Error (''Bundle configuration errors: '' @ join_with '', '' errs))
       else
         js_bind (bci_generateSessionId env) (\<lambda>sid.
         js_bind (js_ext env (Call ''new Date().toISOString'' [])) (\<lambda>t.
         js_bind (js_update (\<lambda>b. b\<lparr>b_session := Some
            \<lparr>bs_id = sid, bs_tokenConfig = tokenConfig, bs_nftConfig = nftConfig, bs_addOns = [],
             bs_method = ''shah'', bs_price = JNull, bs_status = ''created'', bs_createdAt = t,
             bs_paymentResult = JUndef, bs_contractResult = JUndef, bs_error = JUndef\<rparr>\<rparr>)) (\<lambda>_.
         js_bind (updateBundlePrice env) (\<lambda>_.
         js_bind the_bundle (\<lambda>s. js_return (bundle_session_obj s))))))))"

definition updateNFTAddOns :: "env \<Rightarrow> string list \<Rightarrow> (bundle_integration, jv) js" where
  "updateNFTAddOns env selected =
     js_bind js_this (\<lambda>b. case b_session b of
       None \<Rightarrow> js_throw (Error ''No active bundle creation session'')
     | Some _ \<Rightarrow>
         js_bind (upd_bundle (\<lambda>s. s\<lparr>bs_addOns := selected\<rparr>)) (\<lambda>_.
         js_bind (updateBundlePrice env) (\<lambda>_.
         js_bind the_bundle (\<lambda>s. js_return (bundle_session_obj s)))))"

definition bci_updatePaymentMethod :: "string \<Rightarrow> (bundle_integration, jv) js" where
  "bci_updatePaymentMethod method =
     js_bind js_this (\<lambda>b. case b_session b of
       None \<Rightarrow> js_throw (Error ''No active bundle creation session'')
     | Some _ \<Rightarrow>
         js_bind (upd_bundle (\<lambda>s. s\<lparr>bs_method := method\<rparr>)) (\<lambda>_.
         js_bind the_bundle (\<lambda>s. js_return (bundle_session_obj s))))"

definition deployTokenContract :: "env \<Rightarrow> fields \<Rightarrow> (bundle_integration, jv) js" where
  "deployTokenContract env tokenConfig =
     js_catch
       (js_bind (on_token (startTokenCreationSession env tokenConfig)) (\<lambda>_.
        js_bind (on_token (processTokenCreation env)) (\<lambda>tokenResult.
        js_bind (js_get tokenResult ''contractAddress'') (\<lambda>a.
        js_bind (js_get tokenResult ''contractCode'') (\<lambda>c.
        js_bind (js_ext env (Call ''new Date().toISOString'' [])) (\<lambda>t.
        js_return (JObj [(''contractAddress'', a), (''contractCode'', c), (''deployedAt'', t)])))))))
       (\<lambda>e. js_throw (Error (''Token deployment failed: '' @ message e)))"

definition deployNFTContract :: "env \<Rightarrow> fields \<Rightarrow> string list \<Rightarrow> (bundle_integration, jv) js" where
  "deployNFTContract env nftConfig selected =
     js_catch
       (js_bind (on_nft (startNFTCreationSession env nftConfig)) (\<lambda>_.
        js_bind (on_nft (nci_updateAddOns env selected)) (\<lambda>_.
        js_bind (on_nft (processNFTCreation env)) (\<lambda>nftResult.
        js_bind (js_get nftResult ''contractAddress'') (\<lambda>a.
        js_bind (js_get nftResult ''contractCode'') (\<lambda>c.
        js_bind (js_ext env (Call ''new Date().toISOString'' [])) (\<lambda>t.
        js_return (JObj [(''contractAddress'', a), (''contractCode'', c), (''deployedAt'', t)]))))))))
       (\<lambda>e. js_throw (Error (''NFT deployment failed: '' @ message e)))"

definition generateAndDeployBundleContracts :: "env \<Rightarrow> (bundle_integration, jv) js" where
  "generateAndDeployBundleContracts env =
     js_bind the_bundle (\<lambda>s.
     js_bind (deployTokenContract env (bs_tokenConfig s)) (\<lambda>tokenResult.
     js_bind (deployNFTContract env (bs_nftConfig s) (bs_addOns s)) (\<lambda>nftResult.
     js_bind (js_get tokenResult ''contractAddress'') (\<lambda>ta.
     js_bind (js_get nftResult ''contractAddress'') (\<lambda>na.
     js_bind (js_ext env (Call ''new Date().toISOString'' [])) (\<lambda>t.
     js_return (JObj [(''tokenAddress'', ta), (''nftAddress'', na), (''tokenDeployment'', tokenResult),
       (''nftDeployment'', nftResult), (''deployedAt'', t)])))))))"

definition processBundleCreation :: "env \<Rightarrow> (bundle_integration, jv) js" where
  "processBundleCreation env =
     js_bind js_this (\<lambda>b. case b_session b of
       None \<Rightarrow> js_throw (Error ''No active bundle creation session'')
     | Some s0 \<Rightarrow>
         js_bind (if truthy (bs_price s0) then js_return JUndef else updateBundlePrice env) (\<lambda>_.
         js_catch
           (js_bind (upd_bundle (\<lambda>s. s\<lparr>bs_status := ''processing_payment''\<rparr>)) (\<lambda>_.
            js_bind the_bundle (\<lambda>s.
            js_bind (processBundlePayment env (bundleMonetization b) (bs_method s) (bs_price s)) (\<lambda>paymentResult.
            js_bind (saveBundlePaymentData env paymentResult (JObj (bs_tokenConfig s)) (JObj (bs_nftConfig s)) (bs_addOns s)) (\<lambda>_.
            js_bind (upd_bundle (\<lambda>s. s\<lparr>bs_status := ''payment_completed'', bs_paymentResult := paymentResult\<rparr>)) (\<lambda>_.
            js_bind (generateAndDeployBundleContracts env) (\<lambda>contractResult.
            js_bind (upd_bundle (\<lambda>s. s\<lparr>bs_status := ''completed'', bs_contractResult := contractResult\<rparr>)) (\<lambda>_.
            js_bind the_bundle (\<lambda>s'.
            js_bind (js_get contractResult ''tokenAddress'') (\<lambda>ta.
            js_bind (js_get contractResult ''nftAddress'') (\<lambda>na.
            js_return (JObj [(''success'', JBool True), (''session'', bundle_session_obj s'),
              (''tokenAddress'', ta), (''nftAddress'', na), (''paymentResult'', paymentResult)]))))))))))))
           (\<lambda>e. js_bind (upd_bundle (\<lambda>s. s\<lparr>bs_status := ''failed'', bs_error := JStr (message e)\<rparr>)) (\<lambda>_.
                js_throw e))))"

section \<open>Queries\<close>

definition bci_clearSession :: "(bundle_integration, unit) js" where
  "bci_clearSession = js_update (\<lambda>b. b\<lparr>b_session := None\<rparr>)"

definition bci_getSessionHistory :: "bundle_integration \<Rightarrow> bundle_session list" where
  "bci_getSessionHistory b = (case b_session b of Some s \<Rightarrow> [s] | None \<Rightarrow> [])"

definition bci_validateSession :: "bundle_integration \<Rightarrow> jv" where
  "bci_validateSession b = (case b_session b of
      None \<Rightarrow> invalid_session ''No active session''
    | Some s \<Rightarrow> (let errs = validateBundleConfig (bs_tokenConfig s) (bs_nftConfig s) in
        if errs \<noteq> [] then invalid_session (''Configuration errors: '' @ join_with '', '' errs)
        else valid_session))"

definition checkBundleEligibility :: "env \<Rightarrow> fields \<Rightarrow> fields \<Rightarrow> (bundle_integration, jv) js" where
  "checkBundleEligibility env tokenConfig nftConfig =
     (let tokenErrors = validateTokenConfig tokenConfig; nftErrors = validateNFTConfig nftConfig;
          eligible = (tokenErrors = [] \<and> nftErrors = []);
          reasons = (if tokenErrors \<noteq> [] then [''Token: '' @ join_with '', '' tokenErrors] else []) @
                    (if nftErrors \<noteq> [] then [''NFT: '' @ join_with '', '' nftErrors] else [])
      in js_bind js_this (\<lambda>b.
         js_catch
           (js_bind (calculateBundlePrice env (bundleMonetization b) (JObj tokenConfig) (JObj nftConfig) []) (\<lambda>bp.
            js_return (JObj [(''eligible'', JBool eligible), (''reasons'', strs reasons), (''bundlePrice'', bp)])))
           (\<lambda>_. js_return (JObj [(''eligible'', JBool False),
              (''reasons'', strs (reasons @ [''Unable to calculate bundle price'']))]))))"

definition getBundleAnalytics :: jv where
  "getBundleAnalytics = JObj
     [(''totalBundles'', JInt 150), (''totalRevenue'', JInt 8850), (''totalSavings'', JInt 2250),
      (''averageSavings'', JInt 15),
      (''popularAddOns'', JArr
        [JObj [(''name'', JStr ''Custom Image Upload''), (''count'', JInt 120), (''percentage'', JInt 80)],
         JObj [(''name'', JStr ''Verified Badge''), (''count'', JInt 95), (''percentage'', JInt 63)],
         JObj [(''name'', JStr ''Unlockable Content''), (''count'', JInt 75), (''percentage'', JInt 50)],
         JObj [(''name'', JStr ''Trade Lock''), (''count'', JInt 45), (''percentage'', JInt 30)],
         JObj [(''name'', JStr ''Booster Tag''), (''count'', JInt 60), (''percentage'', JInt 40)]]),
      (''paymentMethods'', JObj
        [(''shah'', JObj [(''count'', JInt 90), (''percentage'', JInt 60)]),
         (''shahToken'', JObj [(''count'', JInt 30), (''percentage'', JInt 20)]),
         (''stripe'', JObj [(''count'', JInt 30), (''percentage'', JInt 20)])]),
      (''conversionRate'', JNum (Fin (35/100))), (''revenueIncrease'', JNum (Fin (25/100)))]"

definition getBundleSystemStatus :: "env \<Rightarrow> (bundle_integration, jv) js" where
  "getBundleSystemStatus env =
     js_bind js_this (\<lambda>b.
     js_bind (js_ext env (Call ''new Date().toISOString'' [])) (\<lambda>t.
     js_return (JObj [(''bundleMonetization'', JUndef),
       (''tokenIntegration'', JBool (isInitialized (tokenIntegration b))),
       (''nftIntegration'', JBool (isInitialized (nftIntegration b))),
       (''currentSession'', case b_session b of Some s \<Rightarrow> JStr (bs_status s) | None \<Rightarrow> JNull),
       (''timestamp'', t)])))"

definition rollbackBundleCreation :: "(bundle_integration, jv) js" where
  "rollbackBundleCreation =
     js_bind js_this (\<lambda>b. case b_session b of
       None \<Rightarrow> js_throw (Error ''No active session to rollback'')
     | Some _ \<Rightarrow> js_bind bci_clearSession (\<lambda>_.
         js_return (JObj [(''success'', JBool True),
           (''message'', JStr ''Bundle creation rolled back successfully'')])))"

section \<open>The integration as a state machine\<close>

inductive bci_step :: "env \<Rightarrow> bundle_integration world \<Rightarrow> bundle_integration world \<Rightarrow> bool" for env where
  initialize: "bci_step env w (snd (bci_initialize env w))"
| start: "bci_step env w (snd (startBundleCreationSession env tc nc w))"
| addons: "bci_step env w (snd (updateNFTAddOns env ks w))"
| set_method: "bci_step env w (snd (bci_updatePaymentMethod m w))"
| price: "bci_step env w (snd (updateBundlePrice env w))"
| process: "bci_step env w (snd (processBundleCreation env w))"
| eligibility: "bci_step env w (snd (checkBundleEligibility env tc nc w))"
| status: "bci_step env w (snd (getBundleSystemStatus env w))"
| clear: "bci_step env w (snd (bci_clearSession w))"
| rollback: "bci_step env w (snd (rollbackBundleCreation w))"

inductive bci_reach :: "env \<Rightarrow> fields \<Rightarrow> bundle_integration world \<Rightarrow> bool" for env cfg where
  init: "bci_reach env cfg (new_BundleCreationIntegration cfg, [])"
| step: "bci_reach env cfg w \<Longrightarrow> bci_step env w w' \<Longrightarrow> bci_reach env cfg w'"

definition bci_idle :: "bundle_integration world \<Rightarrow> bool" where
  "bci_idle w = (\<not> b_isInitialized (fst w) \<and> b_session (fst w) = None \<and> (\<forall>c\<in>set (snd w). \<not> is_charge c))"

lemma bci_initialize_throws: "bci_initialize env =
    js_throw (TypeError ''this.bundleMonetization.initialize is not a function'')"
  by (simp add: bci_initialize_def)

lemma checkBundleEligibility_run:
  "\<exists>rs cs. checkBundleEligibility env tc nc (b, tr) =
     (Inr (JObj [(''eligible'', JBool False), (''reasons'', strs (rs @ [''Unable to calculate bundle price'']))]),
      (b, tr @ cs)) \<and> (\<forall>c\<in>set cs. \<not> (is_charge c \<or> is_deploy c))"
proof -
  obtain e cs where run: "calculateBundlePrice env (bundleMonetization b) (JObj tc) (JObj nc) [] (b, tr) = (Inl e, (b, tr @ cs))"
    "\<forall>c\<in>set cs. \<not> (is_charge c \<or> is_deploy c)"
    using always_throws_run [OF calculateBundlePrice_throws calculateBundlePrice_quiet
        calculateBundlePrice_keeps, where s = b and tr = tr] by blast
  let ?rs = "(if validateTokenConfig tc \<noteq> [] then [''Token: '' @ join_with '', '' (validateTokenConfig tc)] else []) @
      (if validateNFTConfig nc \<noteq> [] then [''NFT: '' @ join_with '', '' (validateNFTConfig nc)] else [])"
  show ?thesis
    by (rule exI [of _ ?rs], rule exI [of _ cs])
       (use run(2) in \<open>simp add: checkBundleEligibility_def Let_def js_simps run(1)\<close>)
qed

lemma bci_step_idle:
  assumes "bci_step env w w'" "bci_idle w"
  shows "bci_idle w'"
  using assms(1)
proof cases
  case (eligibility tc nc)
  obtain b tr where w: "w = (b, tr)" by (cases w)
  show ?thesis
    using checkBundleEligibility_run [of env tc nc b tr] eligibility assms(2)
    by (auto simp: w bci_idle_def)
next
  case status
  then show ?thesis using assms(2)
    by (cases w) (auto simp: getBundleSystemStatus_def js_simps bci_idle_def charge_defs split: sum.splits)
qed (use assms(2) in \<open>cases w, simp add: bci_idle_def bci_initialize_throws js_simps
      startBundleCreationSession_def updateNFTAddOns_def bci_updatePaymentMethod_def updateBundlePrice_def
      processBundleCreation_def bci_clearSession_def rollbackBundleCreation_def\<close>)+

section \<open>Properties\<close>

text \<open>The bundle integration never becomes initialised: in every reachable state there is
  no session and no charge has been attempted, and starting a session throws.\<close>

theorem bundle_integration_never_starts:
  assumes "bci_reach env cfg w"
  shows "\<not> b_isInitialized (fst w) \<and> b_session (fst w) = None \<and> (\<forall>c\<in>set (snd w). \<not> is_charge c) \<and>
    startBundleCreationSession env tc nc w =
      (Inl (TypeError ''this.bundleMonetization.initialize is not a function''), w)"
proof -
  from assms have "bci_idle w"
  proof induction
    case init
    then show ?case by (simp add: bci_idle_def new_BundleCreationIntegration_def)
  next
    case (step w w')
    then show ?case by (blast intro: bci_step_idle)
  qed
  then show ?thesis
    by (cases w) (simp add: bci_idle_def startBundleCreationSession_def js_simps bci_initialize_throws)
qed

theorem bundle_integration_never_starts_witness:
  "bci_reach (stripe_env 2) [] (new_BundleCreationIntegration [], []) \<and>
   startBundleCreationSession (stripe_env 2) [] [] (new_BundleCreationIntegration [], []) =
     (Inl (TypeError ''this.bundleMonetization.initialize is not a function''), (new_BundleCreationIntegration [], []))"
  using bundle_integration_never_starts [OF bci_reach.init [of "stripe_env 2" "[]"], of "[]" "[]"]
  by (simp add: bci_reach.init)

text \<open>The eligibility check answers that a bundle is not eligible for every pair of
  configurations, valid ones included.\<close>

theorem bundle_never_eligible:
  "\<exists>v w'. checkBundleEligibility env tc nc w = (Inr v, w') \<and> jopt v ''eligible'' = JBool False"
proof -
  obtain b tr where w: "w = (b, tr)" by (cases w)
  show ?thesis using checkBundleEligibility_run [of env tc nc b tr] by (auto simp: w)
qed

end
