(* ===== verification/Security.thy ===== *)
theory Security
  imports Values
begin

text \<open>
  The SHAH security engine (shah-security/engine and shah-security/scanners) and the
  URL checks of the web wallet and the Telegram mini app (web/components/SHAHSecurity.js,
  telegram/SHAHSecurityTelegramMiniApp.js).

  Parsing a URL is the platform's \<open>URL\<close> class: the model takes a function \<open>parse\<close>
  that gives the host name and path of a string, or nothing when the constructor
  throws.  Symbols outside ASCII are their UTF-8 bytes.
\<close>

type_synonym url_parser = "string \<Rightarrow> (string \<times> string) option"

section \<open>Patterns\<close>

definition line_terminator :: "char \<Rightarrow> bool" where
  "line_terminator c = (c = CHR 0x0A \<or> c = CHR 0x0D)"

text \<open>\<open>/p1.*p2.*...pn/\<close> without anchors; the dot does not match a line terminator.\<close>

fun gap_from :: "string list \<Rightarrow> string \<Rightarrow> bool" where
  "gap_from [] s = True"
| "gap_from (p # ps) [] = (p = [] \<and> gap_from ps [])"
| "gap_from (p # ps) (c # s) =
     ((starts_with (c # s) p \<and> gap_from ps (drop (length p) (c # s))) \<or>
      (\<not> line_terminator c \<and> gap_from (p # ps) s))"

fun gap_search :: "string \<Rightarrow> string list \<Rightarrow> string \<Rightarrow> bool" where
  "gap_search p ps [] = (p = [] \<and> gap_from ps [])"
| "gap_search p ps (c # s) =
     ((starts_with (c # s) p \<and> gap_from ps (drop (length p) (c # s))) \<or> gap_search p ps s)"

definition word_char :: "char \<Rightarrow> bool" where
  "word_char c = (is_digit c \<or> c = CHR ''_'' \<or>
     (let n = of_char c :: nat in (65 \<le> n \<and> n \<le> 90) \<or> (97 \<le> n \<and> n \<le> 122)))"

text \<open>\<open>/w\b/\<close> for a word \<open>w\<close> that ends in a word character.\<close>

fun ends_word :: "string \<Rightarrow> string \<Rightarrow> bool" where
  "ends_word w [] = (w = [])"
| "ends_word w (c # s) =
     ((starts_with (c # s) w \<and> (case drop (length w) (c # s) of [] \<Rightarrow> True | d # _ \<Rightarrow> \<not> word_char d)) \<or>
      ends_word w s)"

definition any_of :: "string list \<Rightarrow> string \<Rightarrow> bool" where
  "any_of ps s = list_ex (\<lambda>p. str_includes s p) ps"

section \<open>aiRules.ts\<close>

record RiskSignal =
  sig_id :: string
  label :: string
  weight :: rat
  reason :: string

datatype input_kind = Wallet | Token | Nft | Url

record AnalyzedInput =
  kind :: input_kind
  val :: string
  metadata :: "fields option"

definition meta :: "AnalyzedInput \<Rightarrow> string \<Rightarrow> jv" where
  "meta inp k = (case metadata inp of None \<Rightarrow> JUndef | Some fs \<Rightarrow> obj_get fs k)"

text \<open>\<open>(v || '').toLowerCase()\<close>.\<close>

definition lower_text :: "jv \<Rightarrow> js_error + string" where
  "lower_text v = (if truthy v then (case v of JStr s \<Rightarrow> Inr (to_lower s)
       | _ \<Rightarrow> Inl (TypeError ''toLowerCase is not a function'')) else Inr [])"

definition brand_signals :: "AnalyzedInput \<Rightarrow> string \<Rightarrow> string \<Rightarrow> RiskSignal list" where
  "brand_signals inp name symbol =
     (if (any_of [''shahcoin''] name \<or> ends_word ''shah'' name \<or> any_of [''shah''] symbol) \<and>
         \<not> truthy (meta inp ''isOfficial'')
      then [\<lparr>sig_id = ''impersonation'', label = ''Impersonation risk'', weight = 5/10,
             reason = ''Uses SHAH brand without verification''\<rparr>] else []) @
     (if any_of [''airdrop'', ''free'', ''claim'', ''pump''] name
      then [\<lparr>sig_id = ''promo-bait'', label = ''Promotional bait'', weight = 4/10,
             reason = ''Suspicious promo wording''\<rparr>] else [])"

definition phishing_text :: "string \<Rightarrow> bool" where
  "phishing_text v = (any_of [''airdrop''] v \<or> gap_search ''free'' [''mint''] v \<or>
     gap_search ''claim'' [''shah''] v \<or> gap_search ''connect'' [''wallet'', ''now''] v \<or>
     gap_search ''verify'' [''seed''] v)"

definition url_signals :: "url_parser \<Rightarrow> AnalyzedInput \<Rightarrow> RiskSignal list" where
  "url_signals parse inp =
     (if phishing_text (to_lower (val inp))
      then [\<lparr>sig_id = ''phishing-pattern'', label = ''Phishing pattern'', weight = 7/10,
             reason = ''Known phishing phrase''\<rparr>] else []) @
     (case parse (val inp) of None \<Rightarrow> []
      | Some (h, _) \<Rightarrow> (let host = to_lower h in
          if any_of [''shahco1n'', ''shahc0in'', ''airdrop'', ''free'', ''claim''] host
          then [\<lparr>sig_id = ''suspicious-domain'', label = ''Suspicious domain'', weight = 6/10,
                 reason = ''Host looks suspicious: '' @ host\<rparr>] else []))"

definition hint_signals :: "AnalyzedInput \<Rightarrow> RiskSignal list" where
  "hint_signals inp =
     (if truthy (meta inp ''largeDumps'') then [\<lparr>sig_id = ''large-dumps'', label = ''Large dumps'',
        weight = 6/10, reason = ''Detected large dumps''\<rparr>] else []) @
     (if truthy (meta inp ''centralizedSupply'') then [\<lparr>sig_id = ''centralized'', label = ''Centralized supply'',
        weight = 5/10, reason = ''Supply concentrated in few wallets''\<rparr>] else []) @
     (if truthy (meta inp ''missingMetadata'') then [\<lparr>sig_id = ''missing-meta'', label = ''Missing metadata'',
        weight = 3/10, reason = ''Token/NFT lacks proper metadata''\<rparr>] else [])"

definition evaluateSignals :: "url_parser \<Rightarrow> AnalyzedInput \<Rightarrow> js_error + RiskSignal list" where
  "evaluateSignals parse inp =
     (case (if kind inp = Token \<or> kind inp = Nft then
              (case lower_text (meta inp ''name'') of Inl e \<Rightarrow> Inl e
               | Inr name \<Rightarrow> (case lower_text (meta inp ''symbol'') of Inl e \<Rightarrow> Inl e
                   | Inr symbol \<Rightarrow> Inr (brand_signals inp name symbol)))
            else Inr []) of
        Inl e \<Rightarrow> Inl e
      | Inr brand \<Rightarrow>
          Inr (brand @ (if kind inp = Url then url_signals parse inp else []) @ hint_signals inp))"

section \<open>score.ts\<close>

datatype badge = Safe | Caution | Risky

record SecurityScore =
  score :: int
  sbadge :: badge
  tooltip :: string
  signals :: "RiskSignal list"

definition kind_name :: "input_kind \<Rightarrow> string" where
  "kind_name k = (case k of Wallet \<Rightarrow> ''wallet'' | Token \<Rightarrow> ''token'' | Nft \<Rightarrow> ''nft'' | Url \<Rightarrow> ''url'')"

definition buildTooltip :: "AnalyzedInput \<Rightarrow> int \<Rightarrow> RiskSignal list \<Rightarrow> string" where
  "buildTooltip inp sc sigs =
     join_with [CHR 0x0A]
       ([''Type: '' @ kind_name (kind inp), ''Score: '' @ int_str sc @ ''/100''] @
        map (\<lambda>s. [CHR 0xE2, CHR 0x80, CHR 0xA2] @ '' '' @ label s @ '': '' @ reason s) sigs)"

definition totalWeight :: "RiskSignal list \<Rightarrow> rat" where
  "totalWeight sigs = foldl (\<lambda>acc x. acc + weight x) 0 sigs"

definition score_value :: "AnalyzedInput \<Rightarrow> RiskSignal list \<Rightarrow> int" where
  "score_value inp sigs =
     (let s0 = 10 :: int;
          s1 = s0 + min 80 \<lfloor>totalWeight sigs * 100 + 1/2\<rfloor>;
          s2 = (if truthy (meta inp ''isOfficial'') \<or> truthy (meta inp ''isTrusted'') then max 0 (s1 - 40) else s1);
          s3 = (if truthy (meta inp ''onBlacklist'') then min 100 (s2 + 40) else s2)
      in max 0 (min 100 s3))"

definition badge_of :: "int \<Rightarrow> badge" where
  "badge_of s = (if s \<le> 25 then Safe else if s \<le> 60 then Caution else Risky)"

definition SHAHSecurityScore :: "url_parser \<Rightarrow> AnalyzedInput \<Rightarrow> js_error + SecurityScore" where
  "SHAHSecurityScore parse inp =
     (case evaluateSignals parse inp of Inl e \<Rightarrow> Inl e
      | Inr sigs \<Rightarrow> (let s = score_value inp sigs in
          Inr \<lparr>score = s, sbadge = badge_of s, tooltip = buildTooltip inp s sigs, signals = sigs\<rparr>))"

section \<open>Scanners\<close>

definition analyzeContract :: "string \<Rightarrow> fields \<Rightarrow> input_kind \<Rightarrow> AnalyzedInput" where
  "analyzeContract address m k =
     (let md = (if truthy (obj_get m ''metadataUrl'') then obj_set m ''url'' (obj_get m ''metadataUrl'') else m)
      in \<lparr>kind = k, val = address, metadata = Some md\<rparr>)"

definition default_allowlist :: "string list" where
  "default_allowlist = [''shah.vip'', ''app.shah.vip'']"

definition default_blocklist :: "string list" where
  "default_blocklist = [''shahco1n.com'', ''shahc0in.com'', ''shahcoin-airdrop.com'', ''free-shah.vip'', ''claim-shah.vip'']"

definition analyzeUrl ::
  "url_parser \<Rightarrow> string \<Rightarrow> string list option \<Rightarrow> string list option \<Rightarrow> AnalyzedInput" where
  "analyzeUrl parse url allowlist blocklist =
     (let md0 = (case parse url of None \<Rightarrow> []
                 | Some (h, p) \<Rightarrow> [(''host'', JStr (to_lower h)), (''path'', JStr p)]);
          allow = (case allowlist of Some a \<Rightarrow> a | None \<Rightarrow> default_allowlist);
          block = (case blocklist of Some b \<Rightarrow> b | None \<Rightarrow> default_blocklist);
          host = (case parse url of None \<Rightarrow> [] | Some (h, p) \<Rightarrow> to_lower (to_lower h));
          md1 = (if host \<in> set block then obj_set md0 ''onBlacklist'' (JBool True) else md0);
          md2 = (if list_ex (\<lambda>d. ends_with host d) allow then obj_set md1 ''isTrusted'' (JBool True) else md1)
      in \<lparr>kind = Url, val = url, metadata = Some md2\<rparr>)"

definition analyzeWallet :: "string \<Rightarrow> fields \<Rightarrow> AnalyzedInput" where
  "analyzeWallet address rep =
     (let md1 = (if truthy (obj_get rep ''onBlacklist'') \<or> truthy (obj_get rep ''rugpullHistory'') \<or>
                    truthy (obj_get rep ''drainingTxs'')
                 then obj_set rep ''onBlacklist'' (JBool True) else rep);
          md2 = (if truthy (obj_get rep ''spamNfts'') then obj_set md1 ''spam'' (JBool True) else md1)
      in \<lparr>kind = Wallet, val = address, metadata = Some md2\<rparr>)"

section \<open>SHAHSecurity.js\<close>

datatype url_status = USafe | UPhishing | UUnknown | UInvalid

record url_check =
  status :: url_status
  why :: string
  chost :: string

definition checkUrlSafety :: "url_parser \<Rightarrow> string \<Rightarrow> url_check" where
  "checkUrlSafety parse url =
     (case parse url of
        None \<Rightarrow> \<lparr>status = UInvalid, why = ''parse_error'', chost = []\<rparr>
      | Some (h, _) \<Rightarrow> (let host = to_lower h in
          if list_ex (\<lambda>d. ends_with host d) [''shah.vip'', ''app.shah.vip'']
          then \<lparr>status = USafe, why = ''allowlist'', chost = host\<rparr>
          else if host \<in> set [''shahco1n.com'', ''shahc0in.com'', ''shahcoin-airdrop.com'', ''free-shah.vip'', ''claim-shah.vip'']
          then \<lparr>status = UPhishing, why = ''blocklist'', chost = host\<rparr>
          else if phishing_text (to_lower url)
          then \<lparr>status = UPhishing, why = ''pattern'', chost = host\<rparr>
          else \<lparr>status = UUnknown, why = ''no_match'', chost = host\<rparr>))"

definition registry_has :: "jv \<Rightarrow> string \<Rightarrow> js_error + bool" where
  "registry_has entries a =
     (case js_or entries (JArr []) of
        JArr xs \<Rightarrow>
          (let test = (\<lambda>x. case jget x ''address'' of Inl e \<Rightarrow> Inl e
                 | Inr v \<Rightarrow> (case lower_text v of Inl e \<Rightarrow> Inl e | Inr t \<Rightarrow> Inr (t = a)))
           in foldr (\<lambda>x rest. case test x of Inl e \<Rightarrow> Inl e | Inr True \<Rightarrow> Inr True | Inr False \<Rightarrow> rest)
                xs (Inr False))
      | _ \<Rightarrow> Inl (TypeError ''some is not a function''))"

definition isOfficialContract :: "string \<Rightarrow> jv \<Rightarrow> js_error + bool" where
  "isOfficialContract address registry =
     (if \<not> truthy registry then Inr False else registry_has (jopt registry ''official'') (to_lower address))"

definition isTrustedContract :: "string \<Rightarrow> jv \<Rightarrow> js_error + bool" where
  "isTrustedContract address registry =
     (if \<not> truthy registry then Inr False
      else case registry_has (jopt registry ''trusted'') (to_lower address) of
        Inl e \<Rightarrow> Inl e
      | Inr True \<Rightarrow> Inr True
      | Inr False \<Rightarrow> isOfficialContract (to_lower address) registry)"

datatype risk_level = VERIFIED | LOW | MEDIUM | HIGH | UNKNOWN

definition getRiskBadge :: "risk_level \<Rightarrow> string \<times> string \<times> string" where
  "getRiskBadge r = (case r of
       VERIFIED \<Rightarrow> ([CHR 0xE2, CHR 0x9C, CHR 0x85], ''#28a745'', ''Verified'')
     | LOW \<Rightarrow> ([CHR 0xF0, CHR 0x9F, CHR 0x9F, CHR 0xA2], ''#2ecc71'', ''Low'')
     | MEDIUM \<Rightarrow> ([CHR 0xF0, CHR 0x9F, CHR 0x9F, CHR 0xA1], ''#f1c40f'', ''Medium'')
     | HIGH \<Rightarrow> ([CHR 0xF0, CHR 0x9F, CHR 0x94, CHR 0xB4], ''#e74c3c'', ''High'')
     | UNKNOWN \<Rightarrow> ([CHR 0xE2, CHR 0x9A, CHR 0xAA], ''#95a5a6'', ''Unknown''))"

definition shouldAutoBlock :: "url_status option \<Rightarrow> risk_level option \<Rightarrow> jv \<Rightarrow> bool" where
  "shouldAutoBlock urlStatus riskLevel userPrefs =
     (if \<not> truthy (jopt userPrefs ''autoBlock'') then False
      else if urlStatus = Some UPhishing then True
      else if riskLevel = Some HIGH then True else False)"

section \<open>SHAHSecurityTelegramMiniApp.js\<close>

definition telegram_blocklist :: "string list" where
  "telegram_blocklist = [''shahco1n.com'', ''shahc0in.com'', ''shahcoin-airdrop.com'', ''free-shah.vip'', ''claim-shah.vip'']"

definition telegram_checkUrlSafety :: "url_parser \<Rightarrow> string \<Rightarrow> url_check" where
  "telegram_checkUrlSafety parse url =
     (case parse url of
        None \<Rightarrow> \<lparr>status = UInvalid, why = ''parse_error'', chost = []\<rparr>
      | Some (h, _) \<Rightarrow> (let host = to_lower h in
          if list_ex (\<lambda>d. ends_with host d) [''shah.vip'', ''app.shah.vip'']
          then \<lparr>status = USafe, why = ''allowlist'', chost = host\<rparr>
          else if host \<in> set telegram_blocklist
          then \<lparr>status = UPhishing, why = ''blocklist'', chost = host\<rparr>
          else if phishing_text (to_lower url)
          then \<lparr>status = UPhishing, why = ''pattern'', chost = host\<rparr>
          else \<lparr>status = UUnknown, why = ''no_match'', chost = host\<rparr>))"

text \<open>The dialogs are external: \<open>confirm\<close> gives the user's answer, and the second
  component records the alerts shown.\<close>

definition warnBeforeOpen :: "url_parser \<Rightarrow> (string \<Rightarrow> bool) \<Rightarrow> string \<Rightarrow> bool \<times> string list" where
  "warnBeforeOpen parse confirm url =
     (let result = telegram_checkUrlSafety parse url in
      if status result = UPhishing
      then (False, [[CHR 0xE2, CHR 0x9A, CHR 0xA0, CHR 0xEF, CHR 0xB8, CHR 0x8F] @
             '' Dangerous URL detected: '' @ chost result @ [CHR 0x0A] @ ''Opening blocked.''])
      else if status result = UUnknown
      then (confirm (''This link is not verified. Proceed?'' @ [CHR 0x0A] @ url), [])
      else (True, []))"

section \<open>Laws\<close>

lemma foldl_weight: "foldl (\<lambda>acc x. acc + weight x) a sigs = a + (\<Sum>x\<leftarrow>sigs. weight x)"
  by (induction sigs arbitrary: a) (auto simp: add.assoc)

lemma totalWeight_sum: "totalWeight sigs = (\<Sum>x\<leftarrow>sigs. weight x)"
  by (simp add: totalWeight_def foldl_weight)

lemma totalWeight_Nil: "totalWeight [] = 0"
  by (simp add: totalWeight_def)

lemma evaluateSignals_weights:
  assumes "evaluateSignals parse inp = Inr sigs"
  shows "\<forall>x\<in>set sigs. 0 < weight x \<and> weight x < 1"
proof -
  have "\<forall>x\<in>set (brand_signals inp n y). 0 < weight x \<and> weight x < 1" for n y
    by (auto simp: brand_signals_def)
  moreover have "\<forall>x\<in>set (url_signals parse inp). 0 < weight x \<and> weight x < 1"
    by (auto simp: url_signals_def Let_def split: option.splits)
  moreover have "\<forall>x\<in>set (hint_signals inp). 0 < weight x \<and> weight x < 1"
    by (auto simp: hint_signals_def)
  ultimately show ?thesis
    using assms by (fastforce simp: evaluateSignals_def split: sum.splits if_splits)
qed

lemma totalWeight_nonneg: "\<forall>x\<in>set sigs. 0 < weight x \<Longrightarrow> 0 \<le> totalWeight sigs"
  unfolding totalWeight_sum by (rule sum_list_nonneg) (auto intro: less_imp_le)

text \<open>The score as a function of the rounded weight; each step is monotone.\<close>

lemma clamp_bounds: "0 \<le> max 0 (min 100 (x :: int))" "max 0 (min 100 (x :: int)) \<le> 100"
  by auto

lemma score_value_bounds: "0 \<le> score_value inp sigs" "score_value inp sigs \<le> 100"
  unfolding score_value_def Let_def by (rule clamp_bounds)+

lemma if_le_mono: "(x :: int) \<le> x' \<Longrightarrow> y \<le> y' \<Longrightarrow> (if b then x else y) \<le> (if b then x' else y')"
  by simp

lemma score_value_blacklist:
  assumes "0 \<le> totalWeight sigs" "truthy (meta inp ''onBlacklist'')"
  shows "40 \<le> score_value inp sigs"
proof -
  define s1 where "s1 = 10 + min 80 \<lfloor>totalWeight sigs * 100 + 1/2\<rfloor>"
  define s2 where "s2 = (if truthy (meta inp ''isOfficial'') \<or> truthy (meta inp ''isTrusted'') then max 0 (s1 - 40) else s1)"
  have "0 \<le> \<lfloor>totalWeight sigs * 100 + 1/2\<rfloor>" using assms(1) by simp
  then have "0 \<le> s1" unfolding s1_def by (intro add_nonneg_nonneg min.boundedI) simp_all
  then have "0 \<le> s2" unfolding s2_def by simp
  moreover have "score_value inp sigs = max 0 (min 100 (min 100 (s2 + 40)))"
    unfolding score_value_def Let_def s2_def s1_def using assms(2) by simp
  ultimately show ?thesis by simp
qed

lemma score_value_mono:
  assumes "totalWeight sigs \<le> totalWeight sigs'"
  shows "score_value inp sigs \<le> score_value inp sigs'"
proof -
  have "\<lfloor>totalWeight sigs * 100 + 1/2\<rfloor> \<le> \<lfloor>totalWeight sigs' * 100 + 1/2\<rfloor>"
    using assms by (intro floor_mono) simp
  then show ?thesis
    unfolding score_value_def Let_def
    by (intro max.mono min.mono if_le_mono add_mono diff_mono order_refl)
qed

lemma app_suffix: "ends_with h ''app.shah.vip'' \<Longrightarrow> ends_with h ''shah.vip''"
  unfolding ends_with_iff by (metis append.assoc append_Cons append_Nil)

lemma analyzeUrl_blacklist:
  assumes "parse url = Some (h, p)" "to_lower h \<in> set default_blocklist"
  shows "truthy (meta (analyzeUrl parse url None None) ''onBlacklist'')"
  using assms by (simp add: analyzeUrl_def Let_def meta_def)

lemma telegram_check_eq: "telegram_checkUrlSafety parse url = checkUrlSafety parse url"
  unfolding telegram_checkUrlSafety_def checkUrlSafety_def telegram_blocklist_def ..

section \<open>Properties\<close>



text \<open>The score grows with the evidence: for the same adjustments in the metadata, a
  list of signals of at least the weight of another never gets a lower score.\<close>

theorem security_score_monotone:
  assumes "SHAHSecurityScore parse inp = Inr r" "SHAHSecurityScore parse' inp' = Inr r'"
    and "totalWeight (signals r) \<le> totalWeight (signals r')"
    and "truthy (meta inp ''isOfficial'') = truthy (meta inp' ''isOfficial'')"
    and "truthy (meta inp ''isTrusted'') = truthy (meta inp' ''isTrusted'')"
    and "truthy (meta inp ''onBlacklist'') = truthy (meta inp' ''onBlacklist'')"
  shows "score r \<le> score r'"
proof -
  have "score r = score_value inp (signals r)" "score r' = score_value inp' (signals r')"
    using assms(1,2) by (auto simp: SHAHSecurityScore_def Let_def split: sum.splits)
  moreover have "score_value inp (signals r') = score_value inp' (signals r')"
    unfolding score_value_def by (simp only: assms(4-6))
  ultimately show ?thesis using score_value_mono [OF assms(3), of inp] by simp
qed

theorem security_score_monotone_witness:
  "\<exists>r r'. SHAHSecurityScore (\<lambda>_. None) \<lparr>kind = Wallet, val = [], metadata = None\<rparr> = Inr r \<and>
     SHAHSecurityScore (\<lambda>_. None) \<lparr>kind = Wallet, val = [],
       metadata = Some [(''largeDumps'', JBool True)]\<rparr> = Inr r' \<and> score r \<le> score r'"
proof -
  let ?a = "\<lparr>kind = Wallet, val = [], metadata = None\<rparr>"
  let ?b = "\<lparr>kind = Wallet, val = [], metadata = Some [(''largeDumps'', JBool True)]\<rparr>"
  obtain r where r: "SHAHSecurityScore (\<lambda>_. None) ?a = Inr r" "signals r = []"
    by (simp add: SHAHSecurityScore_def evaluateSignals_def Let_def hint_signals_def meta_def)
  obtain r' where r': "SHAHSecurityScore (\<lambda>_. None) ?b = Inr r'" "totalWeight (signals r') = 6/10"
    by (simp add: SHAHSecurityScore_def evaluateSignals_def Let_def hint_signals_def meta_def
        proto_value_def proto_keys_def totalWeight_def)
  have "score r \<le> score r'"
    by (rule security_score_monotone [OF r(1) r'(1)])
       (simp_all add: r r' totalWeight_Nil meta_def proto_value_def proto_keys_def)
  then show ?thesis using r(1) r'(1) by blast
qed

text \<open>C31: The URL check of the wallet answers safe exactly for the hosts that end in the
  characters shah.vip, with or without a dot before them; the two block-listed look-alikes
  free-shah.vip and claim-shah.vip are therefore reported as safe, although the security
  engine refuses to rate the same URL as safe.\<close>

theorem url_check_safe_iff_suffix:
  "(status (checkUrlSafety parse url) = USafe \<longleftrightarrow>
      (\<exists>h p. parse url = Some (h, p) \<and> ends_with (to_lower h) ''shah.vip'')) \<and>
   (\<forall>h p r. parse url = Some (h, p) \<and> to_lower h \<in> {''free-shah.vip'', ''claim-shah.vip''} \<and>
      SHAHSecurityScore parse (analyzeUrl parse url None None) = Inr r \<longrightarrow>
      status (checkUrlSafety parse url) = USafe \<and> sbadge r \<noteq> Safe)"
proof (intro conjI allI impI)
  show iff: "status (checkUrlSafety parse url) = USafe \<longleftrightarrow>
      (\<exists>h p. parse url = Some (h, p) \<and> ends_with (to_lower h) ''shah.vip'')"
    by (auto simp: checkUrlSafety_def Let_def dest: app_suffix split: option.splits)
  fix h p r
  assume a: "parse url = Some (h, p) \<and> to_lower h \<in> {''free-shah.vip'', ''claim-shah.vip''} \<and>
      SHAHSecurityScore parse (analyzeUrl parse url None None) = Inr r"
  moreover have "ends_with ''free-shah.vip'' ''shah.vip''" "ends_with ''claim-shah.vip'' ''shah.vip''"
    by (simp_all add: ends_with_def)
  ultimately have "ends_with (to_lower h) ''shah.vip''" by auto
  then show "status (checkUrlSafety parse url) = USafe" using a iff by blast
  let ?inp = "analyzeUrl parse url None None"
  have "to_lower h \<in> set default_blocklist" using a by (auto simp: default_blocklist_def)
  then have "truthy (meta ?inp ''onBlacklist'')" using a analyzeUrl_blacklist [of parse url h p] by simp
  moreover obtain sigs where ev: "evaluateSignals parse ?inp = Inr sigs"
    and "sbadge r = badge_of (score_value ?inp sigs)"
    using a by (auto simp: SHAHSecurityScore_def Let_def split: sum.splits)
  moreover have "0 \<le> totalWeight sigs" using totalWeight_nonneg evaluateSignals_weights [OF ev] by blast
  ultimately show "sbadge r \<noteq> Safe"
    using score_value_blacklist [of sigs ?inp] by (auto simp: badge_of_def)
qed

theorem url_check_safe_iff_suffix_witness:
  "\<exists>r. SHAHSecurityScore (\<lambda>_. Some (''free-shah.vip'', ''/''))
       (analyzeUrl (\<lambda>_. Some (''free-shah.vip'', ''/'')) ''https://free-shah.vip/'' None None) = Inr r \<and>
     status (checkUrlSafety (\<lambda>_. Some (''free-shah.vip'', ''/'')) ''https://free-shah.vip/'') = USafe \<and> sbadge r \<noteq> Safe"
proof -
  let ?p = "\<lambda>_. Some (''free-shah.vip'', ''/'')" and ?u = "''https://free-shah.vip/''"
  have "kind (analyzeUrl ?p ?u None None) = Url" by (simp add: analyzeUrl_def Let_def)
  then obtain r where r: "SHAHSecurityScore ?p (analyzeUrl ?p ?u None None) = Inr r"
    by (simp add: SHAHSecurityScore_def evaluateSignals_def Let_def)
  have "to_lower ''free-shah.vip'' = ''free-shah.vip''" by (simp add: to_lower_def lower_char_def)
  then have "status (checkUrlSafety ?p ?u) = USafe \<and> sbadge r \<noteq> Safe"
    using url_check_safe_iff_suffix [THEN conjunct2, of ?p ?u, rule_format, of "''free-shah.vip''" "''/''" r] r
    by simp
  then show ?thesis using r by blast
qed

text \<open>The Telegram mini app checks URLs exactly as the web wallet does; it refuses to open
  a link precisely when the check reports phishing, or when the user declines the question
  it asks for an unknown host, and it opens a string that is no URL without asking.\<close>

theorem telegram_open_policy:
  "telegram_checkUrlSafety = checkUrlSafety \<and>
   (fst (warnBeforeOpen parse confirm url) \<longleftrightarrow>
      status (checkUrlSafety parse url) = USafe \<or> status (checkUrlSafety parse url) = UInvalid \<or>
      (status (checkUrlSafety parse url) = UUnknown \<and>
       confirm (''This link is not verified. Proceed?'' @ [CHR 0x0A] @ url)))"
proof -
  have "telegram_checkUrlSafety = checkUrlSafety" by (intro ext) (rule telegram_check_eq)
  then show ?thesis
    by (cases "status (checkUrlSafety parse url)") (simp_all add: warnBeforeOpen_def Let_def)
qed

end
