(* ===== verification/Decimals.thy ===== *)
theory Decimals
  imports Values
begin

text \<open>
  Printing numbers with a fixed number of decimals and reading them back: the laws
  of \<open>toFixed\<close>, \<open>parseFloat\<close> and \<open>Number\<close> that the price displays and the fee
  calculators rely on.
\<close>

section \<open>Digits\<close>

lemma is_digit_char [simp]: "d < 10 \<Longrightarrow> is_digit (digit_char d)"
  by (simp add: is_digit_def digit_char_def Let_def)

lemma digit_char_val [simp]: "d < 10 \<Longrightarrow> of_char (digit_char d) = 48 + d"
  by (simp add: digit_char_def)

lemma nat_str_digits: "\<forall>c\<in>set (nat_str n). is_digit c"
  by (induction n rule: nat_str.induct) (subst nat_str.simps, auto)

lemma nat_str_nonempty [simp]: "nat_str n \<noteq> []"
  by (subst nat_str.simps) simp

lemma digits_val_append: "digits_val (xs @ ys) = digits_val xs * 10 ^ length ys + digits_val ys"
proof (induction ys rule: rev_induct)
  case (snoc y ys)
  then show ?case unfolding digits_val_def by (simp add: algebra_simps)
qed (simp add: digits_val_def)

lemma digits_val_nat_str: "digits_val (nat_str n) = n"
proof (induction n rule: nat_str.induct)
  case (1 n)
  show ?case
  proof (cases "n < 10")
    case True
    then show ?thesis by (subst nat_str.simps) (simp add: digits_val_def)
  next
    case False
    then have "nat_str n = nat_str (n div 10) @ [digit_char (n mod 10)]" by (subst nat_str.simps) simp
    then show ?thesis
      using 1 False by (simp add: digits_val_append) (simp add: digits_val_def)
  qed
qed

lemma length_nat_str: "n < 10 ^ k \<Longrightarrow> 0 < k \<Longrightarrow> length (nat_str n) \<le> k"
proof (induction k arbitrary: n)
  case (Suc k)
  show ?case
  proof (cases "n < 10")
    case True
    then show ?thesis by (subst nat_str.simps) simp
  next
    case False
    then have "n div 10 < 10 ^ k" using Suc.prems(1) by (simp add: less_mult_imp_div_less mult.commute)
    moreover have "0 < k" using False Suc.prems(1) by (cases k) auto
    ultimately have "length (nat_str (n div 10)) \<le> k" by (rule Suc.IH)
    moreover have "nat_str n = nat_str (n div 10) @ [digit_char (n mod 10)]"
      using False by (subst nat_str.simps) simp
    ultimately show ?thesis by simp
  qed
qed simp

lemma pad_left_digits:
  assumes "n < 10 ^ k" "0 < k"
  shows "length (pad_left k (nat_str n)) = k" "digits_val (pad_left k (nat_str n)) = n"
    "\<forall>c\<in>set (pad_left k (nat_str n)). is_digit c"
proof -
  show "length (pad_left k (nat_str n)) = k"
    using length_nat_str [OF assms] by (simp add: pad_left_def)
  have "digits_val (replicate j (CHR ''0'')) = 0" for j
    by (induction j) (simp_all add: digits_val_def)
  then show "digits_val (pad_left k (nat_str n)) = n"
    by (simp add: pad_left_def digits_val_append digits_val_nat_str)
  show "\<forall>c\<in>set (pad_left k (nat_str n)). is_digit c"
    using nat_str_digits by (auto simp: pad_left_def is_digit_def)
qed

lemma takeWhile_digits:
  assumes "\<forall>c\<in>set ds. is_digit c" "\<not> is_digit d"
  shows "takeWhile is_digit (ds @ d # r) = ds" "dropWhile is_digit (ds @ d # r) = d # r"
  using assms by (simp_all add: takeWhile_append dropWhile_append)

lemma parse_float_digits:
  assumes "is_digit c" "parse_udec (c # t) = Some (a, r)"
  shows "parse_float (c # t) = Fin a"
proof -
  have "\<not> is_space c" "c \<noteq> CHR ''-''" "c \<noteq> CHR ''+''" "c \<noteq> CHR ''I''"
    using assms(1) by (auto simp: is_digit_def is_space_def Let_def)
  then show ?thesis using assms(2) by (simp add: parse_float_def split_sign_def starts_with_def)
qed

section \<open>Fixed-point strings\<close>

definition ends_number :: "string \<Rightarrow> bool" where
  "ends_number r = (case r of [] \<Rightarrow> True
     | c # _ \<Rightarrow> \<not> is_digit c \<and> c \<noteq> CHR ''.'' \<and> c \<noteq> CHR ''e'' \<and> c \<noteq> CHR ''E'')"

lemma takeWhile_end:
  assumes "\<forall>c\<in>set ds. is_digit c" "r = [] \<or> \<not> is_digit (hd r)"
  shows "takeWhile is_digit (ds @ r) = ds" "dropWhile is_digit (ds @ r) = r"
  using assms by (cases r; simp add: takeWhile_append dropWhile_append)+

lemma parse_exp_end: "ends_number r \<Longrightarrow> parse_exp r = (0, r)"
  by (cases r) (auto simp: parse_exp_def ends_number_def)

lemma ends_number_hd: "ends_number r \<Longrightarrow> r = [] \<or> \<not> is_digit (hd r)"
  by (cases r) (auto simp: ends_number_def)

lemma fixed_str_hd: "\<exists>c t. fixed_str f n = c # t \<and> is_digit c"
proof -
  obtain c t where "nat_str (n div 10 ^ f) = c # t" by (cases "nat_str (n div 10 ^ f)") auto
  moreover from this have "is_digit c" using nat_str_digits [of "n div 10 ^ f"] by simp
  ultimately show ?thesis by (cases "f = 0") (auto simp: fixed_str_def Let_def)
qed

lemma parse_udec_fixed:
  assumes r: "ends_number r"
  shows "parse_udec (fixed_str f n @ r) = Some (of_nat n / 10 ^ f, r)"
proof (cases "f = 0")
  case True
  then have r': "takeWhile is_digit (fixed_str f n @ r) = nat_str n" "dropWhile is_digit (fixed_str f n @ r) = r"
    using takeWhile_end [OF nat_str_digits ends_number_hd [OF r], of n] by (simp_all add: fixed_str_def)
  have "r = [] \<or> (\<exists>c t. r = c # t \<and> c \<noteq> CHR ''.'')"
    using r by (cases r) (auto simp: ends_number_def)
  then show ?thesis
    unfolding parse_udec_def r' Let_def using True parse_exp_end [OF r]
    by (auto simp: digits_val_nat_str pow10_def)
next
  case False
  let ?q = "nat_str (n div 10 ^ f)" and ?p = "pad_left f (nat_str (n mod 10 ^ f))"
  have p: "length ?p = f" "digits_val ?p = n mod 10 ^ f" "\<forall>c\<in>set ?p. is_digit c"
    by (rule pad_left_digits; use False in simp)+
  have dot: "\<not> is_digit (CHR ''.'')" by (simp add: is_digit_def)
  have "digits_val (?q @ ?p) = n" unfolding digits_val_append digits_val_nat_str p by (rule div_mult_mod_eq)
  moreover have "pow10 (- int f) = 1 / 10 ^ f" using False by (simp add: pow10_def)
  ultimately show ?thesis
    using False takeWhile_digits [OF nat_str_digits dot, of "n div 10 ^ f" "?p @ r"]
      takeWhile_end [OF p(3) ends_number_hd [OF r]] parse_exp_end [OF r] p(1)
    by (simp add: parse_udec_def fixed_str_def Let_def)
qed

lemma parse_float_fixed:
  assumes "ends_number r"
  shows "parse_float (fixed_str f n @ r) = Fin (of_nat n / 10 ^ f)"
proof -
  obtain c t where "fixed_str f n = c # t" "is_digit c" using fixed_str_hd by blast
  then show ?thesis using parse_float_digits [of c "t @ r"] parse_udec_fixed [OF assms, of f n] by simp
qed

lemma digit_not_space: "is_digit c \<Longrightarrow> \<not> is_space c"
  by (auto simp: is_digit_def is_space_def Let_def)

lemma fixed_str_last: "\<exists>s d. fixed_str f n = s @ [d] \<and> is_digit d"
proof (cases "f = 0")
  case True
  obtain s d where "nat_str n = s @ [d]" by (cases "nat_str n" rule: rev_cases) auto
  moreover from this have "is_digit d" using nat_str_digits [of n] by simp
  ultimately show ?thesis using True by (simp add: fixed_str_def)
next
  case False
  let ?p = "pad_left f (nat_str (n mod 10 ^ f))"
  have p: "length ?p = f" "\<forall>c\<in>set ?p. is_digit c" by (rule pad_left_digits; use False in simp)+
  then obtain s d where "?p = s @ [d]" using False by (cases ?p rule: rev_cases) auto
  then show ?thesis using False p(2) by (auto simp: fixed_str_def Let_def)
qed

text \<open>\<open>+x.toFixed(f)\<close> reads the printed number back exactly.\<close>

lemma str_to_num_fixed: "str_to_num (fixed_str f n) = Fin (of_nat n / 10 ^ f)"
proof -
  obtain c t where c: "fixed_str f n = c # t" "is_digit c" using fixed_str_hd by blast
  obtain s d where d: "fixed_str f n = s @ [d]" "is_digit d" using fixed_str_last by blast
  have "dropWhile is_space (fixed_str f n) = fixed_str f n"
    using c digit_not_space by simp
  moreover have "dropWhile is_space (rev (fixed_str f n)) = rev (fixed_str f n)"
    using d digit_not_space by simp
  ultimately have trim: "trim_str (fixed_str f n) = fixed_str f n" by (simp add: trim_str_def)
  have "c \<noteq> CHR ''-''" "c \<noteq> CHR ''+''" "c \<noteq> CHR ''I''" using c(2) by (auto simp: is_digit_def)
  then have "split_sign (fixed_str f n) = (False, fixed_str f n)" "fixed_str f n \<noteq> ''Infinity''"
    using c(1) by (simp_all add: split_sign_def)
  moreover have "parse_udec (fixed_str f n) = Some (of_nat n / 10 ^ f, [])"
    using parse_udec_fixed [of "[]" f n] by (simp add: ends_number_def)
  ultimately show ?thesis unfolding str_to_num_def trim using c(1) by (simp add: Let_def)
qed

lemma scaled_round_exact: "scaled_round f (of_nat n / 10 ^ f) = n"
proof -
  have "\<lfloor>of_nat n / 10 ^ f * 10 ^ f + (1/2 :: rat)\<rfloor> = \<lfloor>of_int (int n) + (1/2 :: rat)\<rfloor>" by simp
  also have "\<dots> = int n" by linarith
  finally show ?thesis by (simp add: scaled_round_def)
qed

lemma scaled_round_error:
  assumes "0 \<le> a"
  shows "\<bar>of_nat (scaled_round f a) / 10 ^ f - a\<bar> \<le> 1 / (2 * 10 ^ f)"
proof -
  have "0 \<le> a * 10 ^ f" using assms by simp
  then have n: "of_nat (scaled_round f a) = (of_int \<lfloor>a * 10 ^ f + 1 / 2\<rfloor> :: rat)"
    by (simp add: scaled_round_def)
  have "\<bar>of_int \<lfloor>a * 10 ^ f + 1 / 2\<rfloor> - a * 10 ^ f\<bar> \<le> (1 / 2 :: rat)" by linarith
  moreover have "of_nat (scaled_round f a) / 10 ^ f - a = (of_nat (scaled_round f a) - a * 10 ^ f) / 10 ^ f"
    by (simp add: field_simps)
  ultimately show ?thesis unfolding n by (simp add: abs_divide field_simps)
qed

text \<open>\<open>+x.toFixed(f)\<close> on a non-negative number.\<close>

definition refixed :: "nat \<Rightarrow> rat \<Rightarrow> rat" where
  "refixed f a = of_nat (scaled_round f a) / 10 ^ f"

lemma str_to_num_to_fixed: "0 \<le> a \<Longrightarrow> str_to_num (to_fixed f (Fin a)) = Fin (refixed f a)"
  by (simp add: str_to_num_fixed refixed_def)

lemma refixed_mono: "a \<le> b \<Longrightarrow> refixed f a \<le> refixed f b"
proof -
  assume "a \<le> b"
  then have "\<lfloor>a * 10 ^ f + 1 / 2\<rfloor> \<le> \<lfloor>b * 10 ^ f + 1 / 2\<rfloor>" by (intro floor_mono) simp
  then show ?thesis by (simp add: refixed_def scaled_round_def divide_right_mono nat_mono)
qed

end
