(* ===== verification/SmartUnits.thy ===== *)
theory SmartUnits
  imports Decimals
begin

text \<open>
  The smart unit display of balances in the web wallet
  (web/components/SmartUnitDisplay.jsx) and in the Telegram mini app
  (telegram/SmartUnitDisplayTelegramMiniApp.js).  Balances are numbers of Shahi, the
  base unit; they are whole and not negative.  A breakdown is kept as a list of counts
  and units until it is printed.  Markup, icons and colours are left out.
\<close>

section \<open>Units\<close>

record unit_def =
  displayName :: string
  shahiValue :: nat

definition units :: "(string \<times> unit_def) list" where
  "units =
    [(''shahi'', \<lparr>displayName = ''Shahi'', shahiValue = 1\<rparr>),
     (''nano'', \<lparr>displayName = ''Nano Shah'', shahiValue = 10\<rparr>),
     (''micro'', \<lparr>displayName = ''Micro Shah'', shahiValue = 100\<rparr>),
     (''mesin'', \<lparr>displayName = ''Mesin Shah'', shahiValue = 1000\<rparr>),
     (''simin'', \<lparr>displayName = ''Simin Shah'', shahiValue = 10000\<rparr>),
     (''zarrin'', \<lparr>displayName = ''Zarrin Shah'', shahiValue = 100000\<rparr>),
     (''shahcent'', \<lparr>displayName = ''Shahcent'', shahiValue = 1000000\<rparr>),
     (''daric'', \<lparr>displayName = ''Daric Shah'', shahiValue = 10000000\<rparr>),
     (''shah'', \<lparr>displayName = ''SHAH'', shahiValue = 100000000\<rparr>),
     (''meta'', \<lparr>displayName = ''Meta Shah'', shahiValue = 1000000000\<rparr>),
     (''beta'', \<lparr>displayName = ''Beta Shah'', shahiValue = 10000000000\<rparr>),
     (''sigma'', \<lparr>displayName = ''Sigma Shah'', shahiValue = 100000000000\<rparr>),
     (''mega'', \<lparr>displayName = ''Mega Shah'', shahiValue = 1000000000000\<rparr>),
     (''giga'', \<lparr>displayName = ''Giga Shah'', shahiValue = 10000000000000\<rparr>),
     (''alpha'', \<lparr>displayName = ''Alpha Shah'', shahiValue = 100000000000000\<rparr>)]"

definition unit_of :: "string \<Rightarrow> unit_def" where
  "unit_of k = (case map_of units k of Some u \<Rightarrow> u | None \<Rightarrow> \<lparr>displayName = [], shahiValue = 0\<rparr>)"

definition subUnits :: "string list" where
  "subUnits = [''daric'', ''shahcent'', ''zarrin'', ''simin'', ''mesin'', ''micro'', ''nano'', ''shahi'']"

definition megaUnits :: "string list" where
  "megaUnits = [''alpha'', ''giga'', ''mega'', ''sigma'', ''beta'', ''meta'']"

section \<open>SmartUnitDisplay.jsx\<close>

text \<open>\<open>formatNumber\<close>: a comma before every group of three digits, counted from the right.\<close>

fun commas_rev :: "string \<Rightarrow> string" where
  "commas_rev (a # b # c # d # r) = a # b # c # CHR '','' # commas_rev (d # r)"
| "commas_rev r = r"

definition formatNumber :: "nat \<Rightarrow> string" where
  "formatNumber n = rev (commas_rev (rev (nat_str n)))"

text \<open>The loop over the sub-units: counts and unit keys, largest unit first.\<close>

fun sub_parts :: "string list \<Rightarrow> nat \<Rightarrow> (nat \<times> string) list" where
  "sub_parts [] remaining = []"
| "sub_parts (k # ks) remaining =
     (let v = shahiValue (unit_of k) in
      if remaining \<ge> v then (remaining div v, k) # sub_parts ks (remaining mod v)
      else sub_parts ks remaining)"

definition print_part :: "nat \<times> string \<Rightarrow> string" where
  "print_part p = nat_str (fst p) @ '' '' @ displayName (unit_of (snd p))"

definition getSubUnitBreakdown :: "nat \<Rightarrow> string" where
  "getSubUnitBreakdown n = (if n = 0 then ''0 Shahi''
     else join_with '' + '' (map print_part (sub_parts subUnits n)))"

text \<open>The loop over the mega-units assigns to the constant \<open>shahAmount\<close> as soon as a unit
  fits, which is a TypeError; without a fitting unit it adds nothing.\<close>

fun mega_parts :: "string list \<Rightarrow> nat \<Rightarrow> js_error + string list" where
  "mega_parts [] shahAmount = Inr []"
| "mega_parts (k # ks) shahAmount =
     (let unitValue = shahiValue (unit_of k) div 100000000 in
      if shahAmount \<ge> unitValue then Inl (TypeError ''Assignment to constant variable.'')
      else mega_parts ks shahAmount)"

definition getMegaUnitBreakdown :: "nat \<Rightarrow> js_error + string" where
  "getMegaUnitBreakdown n =
     (if n < 100000000 then Inr (getSubUnitBreakdown n)
      else let shahAmount = n div 100000000; remainingShahi = n mod 100000000 in
        case mega_parts megaUnits shahAmount of
          Inl e \<Rightarrow> Inl e
        | Inr parts \<Rightarrow>
            Inr (join_with '' + ''
              (parts @ (if shahAmount > 0 then [formatNumber shahAmount @ '' SHAH''] else []) @
               (if remainingShahi > 0 then [getSubUnitBreakdown remainingShahi] else []))))"

definition getSmartUnitBreakdown :: "nat \<Rightarrow> js_error + string" where
  "getSmartUnitBreakdown n =
     (if n < 100000000 then Inr (getSubUnitBreakdown n) else getMegaUnitBreakdown n)"

definition getFullSHAHValue :: "nat \<Rightarrow> string" where
  "getFullSHAHValue n = (let shahValue = num_div (Fin (of_nat n)) (Fin 100000000) in
     to_fixed 8 shahValue @ '' SHAH'')"

definition getUSDEquivalent :: "nat \<Rightarrow> jsnum \<Rightarrow> js_error + string" where
  "getUSDEquivalent n usdPrice =
     (if num_le usdPrice (Fin 0) then
        (case getSmartUnitBreakdown n of Inl e \<Rightarrow> Inl e
         | Inr s \<Rightarrow> Inr (s @ '' (USD price not available)''))
      else let shahValue = num_div (Fin (of_nat n)) (Fin 100000000);
               usdValue = num_mul shahValue usdPrice
           in Inr (''$'' @ to_fixed 2 usdValue @ '' USD''))"

definition formatBalance :: "nat \<Rightarrow> string \<Rightarrow> js_error + string" where
  "formatBalance n mode =
     (if mode = ''full'' then Inr (getFullSHAHValue n)
      else if mode = ''smart'' then getSmartUnitBreakdown n
      else if mode = ''usd'' then getUSDEquivalent n (Fin 0)
      else getSmartUnitBreakdown n)"

definition createTooltip :: "nat \<Rightarrow> js_error + string" where
  "createTooltip n = (case getSmartUnitBreakdown n of Inl e \<Rightarrow> Inl e
     | Inr s \<Rightarrow> Inr (join_with [CHR 0x0A] [''Smart: '' @ s, ''Full: '' @ getFullSHAHValue n]))"

definition displayText :: "bool \<Rightarrow> nat \<Rightarrow> string \<Rightarrow> js_error + string" where
  "displayText smartUnitEnabled n mode =
     (if smartUnitEnabled then formatBalance n mode else Inr (getFullSHAHValue n))"

section \<open>SmartUnitDisplayTelegramMiniApp.js\<close>

record unit_app =
  smartUnitEnabled :: bool
  currentDisplayMode :: string
  usdPrice :: jsnum
  storage :: "fields option"

text \<open>\<open>storage\<close> is the settings object kept in the browser's local storage.\<close>

definition tg_getSubUnitBreakdown :: "nat \<Rightarrow> string" where
  "tg_getSubUnitBreakdown n = (if n = 0 then ''0 Shahi''
     else join_with '' + '' (map print_part (sub_parts subUnits n)))"

definition tg_getMegaUnitBreakdown :: "nat \<Rightarrow> js_error + string" where
  "tg_getMegaUnitBreakdown n =
     (if n < 100000000 then Inr (tg_getSubUnitBreakdown n)
      else let shahAmount = n div 100000000; remainingShahi = n mod 100000000 in
        case mega_parts megaUnits shahAmount of
          Inl e \<Rightarrow> Inl e
        | Inr parts \<Rightarrow>
            Inr (join_with '' + ''
              (parts @ (if shahAmount > 0 then [formatNumber shahAmount @ '' SHAH''] else []) @
               (if remainingShahi > 0 then [tg_getSubUnitBreakdown remainingShahi] else []))))"

definition tg_getSmartUnitBreakdown :: "nat \<Rightarrow> js_error + string" where
  "tg_getSmartUnitBreakdown n =
     (if n < 100000000 then Inr (tg_getSubUnitBreakdown n) else tg_getMegaUnitBreakdown n)"

definition tg_getUSDEquivalent :: "unit_app \<Rightarrow> nat \<Rightarrow> js_error + string" where
  "tg_getUSDEquivalent app n =
     (if num_le (usdPrice app) (Fin 0) then
        (case tg_getSmartUnitBreakdown n of Inl e \<Rightarrow> Inl e
         | Inr s \<Rightarrow> Inr (s @ '' (USD price not available)''))
      else let shahValue = num_div (Fin (of_nat n)) (Fin 100000000);
               usdValue = num_mul shahValue (usdPrice app)
           in Inr (''$'' @ to_fixed 2 usdValue @ '' USD''))"

definition tg_formatBalance :: "unit_app \<Rightarrow> nat \<Rightarrow> js_error + string" where
  "tg_formatBalance app n =
     (if currentDisplayMode app = ''full'' then Inr (getFullSHAHValue n)
      else if currentDisplayMode app = ''smart'' then tg_getSmartUnitBreakdown n
      else if currentDisplayMode app = ''usd'' then tg_getUSDEquivalent app n
      else tg_getSmartUnitBreakdown n)"

definition saveSettings :: "unit_app \<Rightarrow> unit_app" where
  "saveSettings app = app\<lparr>storage := Some [(''smartUnitEnabled'', JBool (smartUnitEnabled app)),
      (''displayMode'', JStr (currentDisplayMode app))]\<rparr>"

definition loadSettings :: "unit_app \<Rightarrow> unit_app" where
  "loadSettings app =
     (let settings = (case storage app of Some fs \<Rightarrow> fs | None \<Rightarrow> []) in
      app\<lparr>smartUnitEnabled := \<not> strict_eq (obj_get settings ''smartUnitEnabled'') (JBool False),
          currentDisplayMode := to_str (js_or (obj_get settings ''displayMode'') (JStr ''smart''))\<rparr>)"

definition display_modes :: "string list" where
  "display_modes = [''smart'', ''full'', ''usd'']"

text \<open>\<open>modes.indexOf(m)\<close>, with \<open>-1\<close> for a value that does not occur.\<close>

fun index_of :: "string \<Rightarrow> string list \<Rightarrow> int" where
  "index_of x [] = - 1"
| "index_of x (y # ys) = (if x = y then 0 else (let i = index_of x ys in if i < 0 then i else i + 1))"

definition cycleDisplayMode :: "unit_app \<Rightarrow> unit_app" where
  "cycleDisplayMode app =
     saveSettings (app\<lparr>currentDisplayMode :=
       display_modes ! nat ((index_of (currentDisplayMode app) display_modes + 1) mod int (length display_modes))\<rparr>)"

definition toggleSmartUnit :: "unit_app \<Rightarrow> unit_app" where
  "toggleSmartUnit app = saveSettings (app\<lparr>smartUnitEnabled := \<not> smartUnitEnabled app\<rparr>)"

section \<open>Laws\<close>

definition parts_value :: "(nat \<times> string) list \<Rightarrow> nat" where
  "parts_value ps = (\<Sum>(c, k)\<leftarrow>ps. c * shahiValue (unit_of k))"

lemma sub_parts_value:
  assumes "\<forall>k\<in>set ks. 0 < shahiValue (unit_of k)"
  shows "parts_value (sub_parts ks n) + fold (\<lambda>k r. r mod shahiValue (unit_of k)) ks n = n"
  using assms
proof (induction ks n rule: sub_parts.induct)
  case (2 k ks n)
  let ?v = "shahiValue (unit_of k)"
  show ?case
  proof (cases "n \<ge> ?v")
    case True
    then show ?thesis using 2 by (simp add: parts_value_def Let_def add.assoc)
  next
    case False
    then show ?thesis using 2 by (simp add: parts_value_def Let_def)
  qed
qed (simp add: parts_value_def)

lemma unit_values [simp]:
  "shahiValue (unit_of ''daric'') = 10000000" "shahiValue (unit_of ''shahcent'') = 1000000"
  "shahiValue (unit_of ''zarrin'') = 100000" "shahiValue (unit_of ''simin'') = 10000"
  "shahiValue (unit_of ''mesin'') = 1000" "shahiValue (unit_of ''micro'') = 100"
  "shahiValue (unit_of ''nano'') = 10" "shahiValue (unit_of ''shahi'') = 1"
  "shahiValue (unit_of ''alpha'') = 100000000000000" "shahiValue (unit_of ''giga'') = 10000000000000"
  "shahiValue (unit_of ''mega'') = 1000000000000" "shahiValue (unit_of ''sigma'') = 100000000000"
  "shahiValue (unit_of ''beta'') = 10000000000" "shahiValue (unit_of ''meta'') = 1000000000"
  by (simp_all add: unit_of_def units_def)

lemma sub_parts_counts:
  assumes "successively (\<lambda>a b. shahiValue (unit_of a) = 10 * shahiValue (unit_of b)) ks"
    and "\<forall>k\<in>set ks. 0 < shahiValue (unit_of k)" "ks \<noteq> [] \<Longrightarrow> n < 10 * shahiValue (unit_of (hd ks))"
  shows "\<forall>(c, k)\<in>set (sub_parts ks n). 1 \<le> c \<and> c \<le> 9 \<and> k \<in> set ks"
  using assms
proof (induction ks n rule: sub_parts.induct)
  case (2 k ks n)
  let ?v = "shahiValue (unit_of k)"
  have v: "0 < ?v" using 2 by simp
  have succ: "successively (\<lambda>a b. shahiValue (unit_of a) = 10 * shahiValue (unit_of b)) ks"
    using 2(3) by (cases ks) auto
  have next_lt: "ks \<noteq> [] \<Longrightarrow> ?v = 10 * shahiValue (unit_of (hd ks))"
    using 2(3) by (cases ks) auto
  show ?case
  proof (cases "n \<ge> ?v")
    case True
    have "n mod ?v < ?v" using v by simp
    then have "\<forall>(c, k)\<in>set (sub_parts ks (n mod ?v)). 1 \<le> c \<and> c \<le> 9 \<and> k \<in> set ks"
      using 2(1) [OF refl True succ] 2(4) next_lt by auto
    moreover have "1 \<le> n div ?v" using True v by (simp add: Suc_le_eq div_greater_zero_iff)
    moreover have "n div ?v < 10" using 2(5) v by (simp add: less_mult_imp_div_less)
    ultimately show ?thesis using True by (auto simp: Let_def)
  next
    case False
    then have lt: "ks \<noteq> [] \<Longrightarrow> n < 10 * shahiValue (unit_of (hd ks))" using next_lt by linarith
    have "\<forall>(c, k)\<in>set (sub_parts ks n). 1 \<le> c \<and> c \<le> 9 \<and> k \<in> set ks"
      by (rule 2(2) [OF refl False succ _ lt]) (use 2(4) in simp_all)
    then show ?thesis using False by (auto simp: Let_def)
  qed
qed simp

lemma mega_parts_fails: "n \<ge> 10 \<Longrightarrow> mega_parts megaUnits n = Inl (TypeError ''Assignment to constant variable.'')"
  by (auto simp: megaUnits_def)

lemma mega_parts_small: "n < 10 \<Longrightarrow> mega_parts megaUnits n = Inr []"
  by (simp add: megaUnits_def)

lemma getFullSHAHValue_fixed: "getFullSHAHValue n = fixed_str 8 n @ '' SHAH''"
  using scaled_round_exact [of 8 n] by (simp add: getFullSHAHValue_def Let_def)

section \<open>Properties\<close>

text \<open>C28: The sub-unit breakdown of a balance loses nothing: the counts times the unit values
  add up to the balance, every printed count is at least one, and below one SHAH every
  count is a single digit.\<close>

theorem sub_unit_breakdown_exact:
  "parts_value (sub_parts subUnits n) = n \<and>
   (n < 100000000 \<longrightarrow> (\<forall>(c, k)\<in>set (sub_parts subUnits n). 1 \<le> c \<and> c \<le> 9 \<and> k \<in> set subUnits))"
proof (intro conjI impI)
  have "fold (\<lambda>k r. r mod shahiValue (unit_of k)) subUnits n = 0" by (simp add: subUnits_def)
  moreover have "\<forall>k\<in>set subUnits. 0 < shahiValue (unit_of k)" by (simp add: subUnits_def)
  ultimately show "parts_value (sub_parts subUnits n) = n"
    using sub_parts_value [of subUnits n] by simp
next
  assume "n < 100000000"
  then have "n < 10 * shahiValue (unit_of (hd subUnits))" by (simp add: subUnits_def)
  moreover have "successively (\<lambda>a b. shahiValue (unit_of a) = 10 * shahiValue (unit_of b)) subUnits"
    "\<forall>k\<in>set subUnits. 0 < shahiValue (unit_of k)" by (simp_all add: subUnits_def)
  ultimately show "\<forall>(c, k)\<in>set (sub_parts subUnits n). 1 \<le> c \<and> c \<le> 9 \<and> k \<in> set subUnits"
    by (intro sub_parts_counts)
qed

theorem sub_unit_breakdown_exact_witness:
  "sub_parts subUnits 20300045 = [(2, ''daric''), (3, ''zarrin''), (4, ''nano''), (5, ''shahi'')] \<and>
   parts_value (sub_parts subUnits 20300045) = 20300045 \<and>
   list_all (\<lambda>(c, k). 1 \<le> c \<and> c \<le> 9 \<and> k \<in> set subUnits) (sub_parts subUnits 20300045)"
  using sub_unit_breakdown_exact [of 20300045] by (simp add: subUnits_def)

text \<open>The smart display of the web wallet and of the Telegram app throws exactly for the
  balances of ten SHAH or more; in the full display mode there is always a text.\<close>

theorem smart_display_throws_iff:
  "((\<exists>e. displayText True n ''smart'' = Inl e) \<longleftrightarrow> 1000000000 \<le> n) \<and>
   ((\<exists>e. tg_formatBalance app n = Inl e) \<longleftrightarrow>
      1000000000 \<le> n \<and> currentDisplayMode app \<noteq> ''full'' \<and>
      \<not> (currentDisplayMode app = ''usd'' \<and> \<not> num_le (usdPrice app) (Fin 0)))"
proof -
  have smart: "(\<exists>e. getSmartUnitBreakdown n = Inl e) \<longleftrightarrow> 1000000000 \<le> n"
  proof (cases "1000000000 \<le> n")
    case True
    then have "10 \<le> n div 100000000" by simp
    then show ?thesis
      using True by (simp add: getSmartUnitBreakdown_def getMegaUnitBreakdown_def mega_parts_fails Let_def)
  next
    case False
    then have "n div 100000000 < 10" by (simp add: less_mult_imp_div_less)
    then show ?thesis
      using False by (simp add: getSmartUnitBreakdown_def getMegaUnitBreakdown_def mega_parts_small Let_def)
  qed
  have sub: "tg_getSubUnitBreakdown = getSubUnitBreakdown"
    by (intro ext) (simp only: tg_getSubUnitBreakdown_def getSubUnitBreakdown_def)
  have tg: "tg_getSmartUnitBreakdown n = getSmartUnitBreakdown n"
    unfolding tg_getSmartUnitBreakdown_def getSmartUnitBreakdown_def tg_getMegaUnitBreakdown_def
      getMegaUnitBreakdown_def sub ..
  show ?thesis
    using smart
    by (auto simp: displayText_def formatBalance_def tg_formatBalance_def tg_getUSDEquivalent_def tg Let_def
        split: sum.splits)
qed


lemma loadSettings_saveSettings:
  assumes "currentDisplayMode app \<noteq> []"
  shows "loadSettings (saveSettings app) = saveSettings app"
  using assms by (cases app) (simp add: loadSettings_def saveSettings_def js_or_def)

lemma cycleDisplayMode_mode:
  "currentDisplayMode (cycleDisplayMode app) =
     (if currentDisplayMode app = ''smart'' then ''full''
      else if currentDisplayMode app = ''full'' then ''usd'' else ''smart'')"
  by (simp add: cycleDisplayMode_def saveSettings_def display_modes_def)

text \<open>In the Telegram app the display mode cycles through its three values, an unknown mode
  returns to the smart one, and reloading the settings restores what was saved.\<close>

theorem telegram_settings_cycle:
  assumes "currentDisplayMode app \<in> set display_modes"
  shows "currentDisplayMode (cycleDisplayMode (cycleDisplayMode (cycleDisplayMode app))) = currentDisplayMode app \<and>
    loadSettings (cycleDisplayMode app) = cycleDisplayMode app \<and>
    loadSettings (toggleSmartUnit app) = toggleSmartUnit app"
proof (intro conjI)
  consider "currentDisplayMode app = ''smart''" | "currentDisplayMode app = ''full''"
    | "currentDisplayMode app = ''usd''" using assms by (auto simp: display_modes_def)
  then show "currentDisplayMode (cycleDisplayMode (cycleDisplayMode (cycleDisplayMode app))) = currentDisplayMode app"
    by cases (simp_all add: cycleDisplayMode_mode)
  have "currentDisplayMode (cycleDisplayMode app) \<noteq> []" by (simp add: cycleDisplayMode_mode)
  then show "loadSettings (cycleDisplayMode app) = cycleDisplayMode app"
    unfolding cycleDisplayMode_def by (intro loadSettings_saveSettings) (simp add: saveSettings_def)
  have "currentDisplayMode app \<noteq> []" using assms by (auto simp: display_modes_def)
  then show "loadSettings (toggleSmartUnit app) = toggleSmartUnit app"
    unfolding toggleSmartUnit_def by (intro loadSettings_saveSettings) simp
qed

theorem telegram_settings_cycle_witness:
  "loadSettings (cycleDisplayMode \<lparr>smartUnitEnabled = False, currentDisplayMode = ''smart'', usdPrice = Fin 0, storage = None\<rparr>)
   = \<lparr>smartUnitEnabled = False, currentDisplayMode = ''full'', usdPrice = Fin 0,
      storage = Some [(''smartUnitEnabled'', JBool False), (''displayMode'', JStr ''full'')]\<rparr>"
  using telegram_settings_cycle [of "\<lparr>smartUnitEnabled = False, currentDisplayMode = ''smart'', usdPrice = Fin 0, storage = None\<rparr>"]
  by (simp add: cycleDisplayMode_def saveSettings_def display_modes_def)

end
