(* ===== verification/PriceOracle.thy ===== *)
theory PriceOracle
  imports Decimals Effects
begin

text \<open>
  The three price sources of the code base:

  \<^item> \<open>price_oracle\<close>: the marketplace oracle with its cache, its four HTTP sources, its
    subscribers and its polling timer (sdk-core/marketplace-api/price-oracle.js);
  \<^item> \<open>fee_oracle\<close> and \<open>fee_calculator\<close>: the SDK's price and fee module
    (sdk-core/price-oracle-dynamic-fee/index.js);
  \<^item> \<open>price_watch\<close>: the web wallet's change notifier (web/lib/PriceOracle.ts).

  Callbacks are names; running one is the external call \<open>callback\<close> with its name.
  The four HTTP requests of one refresh run concurrently in the code; here they are
  logged one source after the other.  Each request handles its own errors and none
  touches the oracle, and the environment's answers are arbitrary, so the order of
  the log entries of one refresh is all that is fixed.
\<close>

section \<open>The marketplace oracle\<close>

record price_cache =
  price :: jv
  timestamp :: jsnum
  source :: jv

record price_oracle =
  apiBaseUrl :: jv
  cacheDuration :: jv
  fallbackPrice :: jv
  priceCache :: price_cache
  priceUpdateCallbacks :: "string list"
  isPolling :: bool
  pollInterval :: jv

definition new_PriceOracle :: "fields \<Rightarrow> price_oracle" where
  "new_PriceOracle cfg =
     \<lparr>apiBaseUrl = js_or (obj_get cfg ''apiBaseUrl'') (JStr ''https://api.shah.vip''),
      cacheDuration = js_or (obj_get cfg ''cacheDuration'') (JInt 30000),
      fallbackPrice = js_or (obj_get cfg ''fallbackPrice'') (JNum (Fin (1/1000))),
      priceCache = \<lparr>price = JNull, timestamp = Fin 0, source = JNull\<rparr>,
      priceUpdateCallbacks = [], isPolling = False, pollInterval = JNull\<rparr>"

definition good_price :: "jv \<Rightarrow> bool" where
  "good_price v = (truthy v \<and> num_pos (to_number v))"

text \<open>What the four \<open>fetchFrom...\<close> methods share: any failure gives null.\<close>

definition fetch_quote ::
  "env \<Rightarrow> jv list \<Rightarrow> string \<Rightarrow> (jv \<Rightarrow> js_error + jv) \<Rightarrow> ('s, jv) js" where
  "fetch_quote env req err pick =
     js_catch
       (js_bind (js_ext env (Call ''fetch'' req)) (\<lambda>response.
        js_bind (js_get response ''ok'') (\<lambda>ok.
        if \<not> truthy ok then js_throw (Error (err @ to_str (jopt response ''status'')))
        else js_bind (js_ext env (Call ''response.json'' [response])) (\<lambda>dat.
             js_bind (js_lift (pick dat)) (\<lambda>p.
             js_return (JNum (parse_float (to_str p))))))))
       (\<lambda>_. js_return JNull)"

definition pick_or :: "string \<Rightarrow> string \<Rightarrow> jv \<Rightarrow> js_error + jv" where
  "pick_or k k' dat = (case jget dat k of Inl e \<Rightarrow> Inl e
     | Inr p \<Rightarrow> Inr (js_or (js_or p (jopt dat k')) (JInt 0)))"

definition fetchFromShahSwap :: "env \<Rightarrow> price_oracle \<Rightarrow> ('s, jv) js" where
  "fetchFromShahSwap env s =
     fetch_quote env [JStr (to_str (apiBaseUrl s) @ ''/dex/price/SHAH/USD'')] ''ShahSwap API error: ''
       (pick_or ''price'' ''lastPrice'')"

definition fetchFromCoinGecko :: "env \<Rightarrow> ('s, jv) js" where
  "fetchFromCoinGecko env =
     fetch_quote env
       [JStr ''https://api.coingecko.com/api/v3/simple/price?ids=shahcoin&vs_currencies=usd'']
       ''CoinGecko API error: ''
       (\<lambda>dat. case jget dat ''shahcoin'' of Inl e \<Rightarrow> Inl e
          | Inr v \<Rightarrow> Inr (js_or (jopt v ''usd'') (JInt 0)))"

definition fetchFromCoinMarketCap :: "env \<Rightarrow> ('s, jv) js" where
  "fetchFromCoinMarketCap env =
     js_catch
       (js_bind (js_ext env (Call ''process.env'' [JStr ''COINMARKETCAP_API_KEY''])) (\<lambda>key.
        fetch_quote env
          [JStr ''https://pro-api.coinmarketcap.com/v1/cryptocurrency/quotes/latest?symbol=SHAH&convert=USD'',
           js_or key (JStr [])]
          ''CoinMarketCap API error: ''
          (\<lambda>dat. case jget dat ''data'' of Inl e \<Rightarrow> Inl e
             | Inr v \<Rightarrow> Inr (js_or
                 (jopt (jopt (jopt (jopt v ''SHAH'') ''quote'') ''USD'') ''price'') (JInt 0)))))
       (\<lambda>_. js_return JNull)"

definition fetchFromCustomAPI :: "env \<Rightarrow> price_oracle \<Rightarrow> ('s, jv) js" where
  "fetchFromCustomAPI env s =
     fetch_quote env [JStr (to_str (apiBaseUrl s) @ ''/price/shash/usd'')] ''Custom API error: ''
       (pick_or ''price'' ''usd'')"

definition fetchPriceFromMultipleSources :: "env \<Rightarrow> price_oracle \<Rightarrow> ('s, jv) js" where
  "fetchPriceFromMultipleSources env s =
     js_bind (fetchFromShahSwap env s) (\<lambda>a.
     js_bind (fetchFromCoinGecko env) (\<lambda>b.
     js_bind (fetchFromCoinMarketCap env) (\<lambda>c.
     js_bind (fetchFromCustomAPI env s) (\<lambda>d.
       case find good_price [a, b, c, d] of
         Some v \<Rightarrow> js_return v
       | None \<Rightarrow> js_throw (Error ''All price sources failed'')))))"

definition updatePriceCache :: "env \<Rightarrow> jv \<Rightarrow> string \<Rightarrow> (price_oracle, unit) js" where
  "updatePriceCache env p src =
     js_bind (date_now env) (\<lambda>t.
     js_update (\<lambda>s. s\<lparr>priceCache := \<lparr>price = p, timestamp = t, source = JStr src\<rparr>\<rparr>))"

definition notifyPriceUpdate :: "env \<Rightarrow> jv \<Rightarrow> (price_oracle, unit) js" where
  "notifyPriceUpdate env p =
     js_bind js_this (\<lambda>s.
     js_each (\<lambda>cb. js_catch (js_bind (js_ext env (Call ''callback'' [JStr cb, p])) (\<lambda>_. js_return ()))
                            (\<lambda>_. js_return ()))
       (priceUpdateCallbacks s))"

definition cached_valid :: "jsnum \<Rightarrow> price_oracle \<Rightarrow> bool" where
  "cached_valid now s = (truthy (price (priceCache s)) \<and>
     num_lt (num_sub now (timestamp (priceCache s))) (to_number (cacheDuration s)))"

text \<open>The \<open>try\<close> block of \<open>getShahPrice\<close>; None means that control falls through to the
  statements after it.\<close>

definition refresh_price :: "env \<Rightarrow> (price_oracle, jv option) js" where
  "refresh_price env =
     js_catch
       (js_bind js_this (\<lambda>s.
        js_bind (fetchPriceFromMultipleSources env s) (\<lambda>p.
        if good_price p then
          js_bind (updatePriceCache env p ''api'') (\<lambda>_.
          js_bind (notifyPriceUpdate env p) (\<lambda>_. js_return (Some p)))
        else js_return None)))
       (\<lambda>_. js_return None)"

definition getShahPrice :: "env \<Rightarrow> bool \<Rightarrow> (price_oracle, jv) js" where
  "getShahPrice env forceRefresh =
     js_bind (date_now env) (\<lambda>now.
     js_bind js_this (\<lambda>s.
     if \<not> forceRefresh \<and> cached_valid now s then js_return (price (priceCache s))
     else
       js_bind (refresh_price env) (\<lambda>r.
       js_bind js_this (\<lambda>s'.
         case r of
           Some p \<Rightarrow> js_return p
         | None \<Rightarrow> if truthy (price (priceCache s')) then js_return (price (priceCache s'))
                   else js_return (fallbackPrice s')))))"

definition subscribeToPriceUpdates :: "string \<Rightarrow> (price_oracle, unit) js" where
  "subscribeToPriceUpdates cb =
     js_update (\<lambda>s. s\<lparr>priceUpdateCallbacks := priceUpdateCallbacks s @ [cb]\<rparr>)"

text \<open>The function \<open>subscribeToPriceUpdates\<close> returns: it removes the first occurrence.\<close>

definition unsubscribe :: "string \<Rightarrow> (price_oracle, unit) js" where
  "unsubscribe cb = js_update (\<lambda>s. s\<lparr>priceUpdateCallbacks := remove1 cb (priceUpdateCallbacks s)\<rparr>)"

definition startPolling :: "env \<Rightarrow> jv \<Rightarrow> (price_oracle, unit) js" where
  "startPolling env interval =
     js_bind js_this (\<lambda>s.
     if isPolling s then js_return ()
     else
       js_bind (js_update (\<lambda>s. s\<lparr>isPolling := True\<rparr>)) (\<lambda>_.
       js_bind (js_ext env (Call ''setInterval'' [js_default interval (JInt 30000)])) (\<lambda>h.
       js_update (\<lambda>s. s\<lparr>pollInterval := h\<rparr>))))"

text \<open>One run of the function given to \<open>setInterval\<close>.\<close>

definition poll_tick :: "env \<Rightarrow> (price_oracle, unit) js" where
  "poll_tick env =
     js_catch (js_bind (getShahPrice env True) (\<lambda>_. js_return ())) (\<lambda>_. js_return ())"

definition stopPolling :: "env \<Rightarrow> (price_oracle, unit) js" where
  "stopPolling env =
     js_bind js_this (\<lambda>s.
     js_bind
       (if truthy (pollInterval s) then
          js_bind (js_ext env (Call ''clearInterval'' [pollInterval s])) (\<lambda>_.
          js_update (\<lambda>s. s\<lparr>pollInterval := JNull\<rparr>))
        else js_return ())
       (\<lambda>_. js_update (\<lambda>s. s\<lparr>isPolling := False\<rparr>)))"

definition getPriceCacheInfo :: "env \<Rightarrow> (price_oracle, jv) js" where
  "getPriceCacheInfo env =
     js_bind js_this (\<lambda>s.
     js_bind (date_now env) (\<lambda>t1.
     js_bind (date_now env) (\<lambda>t2.
     js_return (JObj
       [(''price'', price (priceCache s)), (''timestamp'', JNum (timestamp (priceCache s))),
        (''source'', source (priceCache s)),
        (''isStale'', JBool (num_gt (num_sub t1 (timestamp (priceCache s))) (to_number (cacheDuration s)))),
        (''timeUntilStale'', JNum (num_max (Fin 0)
           (num_sub (to_number (cacheDuration s)) (num_sub t2 (timestamp (priceCache s))))))]))))"

definition shahToUSD :: "env \<Rightarrow> jsnum \<Rightarrow> (price_oracle, jsnum) js" where
  "shahToUSD env shahAmount =
     js_bind (getShahPrice env False) (\<lambda>p. js_return (num_mul shahAmount (to_number p)))"

definition usdToShah :: "env \<Rightarrow> jsnum \<Rightarrow> (price_oracle, jsnum) js" where
  "usdToShah env usdAmount =
     js_bind (getShahPrice env False) (\<lambda>p. js_return (num_div usdAmount (to_number p)))"

definition satoshisToUSD :: "env \<Rightarrow> jsnum \<Rightarrow> (price_oracle, jsnum) js" where
  "satoshisToUSD env satoshis = shahToUSD env (num_div satoshis (Fin 100000000))"

definition usdToSatoshis :: "env \<Rightarrow> jsnum \<Rightarrow> (price_oracle, jsnum) js" where
  "usdToSatoshis env usdAmount =
     js_bind (usdToShah env usdAmount) (\<lambda>shahAmount.
     js_return (num_round (num_mul shahAmount (Fin 100000000))))"

text \<open>The public operations, and the states a client can bring an oracle into.\<close>

datatype oracle_op = GetPrice bool | Subscribe string | Unsubscribe string
  | StartPolling jv | PollTick | StopPolling | CacheInfo
  | ShahToUSD jsnum | UsdToShah jsnum | SatoshisToUSD jsnum | UsdToSatoshis jsnum

definition js_void :: "('s, 'a) js \<Rightarrow> ('s, unit) js" where
  "js_void m = js_bind m (\<lambda>_. js_return ())"

primrec run_op :: "env \<Rightarrow> oracle_op \<Rightarrow> (price_oracle, unit) js" where
  "run_op env (GetPrice f) = js_void (getShahPrice env f)"
| "run_op env (Subscribe cb) = subscribeToPriceUpdates cb"
| "run_op env (Unsubscribe cb) = unsubscribe cb"
| "run_op env (StartPolling i) = startPolling env i"
| "run_op env PollTick = poll_tick env"
| "run_op env StopPolling = stopPolling env"
| "run_op env CacheInfo = js_void (getPriceCacheInfo env)"
| "run_op env (ShahToUSD a) = js_void (shahToUSD env a)"
| "run_op env (UsdToShah a) = js_void (usdToShah env a)"
| "run_op env (SatoshisToUSD a) = js_void (satoshisToUSD env a)"
| "run_op env (UsdToSatoshis a) = js_void (usdToSatoshis env a)"

inductive oracle_reach :: "env \<Rightarrow> fields \<Rightarrow> price_oracle world \<Rightarrow> bool" for env cfg where
  start: "oracle_reach env cfg (new_PriceOracle cfg, [])"
| step: "oracle_reach env cfg w \<Longrightarrow> oracle_reach env cfg (snd (run_op env op w))"

section \<open>What a refresh does\<close>

lemma fetch_quote_keeps [keeps_intros]: "keeps_state (fetch_quote env req err pick)"
  unfolding fetch_quote_def by (intro keeps_intros)

lemma sources_keep [keeps_intros]: "keeps_state (fetchPriceFromMultipleSources env s)"
  unfolding fetchPriceFromMultipleSources_def fetchFromShahSwap_def fetchFromCoinGecko_def
    fetchFromCoinMarketCap_def fetchFromCustomAPI_def
  by (intro keeps_intros)

lemma sources_good:
  "fetchPriceFromMultipleSources env s w = (Inr p, w') \<Longrightarrow> good_price p"
  unfolding fetchPriceFromMultipleSources_def
  by (elim js_bind_okE)
     (auto simp: js_simps find_Some_iff simp del: find.simps split: option.splits)

lemma notify_total: "never_throws (notifyPriceUpdate env p)" "keeps_state (notifyPriceUpdate env p)"
  unfolding notifyPriceUpdate_def by (intro total_intros, intro keeps_intros)

definition source_price :: "env \<Rightarrow> price_oracle \<Rightarrow> 's world \<Rightarrow> jv option" where
  "source_price env s w = (case fst (fetchPriceFromMultipleSources env s w) of
     Inr p \<Rightarrow> Some p | Inl _ \<Rightarrow> None)"

lemma refresh_price_run:
  assumes "clock_ok env"
  obtains (failed) tr' where "source_price env s (s, tr) = None"
      "refresh_price env (s, tr) = (Inr None, (s, tr'))"
  | (stored) p t tr' where "source_price env s (s, tr) = Some p" "good_price p"
      "refresh_price env (s, tr) =
         (Inr (Some p), (s\<lparr>priceCache := \<lparr>price = p, timestamp = t, source = JStr ''api''\<rparr>\<rparr>, tr'))"
proof -
  obtain r w1 where m: "fetchPriceFromMultipleSources env s (s, tr) = (r, w1)" by (metis surj_pair)
  then obtain tr1 where w1: "w1 = (s, tr1)" using keeps_stateD [OF sources_keep] by (metis surj_pair)
  show thesis
  proof (cases r)
    case (Inl e)
    then have "refresh_price env (s, tr) = (Inr None, (s, tr1))" "source_price env s (s, tr) = None"
      using m w1 by (simp_all add: refresh_price_def source_price_def js_simps)
    then show thesis by (rule failed [rotated])
  next
    case (Inr p)
    have good: "good_price p" using sources_good m Inr by metis
    obtain t where t: "env (length tr1) (Call ''Date.now'' []) = Inr (JNum t)"
      using assms by (auto simp: clock_ok_def)
    let ?s = "s\<lparr>priceCache := \<lparr>price = p, timestamp = t, source = JStr ''api''\<rparr>\<rparr>"
    obtain u tr2 where n: "notifyPriceUpdate env p (?s, tr1 @ [Call ''Date.now'' []]) = (Inr u, (?s, tr2))"
      using never_throws_keeps_run [OF notify_total] .
    have "refresh_price env (s, tr) = (Inr (Some p), (?s, tr2))"
      using m w1 Inr good t n
      by (simp add: refresh_price_def updatePriceCache_def date_now_def js_simps)
    moreover have "source_price env s (s, tr) = Some p" using m Inr by (simp add: source_price_def)
    ultimately show thesis using stored good by blast
  qed
qed

section \<open>The abstract price cell\<close>

text \<open>The contract of the oracle: a cell with the last good price and the time it was
  stored.  A reading inside the validity period returns the cell; otherwise a good
  quote replaces it, and without one the old price is kept, however old, and the
  fallback is used only as long as there has been no good price at all.\<close>

type_synonym price_cell = "(jv \<times> jsnum) option"

definition cell_get ::
  "bool \<Rightarrow> jsnum \<Rightarrow> jsnum \<Rightarrow> jv \<Rightarrow> price_cell \<Rightarrow> price_cell \<Rightarrow> jv \<times> price_cell" where
  "cell_get force now validity fallback quote cell =
     (if \<not> force \<and> (case cell of Some (p, t) \<Rightarrow> num_lt (num_sub now t) validity | None \<Rightarrow> False)
      then (fst (the cell), cell)
      else let cell' = (if quote = None then cell else quote)
           in (case cell' of Some (p, _) \<Rightarrow> p | None \<Rightarrow> fallback, cell'))"

definition cell_of :: "price_oracle \<Rightarrow> price_cell" where
  "cell_of s = (if truthy (price (priceCache s))
                then Some (price (priceCache s), timestamp (priceCache s)) else None)"

definition oracle_ok :: "jv \<Rightarrow> price_oracle \<Rightarrow> bool" where
  "oracle_ok fb s = (fallbackPrice s = fb \<and>
     (price (priceCache s) = JNull \<or> good_price (price (priceCache s))))"

lemma oracle_ok_upd [simp]:
  "oracle_ok fb (s\<lparr>isPolling := b\<rparr>) = oracle_ok fb s"
  "oracle_ok fb (s\<lparr>pollInterval := h\<rparr>) = oracle_ok fb s"
  "oracle_ok fb (s\<lparr>priceUpdateCallbacks := cs\<rparr>) = oracle_ok fb s"
  by (simp_all add: oracle_ok_def)

lemma run_op_ok: "js_inv (\<lambda>w. oracle_ok fb (fst w)) (run_op env op)"
proof -
  have sources: "js_inv (\<lambda>w. oracle_ok fb (fst w)) (fetchPriceFromMultipleSources env s)" for s
    by (rule js_inv_keeps [OF sources_keep])
  have notify: "js_inv (\<lambda>w. oracle_ok fb (fst w)) (notifyPriceUpdate env p)" for p
    by (rule js_inv_keeps [OF notify_total(2)])
  have get: "js_inv (\<lambda>w. oracle_ok fb (fst w)) (getShahPrice env f)" for f
    unfolding getShahPrice_def refresh_price_def updatePriceCache_def
    by (intro inv_intros sources notify) (auto simp: oracle_ok_def)
  show ?thesis
    by (cases op)
       (auto intro!: inv_intros get simp: js_void_def subscribeToPriceUpdates_def unsubscribe_def
         startPolling_def poll_tick_def stopPolling_def getPriceCacheInfo_def shahToUSD_def usdToShah_def
         satoshisToUSD_def usdToSatoshis_def)
qed

lemma oracle_reach_ok:
  "oracle_reach env cfg w \<Longrightarrow> oracle_ok (fallbackPrice (new_PriceOracle cfg)) (fst w)"
proof (induction rule: oracle_reach.induct)
  case start
  show ?case by (simp add: oracle_ok_def new_PriceOracle_def)
next
  case (step w op)
  then show ?case using js_invD [OF run_op_ok] by blast
qed

lemma getShahPrice_cell:
  assumes "clock_ok env" "env (length tr) (Call ''Date.now'' []) = Inr (JNum now)"
  shows "\<exists>p s' tr' t. getShahPrice env force (s, tr) = (Inr p, (s', tr')) \<and>
    (p, cell_of s') = cell_get force now (to_number (cacheDuration s)) (fallbackPrice s)
       (map_option (\<lambda>q. (q, t)) (source_price env s (s, tr @ [Call ''Date.now'' []]))) (cell_of s) \<and>
    s'\<lparr>priceCache := priceCache s\<rparr> = s"
proof (cases "\<not> force \<and> cached_valid now s")
  case True
  then have "getShahPrice env force (s, tr) = (Inr (price (priceCache s)), (s, tr @ [Call ''Date.now'' []]))"
    using assms(2) by (simp add: getShahPrice_def date_now_def js_simps)
  then show ?thesis using True by (simp add: cell_get_def cell_of_def cached_valid_def)
next
  case False
  let ?tr = "tr @ [Call ''Date.now'' []]"
  have get: "getShahPrice env force (s, tr) =
      js_bind (refresh_price env) (\<lambda>r. js_bind js_this (\<lambda>s'. case r of Some p \<Rightarrow> js_return p
         | None \<Rightarrow> if truthy (price (priceCache s')) then js_return (price (priceCache s'))
                   else js_return (fallbackPrice s'))) (s, ?tr)"
    unfolding getShahPrice_def js_bind_now [of env, OF assms(2)] js_bind_this [of _ s] using False by auto
  have nv: "\<not> (\<not> force \<and> (case cell_of s of Some (p, t) \<Rightarrow> num_lt (num_sub now t) (to_number (cacheDuration s))
      | None \<Rightarrow> False))"
    using False by (auto simp: cell_of_def cached_valid_def)
  have g: "cell_get force now (to_number (cacheDuration s)) (fallbackPrice s) q (cell_of s) =
      (let cell' = (if q = None then cell_of s else q)
       in (case cell' of Some (p, _) \<Rightarrow> p | None \<Rightarrow> fallbackPrice s, cell'))" for q
    unfolding cell_get_def by (rule if_not_P) (rule nv)
  from assms(1) show ?thesis
  proof (cases rule: refresh_price_run [where s = s and tr = ?tr])
    case (failed tr')
    then show ?thesis unfolding g get by (simp add: js_simps cell_of_def)
  next
    case (stored p t tr')
    let ?s = "s\<lparr>priceCache := \<lparr>price = p, timestamp = t, source = JStr ''api''\<rparr>\<rparr>"
    have "getShahPrice env force (s, tr) = (Inr p, (?s, tr'))"
      unfolding get using stored by (simp add: js_simps)
    moreover have "cell_of ?s = Some (p, t)" using stored(2) by (simp add: cell_of_def good_price_def)
    moreover have "?s\<lparr>priceCache := priceCache s\<rparr> = s" by simp
    ultimately show ?thesis unfolding g using stored(1) by (fastforce simp: Let_def)
  qed
qed

section \<open>The polling timer\<close>

text \<open>The documented behaviour of the timer functions: \<open>setInterval\<close> returns a truthy
  handle and neither function throws.\<close>

definition timers_ok :: "env \<Rightarrow> bool" where
  "timers_ok env \<longleftrightarrow> (\<forall>i c. (callee c = ''setInterval'' \<longrightarrow> (\<exists>h. env i c = Inr h \<and> truthy h)) \<and>
     (callee c = ''clearInterval'' \<longrightarrow> (\<exists>v. env i c = Inr v)))"

definition timer_inv :: "price_oracle world \<Rightarrow> bool" where
  "timer_inv w = ((isPolling (fst w) \<longleftrightarrow> truthy (pollInterval (fst w))) \<and>
     live_intervals (snd w) = (if isPolling (fst w) then 1 else 0))"

lemma quiet_ops:
  assumes "\<And>i. op \<noteq> StartPolling i" "op \<noteq> StopPolling"
  shows "avoids is_timer (run_op env op)"
    and "js_inv (\<lambda>w. (\<lambda>s. isPolling s = b \<and> pollInterval s = h) (fst w)) (run_op env op)"
proof -
  let ?I = "\<lambda>w :: price_oracle world. (\<lambda>s. isPolling s = b \<and> pollInterval s = h) (fst w)"
  have get: "avoids is_timer (getShahPrice env f)" "js_inv ?I (getShahPrice env f)" for f
  proof -
    show "avoids is_timer (getShahPrice env f)"
      unfolding getShahPrice_def refresh_price_def updatePriceCache_def notifyPriceUpdate_def
        fetchPriceFromMultipleSources_def fetchFromShahSwap_def fetchFromCoinGecko_def
        fetchFromCoinMarketCap_def fetchFromCustomAPI_def fetch_quote_def
      by (intro avoids_intros) (simp_all add: is_timer_def)
    show "js_inv ?I (getShahPrice env f)"
      unfolding getShahPrice_def refresh_price_def updatePriceCache_def
      by (intro inv_intros js_inv_keeps [OF sources_keep, where P = "\<lambda>s. isPolling s = b \<and> pollInterval s = h"]
            js_inv_keeps [OF notify_total(2), where P = "\<lambda>s. isPolling s = b \<and> pollInterval s = h"]
            js_inv_now [where P = "\<lambda>s. isPolling s = b \<and> pollInterval s = h"]
            js_inv_stateI [where P = "\<lambda>s. isPolling s = b \<and> pollInterval s = h"]) simp_all
  qed
  note unf = js_void_def subscribeToPriceUpdates_def unsubscribe_def poll_tick_def
    getPriceCacheInfo_def shahToUSD_def usdToShah_def satoshisToUSD_def usdToSatoshis_def
  show "avoids is_timer (run_op env op)"
    using assms by (cases op) (auto intro!: avoids_intros get simp: unf is_timer_def)
  show "js_inv ?I (run_op env op)"
    using assms
    by (cases op) (auto intro!: inv_intros get js_inv_now [where P = "\<lambda>s. isPolling s = b \<and> pollInterval s = h"]
          js_inv_stateI [where P = "\<lambda>s. isPolling s = b \<and> pollInterval s = h"] simp: unf)
qed

lemma startPolling_timer:
  assumes "timers_ok env" "timer_inv (s, tr)"
  shows "timer_inv (snd (startPolling env i (s, tr)))"
proof (cases "isPolling s")
  case True
  then show ?thesis using assms(2) by (simp add: startPolling_def js_simps)
next
  case False
  obtain h where "env (length tr) (Call ''setInterval'' [js_default i (JInt 30000)]) = Inr h" "truthy h"
    using assms(1) unfolding timers_ok_def by (metis call.sel(1))
  then show ?thesis using False assms(2)
    by (simp add: startPolling_def js_simps timer_inv_def live_intervals_def)
qed

lemma stopPolling_timer:
  assumes "timers_ok env" "timer_inv (s, tr)"
  shows "timer_inv (snd (stopPolling env (s, tr)))"
proof (cases "isPolling s")
  case True
  obtain v where "env (length tr) (Call ''clearInterval'' [pollInterval s]) = Inr v"
    using assms(1) unfolding timers_ok_def by (metis call.sel(1))
  then show ?thesis using True assms(2)
    by (simp add: stopPolling_def js_simps timer_inv_def live_intervals_def)
next
  case False
  then show ?thesis using assms(2) by (simp add: stopPolling_def js_simps timer_inv_def)
qed

lemma oracle_reach_timer:
  assumes "timers_ok env" "oracle_reach env cfg w"
  shows "timer_inv w"
  using assms(2)
proof (induction rule: oracle_reach.induct)
  case start
  show ?case by (simp add: timer_inv_def new_PriceOracle_def live_intervals_def)
next
  case (step w op)
  obtain s tr where w: "w = (s, tr)" by (metis surj_pair)
  consider i where "op = StartPolling i" | "op = StopPolling" | "\<And>i. op \<noteq> StartPolling i" "op \<noteq> StopPolling"
    by blast
  then show ?case
  proof cases
    case 3
    obtain r s' tr' where run: "run_op env op (s, tr) = (r, (s', tr'))" by (metis surj_pair)
    have "isPolling s' = isPolling s \<and> pollInterval s' = pollInterval s"
      using js_invD [OF quiet_ops(2) [OF 3, of "isPolling s" "pollInterval s" env], of "(s, tr)"] run by simp
    moreover obtain cs where "tr' = tr @ cs" "\<forall>c\<in>set cs. \<not> is_timer c"
      using avoidsD [OF quiet_ops(1) [OF 3] run] by auto
    ultimately show ?thesis
      using step.IH live_intervals_quiet [of cs tr] by (simp add: w run timer_inv_def)
  qed (use step.IH assms(1) startPolling_timer stopPolling_timer in \<open>simp_all add: w\<close>)
qed

text \<open>An environment without network and with a standing clock.\<close>

definition sample_clock :: env where
  "sample_clock = (\<lambda>i c. if callee c = ''Date.now'' then Inr (JInt 1000)
     else if callee c = ''setInterval'' then Inr (JInt 7)
     else if callee c = ''clearInterval'' then Inr JUndef else Inl (Error ''offline''))"

lemma sample_clock_ok: "clock_ok sample_clock" "timers_ok sample_clock"
  by (auto simp: clock_ok_def timers_ok_def sample_clock_def num_truthy_def)

section \<open>Properties\<close>



lemma source_price_good: "source_price env s w = Some p \<Longrightarrow> good_price p"
  unfolding source_price_def
  by (cases "fetchPriceFromMultipleSources env s w") (auto dest: sources_good split: sum.splits)





text \<open>While the cached price is valid, converting an integral number of satoshis to
  dollars and back gives the same number of satoshis.\<close>

theorem satoshi_conversion_round_trip:
  assumes "\<And>i. env i (Call ''Date.now'' []) = Inr (JNum (Fin now))"
    and "price (priceCache s) = JNum (Fin q)" "0 < q" "cached_valid (Fin now) s"
  shows "\<exists>usd w1 w2. satoshisToUSD env (Fin (of_int n)) (s, tr) = (Inr usd, w1) \<and>
    usdToSatoshis env usd w1 = (Inr (Fin (of_int n)), w2)"
proof -
  have get: "getShahPrice env False (s, t) = (Inr (JNum (Fin q)), (s, t @ [Call ''Date.now'' []]))" for t
    unfolding getShahPrice_def js_bind_now [of env, OF assms(1)] js_bind_this using assms(2,4)
    by (simp add: js_simps)
  let ?usd = "Fin (of_int n / 100000000 * q)"
  have "satoshisToUSD env (Fin (of_int n)) (s, tr) = (Inr ?usd, (s, tr @ [Call ''Date.now'' []]))"
    unfolding satoshisToUSD_def shahToUSD_def by (simp add: js_bind_apply get js_return_apply)
  moreover have "num_round (Fin (of_int n / 100000000 * q / q * 100000000)) = Fin (of_int n)"
    using assms(3) num_round_int [of n] by simp
  then have "usdToSatoshis env ?usd (s, tr @ [Call ''Date.now'' []]) =
      (Inr (Fin (of_int n)), (s, tr @ [Call ''Date.now'' [], Call ''Date.now'' []]))"
    unfolding usdToSatoshis_def usdToShah_def using assms(3) by (simp add: js_bind_apply get js_return_apply)
  ultimately show ?thesis by blast
qed

theorem satoshi_conversion_round_trip_witness:
  "\<exists>usd w1 w2. satoshisToUSD sample_clock (Fin (of_int 123456789))
       (new_PriceOracle []\<lparr>priceCache := \<lparr>price = JNum (Fin (85/100)), timestamp = Fin 900, source = JNull\<rparr>\<rparr>, [])
       = (Inr usd, w1) \<and> usdToSatoshis sample_clock usd w1 = (Inr (Fin (of_int 123456789)), w2)"
  by (rule satoshi_conversion_round_trip [where now = 1000 and q = "85/100"])
     (simp_all add: sample_clock_def cached_valid_def new_PriceOracle_def js_or_def num_truthy_def
       proto_value_def proto_keys_def)

end
