(* ===== verification/DynamicFee.thy ===== *)
theory DynamicFee
  imports Decimals Effects
begin

text \<open>
  The SDK's price and fee module (sdk-core/price-oracle-dynamic-fee/index.js): a
  cached price with subscribers, and a calculator that turns a fee type and a list of
  add-ons into a dollar and a SHAH amount.  The price source of the module is a
  constant in the code.  The options are taken at their documented types: an array of
  source names and objects of fees.  A calculator here owns the default oracle; \<open>options.priceOracle\<close>
  replaces it by another object with the same method.

  The last section is the web wallet's price notifier (web/lib/PriceOracle.ts).
\<close>

section \<open>The price module\<close>

record fee_price =
  fp_usd :: jsnum
  fp_shah :: jsnum
  fp_sources :: "jv list"
  fp_timestamp :: jsnum

record fee_oracle =
  sources :: "jv list"
  updateIntervalMs :: jv
  cacheTtlMs :: jv
  lastPrice :: "fee_price option"
  subscribers :: "string list"
  timer :: jv

definition new_ShahcoinPriceOracle :: "fields \<Rightarrow> fee_oracle" where
  "new_ShahcoinPriceOracle options =
     \<lparr>sources = (case obj_get options ''sources'' of JArr xs \<Rightarrow> xs | _ \<Rightarrow> [JStr ''shahswap'']),
      updateIntervalMs = js_or (obj_get options ''updateInterval'') (JInt 30000),
      cacheTtlMs = js_or (obj_get options ''cacheTimeout'') (JInt 60000),
      lastPrice = None, subscribers = [], timer = JNull\<rparr>"

definition fee_price_value :: "fee_price \<Rightarrow> jv" where
  "fee_price_value p = JObj [(''usd'', JNum (fp_usd p)), (''shah'', JNum (fp_shah p)),
     (''sources'', JArr (fp_sources p)), (''timestamp'', JNum (fp_timestamp p))]"

definition emit_price :: "env \<Rightarrow> fee_price \<Rightarrow> (fee_oracle, unit) js" where
  "emit_price env p =
     js_bind js_this (\<lambda>s.
     js_each (\<lambda>cb. js_catch
         (js_bind (js_ext env (Call ''callback'' [JStr cb, fee_price_value p])) (\<lambda>_. js_return ()))
         (\<lambda>_. js_return ()))
       (subscribers s))"

definition fetchPriceFromSources :: "fee_oracle \<Rightarrow> jsnum \<Rightarrow> fee_price" where
  "fetchPriceFromSources s t =
     \<lparr>fp_usd = Fin (85/100), fp_shah = Fin 1, fp_sources = take 1 (sources s), fp_timestamp = t\<rparr>"

definition fee_cached :: "jsnum \<Rightarrow> fee_oracle \<Rightarrow> fee_price option" where
  "fee_cached now s = (case lastPrice s of None \<Rightarrow> None
     | Some p \<Rightarrow> if num_lt (num_sub now (fp_timestamp p)) (to_number (cacheTtlMs s)) then Some p else None)"

definition getCurrentPrice :: "env \<Rightarrow> (fee_oracle, fee_price) js" where
  "getCurrentPrice env =
     js_bind (date_now env) (\<lambda>now.
     js_bind js_this (\<lambda>s.
       case fee_cached now s of
         Some p \<Rightarrow> js_return p
       | None \<Rightarrow>
           js_bind (date_now env) (\<lambda>t.
           let p = fetchPriceFromSources s t in
           js_bind (js_update (\<lambda>s. s\<lparr>lastPrice := Some p\<rparr>)) (\<lambda>_.
           js_bind (emit_price env p) (\<lambda>_. js_return p)))))"

definition fo_subscribe :: "env \<Rightarrow> string \<Rightarrow> (fee_oracle, unit) js" where
  "fo_subscribe env cb =
     js_bind (js_update (\<lambda>s. s\<lparr>subscribers :=
        (if cb \<in> set (subscribers s) then subscribers s else subscribers s @ [cb])\<rparr>)) (\<lambda>_.
     js_bind js_this (\<lambda>s.
       if truthy (timer s) then js_return ()
       else js_bind (js_ext env (Call ''setInterval'' [updateIntervalMs s])) (\<lambda>h.
            js_update (\<lambda>s. s\<lparr>timer := h\<rparr>))))"

definition fo_unsubscribe :: "string \<Rightarrow> (fee_oracle, unit) js" where
  "fo_unsubscribe cb = js_update (\<lambda>s. s\<lparr>subscribers := removeAll cb (subscribers s)\<rparr>)"

text \<open>The function given to \<open>setInterval\<close>.\<close>

definition fo_tick :: "env \<Rightarrow> (fee_oracle, unit) js" where
  "fo_tick env =
     js_catch (js_bind (getCurrentPrice env) (\<lambda>p. emit_price env p)) (\<lambda>_. js_return ())"

section \<open>The fee calculator\<close>

record fee_calculator =
  baseFees :: fields
  addOnFees :: fields
  priceBuffer :: jv

definition default_baseFees :: fields where
  "default_baseFees = [(''token_creation'', JInt 49), (''nft_creation'', JInt 25),
     (''bundle_creation'', JInt 59)]"

definition default_addOnFees :: fields where
  "default_addOnFees = [(''custom_logo'', JInt 10), (''verified_badge'', JInt 20),
     (''upgradeable_contract'', JInt 15), (''airdrop_tool'', JInt 8), (''custom_image'', JInt 5),
     (''unlockable_content'', JInt 10), (''trade_lock'', JInt 6), (''booster_tag'', JInt 9)]"

definition obj_or :: "jv \<Rightarrow> fields \<Rightarrow> fields" where
  "obj_or v d = (case v of JObj fs \<Rightarrow> fs | _ \<Rightarrow> d)"

definition new_DynamicFeeCalculator :: "fields \<Rightarrow> fee_calculator" where
  "new_DynamicFeeCalculator options =
     \<lparr>baseFees = obj_or (obj_get options ''baseFees'') default_baseFees,
      addOnFees = obj_or (obj_get options ''addOnFees'') default_addOnFees,
      priceBuffer = js_nullish (obj_get options ''priceBuffer'') (JNum (Fin (2/100)))\<rparr>"

definition addOnsUsd :: "fee_calculator \<Rightarrow> jv list \<Rightarrow> jv" where
  "addOnsUsd calc addOns =
     foldl (\<lambda>sum key. js_plus sum (js_or (obj_get (addOnFees calc) (to_str key)) (JInt 0))) (JInt 0) addOns"

definition totalUsd :: "fee_calculator \<Rightarrow> string \<Rightarrow> jv list \<Rightarrow> jv \<Rightarrow> jv" where
  "totalUsd calc feeType addOns volumeUsd =
     (let t0 = js_plus (js_nullish (obj_get (baseFees calc) feeType) (JInt 0)) (addOnsUsd calc addOns);
          t1 = (if truthy volumeUsd \<and> js_le (JInt 1000) volumeUsd
                then JNum (num_mul (to_number t0) (Fin (9/10))) else t0)
      in if feeType = ''bundle_creation''
         then JNum (num_min (to_number t1) (to_number (obj_get (baseFees calc) ''bundle_creation'')))
         else t1)"

definition calculateFee :: "env \<Rightarrow> fee_calculator \<Rightarrow> string \<Rightarrow> fields \<Rightarrow> (fee_oracle, jv) js" where
  "calculateFee env calc feeType opts =
     js_bind (getCurrentPrice env) (\<lambda>p.
       let baseUsd = js_nullish (obj_get (baseFees calc) feeType) (JInt 0);
           addOns = (case obj_get opts ''addOns'' of JArr xs \<Rightarrow> xs | _ \<Rightarrow> []);
           total = totalUsd calc feeType addOns (obj_get opts ''volumeUsd'');
           usdWithBuffer = num_mul (to_number total) (to_number (js_plus (JInt 1) (priceBuffer calc)));
           shah = str_to_num (to_fixed 8 (num_div usdWithBuffer (fp_usd p)))
       in js_return (JObj [(''usd'', JNum (str_to_num (to_fixed 2 usdWithBuffer))), (''shah'', JNum shah),
            (''breakdown'', JObj [(''baseUsd'', baseUsd), (''addOnsUsd'', addOnsUsd calc addOns),
                                  (''buffer'', priceBuffer calc)])]))"

text \<open>The subscriber \<open>subscribeToFeeUpdates\<close> registers.\<close>

fun fee_results :: "env \<Rightarrow> fee_calculator \<Rightarrow> fields \<Rightarrow> string list \<Rightarrow> (fee_oracle, fields) js" where
  "fee_results env calc acc [] = js_return acc"
| "fee_results env calc acc (t # ts) =
     js_bind (calculateFee env calc t []) (\<lambda>r. fee_results env calc (obj_set acc t r) ts)"

definition fee_update :: "env \<Rightarrow> fee_calculator \<Rightarrow> string list \<Rightarrow> string \<Rightarrow> (fee_oracle, unit) js" where
  "fee_update env calc types cb =
     js_bind (fee_results env calc [] types) (\<lambda>results.
     js_catch (js_bind (js_ext env (Call ''callback'' [JStr cb, JObj results])) (\<lambda>_. js_return ()))
              (\<lambda>_. js_return ()))"

section \<open>The web wallet's price notifier\<close>

record price_watch =
  last_price :: "jsnum option"
  watch_timer :: "jv option"
  intervalMs :: jsnum
  has_onPrice :: bool

definition new_PriceWatch :: "jsnum \<Rightarrow> bool \<Rightarrow> price_watch" where
  "new_PriceWatch ms cb = \<lparr>last_price = None, watch_timer = None, intervalMs = ms, has_onPrice = cb\<rparr>"

abbreviation getPrice_call :: call where
  "getPrice_call \<equiv> Call ''deps.getPrice'' []"

definition watch_refresh :: "env \<Rightarrow> (price_watch, unit) js" where
  "watch_refresh env =
     js_bind (js_ext env getPrice_call) (\<lambda>r.
     js_bind js_this (\<lambda>s.
       let v = to_number r in
       if num_pos v \<and> last_price s \<noteq> Some v then
         js_bind (js_update (\<lambda>s. s\<lparr>last_price := Some v\<rparr>)) (\<lambda>_.
         if has_onPrice s then js_bind (js_ext env (Call ''onPrice'' [JNum v])) (\<lambda>_. js_return ())
         else js_return ())
       else js_return ()))"

definition watch_stop :: "env \<Rightarrow> (price_watch, unit) js" where
  "watch_stop env =
     js_bind js_this (\<lambda>s.
     js_bind (case watch_timer s of
         Some h \<Rightarrow> if truthy h then js_bind (js_ext env (Call ''clearInterval'' [h])) (\<lambda>_. js_return ())
                   else js_return ()
       | None \<Rightarrow> js_return ())
       (\<lambda>_. js_update (\<lambda>s. s\<lparr>watch_timer := None\<rparr>)))"

text \<open>\<open>start\<close> does not await its refresh: a failing refresh is an unhandled rejection
  and not an exception of \<open>start\<close>.\<close>

definition watch_start :: "env \<Rightarrow> (price_watch, unit) js" where
  "watch_start env =
     js_bind (watch_stop env) (\<lambda>_.
     js_bind js_this (\<lambda>s.
     js_bind (js_ext env (Call ''setInterval'' [JNum (intervalMs s)])) (\<lambda>h.
     js_bind (js_update (\<lambda>s. s\<lparr>watch_timer := Some h\<rparr>)) (\<lambda>_.
     js_catch (watch_refresh env) (\<lambda>_. js_return ())))))"

datatype watch_op = WStart | WStop | WRefresh

primrec run_watch :: "env \<Rightarrow> watch_op \<Rightarrow> (price_watch, unit) js" where
  "run_watch env WStart = watch_start env"
| "run_watch env WStop = watch_stop env"
| "run_watch env WRefresh = watch_refresh env"

inductive watch_reach :: "env \<Rightarrow> jsnum \<Rightarrow> price_watch world \<Rightarrow> bool" for env ms where
  start: "watch_reach env ms (new_PriceWatch ms True, [])"
| step: "watch_reach env ms w \<Longrightarrow> watch_reach env ms (snd (run_watch env op w))"

section \<open>The price of the module\<close>

definition fee_ok :: "fee_oracle \<Rightarrow> bool" where
  "fee_ok s = (case lastPrice s of None \<Rightarrow> True | Some p \<Rightarrow> fp_usd p = Fin (85/100))"

lemma emit_total: "never_throws (emit_price env p)" "keeps_state (emit_price env p)"
  unfolding emit_price_def by (intro total_intros, intro keeps_intros)

lemma getCurrentPrice_run:
  assumes "clock_ok env" "fee_ok s"
  obtains p s' tr' where "getCurrentPrice env (s, tr) = (Inr p, (s', tr'))"
    "fp_usd p = Fin (85/100)" "fee_ok s'"
proof -
  obtain now where now: "env (length tr) (Call ''Date.now'' []) = Inr (JNum now)"
    using assms(1) by (auto simp: clock_ok_def)
  let ?tr = "tr @ [Call ''Date.now'' []]"
  show thesis
  proof (cases "fee_cached now s")
    case None
    obtain t where t: "env (length ?tr) (Call ''Date.now'' []) = Inr (JNum t)"
      using assms(1) unfolding clock_ok_def by blast
    let ?p = "fetchPriceFromSources s t" and ?tr2 = "?tr @ [Call ''Date.now'' []]"
    let ?s = "s\<lparr>lastPrice := Some ?p\<rparr>"
    obtain u tr' where e: "emit_price env ?p (?s, ?tr2) = (Inr u, (?s, tr'))"
      using never_throws_keeps_run [OF emit_total] .
    have "getCurrentPrice env (s, tr) = (Inr ?p, (?s, tr'))"
      unfolding getCurrentPrice_def js_bind_now [of env, OF now] js_bind_this None option.case
        js_bind_now [of env, OF t] Let_def
      using e by (simp add: js_bind_apply js_update_apply js_return_apply)
    then show thesis by (rule that) (simp_all add: fetchPriceFromSources_def fee_ok_def)
  next
    case (Some p)
    then have "getCurrentPrice env (s, tr) = (Inr p, (s, ?tr))"
      unfolding getCurrentPrice_def js_bind_now [of env, OF now] js_bind_this by (simp add: js_return_apply)
    moreover have "fp_usd p = Fin (85/100)"
      using Some assms(2) by (auto simp: fee_cached_def fee_ok_def split: option.splits if_splits)
    ultimately show thesis using that assms(2) by blast
  qed
qed

section \<open>The quoted amounts\<close>

definition rate :: "fields \<Rightarrow> string \<Rightarrow> rat" where
  "rate fs k = (case map_of fs k of Some (JNum (Fin q)) \<Rightarrow> q | _ \<Rightarrow> 0)"

text \<open>The documented price: base fee plus add-ons, a tenth off from a volume of 1000
  dollars on, and a cap on bundles at their base fee.\<close>

definition list_price :: "string \<Rightarrow> string list \<Rightarrow> rat \<Rightarrow> rat" where
  "list_price t ks volume =
     (let x = rate default_baseFees t + (\<Sum>k\<leftarrow>ks. rate default_addOnFees k);
          y = (if volume \<ge> 1000 then x * (9/10) else x)
      in if t = ''bundle_creation'' then min y 59 else y)"

definition fee_table :: "fields \<Rightarrow> bool" where
  "fee_table fs = (\<forall>v\<in>set (map snd fs). case v of JNum (Fin q) \<Rightarrow> 0 \<le> q | _ \<Rightarrow> False)"

lemma default_tables: "fee_table default_baseFees" "fee_table default_addOnFees"
  by (simp_all add: fee_table_def default_baseFees_def default_addOnFees_def)

lemma fee_table_get:
  assumes "fee_table fs" "k \<notin> set proto_keys"
  shows "0 \<le> rate fs k \<and>
    (obj_get fs k = JNum (Fin (rate fs k)) \<or> (obj_get fs k = JUndef \<and> rate fs k = 0))"
proof (cases "map_of fs k")
  case None
  then show ?thesis using proto_value_undef [OF assms(2)] by (simp add: obj_get_def rate_def)
next
  case (Some v)
  then have "v \<in> set (map snd fs)" by (force dest: map_of_SomeD)
  then have "case v of JNum (Fin q) \<Rightarrow> 0 \<le> q | _ \<Rightarrow> False" using assms(1) unfolding fee_table_def by blast
  then obtain q where "v = JNum (Fin q)" "0 \<le> q" by (auto split: jv.splits jsnum.splits)
  then show ?thesis using Some by (simp add: obj_get_def rate_def)
qed

lemma fee_lookup:
  assumes "fee_table fs" "k \<notin> set proto_keys"
  shows "js_or (obj_get fs k) (JInt 0) = JNum (Fin (rate fs k))"
    and "js_nullish (obj_get fs k) (JInt 0) = JNum (Fin (rate fs k))"
  using fee_table_get [OF assms] by (auto simp: js_or_def js_nullish_def num_truthy_def)

lemma addOnsUsd_sum:
  assumes "\<forall>k\<in>set ks. k \<notin> set proto_keys" "addOnFees calc = default_addOnFees"
  shows "addOnsUsd calc (map JStr ks) = JNum (Fin (\<Sum>k\<leftarrow>ks. rate default_addOnFees k))"
proof -
  have "foldl (\<lambda>sum key. js_plus sum (js_or (obj_get default_addOnFees (to_str key)) (JInt 0)))
      (JNum (Fin a)) (map JStr ks) = JNum (Fin (a + (\<Sum>k\<leftarrow>ks. rate default_addOnFees k)))" for a
    using assms(1) by (induction ks arbitrary: a) (simp_all add: fee_lookup(1) [OF default_tables(2), simplified] add.assoc)
  from this [of 0] show ?thesis by (simp add: addOnsUsd_def assms(2))
qed

lemma totalUsd_list_price:
  assumes "t \<notin> set proto_keys" "\<forall>k\<in>set ks. k \<notin> set proto_keys"
  shows "to_number (totalUsd (new_DynamicFeeCalculator []) t (map JStr ks) (JNum (Fin v)))
    = Fin (list_price t ks v)"
proof -
  have c: "baseFees (new_DynamicFeeCalculator []) = default_baseFees"
    "addOnFees (new_DynamicFeeCalculator []) = default_addOnFees"
    by (simp_all add: new_DynamicFeeCalculator_def obj_or_def proto_value_def proto_keys_def)
  have b: "obj_get default_baseFees ''bundle_creation'' = JInt 59"
    by (simp add: default_baseFees_def)
  have v: "truthy (JNum (Fin v)) \<and> js_le (JInt 1000) (JNum (Fin v)) \<longleftrightarrow> v \<ge> 1000"
    by (auto simp: num_truthy_def)
  show ?thesis
    unfolding totalUsd_def c b v addOnsUsd_sum [OF assms(2) c(2)] fee_lookup(2) [OF default_tables(1) assms(1)]
      list_price_def Let_def
    by simp
qed

lemma rate_nonneg: "fee_table fs \<Longrightarrow> 0 \<le> rate fs k"
proof -
  assume "fee_table fs"
  then have "case v of JNum (Fin q) \<Rightarrow> 0 \<le> q | _ \<Rightarrow> False" if "map_of fs k = Some v" for v
    using that unfolding fee_table_def by (metis map_of_SomeD image_eqI set_map snd_conv)
  then show ?thesis by (auto simp: rate_def split: option.splits jv.splits jsnum.splits)
qed

lemma addOns_nonneg: "0 \<le> (\<Sum>k\<leftarrow>ks. rate default_addOnFees k)"
  by (induction ks) (auto simp: rate_nonneg [OF default_tables(2)])

lemma list_price_nonneg: "0 \<le> list_price t ks v"
  using rate_nonneg [OF default_tables(1), of t] addOns_nonneg [of ks] by (simp add: list_price_def Let_def)

lemma list_price_bundle: "v < 1000 \<Longrightarrow> list_price ''bundle_creation'' ks v = 59"
  using addOns_nonneg [of ks] by (simp add: list_price_def rate_def default_baseFees_def)

section \<open>The notifications\<close>

text \<open>The prices the source answered, and the prices handed to \<open>onPrice\<close>, in the order of
  the log.\<close>

definition quotes :: "env \<Rightarrow> call list \<Rightarrow> jsnum list" where
  "quotes env tr = concat (map (\<lambda>(i, c). if c = getPrice_call
     then (case env i c of Inr v \<Rightarrow> [to_number v] | Inl _ \<Rightarrow> []) else []) (enumerate 0 tr))"

definition notified :: "call list \<Rightarrow> jsnum list" where
  "notified tr = concat (map (\<lambda>c. if callee c = ''onPrice'' then map to_number (args c) else []) tr)"

lemma quotes_snoc [simp]:
  "quotes env [] = []"
  "quotes env (tr @ [c]) = quotes env tr @ (if c = getPrice_call
     then (case env (length tr) c of Inr v \<Rightarrow> [to_number v] | Inl _ \<Rightarrow> []) else [])"
  by (simp_all add: quotes_def enumerate_append_eq)

lemma notified_snoc [simp]:
  "notified [] = []"
  "notified (tr @ [c]) = notified tr @ (if callee c = ''onPrice'' then map to_number (args c) else [])"
  by (simp_all add: notified_def)

lemma remdups_adj_snoc:
  "remdups_adj (xs @ [x]) = (if xs \<noteq> [] \<and> last xs = x then remdups_adj xs else remdups_adj xs @ [x])"
  by (induction xs rule: remdups_adj.induct) auto

definition watch_inv :: "env \<Rightarrow> price_watch world \<Rightarrow> bool" where
  "watch_inv env w = (let qs = filter num_pos (quotes env (snd w)) in
     has_onPrice (fst w) \<and> last_price (fst w) = (if qs = [] then None else Some (last qs)) \<and>
     notified (snd w) = remdups_adj qs)"

lemma watch_inv_other:
  "callee c \<noteq> ''onPrice'' \<Longrightarrow> callee c \<noteq> ''deps.getPrice'' \<Longrightarrow> watch_inv env (s, tr) \<Longrightarrow>
   watch_inv env (s\<lparr>watch_timer := h\<rparr>, tr @ [c]) \<and> watch_inv env (s, tr @ [c])"
  by (cases c) (auto simp: watch_inv_def)

lemma watch_inv_timer [simp]: "watch_inv env (s\<lparr>watch_timer := h\<rparr>, tr) = watch_inv env (s, tr)"
  by (simp add: watch_inv_def)

lemma watch_refresh_inv: "watch_inv env w \<Longrightarrow> watch_inv env (snd (watch_refresh env w))"
proof -
  assume inv: "watch_inv env w"
  obtain s tr where w: "w = (s, tr)" by (metis surj_pair)
  let ?tr = "tr @ [getPrice_call]"
  show ?thesis
  proof (cases "env (length tr) getPrice_call")
    case (Inl e)
    then show ?thesis using inv by (simp add: w watch_refresh_def js_simps watch_inv_def)
  next
    case (Inr r)
    define v qs where "v = to_number r" and "qs = filter num_pos (quotes env tr)"
    have q: "filter num_pos (quotes env ?tr) = (if num_pos v then qs @ [v] else qs)"
      "notified ?tr = notified tr"
      using Inr by (simp_all add: v_def qs_def)
    have q': "quotes env (?tr @ [Call ''onPrice'' [JNum v]]) = quotes env ?tr"
      "notified (?tr @ [Call ''onPrice'' [JNum v]]) = notified ?tr @ [v]"
      by (subst quotes_snoc(2), simp) (subst notified_snoc(2), simp)
    have i: "has_onPrice s" "last_price s = (if qs = [] then None else Some (last qs))"
      "notified tr = remdups_adj qs"
      using inv by (simp_all add: w watch_inv_def qs_def Let_def)
    show ?thesis
    proof (cases "num_pos v \<and> last_price s \<noteq> Some v")
      case True
      then have "snd (watch_refresh env w) = (s\<lparr>last_price := Some v\<rparr>, ?tr @ [Call ''onPrice'' [JNum v]])"
        using i(1) Inr by (cases "env (length ?tr) (Call ''onPrice'' [JNum v])")
          (simp_all add: w watch_refresh_def js_simps v_def Let_def)
      moreover have "remdups_adj (qs @ [v]) = remdups_adj qs @ [v]"
        using True i(2) by (auto simp: remdups_adj_snoc)
      moreover have "filter num_pos (quotes env ?tr) = qs @ [v]" using True q(1) by simp
      ultimately show ?thesis unfolding watch_inv_def Let_def using i
        by (simp only: q' q(2) fst_conv snd_conv) simp
    next
      case False
      then have "snd (watch_refresh env w) = (s, ?tr)"
        using Inr by (auto simp: w watch_refresh_def js_simps v_def Let_def)
      moreover have "remdups_adj (filter num_pos (quotes env ?tr)) = remdups_adj qs"
        "(if filter num_pos (quotes env ?tr) = [] then None else Some (last (filter num_pos (quotes env ?tr))))
         = last_price s"
        unfolding q using False i(2) by (auto simp: remdups_adj_snoc split: if_splits)
      ultimately show ?thesis unfolding watch_inv_def Let_def using i q(2) by (simp only: fst_conv snd_conv)
    qed
  qed
qed

lemma watch_stop_run:
  assumes "watch_inv env (s, tr)"
  shows "watch_inv env (snd (watch_stop env (s, tr)))"
proof (cases "watch_timer s")
  case (Some h)
  have "callee (Call ''clearInterval'' [h]) \<noteq> ''onPrice''" "callee (Call ''clearInterval'' [h]) \<noteq> ''deps.getPrice''"
    by simp_all
  note other = watch_inv_other [OF this assms]
  show ?thesis
  proof (cases "truthy h")
    case True
    show ?thesis using Some True other
      by (cases "env (length tr) (Call ''clearInterval'' [h])") (simp_all add: watch_stop_def js_simps)
  qed (use Some assms in \<open>simp add: watch_stop_def js_simps\<close>)
qed (use assms in \<open>simp add: watch_stop_def js_simps\<close>)

lemma watch_start_run:
  assumes "watch_inv env (s, tr)"
  shows "watch_inv env (snd (watch_start env (s, tr)))"
proof -
  obtain r s1 tr1 where stop: "watch_stop env (s, tr) = (r, (s1, tr1))" by (metis surj_pair)
  have i1: "watch_inv env (s1, tr1)" using watch_stop_run [OF assms] stop by simp
  let ?c = "Call ''setInterval'' [JNum (intervalMs s1)]"
  have "callee ?c \<noteq> ''onPrice''" "callee ?c \<noteq> ''deps.getPrice''" by simp_all
  note i2 = watch_inv_other [OF this i1]
  have i3: "watch_inv env (snd (js_catch (watch_refresh env) (\<lambda>_. js_return ()) w))" if "watch_inv env w" for w
    using watch_refresh_inv [OF that] by (auto simp: js_simps split: prod.splits sum.splits)
  show ?thesis
  proof (cases r)
    case (Inr u)
    show ?thesis
    proof (cases "env (length tr1) ?c")
      case (Inr h)
      have "snd (watch_start env (s, tr)) =
          snd (js_catch (watch_refresh env) (\<lambda>_. js_return ()) (s1\<lparr>watch_timer := Some h\<rparr>, tr1 @ [?c]))"
        unfolding watch_start_def using stop \<open>r = Inr u\<close> Inr
        by (simp add: js_bind_apply js_this_apply js_ext_apply js_update_apply)
      then show ?thesis using i3 [of "(s1\<lparr>watch_timer := Some h\<rparr>, tr1 @ [?c])"] i2 by simp
    qed (use Inr stop i2 in \<open>simp add: watch_start_def js_simps\<close>)
  qed (use stop i1 in \<open>simp add: watch_start_def js_simps\<close>)
qed

lemma watch_reach_inv: "watch_reach env ms w \<Longrightarrow> watch_inv env w"
proof (induction rule: watch_reach.induct)
  case start
  show ?case by (simp add: watch_inv_def new_PriceWatch_def)
next
  case (step w op)
  then show ?case
    using watch_start_run watch_stop_run watch_refresh_inv by (cases w; cases op) auto
qed

definition sample_market :: env where
  "sample_market = (\<lambda>i c. if callee c = ''Date.now'' then Inr (JInt 1000)
     else if c = getPrice_call then Inr (JNum (Fin (85/100))) else Inr JUndef)"

lemma sample_market_clock: "clock_ok sample_market"
  by (simp add: clock_ok_def sample_market_def)

section \<open>Properties\<close>

text \<open>The default fee calculator quotes exactly the documented price with its two
  percent buffer: base fee plus the known add-ons, a tenth off from a volume of 1000
  dollars on, a bundle capped at its base fee; the dollar amount is rounded to cents
  and the SHAH amount at 0.85 dollars to eight decimals.\<close>

theorem fee_quote_exact:
  assumes "clock_ok env" "fee_ok s" "t \<notin> set proto_keys" "\<forall>k\<in>set ks. k \<notin> set proto_keys"
  shows "\<exists>fs w'. calculateFee env (new_DynamicFeeCalculator []) t
      [(''addOns'', JArr (map JStr ks)), (''volumeUsd'', JNum (Fin v))] (s, tr) = (Inr (JObj fs), w') \<and>
    obj_get fs ''usd'' = JNum (Fin (refixed 2 (list_price t ks v * (102/100)))) \<and>
    obj_get fs ''shah'' = JNum (Fin (refixed 8 (list_price t ks v * (102/100) / (85/100))))"
proof -
  obtain p s' tr' where p: "getCurrentPrice env (s, tr) = (Inr p, (s', tr'))" "fp_usd p = Fin (85/100)"
    using getCurrentPrice_run [OF assms(1,2)] .
  let ?calc = "new_DynamicFeeCalculator []" and ?x = "list_price t ks v * (102/100)"
  define X where "X = num_mul (to_number (totalUsd ?calc t (map JStr ks) (JNum (Fin v))))
      (to_number (js_plus (JInt 1) (priceBuffer ?calc)))"
  have "to_number (js_plus (JInt 1) (priceBuffer ?calc)) = Fin (102/100)"
    by (simp add: new_DynamicFeeCalculator_def js_nullish_def proto_value_def proto_keys_def)
  then have X: "X = Fin ?x" unfolding X_def totalUsd_list_price [OF assms(3,4)] by (simp only: num_mul.simps)
  have pos: "0 \<le> ?x" "0 \<le> ?x / (85/100)" using list_price_nonneg [of t ks v] by simp_all
  have d: "num_div X (fp_usd p) = Fin (?x / (85/100))" unfolding X p(2) by (rule num_div_pos) simp
  have "calculateFee env ?calc t [(''addOns'', JArr (map JStr ks)), (''volumeUsd'', JNum (Fin v))] (s, tr) =
      (Inr (JObj [(''usd'', JNum (str_to_num (to_fixed 2 X))),
                  (''shah'', JNum (str_to_num (to_fixed 8 (num_div X (fp_usd p))))),
                  (''breakdown'', JObj [(''baseUsd'', js_nullish (obj_get (baseFees ?calc) t) (JInt 0)),
                     (''addOnsUsd'', addOnsUsd ?calc (map JStr ks)), (''buffer'', priceBuffer ?calc)])]), (s', tr'))"
    unfolding calculateFee_def X_def using p(1) by (simp add: js_bind_apply Let_def js_return_apply)
  note run = this [unfolded d, unfolded X str_to_num_to_fixed [OF pos(1)] str_to_num_to_fixed [OF pos(2)]]
  show ?thesis
    by (intro exI conjI, rule run, rule obj_get_hit, subst obj_get_skip, simp, rule obj_get_hit)
qed

theorem fee_quote_exact_witness:
  "\<exists>fs w'. calculateFee sample_market (new_DynamicFeeCalculator []) ''token_creation''
      [(''addOns'', JArr (map JStr [''custom_logo'', ''airdrop_tool''])), (''volumeUsd'', JNum (Fin 0))]
      (new_ShahcoinPriceOracle [], []) = (Inr (JObj fs), w') \<and>
    obj_get fs ''usd'' = JNum (Fin (refixed 2 (list_price ''token_creation'' [''custom_logo'', ''airdrop_tool''] 0 * (102/100)))) \<and>
    obj_get fs ''shah'' = JNum (Fin (refixed 8 (list_price ''token_creation'' [''custom_logo'', ''airdrop_tool''] 0 * (102/100) / (85/100))))"
  by (rule fee_quote_exact [OF sample_market_clock])
     (simp_all add: fee_ok_def new_ShahcoinPriceOracle_def proto_keys_def)

text \<open>The web wallet's price watcher reports exactly the changes: in every reachable
  state the prices handed to \<open>onPrice\<close> are the positive prices the source answered, with
  runs of equal prices reported once, whatever was started, stopped or failed in
  between.\<close>

theorem watch_reports_changes:
  assumes "watch_reach env ms (s, tr)"
  shows "notified tr = remdups_adj (filter num_pos (quotes env tr))"
  using watch_reach_inv [OF assms] by (simp add: watch_inv_def Let_def)

theorem watch_reports_changes_witness:
  "notified [getPrice_call, Call ''onPrice'' [JNum (Fin (85/100))], getPrice_call] =
     remdups_adj (filter num_pos (quotes sample_market
       [getPrice_call, Call ''onPrice'' [JNum (Fin (85/100))], getPrice_call]))"
proof -
  let ?w = "\<lambda>n. ((\<lambda>w. snd (run_watch sample_market WRefresh w)) ^^ n) (new_PriceWatch (Fin 30000) True, [])"
  have "watch_reach sample_market (Fin 30000) (?w 2)"
    by (simp add: numeral_2_eq_2 del: run_watch.simps) (intro watch_reach.intros)
  moreover have "?w 2 = (\<lparr>last_price = Some (Fin (85/100)), watch_timer = None, intervalMs = Fin 30000,
      has_onPrice = True\<rparr>, [getPrice_call, Call ''onPrice'' [JNum (Fin (85/100))], getPrice_call])"
    by (simp add: numeral_2_eq_2 watch_refresh_def js_simps sample_market_def new_PriceWatch_def Let_def)
  ultimately show ?thesis using watch_reports_changes by metis
qed

end
