(* ===== verification/Registry.thy ===== *)
theory Registry
  imports Main
begin

text \<open>
  The contract of a keyed registry, shared by the metadata store, the registry of
  verified assets and the vault of contract bundles: writing under a key determines what is read under every key the
  registry identifies with it, and nothing else.  \<open>view\<close> is what a reader sees of a
  written value; \<open>None\<close> means that the key is absent, so a removal is a write.
\<close>

locale registry =
  fixes put :: "'k \<Rightarrow> 'v \<Rightarrow> 's \<Rightarrow> 's"
    and get :: "'k \<Rightarrow> 's \<Rightarrow> 'c option"
    and same :: "'k \<Rightarrow> 'k \<Rightarrow> bool"
    and view :: "'v \<Rightarrow> 'c option"
  assumes get_put_same: "same k k' \<Longrightarrow> get k' (put k v s) = view v"
    and get_put_other: "\<not> same k k' \<Longrightarrow> get k' (put k v s) = get k' s"
begin

definition puts :: "('k \<times> 'v) list \<Rightarrow> 's \<Rightarrow> 's" where
  "puts ops s = fold (\<lambda>(k, v). put k v) ops s"

text \<open>After any sequence of writes a reader sees the last one under its key.\<close>

lemma last_write_wins:
  "get k (puts ops s) = (case find (\<lambda>(k', _). same k' k) (rev ops) of
     Some (_, v) \<Rightarrow> view v | None \<Rightarrow> get k s)"
  unfolding puts_def
  by (induction ops rule: rev_induct) (auto simp: get_put_same get_put_other)

lemma put_put_independent:
  "\<not> same k k' \<Longrightarrow> \<not> same k' k \<Longrightarrow>
   same k l \<or> same k' l \<Longrightarrow> \<not> (same k l \<and> same k' l) \<Longrightarrow>
   get l (put k v (put k' v' s)) = get l (put k' v' (put k v s))"
  by (auto simp: get_put_same get_put_other)

end

text \<open>Looking up related lists.\<close>

lemma find_list_all2:
  assumes "list_all2 R xs ys" "\<And>x y. R x y \<Longrightarrow> P x = Q y"
  shows "rel_option R (find P xs) (find Q ys)"
  using assms(1) by (induction rule: list_all2_induct) (auto simp: assms(2))

end
