(* ===== verification/Metadata.thy ===== *)
theory Metadata
  imports Registry Effects Pricing "HOL-Library.AList"
begin

text \<open>
  Token and NFT metadata: the SHI-20 and SHI-30 schemas with their validation, the
  badge detection and its Qt, web and Telegram views, the metadata store
  (sdk-core/smart-contract-toolkit/metadata-standards.js), the React badge component
  (sdk-core/smart-contract-toolkit/TokenBadge.jsx) and the Telegram registry of verified
  assets (telegram/VerifiedBadgeTelegramMiniApp.js).

  A JavaScript \<open>Map\<close> is an association list in insertion order.  The objects in the
  metadata store are shared with the code that read them: \<open>getMetadata\<close> and
  \<open>updateVerificationStatus\<close> change the stored object in place, and so does the model.
  Symbols outside ASCII are their UTF-8 bytes.
\<close>

section \<open>Schemas\<close>

definition METADATA_STANDARDS :: fields where
  "METADATA_STANDARDS =
     [(''SHI_20'', JObj [(''standard'', JStr ''shahcoin.token.standard.v1''), (''type'', JStr ''SHI-20''),
        (''version'', JStr ''1.0.0'')]),
      (''SHI_30'', JObj [(''standard'', JStr ''shahcoin.nft.standard.v1''), (''type'', JStr ''SHI-30''),
        (''version'', JStr ''1.0.0'')])]"

definition iso_now :: "env \<Rightarrow> ('s, jv) js" where
  "iso_now env = js_ext env (Call ''Date.toISOString'' [])"

definition generateSHI20Metadata :: "env \<Rightarrow> jv \<Rightarrow> ('s, jv) js" where
  "generateSHI20Metadata env cfg =
     js_bind (js_get cfg ''name'') (\<lambda>nm.
     js_bind (iso_now env) (\<lambda>t.
     js_return (JObj
       [(''standard'', JStr ''shahcoin.token.standard.v1''), (''type'', JStr ''SHI-20''),
        (''name'', nm), (''symbol'', jopt cfg ''symbol''),
        (''decimals'', js_or (jopt cfg ''decimals'') (JInt 18)),
        (''totalSupply'', jopt cfg ''totalSupply''), (''maxSupply'', jopt cfg ''maxSupply''),
        (''createdBy'', JStr ''ShahFactory''), (''verified'', JBool False), (''createdAt'', t),
        (''version'', JStr ''1.0.0''), (''description'', jopt cfg ''description''),
        (''website'', jopt cfg ''website''), (''logo'', jopt cfg ''logo''),
        (''addOns'', JObj
          [(''customLogo'', js_or (jopt cfg ''customLogo'') (JBool False)),
           (''verifiedBadge'', js_or (jopt cfg ''verifiedBadge'') (JBool False)),
           (''upgradeable'', js_or (jopt cfg ''upgradeable'') (JBool False)),
           (''airdropTool'', js_or (jopt cfg ''airdropTool'') (JBool False))])])))"

definition generateSHI30Metadata :: "env \<Rightarrow> jv \<Rightarrow> ('s, jv) js" where
  "generateSHI30Metadata env cfg =
     js_bind (js_get cfg ''name'') (\<lambda>nm.
     js_bind (iso_now env) (\<lambda>t.
     js_return (JObj
       [(''standard'', JStr ''shahcoin.nft.standard.v1''), (''type'', JStr ''SHI-30''),
        (''name'', nm), (''symbol'', jopt cfg ''symbol''), (''description'', jopt cfg ''description''),
        (''image'', jopt cfg ''image''), (''createdBy'', JStr ''ShahFactory''),
        (''verified'', JBool False), (''createdAt'', t), (''version'', JStr ''1.0.0''),
        (''attributes'', js_or (jopt cfg ''attributes'') (JArr [])),
        (''externalUrl'', jopt cfg ''externalUrl''), (''animationUrl'', jopt cfg ''animationUrl''),
        (''addOns'', JObj
          [(''customImage'', js_or (jopt cfg ''customImage'') (JBool False)),
           (''verifiedBadge'', js_or (jopt cfg ''verifiedBadge'') (JBool False)),
           (''unlockableContent'', js_or (jopt cfg ''unlockableContent'') (JBool False)),
           (''tradeLock'', js_or (jopt cfg ''tradeLock'') (JBool False)),
           (''boosterTag'', js_or (jopt cfg ''boosterTag'') (JBool False))])])))"

definition requiredFields :: "string list" where
  "requiredFields = [''standard'', ''type'', ''name'', ''createdBy'', ''verified'']"

definition standard_values :: "string \<Rightarrow> jv list" where
  "standard_values k = map (\<lambda>(_, s). jopt s k) METADATA_STANDARDS"

definition validateMetadata :: "jv \<Rightarrow> js_error + bool" where
  "validateMetadata m =
     (case jget m (hd requiredFields) of Inl e \<Rightarrow> Inl e | Inr _ \<Rightarrow>
      let missing = filter (\<lambda>f. \<not> truthy (jopt m f)) requiredFields in
      if missing \<noteq> [] then Inl (Error (''Missing required metadata fields: '' @ join_with '', '' missing))
      else if \<not> list_ex (strict_eq (jopt m ''standard'')) (standard_values ''standard'')
        then Inl (Error (''Invalid standard: '' @ to_str (jopt m ''standard'')))
      else if \<not> list_ex (strict_eq (jopt m ''type'')) (standard_values ''type'')
        then Inl (Error (''Invalid type: '' @ to_str (jopt m ''type'')))
      else Inr True)"

section \<open>Badges\<close>

text \<open>The four badge objects are compared by identity, so they are four constants.\<close>

datatype badge_kind = B_SHI20 | B_SHI30 | B_VERIFIED | B_UNKNOWN

record badge_info =
  icon :: string
  iconCode :: string
  blabel :: string
  tooltip :: string
  color :: string
  bgColor :: string

primrec badge_def :: "badge_kind \<Rightarrow> badge_info" where
  "badge_def B_SHI20 = \<lparr>icon = [CHR 0xF0, CHR 0x9F, CHR 0xAA, CHR 0x99], iconCode = ''&#x1FA99;'',
     blabel = ''Official Shahcoin Token (SHI-20)'',
     tooltip = ''Created via ShahFactory - Official Shahcoin Standard'',
     color = ''#6B7280'', bgColor = ''#F3F4F6''\<rparr>"
| "badge_def B_SHI30 = \<lparr>icon = [CHR 0xF0, CHR 0x9F, CHR 0x92, CHR 0x8E], iconCode = ''&#x1F48E;'',
     blabel = ''Official Shahcoin NFT (SHI-30)'',
     tooltip = ''Created via ShahFactory - Official Shahcoin Standard'',
     color = ''#F59E0B'', bgColor = ''#FEF3C7''\<rparr>"
| "badge_def B_VERIFIED = \<lparr>icon = [CHR 0xE2, CHR 0x9C, CHR 0x85], iconCode = ''&#x2705;'',
     blabel = ''Verified by SHAH Admin Team'',
     tooltip = ''This asset has been verified by the Shahcoin Admin Team'',
     color = ''#10B981'', bgColor = ''#D1FAE5''\<rparr>"
| "badge_def B_UNKNOWN = \<lparr>icon = [CHR 0xE2, CHR 0x9D, CHR 0x93], iconCode = ''&#x2753;'',
     blabel = ''Unknown Token'', tooltip = ''Token type could not be determined'',
     color = ''#9CA3AF'', bgColor = ''#F9FAFB''\<rparr>"

definition badge_value :: "badge_kind \<Rightarrow> jv" where
  "badge_value b = (let d = badge_def b in JObj [(''icon'', JStr (icon d)), (''iconCode'', JStr (iconCode d)),
     (''label'', JStr (blabel d)), (''tooltip'', JStr (tooltip d)), (''color'', JStr (color d)),
     (''bgColor'', JStr (bgColor d))])"

definition smartFallbackDetection :: "jv \<Rightarrow> badge_kind" where
  "smartFallbackDetection m =
     (let given = (\<lambda>k. jopt m k \<noteq> JUndef); set_to = (\<lambda>k. truthy (jopt m k));
          factory = strict_eq (jopt m ''createdBy'') (JStr ''ShahFactory'') in
      if factory \<and> (given ''decimals'' \<or> given ''totalSupply'') then B_SHI20
      else if factory \<and> (set_to ''attributes'' \<or> set_to ''image'') then B_SHI30
      else if given ''decimals'' \<and> given ''totalSupply'' then B_SHI20
      else if set_to ''attributes'' \<or> set_to ''image'' \<or> set_to ''description'' then B_SHI30
      else B_UNKNOWN)"

definition detectTokenBadge :: "jv \<Rightarrow> badge_kind" where
  "detectTokenBadge m =
     (if \<not> truthy m then B_UNKNOWN
      else if strict_eq (jopt m ''verified'') (JBool True) then B_VERIFIED
      else if strict_eq (jopt m ''type'') (JStr ''SHI-20'') \<or>
              strict_eq (jopt m ''standard'') (JStr ''shahcoin.token.standard.v1'') then B_SHI20
      else if strict_eq (jopt m ''type'') (JStr ''SHI-30'') \<or>
              strict_eq (jopt m ''standard'') (JStr ''shahcoin.nft.standard.v1'') then B_SHI30
      else smartFallbackDetection m)"

definition sizeClasses :: fields where
  "sizeClasses = [(''small'', JStr ''badge-sm''), (''medium'', JStr ''badge-md''), (''large'', JStr ''badge-lg'')]"

definition getBadgeHTML :: "badge_kind \<Rightarrow> string \<Rightarrow> string" where
  "getBadgeHTML b sz =
    nl @
    ''      <span class='' @ [CHR 0x22] @ ''shahcoin-badge '' @ to_str (obj_get sizeClasses sz) @ [CHR 0x22] @ '' '' @ nl @
    ''            style='' @ [CHR 0x22] @ ''background-color: '' @ bgColor (badge_def b) @ ''; color: '' @ color (badge_def b) @ '';'' @ [CHR 0x22] @ nl @
    ''            title='' @ [CHR 0x22] @ tooltip (badge_def b) @ [CHR 0x22] @ ''>'' @ nl @
    ''        <span class='' @ [CHR 0x22] @ ''badge-icon'' @ [CHR 0x22] @ ''>'' @ icon (badge_def b) @ ''</span>'' @ nl @
    ''        <span class='' @ [CHR 0x22] @ ''badge-label'' @ [CHR 0x22] @ ''>'' @ blabel (badge_def b) @ ''</span>'' @ nl @
    ''      </span>'' @ nl @
    ''    ''"

definition getBadgeCSS :: "badge_kind \<Rightarrow> fields" where
  "getBadgeCSS b = [(''shahcoin-badge'', JBool True), (''badge-shi20'', JBool (b = B_SHI20)),
     (''badge-shi30'', JBool (b = B_SHI30)), (''badge-verified'', JBool (b = B_VERIFIED)),
     (''badge-unknown'', JBool (b = B_UNKNOWN))]"

subsection \<open>The Qt, web and Telegram views\<close>

text \<open>A computed property name is converted to a string, whatever object it is.\<close>

definition iconMap :: fields where
  "iconMap = foldl (\<lambda>fs (b, v). obj_set fs (to_str (badge_value b)) (JStr v)) []
     [(B_SHI20, '':/icons/token_silver''), (B_SHI30, '':/icons/nft_gold''),
      (B_VERIFIED, '':/icons/verified_check''), (B_UNKNOWN, '':/icons/token_unknown'')]"

definition getQtIcon :: "badge_kind \<Rightarrow> jv" where
  "getQtIcon b = js_or (obj_get iconMap (to_str (badge_value b)))
                       (obj_get iconMap (to_str (badge_value B_UNKNOWN)))"

definition getQtStyle :: "badge_kind \<Rightarrow> string" where
  "getQtStyle b =
    nl @
    ''      QLabel {'' @ nl @
    ''        background-color: '' @ bgColor (badge_def b) @ '';'' @ nl @
    ''        color: '' @ color (badge_def b) @ '';'' @ nl @
    ''        border: 1px solid '' @ color (badge_def b) @ '';'' @ nl @
    ''        border-radius: 4px;'' @ nl @
    ''        padding: 2px 6px;'' @ nl @
    ''        font-size: 10px;'' @ nl @
    ''        font-weight: bold;'' @ nl @
    ''      }'' @ nl @
    ''    ''"

definition getQtTokenBadge :: "jv \<Rightarrow> js_error + jv" where
  "getQtTokenBadge tokenData =
     (case jget tokenData ''metadata'' of Inl e \<Rightarrow> Inl e | Inr m \<Rightarrow>
      let b = detectTokenBadge m; d = badge_def b in
      Inr (JObj [(''icon'', JStr (icon d)), (''label'', JStr (blabel d)), (''tooltip'', JStr (tooltip d)),
        (''color'', JStr (color d)), (''bgColor'', JStr (bgColor d)),
        (''qtIcon'', getQtIcon b), (''qtStyle'', JStr (getQtStyle b))]))"

definition getWebAppTokenBadge :: "jv \<Rightarrow> js_error + jv" where
  "getWebAppTokenBadge tokenData =
     (case jget tokenData ''metadata'' of Inl e \<Rightarrow> Inl e | Inr m \<Rightarrow>
      let b = detectTokenBadge m in
      Inr (JObj [(''html'', JStr (getBadgeHTML b ''medium'')), (''css'', JObj (getBadgeCSS b)),
                 (''data'', badge_value b)]))"

definition getReactBadgeProps :: "jv \<Rightarrow> js_error + jv" where
  "getReactBadgeProps tokenData =
     (case jget tokenData ''metadata'' of Inl e \<Rightarrow> Inl e | Inr m \<Rightarrow>
      let b = detectTokenBadge m; d = badge_def b in
      Inr (JObj [(''icon'', JStr (icon d)), (''label'', JStr (blabel d)), (''tooltip'', JStr (tooltip d)),
        (''color'', JStr (color d)), (''bgColor'', JStr (bgColor d)),
        (''className'', JStr (join_with '' '' (map fst (getBadgeCSS b))))]))"

definition getTelegramInlineKeyboard :: "badge_kind \<Rightarrow> jv" where
  "getTelegramInlineKeyboard b =
     JArr [JArr [JObj [(''text'', JStr (icon (badge_def b) @ '' '' @ blabel (badge_def b))),
       (''callback_data'', JStr (''badge_info_'' @ to_str (js_or (jopt (badge_value b) ''type'') (JStr ''unknown''))))]]]"

definition getTelegramTokenBadge :: "jv \<Rightarrow> js_error + jv" where
  "getTelegramTokenBadge tokenData =
     (case jget tokenData ''metadata'' of Inl e \<Rightarrow> Inl e | Inr m \<Rightarrow>
      let b = detectTokenBadge m; d = badge_def b in
      Inr (JObj [(''emoji'', JStr (icon d)), (''text'', JStr (blabel d)), (''tooltip'', JStr (tooltip d)),
        (''telegramText'', JStr (icon d @ '' '' @ blabel d)),
        (''inlineKeyboard'', getTelegramInlineKeyboard b)]))"

section \<open>The metadata store\<close>

type_synonym md_store = "(string \<times> fields) list"

definition fields_of :: "jv \<Rightarrow> fields" where
  "fields_of v = (case v of JObj fs \<Rightarrow> fs | _ \<Rightarrow> [])"

text \<open>\<open>storage.set(address.toLowerCase(), {...metadata, storedAt, lastAccessed})\<close>.\<close>

definition stored_entry :: "jv \<Rightarrow> jv \<Rightarrow> fields \<Rightarrow> fields" where
  "stored_entry t t' fs = obj_set (obj_set (obj_spread [] fs) ''storedAt'' t) ''lastAccessed'' t'"

definition store_entry :: "jv \<Rightarrow> jv \<Rightarrow> string \<Rightarrow> fields \<Rightarrow> md_store \<Rightarrow> md_store" where
  "store_entry t t' a fs st = AList.update (to_lower a) (stored_entry t t' fs) st"

definition storeMetadata :: "env \<Rightarrow> string \<Rightarrow> jv \<Rightarrow> (md_store, unit) js" where
  "storeMetadata env a m =
     js_bind (js_lift (validateMetadata m)) (\<lambda>_.
     js_bind (iso_now env) (\<lambda>t.
     js_bind (iso_now env) (\<lambda>t'.
     js_update (store_entry t t' a (fields_of m)))))"

definition getMetadata :: "env \<Rightarrow> string \<Rightarrow> (md_store, jv) js" where
  "getMetadata env a =
     js_bind js_this (\<lambda>st.
       case map_of st (to_lower a) of
         None \<Rightarrow> js_return JUndef
       | Some fs \<Rightarrow>
           js_bind (iso_now env) (\<lambda>t.
           let fs' = obj_set fs ''lastAccessed'' t in
           js_bind (js_update (AList.update (to_lower a) fs')) (\<lambda>_. js_return (JObj fs'))))"

definition updateVerificationStatus :: "env \<Rightarrow> string \<Rightarrow> jv \<Rightarrow> (md_store, unit) js" where
  "updateVerificationStatus env a verified =
     js_bind (getMetadata env a) (\<lambda>m.
       case m of
         JObj fs \<Rightarrow>
           js_bind (js_update (AList.update (to_lower a) (obj_set fs ''verified'' verified))) (\<lambda>_.
           js_bind (if truthy verified then iso_now env else js_return JNull) (\<lambda>t.
           let fs' = obj_set (obj_set fs ''verified'' verified) ''verifiedAt'' t in
           js_bind (js_update (AList.update (to_lower a) fs')) (\<lambda>_.
           storeMetadata env a (JObj fs'))))
       | _ \<Rightarrow> js_return ())"

definition token_entry :: "string \<times> fields \<Rightarrow> jv" where
  "token_entry p = JObj [(''address'', JStr (fst p)), (''metadata'', JObj (snd p))]"

definition getTokensByType :: "jv \<Rightarrow> md_store \<Rightarrow> jv list" where
  "getTokensByType ty st = map token_entry (filter (\<lambda>(_, fs). strict_eq (obj_get fs ''type'') ty) st)"

definition getVerifiedTokens :: "md_store \<Rightarrow> jv list" where
  "getVerifiedTokens st = map token_entry (filter (\<lambda>(_, fs). truthy (obj_get fs ''verified'')) st)"

section \<open>The React badge component\<close>

text \<open>The state of a TokenBadge with its two relevant properties and the addresses whose
  asynchronous lookups have not finished.\<close>

record badge_view =
  p_metadata :: jv
  p_contractAddress :: jv
  vbadge :: "badge_kind option"
  vloading :: bool
  verror :: jv
  pending :: "string list"

definition new_TokenBadge :: "jv \<Rightarrow> jv \<Rightarrow> badge_view" where
  "new_TokenBadge m a = \<lparr>p_metadata = m, p_contractAddress = a, vbadge = None, vloading = True,
     verror = JNull, pending = []\<rparr>"

definition mockData :: fields where
  "mockData =
     [(''0x1234567890123456789012345678901234567890'', JObj
        [(''standard'', JStr ''shahcoin.token.standard.v1''), (''type'', JStr ''SHI-20''),
         (''name'', JStr ''Mock Token''), (''symbol'', JStr ''MTK''), (''createdBy'', JStr ''ShahFactory''),
         (''verified'', JBool False)]),
      (''0x0987654321098765432109876543210987654321'', JObj
        [(''standard'', JStr ''shahcoin.nft.standard.v1''), (''type'', JStr ''SHI-30''),
         (''name'', JStr ''Mock NFT''), (''symbol'', JStr ''MNFT''), (''createdBy'', JStr ''ShahFactory''),
         (''verified'', JBool True)])]"

definition getMockMetadata :: "string \<Rightarrow> jv" where
  "getMockMetadata a = js_or (obj_get mockData a) JNull"

text \<open>\<open>fetchMetadataFromAddress\<close> up to its first await, and the rest of it.\<close>

definition fetch_begin :: "string \<Rightarrow> badge_view \<Rightarrow> badge_view" where
  "fetch_begin a v = v\<lparr>vloading := True, pending := pending v @ [a]\<rparr>"

definition fetch_finish :: "string \<Rightarrow> badge_view \<Rightarrow> badge_view" where
  "fetch_finish a v = v\<lparr>vbadge := Some (detectTokenBadge (getMockMetadata a)), vloading := False,
     pending := remove1 a (pending v)\<rparr>"

definition detectBadge :: "badge_view \<Rightarrow> badge_view" where
  "detectBadge v =
     (if \<not> truthy (p_metadata v) \<and> \<not> truthy (p_contractAddress v)
        then v\<lparr>vbadge := Some B_UNKNOWN, vloading := False\<rparr>
      else if truthy (p_metadata v)
        then v\<lparr>vbadge := Some (detectTokenBadge (p_metadata v)), vloading := False\<rparr>
      else fetch_begin (to_str (p_contractAddress v)) v)"

text \<open>\<open>componentDidUpdate\<close> after new properties, one of which differs from the old one.\<close>

definition set_props :: "jv \<Rightarrow> jv \<Rightarrow> badge_view \<Rightarrow> badge_view" where
  "set_props m a v = detectBadge (v\<lparr>p_metadata := m, p_contractAddress := a\<rparr>)"

definition getBadgeClasses :: "string \<Rightarrow> string \<Rightarrow> badge_view \<Rightarrow> string" where
  "getBadgeClasses sz className v = trim_str
     (if vloading v then ''shahcoin-badge badge-loading badge-'' @ sz @ '' '' @ className
      else case vbadge v of
        None \<Rightarrow> ''shahcoin-badge badge-unknown badge-'' @ sz @ '' '' @ className
      | Some b \<Rightarrow> ''shahcoin-badge badge-'' @ sz @ '' '' @
          join_with '' '' (map fst (filter (\<lambda>(_, on). truthy on) (getBadgeCSS b))) @ '' '' @ className)"

section \<open>The Telegram registry of verified assets\<close>

record verified_app =
  showVerifiedOnly :: bool
  verifiedAssets :: "(string \<times> jv) list"

definition badge_tooltips :: fields where
  "badge_tooltips =
     [(''verified-token'', JStr ([CHR 0xF0, CHR 0x9F, CHR 0x94, CHR 0x90] @ '' This token is officially verified by the SHAHCOIN team. Smart contract and metadata '' @
       ''have been reviewed for security and compliance.'' @ [CHR 0x0A, CHR 0x0A] @ ''SHAHCOIN'' @ [CHR 0xC2, CHR 0xAE] @ '' is a registered trademark. All rights reserved.'')),
      (''verified-nft'', JStr ([CHR 0xF0, CHR 0x9F, CHR 0x96, CHR 0xBC] @ '' This NFT is part of a trusted, verified collection. Creator and assets meet SHAHCOIN '' @
       ''quality standards.'' @ [CHR 0x0A, CHR 0x0A] @ ''SHAHCOIN'' @ [CHR 0xC2, CHR 0xAE] @ '' is a registered trademark. All rights reserved.'')),
      (''trusted-creator'', JStr (''This creator has been verified and trusted by the SHAHCOIN team.'')),
      (''legal-warning'', JStr ([CHR 0xE2, CHR 0x9A, CHR 0xA0, CHR 0xEF, CHR 0xB8, CHR 0x8F] @ '' You may not use '' @ [CHR 0x22] @ ''SHAH'' @ [CHR 0x22] @ '', '' @ [CHR 0x22] @ ''SHAHCOIN'' @ [CHR 0x22] @ '' or any official branding in your project name or logo unless explicitly authorized.'' @ [CHR 0x0A, CHR 0x0A] @ ''See LICENSE and NOTICE files for legal terms.'' @ [CHR 0x0A, CHR 0x0A] @ ''For licensing inquiries: Info@shah.vip''))]"

definition addVerifiedAsset :: "string \<Rightarrow> string \<Rightarrow> verified_app \<Rightarrow> verified_app" where
  "addVerifiedAsset assetId ty app = app\<lparr>verifiedAssets := AList.update assetId
     (JObj [(''type'', JStr ty), (''tooltipText'', obj_get badge_tooltips ty), (''isVerified'', JBool True)])
     (verifiedAssets app)\<rparr>"

definition removeVerifiedAsset :: "string \<Rightarrow> verified_app \<Rightarrow> verified_app" where
  "removeVerifiedAsset assetId app = app\<lparr>verifiedAssets := AList.delete assetId (verifiedAssets app)\<rparr>"

definition isAssetVerified :: "string \<Rightarrow> verified_app \<Rightarrow> bool" where
  "isAssetVerified assetId app = (case map_of (verifiedAssets app) assetId of
     None \<Rightarrow> False | Some v \<Rightarrow> truthy (jopt v ''isVerified''))"

definition setShowVerifiedOnly :: "bool \<Rightarrow> verified_app \<Rightarrow> verified_app" where
  "setShowVerifiedOnly b app = app\<lparr>showVerifiedOnly := b\<rparr>"

definition new_VerifiedBadge :: verified_app where
  "new_VerifiedBadge = \<lparr>showVerifiedOnly = False, verifiedAssets = []\<rparr>"

definition verified_init :: "verified_app \<Rightarrow> verified_app" where
  "verified_init = addVerifiedAsset ''CREATOR-001'' ''trusted-creator''
     \<circ> addVerifiedAsset ''SHAH-NFT-001'' ''verified-nft''
     \<circ> addVerifiedAsset ''SHAH-TOKEN-001'' ''verified-token''"

section \<open>The store as a registry\<close>

text \<open>What a stored object keeps of the metadata: every property but the two time stamps.\<close>

definition content :: "fields \<Rightarrow> string \<rightharpoonup> jv" where
  "content fs = map_of (obj_spread [] fs) |` (- {''storedAt'', ''lastAccessed''})"

lemma obj_spread_snoc: "obj_spread a (b @ [(k, v)]) = obj_set (obj_spread a b) k v"
  by (simp add: obj_spread_def)

lemma distinct_obj_spread: "distinct (map fst a) \<Longrightarrow> distinct (map fst (obj_spread a b))"
proof (induction b rule: rev_induct)
  case (snoc x b)
  then show ?case by (cases x) (simp add: obj_spread_snoc distinct_obj_set)
qed (simp add: obj_spread_def)

lemma map_of_obj_spread: "map_of (obj_spread a b) = map_of a ++ map_of (rev b)"
proof (induction b rule: rev_induct)
  case (snoc x b)
  then show ?case by (cases x) (auto simp: obj_spread_snoc fun_eq_iff map_add_def split: option.splits)
qed (simp add: obj_spread_def)

lemma map_of_rev_distinct: "distinct (map fst xs) \<Longrightarrow> map_of (rev xs) = map_of xs"
  by (subst map_of_inject_set) (simp_all flip: rev_map)

lemma content_distinct: "distinct (map fst fs) \<Longrightarrow> content fs = map_of fs |` (- {''storedAt'', ''lastAccessed''})"
  by (simp add: content_def map_of_obj_spread map_of_rev_distinct)

lemma content_obj_set:
  "distinct (map fst fs) \<Longrightarrow> k = ''storedAt'' \<or> k = ''lastAccessed'' \<Longrightarrow> content (obj_set fs k v) = content fs"
  by (auto simp: content_distinct distinct_obj_set restrict_map_def fun_eq_iff)

lemma distinct_stored_entry: "distinct (map fst (stored_entry t t' fs))"
  by (simp add: stored_entry_def distinct_obj_set distinct_obj_spread)

lemma content_stored_entry: "content (stored_entry t t' fs) = content fs"
proof -
  have d: "distinct (map fst (obj_spread [] fs))" by (simp add: distinct_obj_spread)
  then have "content (obj_spread [] fs) = content fs" unfolding content_distinct [OF d] by (simp add: content_def)
  then show ?thesis by (simp add: stored_entry_def content_obj_set d distinct_obj_set)
qed

definition md_put :: "string \<Rightarrow> jv \<times> jv \<times> fields \<Rightarrow> md_store \<Rightarrow> md_store" where
  "md_put a = (\<lambda>(t, t', fs). store_entry t t' a fs)"

definition md_get :: "string \<Rightarrow> md_store \<Rightarrow> (string \<rightharpoonup> jv) option" where
  "md_get a st = map_option content (map_of st (to_lower a))"

definition same_address :: "string \<Rightarrow> string \<Rightarrow> bool" where
  "same_address a b = (to_lower a = to_lower b)"

interpretation md: registry md_put md_get same_address "\<lambda>(t, t', fs). Some (content fs)"
  by unfold_locales
     (auto simp: md_put_def md_get_def same_address_def store_entry_def update_conv' content_stored_entry)

text \<open>The documented behaviour of \<open>new Date().toISOString()\<close> on the current time.\<close>

definition iso_ok :: "env \<Rightarrow> bool" where
  "iso_ok env \<longleftrightarrow> (\<forall>i. \<exists>s. env i (Call ''Date.toISOString'' []) = Inr (JStr s))"

lemma storeMetadata_run:
  assumes "iso_ok env" "validateMetadata m = Inr b"
  shows "\<exists>t t' tr'. storeMetadata env a m (st, tr) = (Inr (), (md_put a (t, t', fields_of m) st, tr'))"
proof -
  let ?c = "Call ''Date.toISOString'' []"
  obtain t t' where "env (length tr) ?c = Inr (JStr t)" "env (length (tr @ [?c])) ?c = Inr (JStr t')"
    using assms(1) unfolding iso_ok_def by meson
  then have "storeMetadata env a m (st, tr) =
      (Inr (), (store_entry (JStr t) (JStr t') a (fields_of m) st, tr @ [?c, ?c]))"
    using assms(2) by (simp add: storeMetadata_def iso_now_def js_simps)
  then show ?thesis unfolding md_put_def by fastforce
qed

lemma stores_run:
  assumes "iso_ok env" "\<forall>(a, m)\<in>set ops. validateMetadata m = Inr True"
  shows "\<exists>ops' tr'. list_all2 (\<lambda>(a, (_, _, fs)) (b, m). a = b \<and> fs = fields_of m) ops' ops \<and>
    js_each (\<lambda>(a, m). storeMetadata env a m) ops (st, tr) = (Inr (), (md.puts ops' st, tr'))"
  using assms(2)
proof (induction ops arbitrary: st tr)
  case Nil
  show ?case by (simp add: md.puts_def js_return_apply)
next
  case (Cons op ops)
  obtain a m where op: "op = (a, m)" by (cases op)
  with Cons.prems have "validateMetadata m = Inr True" by auto
  then obtain t t' tr1 where s: "storeMetadata env a m (st, tr) = (Inr (), (md_put a (t, t', fields_of m) st, tr1))"
    using storeMetadata_run [OF assms(1)] by meson
  let ?st = "md_put a (t, t', fields_of m) st"
  have "\<forall>(a, m)\<in>set ops. validateMetadata m = Inr True" using Cons.prems by auto
  from Cons.IH [OF this, of ?st tr1] obtain ops' tr' where
    "list_all2 (\<lambda>(a, (_, _, fs)) (b, m). a = b \<and> fs = fields_of m) ops' ops"
    "js_each (\<lambda>(a, m). storeMetadata env a m) ops (?st, tr1) = (Inr (), (md.puts ops' ?st, tr'))"
    by blast
  then have "list_all2 (\<lambda>(a, (_, _, fs)) (b, m). a = b \<and> fs = fields_of m) ((a, (t, t', fields_of m)) # ops') (op # ops)"
    "js_each (\<lambda>(a, m). storeMetadata env a m) (op # ops) (st, tr) =
       (Inr (), (md.puts ((a, (t, t', fields_of m)) # ops') st, tr'))"
    using s by (simp_all add: op js_bind_apply md.puts_def)
  then show ?case by blast
qed

lemma md_put_distinct:
  "\<forall>fs\<in>ran (map_of st). distinct (map fst fs) \<Longrightarrow> \<forall>fs\<in>ran (map_of (md_put a v st)). distinct (map fst fs)"
  by (cases v) (auto simp: md_put_def store_entry_def update_conv' ran_def distinct_stored_entry)

lemma md_puts_distinct:
  "\<forall>fs\<in>ran (map_of st). distinct (map fst fs) \<Longrightarrow> \<forall>fs\<in>ran (map_of (md.puts ops st)). distinct (map fst fs)"
  unfolding md.puts_def
proof (induction ops arbitrary: st)
  case (Cons op ops)
  obtain a v where op: "op = (a, v)" by (cases op)
  from Cons.IH [OF md_put_distinct [OF Cons.prems]] show ?case by (simp only: op fold_simps prod.case)
qed simp

lemma getMetadata_run:
  assumes "iso_ok env" "\<forall>fs\<in>ran (map_of st). distinct (map fst fs)"
  shows "\<exists>v w'. getMetadata env a (st, tr) = (Inr v, w') \<and>
    (case md_get a st of None \<Rightarrow> v = JUndef | Some c \<Rightarrow> \<exists>fs. v = JObj fs \<and> content fs = c)"
proof (cases "map_of st (to_lower a)")
  case None
  then show ?thesis by (simp add: getMetadata_def js_simps md_get_def)
next
  case (Some fs)
  obtain t where t: "env (length tr) (Call ''Date.toISOString'' []) = Inr (JStr t)"
    using assms(1) by (auto simp: iso_ok_def)
  have "distinct (map fst fs)" using assms(2) Some by (auto simp: ran_def)
  then have "content (obj_set fs ''lastAccessed'' (JStr t)) = content fs" by (rule content_obj_set) simp
  then show ?thesis using Some t by (simp add: getMetadata_def iso_now_def js_simps md_get_def Let_def)
qed

section \<open>Verified assets\<close>

definition asset_put :: "string \<Rightarrow> string option \<Rightarrow> verified_app \<Rightarrow> verified_app" where
  "asset_put x v = (case v of Some ty \<Rightarrow> addVerifiedAsset x ty | None \<Rightarrow> removeVerifiedAsset x)"

definition asset_get :: "string \<Rightarrow> verified_app \<Rightarrow> unit option" where
  "asset_get x app = (if isAssetVerified x app then Some () else None)"

interpretation assets: registry asset_put asset_get "(=)" "map_option (\<lambda>_. ())"
  by unfold_locales
     (auto simp: asset_put_def asset_get_def isAssetVerified_def addVerifiedAsset_def
       removeVerifiedAsset_def update_conv' delete_conv' split: option.splits)

definition sample_iso :: env where
  "sample_iso = (\<lambda>i c. Inr (JStr ''2025-01-01T00:00:00.000Z''))"

definition sample_md :: jv where
  "sample_md = JObj [(''standard'', JStr ''shahcoin.token.standard.v1''), (''type'', JStr ''SHI-20''),
     (''name'', JStr ''T''), (''createdBy'', JStr ''ShahFactory''), (''verified'', JBool True)]"

lemma sample_md_valid: "validateMetadata sample_md = Inr True"
  by (simp add: validateMetadata_def sample_md_def requiredFields_def standard_values_def METADATA_STANDARDS_def)

section \<open>Properties\<close>

text \<open>C5: The metadata store keeps the last valid metadata of every contract: after any
  sequence of stores, reading an address returns the content stored last under it,
  upper and lower case identified, and undefined if there is none.\<close>

theorem metadata_store_last_write:
  assumes "iso_ok env" "\<forall>(a, m)\<in>set ops. validateMetadata m = Inr True"
  shows "\<exists>v w'. js_bind (js_each (\<lambda>(a, m). storeMetadata env a m) ops) (\<lambda>_. getMetadata env x) ([], tr)
      = (Inr v, w') \<and>
    (case find (\<lambda>(a, _). to_lower a = to_lower x) (rev ops) of
       None \<Rightarrow> v = JUndef
     | Some (_, m) \<Rightarrow> \<exists>fs. v = JObj fs \<and> content fs = content (fields_of m))"
proof -
  let ?R = "\<lambda>(a, (_, _, fs)) (b, m). a = b \<and> fs = fields_of m"
  obtain ops' tr' where r: "list_all2 ?R ops' ops"
    and run: "js_each (\<lambda>(a, m). storeMetadata env a m) ops ([], tr) = (Inr (), (md.puts ops' [], tr'))"
    using stores_run [OF assms] by meson
  have "\<forall>fs\<in>ran (map_of (md.puts ops' [])). distinct (map fst fs)"
    by (rule md_puts_distinct) simp
  from getMetadata_run [OF assms(1) this] obtain v w' where
    v: "getMetadata env x (md.puts ops' [], tr') = (Inr v, w')"
      "case md_get x (md.puts ops' []) of None \<Rightarrow> v = JUndef | Some c \<Rightarrow> \<exists>fs. v = JObj fs \<and> content fs = c"
    by meson
  have f: "rel_option ?R (find (\<lambda>(a, _). same_address a x) (rev ops'))
      (find (\<lambda>(a, _). to_lower a = to_lower x) (rev ops))"
    by (rule find_list_all2) (use r in \<open>auto simp: same_address_def list_all2_rev\<close>)
  have "case find (\<lambda>(a, _). to_lower a = to_lower x) (rev ops) of None \<Rightarrow> v = JUndef
     | Some (_, m) \<Rightarrow> \<exists>fs. v = JObj fs \<and> content fs = content (fields_of m)"
    using f v(2) unfolding md.last_write_wins
    by (cases rule: option.rel_cases) (auto simp: md_get_def split: prod.splits)
  then show ?thesis using run v(1) by (simp add: js_bind_apply)
qed

theorem metadata_store_last_write_witness:
  "\<exists>v w'. js_bind (js_each (\<lambda>(a, m). storeMetadata sample_iso a m) [(''0xAB'', sample_md)])
       (\<lambda>_. getMetadata sample_iso ''0xab'') ([], []) = (Inr v, w') \<and>
     (\<exists>fs. v = JObj fs \<and> content fs = content (fields_of sample_md))"
proof -
  have "to_lower ''0xAB'' = to_lower ''0xab''" by code_simp
  then show ?thesis
    using metadata_store_last_write [of sample_iso "[(''0xAB'', sample_md)]" "''0xab''" "[]"] sample_md_valid
    by (simp add: iso_ok_def sample_iso_def)
qed

text \<open>Metadata fresh from a schema cannot be stored: the validation requires a truthy
  \<open>verified\<close> and the schemas write false, so storing throws and changes nothing.\<close>

theorem generated_metadata_rejected:
  assumes "generateSHI20Metadata env cfg w = (Inr m, w1) \<or> generateSHI30Metadata env cfg w = (Inr m, w1)"
  shows "\<exists>e. storeMetadata env' a m (st, tr) = (Inl (Error e), (st, tr))"
proof -
  obtain fs where m: "m = JObj fs" "obj_get fs ''verified'' = JBool False"
    using assms unfolding generateSHI20Metadata_def generateSHI30Metadata_def
    by (auto elim!: js_bind_okE simp: js_return_apply)
  then have "''verified'' \<in> set (filter (\<lambda>f. \<not> truthy (jopt m f)) requiredFields)"
    by (simp add: requiredFields_def)
  then have "filter (\<lambda>f. \<not> truthy (jopt m f)) requiredFields \<noteq> []" by (rule list.set_cases) simp_all
  then have "\<exists>e. validateMetadata m = Inl (Error e)"
    unfolding validateMetadata_def Let_def by (simp add: m(1))
  then show ?thesis by (auto simp: storeMetadata_def js_simps)
qed

theorem generated_metadata_rejected_witness:
  "\<exists>m w1 e. generateSHI20Metadata sample_iso (JObj [(''name'', JStr ''T'')]) ((), []) = (Inr m, w1) \<and>
     storeMetadata sample_iso ''0xab'' m ([], []) = (Inl (Error e), ([], []))"
proof -
  obtain m w1 where g: "generateSHI20Metadata sample_iso (JObj [(''name'', JStr ''T'')]) ((), [])
      = (Inr m, w1 :: unit world)"
    by (simp add: generateSHI20Metadata_def iso_now_def sample_iso_def js_simps)
  from generated_metadata_rejected [OF disjI1 [OF g]] show ?thesis using g by blast
qed

text \<open>Revoking the verification of a stored contract throws, but only after the stored
  object has been changed: the caller sees an error although the contract is no longer
  verified and no longer has the verified badge.\<close>

theorem revocation_throws_after_change:
  assumes "iso_ok env" "map_of st (to_lower a) = Some fs"
  shows "\<exists>e st' tr' fs'. updateVerificationStatus env a (JBool False) (st, tr) = (Inl (Error e), (st', tr')) \<and>
    map_of st' (to_lower a) = Some fs' \<and> obj_get fs' ''verified'' = JBool False \<and>
    detectTokenBadge (JObj fs') \<noteq> B_VERIFIED"
proof -
  obtain t where t: "env (length tr) (Call ''Date.toISOString'' []) = Inr (JStr t)"
    using assms(1) by (auto simp: iso_ok_def)
  let ?f1 = "obj_set fs ''lastAccessed'' (JStr t)"
  let ?f2 = "obj_set (obj_set ?f1 ''verified'' (JBool False)) ''verifiedAt'' JNull"
  have g: "getMetadata env a (st, tr) =
      (Inr (JObj ?f1), (AList.update (to_lower a) ?f1 st, tr @ [Call ''Date.toISOString'' []]))"
    using assms(2) t by (simp add: getMetadata_def iso_now_def js_simps Let_def)
  have "''verified'' \<in> set (filter (\<lambda>f. \<not> truthy (jopt (JObj ?f2) f)) requiredFields)"
    by (simp add: requiredFields_def)
  then have "filter (\<lambda>f. \<not> truthy (jopt (JObj ?f2) f)) requiredFields \<noteq> []" by (rule list.set_cases) simp_all
  then obtain e where "validateMetadata (JObj ?f2) = Inl (Error e)"
    unfolding validateMetadata_def Let_def by simp
  then have "storeMetadata env a (JObj ?f2) w = (Inl (Error e), w)" for w
    by (simp add: storeMetadata_def js_simps)
  then have "\<exists>st' tr'. updateVerificationStatus env a (JBool False) (st, tr) = (Inl (Error e), (st', tr')) \<and>
      map_of st' (to_lower a) = Some ?f2"
    unfolding updateVerificationStatus_def by (simp add: js_bind_apply g js_update_apply js_return_apply update_conv' Let_def)
  moreover have "detectTokenBadge (JObj ?f2) \<noteq> B_VERIFIED"
    by (simp add: detectTokenBadge_def smartFallbackDetection_def Let_def)
  moreover have "obj_get ?f2 ''verified'' = JBool False" by simp
  ultimately show ?thesis by blast
qed

theorem revocation_throws_after_change_witness:
  "\<exists>e st' tr' fs'. updateVerificationStatus sample_iso ''0xab'' (JBool False) ([(''0xab'', fields_of sample_md)], [])
      = (Inl (Error e), (st', tr')) \<and>
    map_of st' (to_lower ''0xab'') = Some fs' \<and> obj_get fs' ''verified'' = JBool False \<and>
    detectTokenBadge (JObj fs') \<noteq> B_VERIFIED"
  by (rule revocation_throws_after_change [where fs = "fields_of sample_md"])
     (simp_all add: iso_ok_def sample_iso_def to_lower_def lower_char_def)

text \<open>An asset counts as verified in the Telegram app exactly if the last of the
  additions and removals for it was an addition.\<close>

theorem verified_assets_last_write:
  "isAssetVerified x (fold (\<lambda>(y, v). asset_put y v) ops new_VerifiedBadge) \<longleftrightarrow>
     (\<exists>y ty. find (\<lambda>(y, _). y = x) (rev ops) = Some (y, Some ty))"
proof -
  have [simp]: "Some () = map_option (\<lambda>_. ()) z \<longleftrightarrow> (\<exists>ty. z = Some ty)" for z :: "string option"
    by (cases z) auto
  have "\<not> isAssetVerified x new_VerifiedBadge" by (simp add: isAssetVerified_def new_VerifiedBadge_def)
  then show ?thesis
    using assets.last_write_wins [of x ops new_VerifiedBadge, unfolded assets.puts_def]
    by (auto simp: asset_get_def split: option.splits prod.splits if_splits)
qed

text \<open>The verified badge is given exactly to metadata whose \<open>verified\<close> is true; the
  Qt icon, however, is the one for unknown tokens whatever the badge, the Telegram
  button always asks for the unknown badge, and the React class list always names all
  four badges.\<close>

theorem badge_detection_and_views:
  "(detectTokenBadge m = B_VERIFIED \<longleftrightarrow> jopt m ''verified'' = JBool True) \<and>
   getQtIcon b = JStr '':/icons/token_unknown'' \<and>
   jopt (case getTelegramInlineKeyboard b of JArr [JArr [k]] \<Rightarrow> k) ''callback_data'' = JStr ''badge_info_unknown'' \<and>
   join_with '' '' (map fst (getBadgeCSS b)) = ''shahcoin-badge badge-shi20 badge-shi30 badge-verified badge-unknown''"
proof (intro conjI)
  have "strict_eq v (JBool True) \<longleftrightarrow> v = JBool True" for v by (cases v) auto
  moreover have "\<not> truthy m \<Longrightarrow> jopt m ''verified'' \<noteq> JBool True"
    by (cases m) (auto simp: proto_value_def proto_keys_def)
  ultimately show "detectTokenBadge m = B_VERIFIED \<longleftrightarrow> jopt m ''verified'' = JBool True"
    by (simp add: detectTokenBadge_def smartFallbackDetection_def Let_def)
  have "obj_get iconMap (to_str (badge_value b)) = JStr '':/icons/token_unknown''"
    by (simp add: iconMap_def badge_value_def Let_def)
  then show "getQtIcon b = JStr '':/icons/token_unknown''" by (simp add: getQtIcon_def js_or_def)
  have "jopt (badge_value b) ''type'' = JUndef"
    by (simp add: badge_value_def Let_def proto_value_def proto_keys_def)
  then show "jopt (case getTelegramInlineKeyboard b of JArr [JArr [k]] \<Rightarrow> k) ''callback_data'' = JStr ''badge_info_unknown''"
    by (simp add: getTelegramInlineKeyboard_def js_or_def)
  show "join_with '' '' (map fst (getBadgeCSS b)) = ''shahcoin-badge badge-shi20 badge-shi30 badge-verified badge-unknown''"
    by (simp add: getBadgeCSS_def)
qed

text \<open>A lookup that finishes after the properties have changed overwrites the badge of the
  new properties, here with the verified badge for unverified metadata.\<close>

lemma stale_lookup_overwrites:
  "let a = ''0x0987654321098765432109876543210987654321'';
       v = fetch_finish a (set_props (JObj [(''type'', JStr ''SHI-20'')]) JUndef
             (detectBadge (new_TokenBadge JUndef (JStr a))))
   in vbadge v = Some B_VERIFIED \<and> detectTokenBadge (p_metadata v) = B_SHI20"
  by (simp add: fetch_finish_def set_props_def detectBadge_def new_TokenBadge_def fetch_begin_def
      getMockMetadata_def mockData_def js_or_def detectTokenBadge_def proto_value_def proto_keys_def)

end
