(* ===== verification/WalletSDK.thy ===== *)
theory WalletSDK
  imports Effects
begin

text \<open>
  The dApp SDK (packages/shahcoin-sdk/src/shahcoin-sdk.ts): the wallet connection, its
  WebSocket with heartbeat and reconnection, and the requests made on behalf of the
  connected wallet.

  The HTTP client, the WebSocket and the timers are external.  What the platform calls
  later - a socket event, a timer - is an operation of its own (\<open>ws_open\<close>, \<open>ws_message\<close>,
  \<open>ws_close\<close>, \<open>heartbeat_tick\<close>, \<open>reconnect_fire\<close>), so that any order of user calls and
  platform events is a sequence of operations.  Callbacks are names, and running one is
  an external call.
\<close>

section \<open>State\<close>

record sdk =
  sdk_config :: fields
  baseURL :: jv
  wsClient :: "jv option"
  connection :: fields
  eventCallbacks :: "string list"
  connectionCallbacks :: "string list"
  reconnectTimer :: "jv option"
  heartbeatTimer :: "jv option"

definition NETWORKS :: fields where
  "NETWORKS =
     [(''mainnet'', JObj [(''chainId'', JInt 1), (''name'', JStr ''Shahcoin Mainnet''),
        (''rpcUrl'', JStr ''https://rpc.shah.vip''), (''explorerUrl'', JStr ''https://explorer.shah.vip''),
        (''shahSwapUrl'', JStr ''https://swap.shah.vip'')]),
      (''testnet'', JObj [(''chainId'', JInt 2), (''name'', JStr ''Shahcoin Testnet''),
        (''rpcUrl'', JStr ''https://testnet-rpc.shah.vip''),
        (''explorerUrl'', JStr ''https://testnet-explorer.shah.vip''),
        (''shahSwapUrl'', JStr ''https://testnet-swap.shah.vip'')]),
      (''regtest'', JObj [(''chainId'', JInt 3), (''name'', JStr ''Shahcoin Regtest''),
        (''rpcUrl'', JStr ''http://localhost:8332''), (''explorerUrl'', JStr ''http://localhost:3001''),
        (''shahSwapUrl'', JStr ''http://localhost:3002'')])]"

definition sdk_network :: "fields \<Rightarrow> jv" where
  "sdk_network cfg = obj_get NETWORKS (to_str (js_or (obj_get cfg ''network'') (JStr ''mainnet'')))"

definition new_ShahcoinSDK :: "fields \<Rightarrow> js_error + sdk" where
  "new_ShahcoinSDK config =
     (let cfg = obj_spread [(''network'', JStr ''mainnet''), (''timeout'', JInt 30000)] config;
          mk = (\<lambda>url. Inr \<lparr>sdk_config = cfg, baseURL = url, wsClient = None,
                  connection = [(''isConnected'', JBool False)], eventCallbacks = [],
                  connectionCallbacks = [], reconnectTimer = None, heartbeatTimer = None\<rparr>) in
      if truthy (obj_get cfg ''rpcUrl'') then mk (obj_get cfg ''rpcUrl'')
      else case jget (sdk_network cfg) ''rpcUrl'' of Inl e \<Rightarrow> Inl e | Inr url \<Rightarrow> mk url)"

definition is_connected :: "sdk \<Rightarrow> bool" where
  "is_connected s = truthy (obj_get (connection s) ''isConnected'')"

text \<open>\<open>String(error)\<close>.\<close>

definition error_str :: "js_error \<Rightarrow> string" where
  "error_str e = (let n = (case e of Error _ \<Rightarrow> ''Error'' | TypeError _ \<Rightarrow> ''TypeError''
       | ReferenceError _ \<Rightarrow> ''ReferenceError'') in
     if message e = [] then n else n @ '': '' @ message e)"

section \<open>Events\<close>

definition run_callbacks :: "env \<Rightarrow> string list \<Rightarrow> jv \<Rightarrow> (sdk, unit) js" where
  "run_callbacks env cbs arg =
     js_each (\<lambda>cb. js_catch (js_bind (js_ext env (Call ''callback'' [JStr cb, arg])) (\<lambda>_. js_return ()))
                            (\<lambda>_. js_return ())) cbs"

definition emitEvent :: "env \<Rightarrow> string \<Rightarrow> jv \<Rightarrow> (sdk, unit) js" where
  "emitEvent env ty dat =
     js_bind (date_now env) (\<lambda>t.
     js_bind js_this (\<lambda>s.
     run_callbacks env (eventCallbacks s)
       (JObj [(''type'', JStr ty), (''data'', dat), (''timestamp'', JNum t)])))"

definition notifyConnectionCallbacks :: "env \<Rightarrow> (sdk, unit) js" where
  "notifyConnectionCallbacks env =
     js_bind js_this (\<lambda>s. run_callbacks env (connectionCallbacks s) (JObj (connection s)))"

text \<open>\<open>on\<close> takes an event name and does not use it.\<close>

definition sdk_on :: "string \<Rightarrow> string \<Rightarrow> (sdk, unit) js" where
  "sdk_on event cb = js_update (\<lambda>s. s\<lparr>eventCallbacks := eventCallbacks s @ [cb]\<rparr>)"

definition onConnectionChange :: "string \<Rightarrow> (sdk, unit) js" where
  "onConnectionChange cb = js_update (\<lambda>s. s\<lparr>connectionCallbacks := connectionCallbacks s @ [cb]\<rparr>)"

section \<open>HTTP\<close>

text \<open>A request with the response interceptor: an error with status 401 is announced as a
  disconnection before it is passed on.\<close>

definition http :: "env \<Rightarrow> string \<Rightarrow> string \<Rightarrow> jv \<Rightarrow> (sdk, jv) js" where
  "http env verb path body =
     js_catch (js_ext env (Call (''httpClient.'' @ verb) [JStr path, body]))
       (\<lambda>e. js_bind (js_ext env (Call ''error.response?.status'' [])) (\<lambda>st.
            js_bind (if strict_eq st (JInt 401)
                     then emitEvent env ''disconnected'' (JObj [(''reason'', JStr ''unauthorized'')])
                     else js_return ())
              (\<lambda>_. js_throw e)))"

text \<open>\<open>response.data.data\<close> and one property of it.\<close>

definition data_of :: "jv \<Rightarrow> (sdk, jv) js" where
  "data_of response = js_bind (js_get response ''data'') (\<lambda>d. js_get d ''data'')"

definition data_field :: "string \<Rightarrow> jv \<Rightarrow> (sdk, jv) js" where
  "data_field k response = js_bind (data_of response) (\<lambda>d. js_get d k)"

definition request ::
  "env \<Rightarrow> string \<Rightarrow> (sdk, jv) js \<Rightarrow> (jv \<Rightarrow> (sdk, jv) js) \<Rightarrow> (sdk, jv) js" where
  "request env what req pick =
     js_catch (js_bind req pick)
       (\<lambda>e. js_throw (Error (''Failed to '' @ what @ '': '' @ error_str e)))"

definition when_connected :: "(sdk \<Rightarrow> (sdk, jv) js) \<Rightarrow> (sdk, jv) js" where
  "when_connected f =
     js_bind js_this (\<lambda>s. if is_connected s then f s else js_throw (Error ''Wallet not connected''))"

definition wallet_address :: "sdk \<Rightarrow> jv" where
  "wallet_address s = obj_get (connection s) ''address''"

definition getBalance :: "env \<Rightarrow> (sdk, jv) js" where
  "getBalance env = when_connected (\<lambda>s. request env ''get balance''
     (http env ''get'' (''/wallet/balance/'' @ to_str (wallet_address s)) JUndef) (data_field ''balance''))"

definition getTransactionHistory :: "env \<Rightarrow> jv \<Rightarrow> jv \<Rightarrow> (sdk, jv) js" where
  "getTransactionHistory env limit offset = when_connected (\<lambda>s. request env ''get transaction history''
     (http env ''get'' (''/wallet/transactions/'' @ to_str (wallet_address s))
        (JObj [(''params'', JObj [(''limit'', js_default limit (JInt 50)), (''offset'', js_default offset (JInt 0))])]))
     (data_field ''transactions''))"

definition sendTransaction :: "env \<Rightarrow> fields \<Rightarrow> (sdk, jv) js" where
  "sendTransaction env params = when_connected (\<lambda>s. request env ''send transaction''
     (http env ''post'' ''/wallet/send''
        (JObj [(''from'', wallet_address s), (''to'', obj_get params ''to''), (''amount'', obj_get params ''amount''),
               (''fee'', obj_get params ''fee''), (''memo'', obj_get params ''memo'')]))
     (data_field ''txid''))"

definition getFeeEstimates :: "env \<Rightarrow> (sdk, jv) js" where
  "getFeeEstimates env = request env ''get fee estimates''
     (http env ''get'' ''/wallet/fee-estimates'' JUndef) data_of"

definition getStakingInfo :: "env \<Rightarrow> (sdk, jv) js" where
  "getStakingInfo env = when_connected (\<lambda>s. request env ''get staking info''
     (http env ''get'' (''/staking/info/'' @ to_str (wallet_address s)) JUndef) data_of)"

definition stake :: "env \<Rightarrow> jv \<Rightarrow> (sdk, jv) js" where
  "stake env amount = when_connected (\<lambda>s. request env ''stake''
     (http env ''post'' ''/staking/stake'' (JObj [(''address'', wallet_address s), (''amount'', amount)]))
     (data_field ''txid''))"

definition getShahSwapQuote :: "env \<Rightarrow> fields \<Rightarrow> (sdk, jv) js" where
  "getShahSwapQuote env params = request env ''get ShahSwap quote''
     (http env ''post'' ''/shahswap/quote'' (JObj params)) data_of"

definition executeShahSwap :: "env \<Rightarrow> fields \<Rightarrow> (sdk, jv) js" where
  "executeShahSwap env params = when_connected (\<lambda>s. request env ''execute ShahSwap trade''
     (http env ''post'' ''/shahswap/trade'' (JObj (obj_set (obj_spread [] params) ''from'' (wallet_address s)))) data_of)"

definition sdk_createToken :: "env \<Rightarrow> fields \<Rightarrow> (sdk, jv) js" where
  "sdk_createToken env params = when_connected (\<lambda>s. request env ''create token''
     (http env ''post'' ''/tokens/create'' (JObj (obj_set (obj_spread [] params) ''creator'' (wallet_address s)))) data_of)"

definition sdk_createNFT :: "env \<Rightarrow> fields \<Rightarrow> (sdk, jv) js" where
  "sdk_createNFT env params = when_connected (\<lambda>s. request env ''create NFT''
     (http env ''post'' ''/nfts/create'' (JObj (obj_set (obj_spread [] params) ''owner'' (wallet_address s)))) data_of)"

definition getTokenInfo :: "env \<Rightarrow> string \<Rightarrow> (sdk, jv) js" where
  "getTokenInfo env addr = request env ''get token info'' (http env ''get'' (''/tokens/'' @ addr) JUndef) data_of"

definition getNFTInfo :: "env \<Rightarrow> string \<Rightarrow> string \<Rightarrow> (sdk, jv) js" where
  "getNFTInfo env addr tokenId = request env ''get NFT info''
     (http env ''get'' (''/nfts/'' @ addr @ ''/'' @ tokenId) JUndef) data_of"

definition getUserTokens :: "env \<Rightarrow> (sdk, jv) js" where
  "getUserTokens env = when_connected (\<lambda>s. request env ''get user tokens''
     (http env ''get'' (''/tokens/user/'' @ to_str (wallet_address s)) JUndef) (data_field ''tokens''))"

definition getUserNFTs :: "env \<Rightarrow> (sdk, jv) js" where
  "getUserNFTs env = when_connected (\<lambda>s. request env ''get user NFTs''
     (http env ''get'' (''/nfts/user/'' @ to_str (wallet_address s)) JUndef) (data_field ''nfts''))"

section \<open>The WebSocket\<close>

definition setupWebSocket :: "env \<Rightarrow> (sdk, unit) js" where
  "setupWebSocket env =
     js_bind js_this (\<lambda>s.
     js_bind (js_get (sdk_network (sdk_config s)) ''rpcUrl'') (\<lambda>url.
     let wsUrl = replace_first (replace_first (to_str url) ''https://'' ''wss://'') ''http://'' ''ws://'' @ ''/ws'' in
     js_bind (js_ext env (Call ''new WebSocket'' [JStr wsUrl])) (\<lambda>ws.
     js_update (\<lambda>s. s\<lparr>wsClient := Some ws\<rparr>))))"

text \<open>The \<open>open\<close> event: \<open>setupHeartbeat\<close>.\<close>

definition ws_open :: "env \<Rightarrow> (sdk, unit) js" where
  "ws_open env =
     js_bind (js_ext env (Call ''setInterval'' [JInt 30000])) (\<lambda>h.
     js_update (\<lambda>s. s\<lparr>heartbeatTimer := Some h\<rparr>))"

definition heartbeat_tick :: "env \<Rightarrow> (sdk, unit) js" where
  "heartbeat_tick env =
     js_bind js_this (\<lambda>s. case wsClient s of None \<Rightarrow> js_return ()
     | Some ws \<Rightarrow>
         js_bind (js_ext env (Call ''ws.readyState'' [ws])) (\<lambda>st.
         if strict_eq st (JInt 1)
         then js_bind (js_ext env (Call ''ws.send'' [ws, JStr (''{'' @ [CHR 0x22] @ ''type'' @ [CHR 0x22] @ '':'' @ [CHR 0x22] @ ''ping'' @ [CHR 0x22] @ ''}'')]))
                (\<lambda>_. js_return ())
         else js_return ()))"

definition handleWebSocketEvent :: "env \<Rightarrow> jv \<Rightarrow> (sdk, unit) js" where
  "handleWebSocketEvent env event =
     js_bind (js_get event ''type'') (\<lambda>ty.
       if strict_eq ty (JStr ''balance_changed'') then emitEvent env ''balanceChanged'' (jopt event ''data'')
       else if strict_eq ty (JStr ''transaction_received'') then emitEvent env ''transactionReceived'' (jopt event ''data'')
       else if strict_eq ty (JStr ''staking_reward'') then emitEvent env ''stakingReward'' (jopt event ''data'')
       else js_return ())"

definition ws_message :: "env \<Rightarrow> jv \<Rightarrow> (sdk, unit) js" where
  "ws_message env dat =
     js_catch (js_bind (js_ext env (Call ''JSON.parse'' [dat])) (handleWebSocketEvent env)) (\<lambda>_. js_return ())"

text \<open>The \<open>close\<close> event: \<open>scheduleReconnect\<close>.\<close>

definition ws_close :: "env \<Rightarrow> (sdk, unit) js" where
  "ws_close env =
     js_bind js_this (\<lambda>s.
     js_bind (case reconnectTimer s of
         Some h \<Rightarrow> js_bind (js_ext env (Call ''clearTimeout'' [h])) (\<lambda>_. js_return ())
       | None \<Rightarrow> js_return ()) (\<lambda>_.
     js_bind (js_ext env (Call ''setTimeout'' [JInt 5000])) (\<lambda>h.
     js_update (\<lambda>s. s\<lparr>reconnectTimer := Some h\<rparr>))))"

definition reconnect_fire :: "env \<Rightarrow> (sdk, unit) js" where
  "reconnect_fire env =
     js_bind js_this (\<lambda>s. if is_connected s then setupWebSocket env else js_return ())"

section \<open>Connecting and disconnecting\<close>

text \<open>The body of \<open>if (response.data.success)\<close>.\<close>

definition accept_connection :: "env \<Rightarrow> jv \<Rightarrow> (sdk, unit) js" where
  "accept_connection env d =
     js_bind (js_get d ''data'') (\<lambda>dd.
     js_bind (js_get dd ''address'') (\<lambda>addr.
     js_bind (js_update (\<lambda>s. s\<lparr>connection := [(''isConnected'', JBool True), (''address'', addr),
         (''balance'', jopt dd ''balance''), (''network'', obj_get (sdk_config s) ''network'')]\<rparr>)) (\<lambda>_.
     js_bind (setupWebSocket env) (\<lambda>_.
     js_bind (notifyConnectionCallbacks env) (\<lambda>_.
     js_bind js_this (\<lambda>s. emitEvent env ''connected'' (JObj (connection s))))))))"

definition handle_connect :: "env \<Rightarrow> jv \<Rightarrow> (sdk, jv) js" where
  "handle_connect env response =
     js_bind (js_get response ''data'') (\<lambda>d.
     js_bind (js_get d ''success'') (\<lambda>ok.
     js_bind (if truthy ok then accept_connection env d else js_return ()) (\<lambda>_.
     js_bind js_this (\<lambda>s. js_return (JObj (connection s))))))"

definition connect :: "env \<Rightarrow> (sdk, jv) js" where
  "connect env =
     js_catch
       (js_bind js_this (\<lambda>s.
        js_bind (http env ''post'' ''/wallet/connect'' (JObj [(''network'', obj_get (sdk_config s) ''network'')]))
          (handle_connect env)))
       (\<lambda>e. js_throw (Error (''Failed to connect to wallet: '' @ error_str e)))"

definition release :: "env \<Rightarrow> string \<Rightarrow> jv option \<Rightarrow> (sdk \<Rightarrow> sdk) \<Rightarrow> (sdk, unit) js" where
  "release env f h clear = (case h of None \<Rightarrow> js_return ()
     | Some v \<Rightarrow> js_bind (js_ext env (Call f [v])) (\<lambda>_. js_update clear))"

definition teardown :: "env \<Rightarrow> (sdk, unit) js" where
  "teardown env =
     js_bind js_this (\<lambda>s.
     js_bind (release env ''ws.close'' (wsClient s) (\<lambda>s. s\<lparr>wsClient := None\<rparr>)) (\<lambda>_.
     js_bind (release env ''clearTimeout'' (reconnectTimer s) (\<lambda>s. s\<lparr>reconnectTimer := None\<rparr>)) (\<lambda>_.
     js_bind (release env ''clearInterval'' (heartbeatTimer s) (\<lambda>s. s\<lparr>heartbeatTimer := None\<rparr>)) (\<lambda>_.
     js_bind (notifyConnectionCallbacks env) (\<lambda>_.
     emitEvent env ''disconnected'' (JObj []))))))"

definition disconnect :: "env \<Rightarrow> (sdk, unit) js" where
  "disconnect env =
     js_bind (js_update (\<lambda>s. s\<lparr>connection := [(''isConnected'', JBool False)]\<rparr>)) (\<lambda>_. teardown env)"

definition getConnection :: "sdk \<Rightarrow> jv" where
  "getConnection s = JObj (obj_spread [] (connection s))"

definition getNetworkInfo :: "sdk \<Rightarrow> jv" where
  "getNetworkInfo s = sdk_network (sdk_config s)"

section \<open>Operations and reachable states\<close>

datatype guarded_op = GetBalance | History jv jv | Send fields | StakingInfo | Stake jv
  | Swap fields | NewToken fields | NewNFT fields | UserTokens | UserNFTs

primrec run_guarded :: "env \<Rightarrow> guarded_op \<Rightarrow> (sdk, jv) js" where
  "run_guarded env GetBalance = getBalance env"
| "run_guarded env (History l off) = getTransactionHistory env l off"
| "run_guarded env (Send ps) = sendTransaction env ps"
| "run_guarded env StakingInfo = getStakingInfo env"
| "run_guarded env (Stake a) = stake env a"
| "run_guarded env (Swap ps) = executeShahSwap env ps"
| "run_guarded env (NewToken ps) = sdk_createToken env ps"
| "run_guarded env (NewNFT ps) = sdk_createNFT env ps"
| "run_guarded env UserTokens = getUserTokens env"
| "run_guarded env UserNFTs = getUserNFTs env"

datatype query_op = FeeEstimates | Quote fields | TokenInfo string | NFTInfo string string

primrec run_query :: "env \<Rightarrow> query_op \<Rightarrow> (sdk, jv) js" where
  "run_query env FeeEstimates = getFeeEstimates env"
| "run_query env (Quote ps) = getShahSwapQuote env ps"
| "run_query env (TokenInfo a) = getTokenInfo env a"
| "run_query env (NFTInfo a t) = getNFTInfo env a t"

datatype sdk_op = Connect | Disconnect | On string string | OnConnection string
  | WsOpen | WsMessage jv | WsClose | HeartbeatTick | ReconnectFire
  | Guarded guarded_op | Query query_op

definition ignore :: "('s, 'a) js \<Rightarrow> ('s, unit) js" where
  "ignore m = js_bind m (\<lambda>_. js_return ())"

primrec run_sdk :: "env \<Rightarrow> sdk_op \<Rightarrow> (sdk, unit) js" where
  "run_sdk env Connect = ignore (connect env)"
| "run_sdk env Disconnect = disconnect env"
| "run_sdk env (On e cb) = sdk_on e cb"
| "run_sdk env (OnConnection cb) = onConnectionChange cb"
| "run_sdk env WsOpen = ws_open env"
| "run_sdk env (WsMessage d) = ws_message env d"
| "run_sdk env WsClose = ws_close env"
| "run_sdk env HeartbeatTick = heartbeat_tick env"
| "run_sdk env ReconnectFire = reconnect_fire env"
| "run_sdk env (Guarded g) = ignore (run_guarded env g)"
| "run_sdk env (Query q) = ignore (run_query env q)"

inductive sdk_reach :: "env \<Rightarrow> fields \<Rightarrow> sdk world \<Rightarrow> bool" for env cfg where
  start: "new_ShahcoinSDK cfg = Inr s \<Longrightarrow> sdk_reach env cfg (s, [])"
| step: "sdk_reach env cfg w \<Longrightarrow> sdk_reach env cfg (snd (run_sdk env op w))"

section \<open>Library\<close>

lemmas event_defs = run_callbacks_def emitEvent_def notifyConnectionCallbacks_def
lemmas http_defs = http_def data_of_def data_field_def request_def
lemmas guarded_defs = getBalance_def getTransactionHistory_def sendTransaction_def getStakingInfo_def
  stake_def executeShahSwap_def sdk_createToken_def sdk_createNFT_def getUserTokens_def getUserNFTs_def
lemmas query_defs = getFeeEstimates_def getShahSwapQuote_def getTokenInfo_def getNFTInfo_def
lemmas socket_defs = setupWebSocket_def ws_open_def heartbeat_tick_def handleWebSocketEvent_def
  ws_message_def ws_close_def reconnect_fire_def

lemma callbacks_keep [keeps_intros]: "keeps_state (run_callbacks env cbs arg)" "keeps_state (emitEvent env ty dat)"
  "keeps_state (notifyConnectionCallbacks env)"
  unfolding event_defs by (intro keeps_intros)+

lemma http_keeps [keeps_intros]: "keeps_state (http env verb path body)" "keeps_state (data_of r)"
  "keeps_state (data_field k r)"
  unfolding http_defs by (intro keeps_intros)+

lemma request_keeps [keeps_intros]:
  "keeps_state req \<Longrightarrow> (\<And>r. keeps_state (pick r)) \<Longrightarrow> keeps_state (request env what req pick)"
  unfolding request_def by (intro keeps_intros)

lemma when_connected_keeps [keeps_intros]:
  "(\<And>s. keeps_state (f s)) \<Longrightarrow> keeps_state (when_connected f)"
  unfolding when_connected_def by (intro keeps_intros)

lemma requests_keep: "keeps_state (run_guarded env g)" "keeps_state (run_query env q)"
  by (cases g; simp add: guarded_defs; intro keeps_intros)
     (cases q; simp add: query_defs; intro keeps_intros)

text \<open>All code only appends to the log.\<close>

lemma grows_let [avoids_intros]: "(\<And>x. x = a \<Longrightarrow> avoids B (f x)) \<Longrightarrow> avoids B (let x = a in f x)"
  by simp

lemma event_avoids [avoids_intros]:
  assumes "\<And>xs. \<not> B (Call ''callback'' xs)" "\<not> B (Call ''Date.now'' [])"
  shows "avoids B (run_callbacks env cbs arg)" "avoids B (emitEvent env ty dat)"
    "avoids B (notifyConnectionCallbacks env)"
  unfolding event_defs by (intro avoids_intros assms)+

lemma http_avoids [avoids_intros]:
  assumes "\<And>xs. \<not> B (Call ''callback'' xs)" "\<not> B (Call ''Date.now'' [])"
    "\<And>xs. \<not> B (Call (''httpClient.'' @ verb) xs)" "\<not> B (Call ''error.response?.status'' [])"
  shows "avoids B (http env verb path body)"
  unfolding http_def by (intro avoids_intros assms)

lemma data_avoids [avoids_intros]: "avoids B (data_of r)" "avoids B (data_field k r)"
  unfolding http_defs by (intro avoids_intros)+

lemma request_avoids [avoids_intros]:
  "avoids B req \<Longrightarrow> (\<And>r. avoids B (pick r)) \<Longrightarrow> avoids B (request env what req pick)"
  unfolding request_def by (intro avoids_intros)

lemma when_connected_avoids [avoids_intros]:
  "(\<And>s. avoids B (f s)) \<Longrightarrow> avoids B (when_connected f)"
  unfolding when_connected_def by (intro avoids_intros)

lemma socket_avoids [avoids_intros]:
  assumes "\<And>xs. \<not> B (Call ''new WebSocket'' xs)"
  shows "avoids B (setupWebSocket env)"
  unfolding setupWebSocket_def by (intro avoids_intros assms)

lemma run_sdk_grows: "avoids (\<lambda>_. False) (run_sdk env op)"
proof -
  have g: "avoids (\<lambda>_. False) (run_guarded env g)" for g
    by (cases g; simp add: guarded_defs; intro avoids_intros; simp)
  have q: "avoids (\<lambda>_. False) (run_query env q)" for q
    by (cases q; simp add: query_defs; intro avoids_intros; simp)
  show ?thesis
    by (cases op) (auto intro!: avoids_intros g q simp: ignore_def connect_def handle_connect_def accept_connection_def disconnect_def teardown_def release_def sdk_on_def
      onConnectionChange_def ws_open_def heartbeat_tick_def handleWebSocketEvent_def ws_message_def ws_close_def
      reconnect_fire_def)
qed

section \<open>The connection is granted by the wallet\<close>

definition connect_answer :: "env \<Rightarrow> jv \<Rightarrow> call list \<Rightarrow> bool" where
  "connect_answer env r tr = (\<exists>i<length tr. \<exists>body. tr ! i = Call ''httpClient.post'' [JStr ''/wallet/connect'', body] \<and>
     env i (tr ! i) = Inr r)"

definition approved :: "env \<Rightarrow> call list \<Rightarrow> bool" where
  "approved env tr = (\<exists>r. connect_answer env r tr \<and> truthy (jopt (jopt r ''data'') ''success''))"

definition conn_ok :: "env \<Rightarrow> sdk world \<Rightarrow> bool" where
  "conn_ok env w = (is_connected (fst w) \<longrightarrow> approved env (snd w))"

definition conn_is :: "fields \<Rightarrow> sdk \<Rightarrow> bool" where
  "conn_is c s = (connection s = c)"

lemma connect_answer_append: "connect_answer env r tr \<Longrightarrow> connect_answer env r (tr @ cs)"
proof -
  assume "connect_answer env r tr"
  then obtain i body where i: "i < length tr" "tr ! i = Call ''httpClient.post'' [JStr ''/wallet/connect'', body]"
    "env i (tr ! i) = Inr r" by (auto simp: connect_answer_def)
  then have "(tr @ cs) ! i = tr ! i" by (simp add: nth_append)
  then show ?thesis using i unfolding connect_answer_def by (intro exI [of _ i]) auto
qed

lemma approved_append: "approved env tr \<Longrightarrow> approved env (tr @ cs)"
  unfolding approved_def using connect_answer_append by blast

lemma approved_grows:
  assumes "avoids (\<lambda>_. False) (m :: (sdk, 'a) js)"
  shows "js_inv (\<lambda>w. approved env (snd w)) m"
proof (rule js_invI)
  fix w :: "sdk world" assume w: "approved env (snd w)"
  obtain cs where "snd (snd (m w)) = snd w @ cs" using assms unfolding avoids_def by blast
  then show "approved env (snd (snd (m w)))" using approved_append [OF w] by simp
qed

lemma conn_ok_grows:
  assumes "avoids (\<lambda>_. False) m" "\<And>c. js_inv (\<lambda>w. conn_is c (fst w)) m"
  shows "js_inv (conn_ok env) m"
proof (rule js_invI)
  fix w assume "conn_ok env w"
  moreover have "connection (fst (snd (m w))) = connection (fst w)"
    using js_invD [OF assms(2), of "connection (fst w)" w] by (simp add: conn_is_def)
  moreover obtain cs where "snd (snd (m w)) = snd w @ cs" using assms(1) unfolding avoids_def by blast
  ultimately show "conn_ok env (snd (m w))"
    using approved_append by (auto simp: conn_ok_def is_connected_def)
qed

lemma conn_is_upd [simp]:
  "conn_is c (s\<lparr>wsClient := x\<rparr>) = conn_is c s" "conn_is c (s\<lparr>reconnectTimer := y\<rparr>) = conn_is c s"
  "conn_is c (s\<lparr>heartbeatTimer := y\<rparr>) = conn_is c s" "conn_is c (s\<lparr>eventCallbacks := z\<rparr>) = conn_is c s"
  "conn_is c (s\<lparr>connectionCallbacks := z\<rparr>) = conn_is c s"
  by (simp_all add: conn_is_def)

lemma js_inv_let [inv_intros]: "(\<And>x. x = a \<Longrightarrow> js_inv I (f x)) \<Longrightarrow> js_inv I (let x = a in f x)"
  by simp

lemma conn_is_events [inv_intros]:
  "js_inv (\<lambda>w. conn_is c (fst w)) (emitEvent env ty dat)"
  "js_inv (\<lambda>w. conn_is c (fst w)) (notifyConnectionCallbacks env)"
  by (rule js_inv_keeps; intro keeps_intros)+

lemma conn_is_socket [inv_intros]: "js_inv (\<lambda>w. conn_is c (fst w)) (setupWebSocket env)"
  unfolding setupWebSocket_def by (intro inv_intros) simp_all

lemma other_ops_conn:
  assumes "op \<noteq> Connect" "op \<noteq> Disconnect"
  shows "js_inv (\<lambda>w. conn_is c (fst w)) (run_sdk env op)"
proof -
  note [intro!] = js_inv_keeps [OF requests_keep(1)] js_inv_keeps [OF requests_keep(2)]
  show ?thesis using assms
    by (cases op) (auto intro!: inv_intros simp: ignore_def sdk_on_def onConnectionChange_def ws_open_def
      heartbeat_tick_def handleWebSocketEvent_def ws_message_def ws_close_def reconnect_fire_def)
qed

lemma disconnect_disconnects: "\<not> is_connected (fst (snd (disconnect env w)))"
proof -
  let ?c = "[(''isConnected'', JBool False)]"
  have inv: "js_inv (\<lambda>w. conn_is ?c (fst w)) (teardown env)"
    unfolding teardown_def release_def by (intro inv_intros) simp_all
  obtain s tr where w: "w = (s, tr)" by (metis surj_pair)
  have "conn_is ?c (fst (snd (teardown env (s\<lparr>connection := ?c\<rparr>, tr))))"
    by (rule js_invD [OF inv]) (simp add: conn_is_def)
  then show ?thesis by (simp add: disconnect_def w js_bind_apply js_update_apply conn_is_def is_connected_def)
qed

lemma hoare_throws: "always_throws m \<Longrightarrow> js_inv I m \<Longrightarrow> hoare I m Q (\<lambda>_. I)"
proof (rule hoareI)
  fix w x w' assume "always_throws m" "m w = (Inr x, w')"
  then show "Q x w'" using always_throwsE [of m w] by force
next
  fix w e w' assume "js_inv I m" "I w" "m w = (Inl e, w')"
  then show "I w'" using js_invD [of I m w] by simp
qed

lemma jget_jopt_eq: "jget v k = Inr x \<Longrightarrow> jopt v k = x"
  by (cases v) auto

lemma hoare_get: "hoare P (js_get v k) (\<lambda>x w. P w \<and> jopt v k = x) (\<lambda>_. P)"
  unfolding js_get_def by (rule hoare_lift) (auto simp: jget_jopt_eq)

lemma hoare_inv: "js_inv I m \<Longrightarrow> hoare I m (\<lambda>_. I) (\<lambda>_. I)"
  by (simp add: js_inv_def)

lemma http_connect:
  "hoare (conn_ok env) (http env ''post'' ''/wallet/connect'' body)
     (\<lambda>r w. conn_ok env w \<and> connect_answer env r (snd w)) (\<lambda>_. conn_ok env)"
proof -
  have ok: "conn_ok env (s, tr @ cs)" if "conn_ok env (s, tr)" for s tr cs
    using that approved_append by (simp add: conn_ok_def)
  let ?c = "Call ''httpClient.post'' [JStr ''/wallet/connect'', body]"
  have ext: "hoare (conn_ok env) (js_ext env ?c)
      (\<lambda>r w. conn_ok env w \<and> connect_answer env r (snd w)) (\<lambda>_. conn_ok env)"
    by (rule hoareI) (auto simp: js_ext_def ok connect_answer_def split: prod.splits
        intro!: exI [of _ "length _"])
  have handler: "js_inv (conn_ok env) (js_bind (js_ext env (Call ''error.response?.status'' [])) (\<lambda>st.
      js_bind (if strict_eq st (JInt 401)
               then emitEvent env ''disconnected'' (JObj [(''reason'', JStr ''unauthorized'')])
               else js_return ()) (\<lambda>_. js_throw e)))" for e :: js_error
    by (rule conn_ok_grows) (auto intro!: avoids_intros inv_intros)
  show ?thesis
    unfolding http_def append_Cons append_Nil
    by (rule hoare_catch [OF ext hoare_throws [OF _ handler]]) (intro throws_intros)
qed

lemma accept_conn_ok:
  "hoare (\<lambda>w. approved env (snd w)) (accept_connection env d) (\<lambda>_. conn_ok env) (\<lambda>_. conn_ok env)"
proof -
  have "js_inv (\<lambda>w. approved env (snd w)) (accept_connection env d)"
    by (rule approved_grows) (unfold accept_connection_def, intro avoids_intros; simp)
  then show ?thesis by (rule hoare_conseq [OF hoare_inv]) (simp_all add: conn_ok_def)
qed

lemma handle_connect_conn_ok:
  "hoare (\<lambda>w. conn_ok env w \<and> connect_answer env r (snd w)) (handle_connect env r)
     (\<lambda>_. conn_ok env) (\<lambda>_. conn_ok env)"
  unfolding handle_connect_def
proof (rule hoare_bind)
  let ?P = "\<lambda>w :: sdk world. conn_ok env w \<and> connect_answer env r (snd w)"
  show "hoare ?P (js_get r ''data'') (\<lambda>d w. ?P w \<and> jopt r ''data'' = d) (\<lambda>_. conn_ok env)"
    by (rule hoare_conseq [OF hoare_get [where P = ?P]]) auto
  fix d
  let ?P' = "\<lambda>w. ?P w \<and> jopt r ''data'' = d"
  have get: "hoare ?P' (js_get d ''success'') (\<lambda>ok w. ?P' w \<and> jopt d ''success'' = ok) (\<lambda>_. conn_ok env)"
    by (rule hoare_conseq [OF hoare_get [where P = ?P']]) auto
  have acc: "hoare (\<lambda>w. ?P' w \<and> jopt d ''success'' = ok)
      (if truthy ok then accept_connection env d else js_return ()) (\<lambda>_. conn_ok env) (\<lambda>_. conn_ok env)" for ok
  proof (cases "truthy ok")
    case True
    then have "hoare (\<lambda>w. ?P' w \<and> jopt d ''success'' = ok) (accept_connection env d) (\<lambda>_. conn_ok env) (\<lambda>_. conn_ok env)"
      by (intro hoare_conseq [OF accept_conn_ok]) (auto simp: approved_def)
    then show ?thesis using True by simp
  qed (auto intro!: hoare_return)
  have fin: "hoare (conn_ok env) (js_bind js_this (\<lambda>s. js_return (JObj (connection s)))) (\<lambda>_. conn_ok env) (\<lambda>_. conn_ok env)"
    by (rule hoare_inv) (intro inv_intros)
  show "hoare ?P' (js_bind (js_get d ''success'') (\<lambda>ok.
      js_bind (if truthy ok then accept_connection env d else js_return ())
        (\<lambda>_. js_bind js_this (\<lambda>s. js_return (JObj (connection s)))))) (\<lambda>_. conn_ok env) (\<lambda>_. conn_ok env)"
    by (rule hoare_bind [OF get hoare_bind [OF acc fin]])
qed

lemma connect_conn_ok: "js_inv (conn_ok env) (connect env)"
  unfolding connect_def
  by (intro js_inv_catch js_inv_throw js_inv_bind [OF js_inv_this], unfold js_inv_def)
     (rule hoare_bind [OF http_connect handle_connect_conn_ok])

lemma sdk_reach_conn_ok: "sdk_reach env cfg w \<Longrightarrow> conn_ok env w"
proof (induction rule: sdk_reach.induct)
  case (start s)
  then show ?case
    by (auto simp: new_ShahcoinSDK_def Let_def conn_ok_def is_connected_def split: if_splits sum.splits)
next
  case (step w op)
  consider "op = Connect" | "op = Disconnect" | "op \<noteq> Connect" "op \<noteq> Disconnect" by blast
  then show ?case
  proof cases
    case 1
    have "js_inv (conn_ok env) (ignore (connect env))"
      unfolding ignore_def by (intro js_inv_bind connect_conn_ok js_inv_return)
    then show ?thesis using js_invD step.IH 1 by fastforce
  next
    case 2
    then show ?thesis using disconnect_disconnects by (simp add: conn_ok_def)
  next
    case 3
    then show ?thesis using js_invD [OF conn_ok_grows [OF run_sdk_grows other_ops_conn]] step.IH by blast
  qed
qed

lemma guarded_disconnected:
  "\<not> is_connected s \<Longrightarrow> run_guarded env g (s, tr) = (Inl (Error ''Wallet not connected''), (s, tr))"
  by (cases g) (simp_all add: guarded_defs when_connected_def js_simps)

section \<open>Heartbeats\<close>

text \<open>An environment in which everything succeeds and the wallet grants the connection.\<close>

definition net_ok :: "env \<Rightarrow> bool" where
  "net_ok env \<longleftrightarrow> (\<forall>i c. \<exists>v. env i c = Inr v \<and> (callee c = ''httpClient.post'' \<longrightarrow>
     truthy (jopt (jopt v ''data'') ''success'') \<and> jopt v ''data'' \<noteq> JUndef \<and>
     (\<exists>fs. jopt (jopt v ''data'') ''data'' = JObj fs)))"

definition known_network :: "sdk \<Rightarrow> bool" where
  "known_network s = (\<exists>url. jget (sdk_network (sdk_config s)) ''rpcUrl'' = Inr url)"

lemma live_quiet: "avoids is_timer m \<Longrightarrow> m w = (r, w') \<Longrightarrow> live_intervals (snd w') = live_intervals (snd w)"
  using avoidsD live_intervals_quiet by metis

fun run_ops :: "env \<Rightarrow> sdk_op list \<Rightarrow> sdk world \<Rightarrow> sdk world" where
  "run_ops env [] w = w"
| "run_ops env (op # ops) w = run_ops env ops (snd (run_sdk env op w))"

lemma run_ops_append: "run_ops env (xs @ ys) w = run_ops env ys (run_ops env xs w)"
  by (induction xs arbitrary: w) auto

text \<open>A connected client with \<open>n\<close> live intervals and a heartbeat handle or none.\<close>

definition beating :: "int \<Rightarrow> bool \<Rightarrow> sdk world \<Rightarrow> bool" where
  "beating n hb w = (is_connected (fst w) \<and> known_network (fst w) \<and> live_intervals (snd w) = n \<and>
     (heartbeatTimer (fst w) \<noteq> None \<longleftrightarrow> hb))"

lemma net_okE:
  assumes "net_ok env" obtains v where "env i c = Inr v"
  using assms by (auto simp: net_ok_def)

lemma beating_open:
  assumes "net_ok env" "beating n hb w"
  shows "beating (n + 1) True (snd (run_sdk env WsOpen w))"
proof -
  obtain s tr where w: "w = (s, tr)" by (metis surj_pair)
  obtain h where "env (length tr) (Call ''setInterval'' [JInt 30000]) = Inr h" using net_okE [OF assms(1)] .
  then show ?thesis using assms(2)
    by (simp add: w ws_open_def js_simps beating_def is_connected_def known_network_def live_intervals_snoc)
qed

lemma beating_close:
  assumes "net_ok env" "beating n hb w"
  shows "beating n hb (snd (run_sdk env WsClose w))"
proof -
  obtain s tr where w: "w = (s, tr)" by (metis surj_pair)
  have "\<exists>h tr'. ws_close env (s, tr) = (Inr (), (s\<lparr>reconnectTimer := Some h\<rparr>, tr'))"
  proof (cases "reconnectTimer s")
    case None
    obtain h where "env (length tr) (Call ''setTimeout'' [JInt 5000]) = Inr h" using net_okE [OF assms(1)] .
    then show ?thesis using None by (simp add: ws_close_def js_simps) blast
  next
    case (Some h0)
    obtain v h where "env (length tr) (Call ''clearTimeout'' [h0]) = Inr v"
      "env (Suc (length tr)) (Call ''setTimeout'' [JInt 5000]) = Inr h"
      using net_okE [OF assms(1)] by metis
    then show ?thesis using Some by (simp add: ws_close_def js_simps) blast
  qed
  then obtain h tr' where run: "ws_close env (s, tr) = (Inr (), (s\<lparr>reconnectTimer := Some h\<rparr>, tr'))" by blast
  have "avoids is_timer (ws_close env)"
    unfolding ws_close_def by (intro avoids_intros) (simp_all add: is_timer_def)
  from live_quiet [OF this run] show ?thesis using assms(2) run
    by (simp add: w beating_def is_connected_def known_network_def)
qed

lemma setupWebSocket_run:
  assumes "net_ok env" "known_network s"
  shows "\<exists>ws tr'. setupWebSocket env (s, tr) = (Inr (), (s\<lparr>wsClient := Some ws\<rparr>, tr')) \<and>
    live_intervals tr' = live_intervals tr"
proof -
  obtain url where url: "jget (sdk_network (sdk_config s)) ''rpcUrl'' = Inr url"
    using assms(2) by (auto simp: known_network_def)
  let ?c = "Call ''new WebSocket'' [JStr (replace_first (replace_first (to_str url) ''https://'' ''wss://'') ''http://'' ''ws://'' @ ''/ws'')]"
  obtain ws where "env (length tr) ?c = Inr ws" using net_okE [OF assms(1)] .
  then have run: "setupWebSocket env (s, tr) = (Inr (), (s\<lparr>wsClient := Some ws\<rparr>, tr @ [?c]))"
    by (simp add: setupWebSocket_def js_simps url Let_def)
  moreover have "live_intervals (tr @ [?c]) = live_intervals tr" by (simp add: live_intervals_snoc)
  ultimately show ?thesis by blast
qed

lemma beating_fire:
  assumes "net_ok env" "beating n hb w"
  shows "beating n hb (snd (run_sdk env ReconnectFire w))"
proof -
  obtain s tr where w: "w = (s, tr)" by (metis surj_pair)
  have "known_network s" using assms(2) by (simp add: w beating_def)
  from setupWebSocket_run [OF assms(1) this] obtain ws tr' where
    "setupWebSocket env (s, tr) = (Inr (), (s\<lparr>wsClient := Some ws\<rparr>, tr'))"
    "live_intervals tr' = live_intervals tr" by blast
  then show ?thesis using assms(2)
    by (simp add: w reconnect_fire_def js_simps beating_def is_connected_def known_network_def)
qed

lemma quiet_run:
  assumes "never_throws m" "keeps_state m" "avoids is_timer m"
  shows "\<exists>tr'. m (s, tr) = (Inr (), (s, tr')) \<and> live_intervals tr' = live_intervals tr"
proof -
  obtain u tr' where m: "m (s, tr) = (Inr u, (s, tr'))" using never_throws_keeps_run [OF assms(1,2)] .
  from live_quiet [OF assms(3) m] show ?thesis using m by (cases u) simp
qed

lemma events_run:
  assumes "net_ok env"
  shows "\<exists>tr'. emitEvent env ty dat (s, tr) = (Inr (), (s, tr')) \<and> live_intervals tr' = live_intervals tr"
    "\<exists>tr'. notifyConnectionCallbacks env (s, tr) = (Inr (), (s, tr')) \<and> live_intervals tr' = live_intervals tr"
proof -
  have now: "never_throws (date_now env :: (sdk, jsnum) js)"
  proof (rule never_throwsI)
    fix w :: "sdk world"
    obtain v where "env (length (snd w)) (Call ''Date.now'' []) = Inr v" using net_okE [OF assms] .
    then show "\<exists>x w'. date_now env w = (Inr x, w')"
      by (cases w) (simp add: date_now_def js_simps)
  qed
  have n: "never_throws (emitEvent env ty dat)" "never_throws (notifyConnectionCallbacks env)"
    unfolding event_defs by (intro total_intros now)+
  have a: "avoids is_timer (emitEvent env ty dat)" "avoids is_timer (notifyConnectionCallbacks env)"
    by (intro avoids_intros; simp add: is_timer_def)+
  show "\<exists>tr'. emitEvent env ty dat (s, tr) = (Inr (), (s, tr')) \<and> live_intervals tr' = live_intervals tr"
    by (rule quiet_run [OF n(1) callbacks_keep(2) a(1)])
  show "\<exists>tr'. notifyConnectionCallbacks env (s, tr) = (Inr (), (s, tr')) \<and> live_intervals tr' = live_intervals tr"
    by (rule quiet_run [OF n(2) callbacks_keep(3) a(2)])
qed

lemma beating_connect:
  assumes "net_ok env" "known_network s" "live_intervals tr = 0" "heartbeatTimer s = None"
  shows "beating 0 False (snd (run_sdk env Connect (s, tr)))"
proof -
  let ?c = "Call ''httpClient.post'' [JStr ''/wallet/connect'', JObj [(''network'', obj_get (sdk_config s) ''network'')]]"
  let ?tr = "tr @ [?c]"
  have "\<exists>v. env (length tr) ?c = Inr v \<and> (callee ?c = ''httpClient.post'' \<longrightarrow>
      truthy (jopt (jopt v ''data'') ''success'') \<and> jopt v ''data'' \<noteq> JUndef \<and>
      (\<exists>fs. jopt (jopt v ''data'') ''data'' = JObj fs))"
    using assms(1) unfolding net_ok_def by blast
  then obtain r fs where r: "env (length tr) ?c = Inr r" "truthy (jopt (jopt r ''data'') ''success'')"
    "jopt r ''data'' \<noteq> JUndef" and fs: "jopt (jopt r ''data'') ''data'' = JObj fs" by auto
  have d: "jget r ''data'' = Inr (jopt r ''data'')" using r(3) by (cases r) auto
  have g: "jget (jopt r ''data'') k = Inr (jopt (jopt r ''data'') k)" for k
    using fs by (cases "jopt r ''data''") auto
  let ?s = "s\<lparr>connection := [(''isConnected'', JBool True), (''address'', obj_get fs ''address''),
      (''balance'', obj_get fs ''balance''), (''network'', obj_get (sdk_config s) ''network'')]\<rparr>"
  have "known_network ?s" using assms(2) by (simp add: known_network_def)
  from setupWebSocket_run [OF assms(1) this] obtain ws tr1 where
    ws: "setupWebSocket env (?s, ?tr) = (Inr (), (?s\<lparr>wsClient := Some ws\<rparr>, tr1))"
      "live_intervals tr1 = live_intervals ?tr" by blast
  let ?s2 = "?s\<lparr>wsClient := Some ws\<rparr>"
  obtain tr2 where n: "notifyConnectionCallbacks env (?s2, tr1) = (Inr (), (?s2, tr2))"
    "live_intervals tr2 = live_intervals tr1" using events_run(2) [OF assms(1)] by blast
  obtain tr3 where e: "emitEvent env ''connected'' (JObj (connection ?s2)) (?s2, tr2) = (Inr (), (?s2, tr3))"
    "live_intervals tr3 = live_intervals tr2" using events_run(1) [OF assms(1)] by blast
  have acc: "accept_connection env (jopt r ''data'') (s, ?tr) = (Inr (), (?s2, tr3))"
    unfolding accept_connection_def using ws(1) n(1) e(1)
    by (simp add: js_bind_apply js_get_apply g fs js_update_apply js_this_apply)
  have "http env ''post'' ''/wallet/connect'' (JObj [(''network'', obj_get (sdk_config s) ''network'')]) (s, tr)
      = (Inr r, (s, ?tr))"
    using r(1) by (simp add: http_def js_catch_apply js_ext_apply)
  moreover have "handle_connect env r (s, ?tr) = (Inr (JObj (connection ?s2)), (?s2, tr3))"
    unfolding handle_connect_def js_bind_apply [of "js_get r ''data''"] js_get_apply d sum.case prod.case
      js_bind_apply [of "js_get (jopt r ''data'') ''success''"] g
    using acc r(2) by (simp add: js_bind_apply js_this_apply js_return_apply)
  ultimately have "snd (run_sdk env Connect (s, tr)) = (?s2, tr3)"
    by (simp add: ignore_def connect_def js_bind_apply js_catch_apply js_this_apply js_return_apply)
  then show ?thesis using assms ws(2) n(2) e(2)
    by (simp add: beating_def is_connected_def known_network_def live_intervals_snoc)
qed

lemma release_run:
  assumes "net_ok env"
  shows "\<exists>tr'. release env f h clear (s, tr) = (Inr (), (if h = None then s else clear s, tr')) \<and>
    live_intervals tr' = live_intervals tr +
      (if h = None then 0 else if f = ''setInterval'' then 1 else if f = ''clearInterval'' then - 1 else 0)"
proof (cases h)
  case (Some v)
  obtain u where "env (length tr) (Call f [v]) = Inr u" using net_okE [OF assms] .
  then show ?thesis using Some by (simp add: release_def js_simps live_intervals_snoc)
qed (simp add: release_def js_simps)

lemma disconnect_live:
  assumes "net_ok env" "beating n True w"
  shows "live_intervals (snd (snd (run_sdk env Disconnect w))) = n - 1"
proof -
  obtain s tr where w: "w = (s, tr)" by (metis surj_pair)
  obtain h where h: "heartbeatTimer s = Some h" using assms(2) by (auto simp: w beating_def)
  let ?s0 = "s\<lparr>connection := [(''isConnected'', JBool False)]\<rparr>"
  obtain tr1 s1 where r1: "release env ''ws.close'' (wsClient s) (\<lambda>s. s\<lparr>wsClient := None\<rparr>) (?s0, tr) = (Inr (), (s1, tr1))"
    "live_intervals tr1 = live_intervals tr"
    using release_run [OF assms(1), of "''ws.close''" "wsClient s" "\<lambda>s. s\<lparr>wsClient := None\<rparr>" ?s0 tr] by auto
  obtain tr2 s2 where r2: "release env ''clearTimeout'' (reconnectTimer s) (\<lambda>s. s\<lparr>reconnectTimer := None\<rparr>) (s1, tr1) = (Inr (), (s2, tr2))"
    "live_intervals tr2 = live_intervals tr1"
    using release_run [OF assms(1), of "''clearTimeout''" "reconnectTimer s" "\<lambda>s. s\<lparr>reconnectTimer := None\<rparr>" s1 tr1] by auto
  obtain tr3 s3 where r3: "release env ''clearInterval'' (Some h) (\<lambda>s. s\<lparr>heartbeatTimer := None\<rparr>) (s2, tr2) = (Inr (), (s3, tr3))"
    "live_intervals tr3 = live_intervals tr2 - 1"
    using release_run [OF assms(1), of "''clearInterval''" "Some h" "\<lambda>s. s\<lparr>heartbeatTimer := None\<rparr>" s2 tr2] by auto
  obtain tr4 where r4: "notifyConnectionCallbacks env (s3, tr3) = (Inr (), (s3, tr4))"
    "live_intervals tr4 = live_intervals tr3" using events_run(2) [OF assms(1)] by blast
  obtain tr5 where r5: "emitEvent env ''disconnected'' (JObj []) (s3, tr4) = (Inr (), (s3, tr5))"
    "live_intervals tr5 = live_intervals tr4" using events_run(1) [OF assms(1)] by blast
  have "snd (run_sdk env Disconnect w) = (s3, tr5)"
    using r1(1) r2(1) r3(1) r4(1) r5(1) h
    by (simp add: w disconnect_def teardown_def js_bind_apply js_update_apply js_this_apply)
  then show ?thesis using assms(2) r1(2) r2(2) r3(2) r4(2) r5(2) by (simp add: w beating_def)
qed

lemma beating_cycles:
  assumes "net_ok env" "beating n True w"
  shows "beating (n + int k) True (run_ops env (concat (replicate k [WsClose, ReconnectFire, WsOpen])) w)"
  using assms(2)
proof (induction k arbitrary: n w)
  case (Suc k)
  have "beating (n + 1) True (run_ops env [WsClose, ReconnectFire, WsOpen] w)"
    using beating_open [OF assms(1) beating_fire [OF assms(1) beating_close [OF assms(1) Suc.prems]]]
    by (simp only: run_ops.simps)
  from Suc.IH [OF this] show ?case by (simp add: run_ops_append add.assoc del: run_sdk.simps)
qed simp

definition live_net :: env where
  "live_net = (\<lambda>i c. if callee c = ''httpClient.post'' then Inr (JObj [(''data'', JObj [(''success'', JBool True),
     (''data'', JObj [(''address'', JStr ''S1abc''), (''balance'', JInt 5)])])]) else Inr (JInt 7))"

lemma live_net_ok: "net_ok live_net"
  by (simp add: net_ok_def live_net_def)

definition sample_sdk :: sdk where
  "sample_sdk = \<lparr>sdk_config = [(''network'', JStr ''mainnet''), (''timeout'', JInt 30000)],
     baseURL = JStr ''https://rpc.shah.vip'', wsClient = None,
     connection = [(''isConnected'', JBool False)], eventCallbacks = [], connectionCallbacks = [],
     reconnectTimer = None, heartbeatTimer = None\<rparr>"

lemma sample_sdk_new: "new_ShahcoinSDK [] = Inr sample_sdk"
  by (simp add: new_ShahcoinSDK_def sample_sdk_def Let_def obj_spread_def sdk_network_def NETWORKS_def js_or_def
      proto_value_def proto_keys_def)

section \<open>Properties\<close>



text \<open>Every reconnection leaks a heartbeat: a client that connects, loses and restores its
  socket \<open>k\<close> times and disconnects leaves \<open>k\<close> heartbeat intervals running, because each
  new socket overwrites the handle of the previous interval without clearing it.\<close>

theorem reconnect_leaks_heartbeats:
  assumes "net_ok env" "known_network s" "heartbeatTimer s = None"
  shows "live_intervals (snd (run_ops env
    ([Connect, WsOpen] @ concat (replicate k [WsClose, ReconnectFire, WsOpen]) @ [Disconnect]) (s, []))) = int k"
proof -
  let ?w1 = "snd (run_sdk env WsOpen (snd (run_sdk env Connect (s, []))))"
  have "beating 0 False (snd (run_sdk env Connect (s, [])))"
    by (rule beating_connect [OF assms(1,2) _ assms(3)]) (simp add: live_intervals_def)
  from beating_open [OF assms(1) this] have "beating 1 True ?w1" by simp
  from beating_cycles [OF assms(1) this, of k]
  have "beating (1 + int k) True (run_ops env (concat (replicate k [WsClose, ReconnectFire, WsOpen])) ?w1)" .
  from disconnect_live [OF assms(1) this] show ?thesis
    by (simp add: run_ops_append del: run_sdk.simps)
qed

theorem reconnect_leaks_heartbeats_witness:
  "live_intervals (snd (run_ops live_net
    ([Connect, WsOpen] @ concat (replicate 2 [WsClose, ReconnectFire, WsOpen]) @ [Disconnect]) (sample_sdk, []))) = 2"
proof -
  have "known_network sample_sdk" "heartbeatTimer sample_sdk = None"
    by (simp_all add: known_network_def sample_sdk_def sdk_network_def NETWORKS_def js_or_def)
  from reconnect_leaks_heartbeats [OF live_net_ok this, of 2] show ?thesis by simp
qed

end
