(* ===== verification/RpcClient.thy ===== *)
theory RpcClient
  imports Values
begin

text \<open>
  The RPC client of the SDK (sdk/packages/core/src/rpc/client.ts): numbered requests, the
  response interceptors with the connection flag, and the reconnection timers.

  What the node answers is an argument of the steps: an \<open>Answer\<close> carries the body of the
  HTTP response, a \<open>Failure\<close> the message and status of the Axios error.  A pending
  \<open>setTimeout\<close> of \<open>scheduleReconnect\<close> is counted in \<open>timers\<close>, and \<open>timer_fire\<close> is what the
  platform runs when one expires.  Of the event listeners only the number of listeners
  for \<open>error\<close> matters: Node's emitter throws when an \<open>error\<close> event has none.
\<close>

section \<open>State\<close>

datatype answer = Answer jv | Failure string jv

datatype rpc_error = RPC_Error string jv | Network_Error string jv | Unknown_Error

record rpc =
  rpc_config :: fields
  base_url :: string
  rpc_auth :: jv
  rpc_timeout :: jv
  requestId :: nat
  connected :: bool
  reconnectAttempts :: nat
  maxReconnectAttempts :: nat
  reconnectInterval :: nat
  autoReconnect :: bool
  error_listeners :: nat
  timers :: nat
  sent :: "(nat \<times> string \<times> jv list) list"

definition rpc_url :: "fields \<Rightarrow> string" where
  "rpc_url c = (if truthy (obj_get c ''ssl'') then ''https'' else ''http'') @ ''://'' @
     to_str (obj_get c ''host'') @ '':'' @ to_str (obj_get c ''port'')"

definition rpc_credentials :: "fields \<Rightarrow> jv" where
  "rpc_credentials c =
     (if truthy (obj_get c ''username'') \<and> truthy (obj_get c ''password'')
      then JObj [(''username'', obj_get c ''username''), (''password'', obj_get c ''password'')]
      else JObj [])"

definition nat_or :: "nat option \<Rightarrow> nat \<Rightarrow> nat" where
  "nat_or v d = (case v of Some n \<Rightarrow> if n = 0 then d else n | None \<Rightarrow> d)"

definition new_RPCClient :: "fields \<Rightarrow> nat option \<Rightarrow> nat option \<Rightarrow> bool option \<Rightarrow> rpc" where
  "new_RPCClient c maxAttempts interval auto =
     \<lparr>rpc_config = c, base_url = rpc_url c, rpc_auth = rpc_credentials c,
      rpc_timeout = js_or (obj_get c ''timeout'') (JInt 30000), requestId = 0,
      connected = False, reconnectAttempts = 0, maxReconnectAttempts = nat_or maxAttempts 5,
      reconnectInterval = nat_or interval 5000,
      autoReconnect = (case auto of Some b \<Rightarrow> b | None \<Rightarrow> True),
      error_listeners = 0, timers = 0, sent = []\<rparr>"

section \<open>Requests\<close>

definition scheduleReconnect :: "rpc \<Rightarrow> rpc" where
  "scheduleReconnect s = s\<lparr>reconnectAttempts := reconnectAttempts s + 1, timers := timers s + 1\<rparr>"

text \<open>The two response interceptors.\<close>

definition on_response :: "rpc \<Rightarrow> rpc" where
  "on_response s = s\<lparr>connected := True, reconnectAttempts := 0\<rparr>"

definition on_failure :: "rpc \<Rightarrow> rpc" where
  "on_failure s = (let s1 = s\<lparr>connected := False\<rparr> in
     if autoReconnect s1 \<and> reconnectAttempts s1 < maxReconnectAttempts s1 then scheduleReconnect s1 else s1)"

text \<open>Reading \<open>result\<close> and \<open>error\<close> from the body; a body without properties is a TypeError.\<close>

definition decode_body :: "jv \<Rightarrow> rpc_error + jv" where
  "decode_body d = (case jget d ''error'' of Inl _ \<Rightarrow> Inl Unknown_Error
     | Inr e \<Rightarrow> if truthy e then Inl (RPC_Error (''RPC Error: '' @ to_str (jopt e ''message'')) (jopt e ''code''))
               else Inr (jopt d ''result''))"

definition rpc_call :: "answer \<Rightarrow> string \<Rightarrow> jv list \<Rightarrow> rpc \<Rightarrow> (rpc_error + jv) \<times> rpc" where
  "rpc_call a m ps s =
     (let s1 = s\<lparr>requestId := requestId s + 1, sent := sent s @ [(requestId s + 1, m, ps)]\<rparr> in
      case a of
        Answer d \<Rightarrow> (decode_body d, on_response s1)
      | Failure msg st \<Rightarrow>
          (Inl (if error_listeners s1 = 0 then Unknown_Error
                else Network_Error (''Network Error: '' @ msg) (js_or st (JInt (- 1)))),
           on_failure s1))"

definition timer_fire :: "answer \<Rightarrow> rpc \<Rightarrow> rpc" where
  "timer_fire a s =
     (case rpc_call a ''getblockchaininfo'' [] (s\<lparr>timers := timers s - 1\<rparr>) of
        (Inr _, s1) \<Rightarrow> s1
      | (Inl _, s1) \<Rightarrow> if reconnectAttempts s1 < maxReconnectAttempts s1 then scheduleReconnect s1 else s1)"

datatype rpc_request = GetBlockchainInfo | GetRpcNetworkInfo | GetMiningInfo | GetWalletInfo
  | GetRpcStakingInfo | GetAlgoInfo | GetBlock string jv | GetBlockByHeight jv jv
  | GetTransaction string jv | GetRawTransaction string jv | GetUTXOs string | GetRpcBalance jv jv
  | SendRawTransaction string jv | CreateRawTransaction jv jv
  | SignRawTransaction string jv jv jv | GetNewAddress jv jv | ValidateAddress string

primrec request_of :: "rpc_request \<Rightarrow> string \<times> jv list" where
  "request_of GetBlockchainInfo = (''getblockchaininfo'', [])"
| "request_of GetRpcNetworkInfo = (''getnetworkinfo'', [])"
| "request_of GetMiningInfo = (''getmininginfo'', [])"
| "request_of GetWalletInfo = (''getwalletinfo'', [])"
| "request_of GetRpcStakingInfo = (''getstakinginfo'', [])"
| "request_of GetAlgoInfo = (''getalgoinfo'', [])"
| "request_of (GetBlock h v) = (''getblock'', [JStr h, js_default v (JInt 1)])"
| "request_of (GetBlockByHeight h v) = (''getblock'', [h, js_default v (JInt 1)])"
| "request_of (GetTransaction t w) = (''gettransaction'', [JStr t, js_default w (JBool False)])"
| "request_of (GetRawTransaction t v) = (''getrawtransaction'', [JStr t, js_default v (JBool True)])"
| "request_of (GetUTXOs a) = (''getutxos'', [JStr a])"
| "request_of (GetRpcBalance a m) = (''getbalance'',
     (if truthy a then [a, js_default m (JInt 1)] else [js_default m (JInt 1)]))"
| "request_of (SendRawTransaction h f) = (''sendrawtransaction'', [JStr h, js_default f (JBool False)])"
| "request_of (CreateRawTransaction i out) = (''createrawtransaction'', [i, out])"
| "request_of (SignRawTransaction h i k t) = (''signrawtransaction'',
     [JStr h] @ (if truthy i then [i] else []) @ (if truthy k then [k] else []) @ [js_default t (JStr ''ALL'')])"
| "request_of (GetNewAddress l t) = (''getnewaddress'', [js_default l (JStr []), js_default t (JStr ''legacy'')])"
| "request_of (ValidateAddress a) = (''validateaddress'', [JStr a])"

definition rpc_request :: "answer \<Rightarrow> rpc_request \<Rightarrow> rpc \<Rightarrow> (rpc_error + jv) \<times> rpc" where
  "rpc_request a q s = (case request_of q of (m, ps) \<Rightarrow> rpc_call a m ps s)"

definition add_error_listener :: "rpc \<Rightarrow> rpc" where
  "add_error_listener s = s\<lparr>error_listeners := error_listeners s + 1\<rparr>"

definition rpc_disconnect :: "rpc \<Rightarrow> rpc" where
  "rpc_disconnect s = s\<lparr>connected := False, autoReconnect := False, error_listeners := 0\<rparr>"

definition updateConfig :: "fields \<Rightarrow> rpc \<Rightarrow> rpc" where
  "updateConfig c s =
     (let s1 = s\<lparr>rpc_config := obj_spread (obj_spread [] (rpc_config s)) c\<rparr> in
      if truthy (obj_get c ''host'') \<or> truthy (obj_get c ''port'') \<or>
         truthy (obj_get c ''username'') \<or> truthy (obj_get c ''password'')
      then s1\<lparr>base_url := rpc_url (rpc_config s1), rpc_auth := rpc_credentials (rpc_config s1)\<rparr>
      else s1)"

definition isConnected :: "rpc \<Rightarrow> bool" where
  "isConnected s = connected s"

definition getConfig :: "rpc \<Rightarrow> fields" where
  "getConfig s = obj_spread [] (rpc_config s)"

section \<open>Runs\<close>

inductive rpc_step :: "rpc \<Rightarrow> rpc \<Rightarrow> bool" where
  request: "rpc_step s (snd (rpc_request a q s))"
| fire: "0 < timers s \<Longrightarrow> rpc_step s (timer_fire a s)"
| listen: "rpc_step s (add_error_listener s)"
| disconnect: "rpc_step s (rpc_disconnect s)"
| update: "rpc_step s (updateConfig c s)"

inductive_cases rpc_stepE: "rpc_step s s'"

definition fresh_rpc :: "rpc \<Rightarrow> bool" where
  "fresh_rpc s = (\<exists>c m i b. s = new_RPCClient c m i b)"

definition rpc_reach :: "rpc \<Rightarrow> bool" where
  "rpc_reach s = (\<exists>s0. fresh_rpc s0 \<and> rpc_step\<^sup>*\<^sup>* s0 s)"

text \<open>A timer that fires while the node is down.\<close>

inductive fail_fire :: "rpc \<Rightarrow> rpc \<Rightarrow> bool" where
  "0 < timers s \<Longrightarrow> fail_fire s (timer_fire (Failure msg st) s)"

inductive_cases fail_fireE: "fail_fire s s'"

section \<open>Library\<close>

lemmas rpc_defs = rpc_call_def rpc_request_def on_response_def on_failure_def scheduleReconnect_def
  add_error_listener_def rpc_disconnect_def updateConfig_def Let_def

lemma rpc_call_fields:
  "maxReconnectAttempts (snd (rpc_call a m ps s)) = maxReconnectAttempts s"
  "requestId (snd (rpc_call a m ps s)) = requestId s + 1"
  "sent (snd (rpc_call a m ps s)) = sent s @ [(requestId s + 1, m, ps)]"
  by (cases a; simp add: rpc_defs)+

lemma rpc_call_attempts:
  "reconnectAttempts s \<le> maxReconnectAttempts s \<Longrightarrow>
   reconnectAttempts (snd (rpc_call a m ps s)) \<le> maxReconnectAttempts s"
  by (cases a) (auto simp: rpc_defs)

definition rpc_inv :: "rpc \<Rightarrow> bool" where
  "rpc_inv s = (reconnectAttempts s \<le> maxReconnectAttempts s \<and> map fst (sent s) = [1..<requestId s + 1])"

lemma rpc_call_inv: "rpc_inv s \<Longrightarrow> rpc_inv (snd (rpc_call a m ps s))"
  using rpc_call_attempts [of s a m ps] by (simp add: rpc_inv_def rpc_call_fields)

lemma timer_fire_inv: "rpc_inv s \<Longrightarrow> rpc_inv (timer_fire a s)"
proof -
  assume "rpc_inv s"
  then have "rpc_inv (s\<lparr>timers := timers s - 1\<rparr>)" by (simp add: rpc_inv_def)
  from rpc_call_inv [OF this, of a "''getblockchaininfo''" "[]"] show ?thesis
    by (cases "rpc_call a ''getblockchaininfo'' [] (s\<lparr>timers := timers s - 1\<rparr>)")
       (auto simp: timer_fire_def rpc_inv_def scheduleReconnect_def split: sum.splits)
qed

lemma rpc_step_inv: "rpc_step s s' \<Longrightarrow> rpc_inv s \<Longrightarrow> rpc_inv s'"
proof (induction rule: rpc_step.induct)
  case (request s a q)
  then show ?case by (cases "request_of q") (simp add: rpc_request_def rpc_call_inv)
next
  case (fire s a)
  then show ?case by (simp add: timer_fire_inv)
qed (auto simp: rpc_inv_def add_error_listener_def rpc_disconnect_def updateConfig_def Let_def)

lemma rpc_reach_inv: "rpc_reach s \<Longrightarrow> rpc_inv s"
proof -
  assume "rpc_reach s"
  then obtain s0 where s0: "fresh_rpc s0" "rpc_step\<^sup>*\<^sup>* s0 s" by (auto simp: rpc_reach_def)
  have "rpc_inv s0" using s0(1) by (auto simp: fresh_rpc_def new_RPCClient_def rpc_inv_def)
  with s0(2) show ?thesis by (induction rule: rtranclp_induct) (auto intro: rpc_step_inv)
qed

text \<open>What is left of a reconnection: the pending timers and the attempts still allowed.\<close>

definition budget :: "rpc \<Rightarrow> nat" where
  "budget s = timers s + (maxReconnectAttempts s - reconnectAttempts s)"

lemma timer_fire_fail:
  assumes "0 < timers s" "reconnectAttempts s \<le> maxReconnectAttempts s"
  shows "budget (timer_fire (Failure msg st) s) + 1 = budget s"
    "reconnectAttempts (timer_fire (Failure msg st) s) \<le> maxReconnectAttempts (timer_fire (Failure msg st) s)"
    "maxReconnectAttempts (timer_fire (Failure msg st) s) = maxReconnectAttempts s"
    "reconnectAttempts s < maxReconnectAttempts s \<Longrightarrow> 0 < timers (timer_fire (Failure msg st) s)"
    "reconnectAttempts s \<le> reconnectAttempts (timer_fire (Failure msg st) s)"
  using assms by (auto simp: timer_fire_def rpc_defs budget_def)

lemma fail_fire_budget:
  assumes "(fail_fire ^^ n) s s'" "reconnectAttempts s \<le> maxReconnectAttempts s"
  shows "budget s' + n = budget s \<and> reconnectAttempts s' \<le> maxReconnectAttempts s'"
  using assms(1)
proof (induction n arbitrary: s')
  case (Suc n)
  then obtain t where t: "(fail_fire ^^ n) s t" "fail_fire t s'" by auto
  from Suc.IH [OF t(1)] have "budget t + n = budget s" "reconnectAttempts t \<le> maxReconnectAttempts t" by auto
  note t' = this
  from t(2) obtain msg st where f: "0 < timers t" "s' = timer_fire (Failure msg st) t"
    by (rule fail_fireE) blast
  show ?case using timer_fire_fail(1,2) [OF f(1) t'(2), of msg st] t'(1) by (simp add: f(2))
qed (simp add: assms(2))

lemma fail_fire_exhausts:
  assumes "0 < timers s" "reconnectAttempts s \<le> maxReconnectAttempts s"
  shows "\<exists>s'. (fail_fire ^^ budget s) s s' \<and> timers s' = 0"
  using assms
proof (induction "budget s" arbitrary: s)
  case 0
  then show ?case by (simp add: budget_def)
next
  case (Suc n)
  let ?t = "timer_fire (Failure [] JUndef) s"
  note f = timer_fire_fail [OF Suc.prems, of "[]" JUndef]
  have step: "fail_fire s ?t" using Suc.prems(1) by (rule fail_fire.intros)
  have n: "n = budget ?t" using f(1) Suc.hyps(2) by simp
  show ?case
  proof (cases "timers ?t = 0")
    case True
    with f(2-5) Suc.prems(2) have "budget ?t = 0" by (force simp: budget_def)
    with n Suc.hyps(2) have "budget s = 1" by simp
    with step True show ?thesis by (auto simp: relpowp_1)
  next
    case False
    from Suc.hyps(1) [OF n] False f(2) n obtain s' where
      s': "(fail_fire ^^ n) ?t s'" "timers s' = 0" by auto
    from step s'(1) have "(fail_fire ^^ Suc n) s s'" by (rule relpowp_Suc_I2)
    with s'(2) show ?thesis using Suc.hyps(2) by metis
  qed
qed

text \<open>A node that is up but answers with an RPC error.\<close>

lemma timer_fire_rpc_error:
  assumes "0 < timers s" "decode_body d = Inl e" "0 < maxReconnectAttempts s"
  shows "timers (timer_fire (Answer d) s) = timers s"
    "reconnectAttempts (timer_fire (Answer d) s) = 1"
    "maxReconnectAttempts (timer_fire (Answer d) s) = maxReconnectAttempts s"
    "connected (timer_fire (Answer d) s)"
    "length (sent (timer_fire (Answer d) s)) = length (sent s) + 1"
  using assms by (simp_all add: timer_fire_def rpc_defs)

section \<open>Properties\<close>

text \<open>C17: In every state the client reaches, by requests with any answers, timers firing,
  listeners, configuration changes and disconnects in any order, the requests sent carry
  the ids 1, 2, 3, ... in this order, and the attempt counter is within its bound.\<close>

theorem rpc_ids_and_attempts:
  assumes "rpc_reach s"
  shows "map fst (sent s) = [1..<requestId s + 1] \<and> distinct (map fst (sent s)) \<and>
    reconnectAttempts s \<le> maxReconnectAttempts s"
  using rpc_reach_inv [OF assms] by (auto simp: rpc_inv_def)

theorem rpc_ids_and_attempts_witness:
  "let s = snd (rpc_request (Failure ''down'' JUndef) GetMiningInfo (new_RPCClient [] None None None));
       t = timer_fire (Answer JNull) s
   in reconnectAttempts t = 1 \<and> timers t = 1 \<and> distinct (map fst (sent t)) \<and>
      map fst (sent t) = [1, 2]"
proof -
  let ?i = "new_RPCClient [] None None None"
  let ?s = "snd (rpc_request (Failure ''down'' JUndef) GetMiningInfo ?i)"
  let ?t = "timer_fire (Answer JNull) ?s"
  have "rpc_step ?i ?s" by (rule rpc_step.request)
  moreover have "0 < timers ?s" by (simp add: rpc_defs new_RPCClient_def nat_or_def)
  then have "rpc_step ?s ?t" by (rule rpc_step.fire)
  ultimately have "rpc_reach ?t"
    unfolding rpc_reach_def fresh_rpc_def by (blast intro: rtranclp.rtrancl_into_rtrancl)
  from rpc_ids_and_attempts [OF this] show ?thesis
    by (simp add: rpc_defs timer_fire_def new_RPCClient_def nat_or_def decode_body_def)
qed

text \<open>C18: Reconnecting to a node that is down ends.  Whatever the failures look like and whether
  or not automatic reconnection is on, timers can fire at most as often as there are pending
  timers plus attempts left, and there is a run of exactly that many firings, after which
  no timer is pending.\<close>

theorem reconnection_terminates:
  assumes "0 < timers s" "reconnectAttempts s \<le> maxReconnectAttempts s"
    and "N = timers s + (maxReconnectAttempts s - reconnectAttempts s)"
  shows "(\<forall>n s'. (fail_fire ^^ n) s s' \<longrightarrow> n \<le> N \<and> (n = N \<longrightarrow> timers s' = 0)) \<and>
    (\<exists>s'. (fail_fire ^^ N) s s')"
proof (intro conjI allI impI)
  fix n s'
  assume "(fail_fire ^^ n) s s'"
  from fail_fire_budget [OF this assms(2)] have b: "budget s' + n = N"
    unfolding budget_def assms(3) by blast
  then show "n \<le> N" by simp
  show "timers s' = 0" if "n = N" using b that by (simp add: budget_def)
next
  show "\<exists>s'. (fail_fire ^^ N) s s'"
    using fail_fire_exhausts [OF assms(1,2)] by (auto simp: budget_def assms(3))
qed

theorem reconnection_terminates_witness:
  "let s = snd (rpc_request (Failure ''down'' JUndef) GetMiningInfo (new_RPCClient [] None None None))
   in timers s = 1 \<and> reconnectAttempts s = 1 \<and> (\<exists>t. (fail_fire ^^ 5) s t)"
proof -
  let ?s = "snd (rpc_request (Failure ''down'' JUndef) GetMiningInfo (new_RPCClient [] None None None))"
  have v: "timers ?s = 1" "reconnectAttempts ?s = 1" "maxReconnectAttempts ?s = 5"
    by (simp_all add: rpc_defs new_RPCClient_def nat_or_def)
  have p: "0 < timers ?s" "reconnectAttempts ?s \<le> maxReconnectAttempts ?s"
    "5 = timers ?s + (maxReconnectAttempts ?s - reconnectAttempts ?s)" unfolding v by simp_all
  show ?thesis unfolding Let_def
    by (intro conjI) (rule v(1), rule v(2), rule conjunct2 [OF reconnection_terminates [OF p]])
qed

text \<open>Reconnecting to a node that is up but answers every request with an RPC error (one that
  is still loading its block index) never ends.  After any number of firings as many timers
  are pending as before, one more request has been sent for each, and the client reports
  itself connected: the interceptor resets the counter that is meant to bound the retries.\<close>

theorem rpc_error_retries_forever:
  assumes "0 < timers s" "0 < maxReconnectAttempts s" "decode_body d = Inl e"
    and "t = (timer_fire (Answer d) ^^ Suc n) s"
  shows "timers t = timers s \<and> length (sent t) = length (sent s) + Suc n \<and> connected t \<and>
    maxReconnectAttempts t = maxReconnectAttempts s"
  unfolding assms(4)
proof (induction n)
  case 0
  then show ?case using timer_fire_rpc_error [OF assms(1,3,2)] by simp
next
  case (Suc n)
  let ?u = "(timer_fire (Answer d) ^^ Suc n) s"
  from Suc assms(1,2) have "0 < timers ?u" "0 < maxReconnectAttempts ?u" by simp_all
  from timer_fire_rpc_error [OF this(1) assms(3) this(2)] Suc show ?case
    by (simp add: funpow_Suc_right del: funpow.simps) (simp add: funpow_swap1)
qed

theorem rpc_error_retries_forever_witness:
  "let s = snd (rpc_request (Failure ''down'' JUndef) GetMiningInfo (new_RPCClient [] None None None));
       d = JObj [(''error'', JObj [(''code'', JInt (- 28)), (''message'', JStr ''Loading block index'')])]
   in timers ((timer_fire (Answer d) ^^ Suc 3) s) = 1"
proof -
  let ?s = "snd (rpc_request (Failure ''down'' JUndef) GetMiningInfo (new_RPCClient [] None None None))"
  let ?d = "JObj [(''error'', JObj [(''code'', JInt (- 28)), (''message'', JStr ''Loading block index'')])]"
  have v: "timers ?s = 1" "maxReconnectAttempts ?s = 5"
    by (simp_all add: rpc_defs new_RPCClient_def nat_or_def)
  have e: "decode_body ?d = Inl (RPC_Error ''RPC Error: Loading block index'' (JInt (- 28)))"
    by (simp add: decode_body_def)
  have p: "0 < timers ?s" "0 < maxReconnectAttempts ?s" by (simp_all only: v zero_less_one zero_less_numeral)
  show ?thesis unfolding Let_def
    by (rule trans [OF conjunct1 [OF rpc_error_retries_forever [OF p e refl]] v(1)])
qed

text \<open>\<open>disconnect()\<close> does not end a reconnection in progress, although it turns automatic
  reconnection off: a timer pending at the disconnect still sends its request, and when
  that fails another timer is started as long as attempts are left.  With its listeners gone,
  the client then reports the network failure as an unknown error.\<close>

theorem disconnect_keeps_retrying:
  assumes "0 < timers s" "reconnectAttempts s < maxReconnectAttempts s"
    and "t = timer_fire (Failure msg st) (rpc_disconnect s)"
  shows "timers t = timers s \<and> sent t = sent s @ [(requestId s + 1, ''getblockchaininfo'', [])] \<and>
    reconnectAttempts t = reconnectAttempts s + 1 \<and> \<not> autoReconnect t \<and>
    fst (rpc_request (Failure msg st) q t) = Inl Unknown_Error"
  using assms(1,2) by (cases "request_of q") (simp add: assms(3) timer_fire_def rpc_defs)

theorem disconnect_keeps_retrying_witness:
  "let s = snd (rpc_request (Failure ''down'' JUndef) GetMiningInfo (new_RPCClient [] None None None))
   in timers (timer_fire (Failure ''down'' JUndef) (rpc_disconnect s)) = 1"
proof -
  let ?s = "snd (rpc_request (Failure ''down'' JUndef) GetMiningInfo (new_RPCClient [] None None None))"
  have v: "timers ?s = 1" "reconnectAttempts ?s = 1" "maxReconnectAttempts ?s = 5"
    by (simp_all add: rpc_defs new_RPCClient_def nat_or_def)
  have p: "0 < timers ?s" "reconnectAttempts ?s < maxReconnectAttempts ?s" unfolding v by simp_all
  show ?thesis unfolding Let_def
    by (rule trans [OF conjunct1 [OF disconnect_keeps_retrying [OF p refl]] v(1)])
qed

end
