(* ===== verification/Marketplace.thy ===== *)
theory Marketplace
  imports Decimals Effects "HOL-Library.Multiset"
begin

text \<open>
  The NFT marketplace: the utilities and the \<open>useMarketplace\<close> hook of
  sdk-core/marketplace-ui/index.js and the client API of sdk-core/marketplace-api/index.js.

  NFTs, filters and transactions are objects, so a missing field reads as undefined and
  calling a method on it throws.  Two functions of the platform are arguments: \<open>date\<close>, the
  time value of \<open>new Date(v)\<close>, whose parsing of strings is left to implementations, and
  \<open>srt\<close>, the algorithm of \<open>Array.prototype.sort\<close>, of which only a permutation is known
  when the comparator is inconsistent.
\<close>

section \<open>Formatting and validation\<close>

type_synonym nft = fields

definition formatPrice :: "jsnum \<Rightarrow> string" where
  "formatPrice satoshis = to_fixed 8 (num_div satoshis (Fin 100000000)) @ '' SHAH''"

definition formatAddress :: "jv \<Rightarrow> js_error + jv" where
  "formatAddress a =
     (if \<not> truthy a \<or> js_lt (jopt a ''length'') (JInt 8) then Inr a
      else case a of JStr s \<Rightarrow> Inr (JStr (take 6 s @ ''...'' @ drop (length s - 4) s))
           | _ \<Rightarrow> Inl (TypeError ''address.slice is not a function''))"

definition missing_fields :: "string list \<Rightarrow> fields \<Rightarrow> string list" where
  "missing_fields required ob = filter (\<lambda>f. \<not> truthy (obj_get ob f)) required"

definition nft_required :: "string list" where
  "nft_required = [''id'', ''name'', ''description'', ''imageUrl'', ''creator'', ''owner'']"

definition validateNFTData :: "nft \<Rightarrow> js_error + bool" where
  "validateNFTData nft = (let missing = missing_fields nft_required nft in
     if missing \<noteq> [] then Inl (Error (''Missing required NFT fields: '' @ join_with '', '' missing))
     else Inr True)"

definition config_required :: "string list" where
  "config_required = [''apiBaseUrl'', ''walletAddress'']"

definition validateConfig :: "fields \<Rightarrow> js_error + bool" where
  "validateConfig config = (let missing = missing_fields config_required config in
     if missing \<noteq> [] then Inl (Error (''Missing required configuration: '' @ join_with '', '' missing))
     else Inr True)"

definition MarketplaceConfig_defaults :: fields where
  "MarketplaceConfig_defaults =
     [(''apiBaseUrl'', JStr ''https://api.shah.vip/marketplace''), (''refreshInterval'', JInt 30000),
      (''maxRetries'', JInt 3), (''timeout'', JInt 10000), (''itemsPerPage'', JInt 20),
      (''enableAnalytics'', JBool True), (''enableFavorites'', JBool True), (''enableSearch'', JBool True),
      (''enableFilters'', JBool True), (''enableBulkOperations'', JBool True),
      (''enableAdvancedFilters'', JBool True)]"

definition MarketplaceConfig_create :: "fields \<Rightarrow> fields" where
  "MarketplaceConfig_create userConfig = obj_spread (obj_spread [] MarketplaceConfig_defaults) userConfig"

section \<open>Fallible list functions\<close>

text \<open>The callback of an array function may throw, which ends the array function.\<close>

fun filter_res :: "('a \<Rightarrow> js_error + bool) \<Rightarrow> 'a list \<Rightarrow> js_error + 'a list" where
  "filter_res p [] = Inr []"
| "filter_res p (x # xs) = (case p x of Inl e \<Rightarrow> Inl e
     | Inr b \<Rightarrow> (case filter_res p xs of Inl e \<Rightarrow> Inl e | Inr ys \<Rightarrow> Inr (if b then x # ys else ys)))"

fun map_res :: "('a \<Rightarrow> js_error + 'b) \<Rightarrow> 'a list \<Rightarrow> js_error + 'b list" where
  "map_res f [] = Inr []"
| "map_res f (x # xs) = (case f x of Inl e \<Rightarrow> Inl e
     | Inr y \<Rightarrow> (case map_res f xs of Inl e \<Rightarrow> Inl e | Inr ys \<Rightarrow> Inr (y # ys)))"

fun some_res :: "('a \<Rightarrow> js_error + bool) \<Rightarrow> 'a list \<Rightarrow> js_error + bool" where
  "some_res p [] = Inr False"
| "some_res p (x # xs) = (case p x of Inl e \<Rightarrow> Inl e | Inr b \<Rightarrow> if b then Inr True else some_res p xs)"

fun every_res :: "('a \<Rightarrow> js_error + bool) \<Rightarrow> 'a list \<Rightarrow> js_error + bool" where
  "every_res p [] = Inr True"
| "every_res p (x # xs) = (case p x of Inl e \<Rightarrow> Inl e | Inr b \<Rightarrow> if b then every_res p xs else Inr False)"

section \<open>Rarity\<close>

definition trait_label :: "jv \<Rightarrow> js_error + string" where
  "trait_label t = (case jget t ''type'' of Inl e \<Rightarrow> Inl e
     | Inr k \<Rightarrow> Inr (to_str k @ '':'' @ to_str (jopt t ''value'')))"

definition calculateRarityScore :: "nft \<Rightarrow> js_error + jsnum" where
  "calculateRarityScore nft = (let ts = obj_get nft ''traits'' in
     if \<not> truthy ts \<or> strict_eq (jopt ts ''length'') (JInt 0) then Inr (Fin 0)
     else case ts of
       JArr xs \<Rightarrow> (case map_res trait_label xs of Inl e \<Rightarrow> Inl e
         | Inr ls \<Rightarrow> Inr (num_div (Fin (of_nat (length xs * length (remdups ls)))) (Fin 100)))
     | _ \<Rightarrow> Inl (TypeError ''nft.traits.map is not a function''))"

section \<open>Sorting\<close>

definition lower_case :: "jv \<Rightarrow> js_error + jv" where
  "lower_case v = (case v of JStr s \<Rightarrow> Inr (JStr (to_lower s))
     | _ \<Rightarrow> (case jget v ''toLowerCase'' of Inl e \<Rightarrow> Inl e
              | Inr _ \<Rightarrow> Inl (TypeError ''toLowerCase is not a function'')))"

definition sort_key :: "(jv \<Rightarrow> jsnum) \<Rightarrow> string \<Rightarrow> nft \<Rightarrow> js_error + jv" where
  "sort_key date sortBy a =
     (if sortBy = ''price'' then Inr (js_or (obj_get a ''listPriceSatoshis'') (JInt 0))
      else if sortBy = ''name'' then lower_case (obj_get a ''name'')
      else if sortBy = ''mintDate'' then Inr (JNum (date (obj_get a ''mintDate'')))
      else if sortBy = ''creator'' then lower_case (obj_get a ''creator'')
      else if sortBy = ''rarity'' then map_sum id JNum (calculateRarityScore a)
      else Inr (js_or (obj_get a ''listPriceSatoshis'') (JInt 0)))"

text \<open>The comparator, on NFTs paired with their keys.\<close>

definition sort_cmp :: "string \<Rightarrow> jv \<times> nft \<Rightarrow> jv \<times> nft \<Rightarrow> int" where
  "sort_cmp sortOrder a b =
     (if sortOrder = ''asc'' then (if js_lt (fst b) (fst a) then 1 else - 1)
      else (if js_lt (fst a) (fst b) then 1 else - 1))"

type_synonym 'a sorter = "('a \<Rightarrow> 'a \<Rightarrow> int) \<Rightarrow> 'a list \<Rightarrow> 'a list"

text \<open>The comparator runs only for two or more elements, on every one of them.\<close>

definition sortNFTs :: "(jv \<times> nft) sorter \<Rightarrow> (jv \<Rightarrow> jsnum) \<Rightarrow> nft list \<Rightarrow> string \<Rightarrow> string \<Rightarrow> js_error + nft list" where
  "sortNFTs srt date nfts sortBy sortOrder =
     (if length nfts < 2 then Inr nfts
      else case map_res (sort_key date sortBy) nfts of Inl e \<Rightarrow> Inl e
        | Inr ks \<Rightarrow> Inr (map snd (srt (sort_cmp sortOrder) (zip ks nfts))))"

definition permutes :: "'a sorter \<Rightarrow> bool" where
  "permutes srt = (\<forall>cmp xs. mset (srt cmp xs) = mset xs)"

section \<open>Filtering\<close>

definition text_includes :: "jv \<Rightarrow> string \<Rightarrow> js_error + bool" where
  "text_includes v query = (case lower_case v of Inl e \<Rightarrow> Inl e
     | Inr s \<Rightarrow> Inr (str_includes (to_str s) query))"

definition search_match :: "string \<Rightarrow> nft \<Rightarrow> js_error + bool" where
  "search_match query nft = some_res (\<lambda>f.
      if f = ''category'' \<and> (obj_get nft f = JUndef \<or> obj_get nft f = JNull) then Inr False
      else text_includes (obj_get nft f) query)
    [''name'', ''description'', ''creator'', ''category'']"

definition trait_eq :: "jv \<Rightarrow> jv \<Rightarrow> js_error + bool" where
  "trait_eq trait nftTrait =
     (case (jget nftTrait ''type'', jget trait ''type'') of
        (Inr a, Inr b) \<Rightarrow> Inr (strict_eq a b \<and> strict_eq (jopt nftTrait ''value'') (jopt trait ''value''))
      | (Inl e, _) \<Rightarrow> Inl e | (_, Inl e) \<Rightarrow> Inl e)"

definition has_trait :: "nft \<Rightarrow> jv \<Rightarrow> js_error + bool" where
  "has_trait nft trait = (case obj_get nft ''traits'' of
       JArr xs \<Rightarrow> some_res (trait_eq trait) xs
     | v \<Rightarrow> if truthy v then Inl (TypeError ''nft.traits.some is not a function'') else Inr False)"

definition traits_match :: "jv \<Rightarrow> nft \<Rightarrow> js_error + bool" where
  "traits_match traits nft = (case traits of JArr ts \<Rightarrow> every_res (has_trait nft) ts
     | _ \<Rightarrow> Inl (TypeError ''filters.traits.every is not a function''))"

text \<open>One stage per filter: whether the filter is set, and the predicate it filters by.\<close>

definition filter_stages :: "(jv \<Rightarrow> jsnum) \<Rightarrow> fields \<Rightarrow> (bool \<times> (nft \<Rightarrow> js_error + bool)) list" where
  "filter_stages date f = (let g = obj_get f; on = (\<lambda>k. truthy (obj_get f k)) in
    [(on ''search'', \<lambda>n. case lower_case (g ''search'') of Inl e \<Rightarrow> Inl e | Inr q \<Rightarrow> search_match (to_str q) n),
     (on ''category'', \<lambda>n. Inr (strict_eq (obj_get n ''category'') (g ''category''))),
     (on ''creator'', \<lambda>n. Inr (strict_eq (obj_get n ''creator'') (g ''creator''))),
     (on ''minPrice'', \<lambda>n. Inr (js_le (g ''minPrice'') (obj_get n ''listPriceSatoshis''))),
     (on ''maxPrice'', \<lambda>n. Inr (js_le (obj_get n ''listPriceSatoshis'') (g ''maxPrice''))),
     (on ''verifiedOnly'', \<lambda>n. Inr (truthy (obj_get n ''isVerified''))),
     (on ''owner'', \<lambda>n. Inr (strict_eq (obj_get n ''owner'') (g ''owner''))),
     (on ''favoritedOnly'', \<lambda>n. Inr (truthy (obj_get n ''isFavorited''))),
     (on ''hasUnlockableContent'', \<lambda>n. Inr (truthy (obj_get n ''hasUnlockableContent''))),
     (on ''isTradeLocked'', \<lambda>n. Inr (truthy (obj_get n ''isTradeLocked''))),
     (on ''minMintDate'', \<lambda>n. Inr (num_le (to_number (g ''minMintDate'')) (date (obj_get n ''mintDate'')))),
     (on ''maxMintDate'', \<lambda>n. Inr (num_le (date (obj_get n ''mintDate'')) (to_number (g ''maxMintDate'')))),
     (on ''traits'' \<and> js_lt (JInt 0) (jopt (g ''traits'') ''length''), traits_match (g ''traits''))])"

text \<open>The search text is converted before the first NFT is looked at, so a search that is
  not a string throws even on an empty list.\<close>

definition search_ok :: "fields \<Rightarrow> js_error + unit" where
  "search_ok f = (if truthy (obj_get f ''search'') then map_sum id (\<lambda>_. ()) (lower_case (obj_get f ''search''))
                  else Inr ())"

fun run_stages :: "(bool \<times> ('a \<Rightarrow> js_error + bool)) list \<Rightarrow> 'a list \<Rightarrow> js_error + 'a list" where
  "run_stages [] xs = Inr xs"
| "run_stages ((on, p) # st) xs =
     (case (if on then filter_res p xs else Inr xs) of Inl e \<Rightarrow> Inl e | Inr ys \<Rightarrow> run_stages st ys)"

definition filterNFTs :: "(jv \<Rightarrow> jsnum) \<Rightarrow> nft list \<Rightarrow> fields \<Rightarrow> js_error + nft list" where
  "filterNFTs date nfts filters = (case search_ok filters of Inl e \<Rightarrow> Inl e
     | Inr _ \<Rightarrow> run_stages (filter_stages date filters) nfts)"

section \<open>Analytics\<close>

definition since :: "(jv \<Rightarrow> jsnum) \<Rightarrow> jsnum \<Rightarrow> fields list \<Rightarrow> fields list" where
  "since date t txs = filter (\<lambda>tx. num_le t (date (obj_get tx ''timestamp''))) txs"

definition tx_amount :: "fields \<Rightarrow> jv" where
  "tx_amount tx = js_or (obj_get tx ''amountSatoshis'') (JInt 0)"

definition volume :: "fields list \<Rightarrow> jv" where
  "volume txs = foldl (\<lambda>sum tx. js_plus sum (tx_amount tx)) (JInt 0) txs"

definition average :: "jv \<Rightarrow> nat \<Rightarrow> jv" where
  "average v n = (if n > 0 then JNum (num_div (to_number v) (Fin (of_nat n))) else JInt 0)"

text \<open>Summing up under a key; an assignment to \<open>__proto__\<close> of a non-object does nothing.\<close>

definition tally_add :: "fields \<Rightarrow> string \<times> jv \<Rightarrow> fields" where
  "tally_add acc kv = (if fst kv = ''__proto__'' then acc
     else obj_set acc (fst kv) (js_plus (js_or (obj_get acc (fst kv)) (JInt 0)) (snd kv)))"

definition tally :: "(string \<times> jv) list \<Rightarrow> fields" where
  "tally kvs = foldl tally_add [] kvs"

definition creatorVolumes :: "fields list \<Rightarrow> fields" where
  "creatorVolumes txs = tally (map (\<lambda>tx. (to_str (obj_get tx ''creator''), tx_amount tx))
     (filter (\<lambda>tx. truthy (obj_get tx ''creator'')) txs))"

definition categoryCounts :: "nft list \<Rightarrow> fields" where
  "categoryCounts nfts = tally (map (\<lambda>n. (to_str (obj_get n ''category''), JInt 1))
     (filter (\<lambda>n. truthy (obj_get n ''category'')) nfts))"

definition top_entries :: "(string \<times> jv) sorter \<Rightarrow> string \<Rightarrow> string \<Rightarrow> fields \<Rightarrow> jv" where
  "top_entries srt k v fs = JArr (map (\<lambda>(a, b). JObj [(k, JStr a), (v, b)])
     (take 10 (srt (\<lambda>a b. num_sgn (num_sub (to_number (snd b)) (to_number (snd a)))) fs)))"

definition day_ms :: jsnum where
  "day_ms = Fin (24 * 60 * 60 * 1000)"

definition generateAnalytics ::
  "(string \<times> jv) sorter \<Rightarrow> (jv \<Rightarrow> jsnum) \<Rightarrow> jsnum \<Rightarrow> nft list \<Rightarrow> fields list \<Rightarrow> fields" where
  "generateAnalytics srt date now nfts transactions =
     (let t24 = since date (num_sub now day_ms) transactions;
          t7 = since date (num_sub now (num_mul (Fin 7) day_ms)) transactions
      in [(''totalVolume24h'', volume t24), (''totalVolume7d'', volume t7),
          (''totalTransactions24h'', JInt (int (length t24))), (''totalTransactions7d'', JInt (int (length t7))),
          (''averagePrice24h'', average (volume t24) (length t24)),
          (''averagePrice7d'', average (volume t7) (length t7)),
          (''topCreators'', top_entries srt ''address'' ''volume'' (creatorVolumes transactions)),
          (''topCategories'', top_entries srt ''name'' ''count'' (categoryCounts nfts))])"

section \<open>Transactions\<close>

text \<open>\<open>wallet\<close> says whether a provider with a \<open>createTransaction\<close> function is present.\<close>

definition sign_or_return :: "env \<Rightarrow> bool \<Rightarrow> jv \<Rightarrow> ('s, jv) js" where
  "sign_or_return env wallet d =
     (if wallet then js_ext env (Call ''walletProvider.createTransaction'' [d]) else js_return d)"

definition createPurchaseTransaction :: "env \<Rightarrow> bool \<Rightarrow> nft \<Rightarrow> jv \<Rightarrow> ('s, jv) js" where
  "createPurchaseTransaction env wallet nft buyerAddress = js_catch
     (js_bind (js_lift (validateNFTData nft)) (\<lambda>_.
      js_bind (js_ext env (Call ''toISOString'' [])) (\<lambda>ts.
      sign_or_return env wallet (JObj [(''nftId'', obj_get nft ''id''), (''sellerAddress'', obj_get nft ''owner''),
        (''buyerAddress'', buyerAddress), (''priceSatoshis'', obj_get nft ''listPriceSatoshis''),
        (''timestamp'', ts), (''type'', JStr ''purchase'')]))))
     js_throw"

definition createTransferTransaction :: "env \<Rightarrow> bool \<Rightarrow> nft \<Rightarrow> jv \<Rightarrow> jv \<Rightarrow> ('s, jv) js" where
  "createTransferTransaction env wallet nft fromAddress toAddress = js_catch
     (js_bind (js_lift (validateNFTData nft)) (\<lambda>_.
      if \<not> strict_eq (obj_get nft ''owner'') fromAddress
      then js_throw (Error ''NFT is not owned by the specified address'')
      else js_bind (js_ext env (Call ''toISOString'' [])) (\<lambda>ts.
        sign_or_return env wallet (JObj [(''nftId'', obj_get nft ''id''), (''fromAddress'', fromAddress),
          (''toAddress'', toAddress), (''timestamp'', ts), (''type'', JStr ''transfer'')]))))
     js_throw"

section \<open>The hook useMarketplace\<close>

record market =
  mp_nfts :: jv
  mp_loading :: bool
  mp_error :: jv
  mp_analytics :: jv

definition new_market :: market where
  "new_market = \<lparr>mp_nfts = JArr [], mp_loading = True, mp_error = JNull, mp_analytics = JNull\<rparr>"

definition loadNFTs :: "env \<Rightarrow> fields \<Rightarrow> (market, unit) js" where
  "loadNFTs env config = js_finally (js_catch
     (js_bind (js_update (\<lambda>s. s\<lparr>mp_loading := True, mp_error := JNull\<rparr>)) (\<lambda>_.
      js_bind (js_ext env (Call ''marketplaceAPI.getVerifiedNFTs'' [])) (\<lambda>d.
      js_bind (js_update (\<lambda>s. s\<lparr>mp_nfts := d\<rparr>)) (\<lambda>_.
      if truthy (obj_get config ''enableAnalytics'')
      then js_bind (js_ext env (Call ''marketplaceAPI.getAnalytics'' [])) (\<lambda>a.
           js_update (\<lambda>s. s\<lparr>mp_analytics := a\<rparr>))
      else js_return ()))))
     (\<lambda>e. js_update (\<lambda>s. s\<lparr>mp_error := JStr (message e)\<rparr>)))
     (\<lambda>s. s\<lparr>mp_loading := False\<rparr>)"

definition fail_with :: "js_error \<Rightarrow> (market, 'a) js" where
  "fail_with e = js_bind (js_update (\<lambda>s. s\<lparr>mp_error := JStr (message e)\<rparr>)) (\<lambda>_. js_throw e)"

definition purchaseNFT :: "env \<Rightarrow> fields \<Rightarrow> bool \<Rightarrow> nft \<Rightarrow> (market, jv) js" where
  "purchaseNFT env config wallet nft = js_catch
     (js_bind (createPurchaseTransaction env wallet nft (obj_get config ''walletAddress'')) (\<lambda>tx.
      js_bind (js_ext env (Call ''marketplaceAPI.recordPurchase'' [tx])) (\<lambda>_.
      js_bind (loadNFTs env config) (\<lambda>_. js_return tx))))
     fail_with"

definition transferNFT :: "env \<Rightarrow> fields \<Rightarrow> bool \<Rightarrow> nft \<Rightarrow> jv \<Rightarrow> (market, jv) js" where
  "transferNFT env config wallet nft toAddress = js_catch
     (js_bind (createTransferTransaction env wallet nft (obj_get config ''walletAddress'') toAddress) (\<lambda>tx.
      js_bind (js_ext env (Call ''marketplaceAPI.recordTransfer'' [tx])) (\<lambda>_.
      js_bind (loadNFTs env config) (\<lambda>_. js_return tx))))
     fail_with"

definition toggleFavorite :: "env \<Rightarrow> fields \<Rightarrow> nft \<Rightarrow> (market, unit) js" where
  "toggleFavorite env config nft = js_catch
     (js_bind (js_ext env (Call ''marketplaceAPI.toggleFavorite'' [obj_get nft ''id'', obj_get config ''walletAddress'']))
       (\<lambda>_. loadNFTs env config))
     fail_with"

section \<open>The client API\<close>

definition js_and :: "jv \<Rightarrow> jv \<Rightarrow> jv" where
  "js_and a b = (if truthy a then b else a)"

definition is_object :: "jv \<Rightarrow> bool" where
  "is_object v = (case v of JObj _ \<Rightarrow> True | JArr _ \<Rightarrow> True | JNull \<Rightarrow> True | _ \<Rightarrow> False)"

definition nft_tier :: "nft \<Rightarrow> jv" where
  "nft_tier n = (let md = obj_get n ''metadata'' in js_or (obj_get n ''tier'') (js_and md (jopt md ''tier'')))"

definition isVerified :: "nft \<Rightarrow> bool" where
  "isVerified n =
     (let md = obj_get n ''metadata''; tier = js_or (nft_tier n) (JStr ''Basic'');
          hasSchema = truthy md \<and> is_object md;
          adminVerified = truthy md \<and> truthy (jopt md ''adminVerified'')
      in adminVerified \<or> ((tier = JStr ''Pro'' \<or> tier = JStr ''Premium'') \<and> hasSchema))"

definition sample_nfts :: "nft list" where
  "sample_nfts =
     [[(''id'', JStr ''NFT_001''), (''name'', JStr ''Shahcoin Genesis NFT''),
       (''description'', JStr ''The first NFT ever minted on Shahcoin''), (''imageURI'', JStr []),
       (''creator'', JStr ''S1a2h3c4o5i6n7G8e9n0e''), (''owner'', JStr ''S1a2h3c4o5i6n7G8e9n0e''),
       (''blockCreated'', JInt 12340),
       (''metadata'', JObj [(''tier'', JStr ''Premium''), (''rarity'', JStr ''legendary''), (''adminVerified'', JBool True)]),
       (''tier'', JStr ''Premium''), (''verified'', JBool True)],
      [(''id'', JStr ''NFT_002''), (''name'', JStr ''Shahcoin Art Collection #1''),
       (''description'', JStr ''Beautiful digital art piece''), (''imageURI'', JStr []),
       (''creator'', JStr ''S1a2h3c4o5i6n7A8r9t0i''), (''owner'', JStr ''S1a2h3c4o5i6n7C0o1l2l3e''),
       (''blockCreated'', JInt 12355),
       (''metadata'', JObj [(''tier'', JStr ''Basic''), (''rarity'', JStr ''rare'')]),
       (''tier'', JStr ''Basic''), (''verified'', JBool False)]]"

definition js_slice :: "nat \<Rightarrow> nat \<Rightarrow> 'a list \<Rightarrow> 'a list" where
  "js_slice a b xs = take (b - a) (drop a xs)"

definition getAllNFTs :: "nat \<Rightarrow> nat \<Rightarrow> fields \<Rightarrow> nft list" where
  "getAllNFTs limit offset filters =
     (let byCreator = (if truthy (obj_get filters ''creator'')
            then filter (\<lambda>n. strict_eq (obj_get n ''creator'') (obj_get filters ''creator'')) sample_nfts
            else sample_nfts);
          byTier = (if truthy (obj_get filters ''tier'')
            then filter (\<lambda>n. strict_eq (nft_tier n) (obj_get filters ''tier'')) byCreator else byCreator)
      in js_slice offset (offset + limit) byTier)"

definition getVerifiedNFTs :: "nat \<Rightarrow> nat \<Rightarrow> fields \<Rightarrow> nft list" where
  "getVerifiedNFTs limit offset filters =
     js_slice offset (offset + limit) (filter isVerified (getAllNFTs 1000 0 filters))"

definition getCreatorProfile :: "jv \<Rightarrow> fields" where
  "getCreatorProfile address =
     (let totalMinted = length (getAllNFTs 1000 0 [(''creator'', address)]); trusted = totalMinted \<ge> 10
      in [(''address'', address), (''totalMinted'', JInt (int totalMinted)), (''salesVolumeUSD'', JInt 0),
          (''averagePriceUSD'', JInt 0), (''refundComplaints'', JInt 0), (''trustedCreator'', JBool trusted),
          (''badges'', JArr (if trusted then [JStr ''Trusted Creator''] else []))])"

text \<open>\<open>JSON.stringify\<close> of an object literal built from destructured names leaves out the
  undefined ones.\<close>

definition json_body :: "string list \<Rightarrow> fields \<Rightarrow> jv" where
  "json_body ks src = JObj (filter (\<lambda>(k, v). v \<noteq> JUndef) (map (\<lambda>k. (k, obj_get src k)) ks))"

definition api_post :: "env \<Rightarrow> string \<Rightarrow> string \<Rightarrow> jv \<Rightarrow> ('s, jv) js" where
  "api_post env url label body = js_catch
     (js_bind (js_ext env (Call ''fetch'' [JStr url, body])) (\<lambda>res.
      js_bind (js_get res ''ok'') (\<lambda>ok.
      if \<not> truthy ok then js_throw (Error (label @ to_str (jopt res ''status'')))
      else js_ext env (Call ''res.json'' [res]))))
     (\<lambda>e. js_return (JObj [(''ok'', JBool False), (''error'', JStr (message e))]))"

definition submitListing :: "env \<Rightarrow> string \<Rightarrow> fields \<Rightarrow> ('s, jv) js" where
  "submitListing env base l = api_post env (base @ ''/listings'') ''Listing failed: ''
     (json_body [''nftId'', ''title'', ''description'', ''category'', ''tags'', ''priceSatoshis'',
        ''priceUSD'', ''submitForVerification''] l)"

definition recordPurchase :: "env \<Rightarrow> string \<Rightarrow> fields \<Rightarrow> ('s, jv) js" where
  "recordPurchase env base p = api_post env (base @ ''/purchases'') ''Purchase record failed: ''
     (json_body [''nftId'', ''buyer'', ''priceSatoshis'', ''priceUSD'', ''txid''] p)"

definition setAdminVerificationFlag :: "env \<Rightarrow> string \<Rightarrow> fields \<Rightarrow> ('s, jv) js" where
  "setAdminVerificationFlag env base v = api_post env (base @ ''/verify'') ''Verify flag failed: ''
     (json_body [''nftId'', ''adminVerified''] v)"

section \<open>Specifications\<close>

text \<open>Well-typed NFTs and filters, as \<open>MarketplaceTypes\<close> describes them.\<close>

definition is_str :: "jv \<Rightarrow> bool" where
  "is_str v = (case v of JStr _ \<Rightarrow> True | _ \<Rightarrow> False)"

definition nullish :: "jv \<Rightarrow> bool" where
  "nullish v = (v = JUndef \<or> v = JNull)"

definition traits_ok :: "jv \<Rightarrow> bool" where
  "traits_ok v = (case v of JArr ts \<Rightarrow> list_all (\<lambda>t. \<not> nullish t) ts | _ \<Rightarrow> nullish v)"

definition nft_ok :: "nft \<Rightarrow> bool" where
  "nft_ok n = (is_str (obj_get n ''name'') \<and> is_str (obj_get n ''description'') \<and> is_str (obj_get n ''creator'') \<and>
     (is_str (obj_get n ''category'') \<or> nullish (obj_get n ''category'')) \<and> traits_ok (obj_get n ''traits''))"

definition filters_ok :: "fields \<Rightarrow> bool" where
  "filters_ok f = ((is_str (obj_get f ''search'') \<or> nullish (obj_get f ''search'')) \<and> traits_ok (obj_get f ''traits''))"

text \<open>What it means for an NFT to match the filters.\<close>

definition elems :: "jv \<Rightarrow> jv list" where
  "elems v = (case v of JArr xs \<Rightarrow> xs | _ \<Rightarrow> [])"

definition mentions :: "string \<Rightarrow> jv \<Rightarrow> bool" where
  "mentions q v = (case v of JStr s \<Rightarrow> str_includes (to_lower s) q | _ \<Rightarrow> False)"

definition same_trait :: "jv \<Rightarrow> jv \<Rightarrow> bool" where
  "same_trait t t' = (strict_eq (jopt t' ''type'') (jopt t ''type'') \<and> strict_eq (jopt t' ''value'') (jopt t ''value''))"

definition nft_matches :: "(jv \<Rightarrow> jsnum) \<Rightarrow> fields \<Rightarrow> nft \<Rightarrow> bool" where
  "nft_matches date f n = (let want = (\<lambda>k. truthy (obj_get f k)) in
     (want ''search'' \<longrightarrow> list_ex (\<lambda>k. mentions (to_lower (to_str (obj_get f ''search''))) (obj_get n k))
                         [''name'', ''description'', ''creator'', ''category'']) \<and>
     (want ''category'' \<longrightarrow> strict_eq (obj_get n ''category'') (obj_get f ''category'')) \<and>
     (want ''creator'' \<longrightarrow> strict_eq (obj_get n ''creator'') (obj_get f ''creator'')) \<and>
     (want ''minPrice'' \<longrightarrow> js_le (obj_get f ''minPrice'') (obj_get n ''listPriceSatoshis'')) \<and>
     (want ''maxPrice'' \<longrightarrow> js_le (obj_get n ''listPriceSatoshis'') (obj_get f ''maxPrice'')) \<and>
     (want ''verifiedOnly'' \<longrightarrow> truthy (obj_get n ''isVerified'')) \<and>
     (want ''owner'' \<longrightarrow> strict_eq (obj_get n ''owner'') (obj_get f ''owner'')) \<and>
     (want ''favoritedOnly'' \<longrightarrow> truthy (obj_get n ''isFavorited'')) \<and>
     (want ''hasUnlockableContent'' \<longrightarrow> truthy (obj_get n ''hasUnlockableContent'')) \<and>
     (want ''isTradeLocked'' \<longrightarrow> truthy (obj_get n ''isTradeLocked'')) \<and>
     (want ''minMintDate'' \<longrightarrow> num_le (to_number (obj_get f ''minMintDate'')) (date (obj_get n ''mintDate''))) \<and>
     (want ''maxMintDate'' \<longrightarrow> num_le (date (obj_get n ''mintDate'')) (to_number (obj_get f ''maxMintDate''))) \<and>
     list_all (\<lambda>t. list_ex (same_trait t) (elems (obj_get n ''traits''))) (elems (obj_get f ''traits'')))"

definition tx_ok :: "fields \<Rightarrow> bool" where
  "tx_ok tx = ((case obj_get tx ''creator'' of JStr c \<Rightarrow> c \<notin> set proto_keys | v \<Rightarrow> nullish v) \<and>
     (case obj_get tx ''amountSatoshis'' of JNum (Fin _) \<Rightarrow> True | v \<Rightarrow> nullish v))"

definition satoshis :: "fields \<Rightarrow> rat" where
  "satoshis tx = (case obj_get tx ''amountSatoshis'' of JNum (Fin a) \<Rightarrow> a | _ \<Rightarrow> 0)"

section \<open>Library\<close>

lemma filter_res_total:
  "(\<And>x. x \<in> set xs \<Longrightarrow> p x = Inr (q x)) \<Longrightarrow> filter_res p xs = Inr (filter q xs)"
  by (induction xs) auto

lemma some_res_total:
  "(\<And>x. x \<in> set xs \<Longrightarrow> p x = Inr (q x)) \<Longrightarrow> some_res p xs = Inr (list_ex q xs)"
  by (induction xs) auto

lemma every_res_total:
  "(\<And>x. x \<in> set xs \<Longrightarrow> p x = Inr (q x)) \<Longrightarrow> every_res p xs = Inr (list_all q xs)"
  by (induction xs) auto

text \<open>Stages that do not throw compose to one filter by the conjunction of their predicates.\<close>

lemma run_stages_total:
  assumes "list_all2 (\<lambda>(on, p) q. \<forall>x\<in>A. if on then p x = Inr (q x) else q x) st qs" "set xs \<subseteq> A"
  shows "run_stages st xs = Inr (filter (\<lambda>x. list_all (\<lambda>q. q x) qs) xs)"
  using assms
proof (induction st qs arbitrary: xs rule: list_all2_induct)
  case (Cons s st q qs)
  obtain on p where s: "s = (on, p)" by (cases s)
  have "(if on then filter_res p xs else Inr xs) = Inr (filter q xs)"
  proof (cases on)
    case True
    have "filter_res p xs = Inr (filter q xs)"
      by (rule filter_res_total) (use Cons(1,4) True in \<open>auto simp: s\<close>)
    with True show ?thesis by simp
  next
    case False
    have "filter q xs = xs" by (rule filter_True) (use Cons(1,4) False in \<open>auto simp: s\<close>)
    with False show ?thesis by simp
  qed
  moreover have "run_stages st (filter q xs) = Inr (filter (\<lambda>x. list_all (\<lambda>q. q x) qs) (filter q xs))"
    by (rule Cons.IH) (use Cons.prems in auto)
  ultimately show ?case by (simp add: s conj_commute)
qed simp

lemma lower_case_str: "is_str v \<Longrightarrow> lower_case v = Inr (JStr (to_lower (to_str v)))"
  by (cases v) (auto simp: is_str_def lower_case_def)

lemma text_includes_str: "is_str v \<Longrightarrow> text_includes v q = Inr (mentions q v)"
  by (cases v) (auto simp: is_str_def lower_case_def text_includes_def mentions_def)

lemma search_field:
  "is_str v \<or> (f = ''category'' \<and> nullish v) \<Longrightarrow>
   (if f = ''category'' \<and> (v = JUndef \<or> v = JNull) then Inr False else text_includes v q) = Inr (mentions q v)"
  by (cases v) (simp_all add: is_str_def nullish_def mentions_def text_includes_str)

lemma search_match_ok:
  assumes "nft_ok n"
  shows "search_match q n = Inr (list_ex (\<lambda>k. mentions q (obj_get n k)) [''name'', ''description'', ''creator'', ''category''])"
  unfolding search_match_def
proof (rule some_res_total, rule search_field)
  fix k assume "k \<in> set [''name'', ''description'', ''creator'', ''category'']"
  then consider "k = ''name''" | "k = ''description''" | "k = ''creator''" | "k = ''category''" by auto
  then show "is_str (obj_get n k) \<or> (k = ''category'' \<and> nullish (obj_get n k))"
    by cases (use assms in \<open>simp_all only: nft_ok_def simp_thms\<close>)
qed

lemma trait_eq_ok: "\<not> nullish t \<Longrightarrow> \<not> nullish t' \<Longrightarrow> trait_eq t t' = Inr (same_trait t t')"
  by (simp add: trait_eq_def same_trait_def nullish_def jget_jopt)

lemma has_trait_ok:
  assumes "traits_ok (obj_get n ''traits'')" "\<not> nullish t"
  shows "has_trait n t = Inr (list_ex (same_trait t) (elems (obj_get n ''traits'')))"
  using assms some_res_total [of _ "trait_eq t" "same_trait t"]
  by (auto simp: has_trait_def traits_ok_def elems_def nullish_def list_all_iff trait_eq_ok split: jv.splits)

lemma traits_match_ok:
  assumes "traits_ok (obj_get n ''traits'')" "traits_ok (JArr ts)"
  shows "traits_match (JArr ts) n = Inr (list_all (\<lambda>t. list_ex (same_trait t) (elems (obj_get n ''traits''))) ts)"
  unfolding traits_match_def jv.case
  by (rule every_res_total) (use assms in \<open>simp add: has_trait_ok traits_ok_def list_all_iff\<close>)

text \<open>The predicate of each stage on well-typed NFTs; an unset filter accepts everything.\<close>

definition stage_specs :: "(jv \<Rightarrow> jsnum) \<Rightarrow> fields \<Rightarrow> (nft \<Rightarrow> bool) list" where
  "stage_specs date f = (let g = obj_get f; on = (\<lambda>k. truthy (obj_get f k)) in
    [\<lambda>n. on ''search'' \<longrightarrow> list_ex (\<lambda>k. mentions (to_lower (to_str (g ''search''))) (obj_get n k))
           [''name'', ''description'', ''creator'', ''category''],
     \<lambda>n. on ''category'' \<longrightarrow> strict_eq (obj_get n ''category'') (g ''category''),
     \<lambda>n. on ''creator'' \<longrightarrow> strict_eq (obj_get n ''creator'') (g ''creator''),
     \<lambda>n. on ''minPrice'' \<longrightarrow> js_le (g ''minPrice'') (obj_get n ''listPriceSatoshis''),
     \<lambda>n. on ''maxPrice'' \<longrightarrow> js_le (obj_get n ''listPriceSatoshis'') (g ''maxPrice''),
     \<lambda>n. on ''verifiedOnly'' \<longrightarrow> truthy (obj_get n ''isVerified''),
     \<lambda>n. on ''owner'' \<longrightarrow> strict_eq (obj_get n ''owner'') (g ''owner''),
     \<lambda>n. on ''favoritedOnly'' \<longrightarrow> truthy (obj_get n ''isFavorited''),
     \<lambda>n. on ''hasUnlockableContent'' \<longrightarrow> truthy (obj_get n ''hasUnlockableContent''),
     \<lambda>n. on ''isTradeLocked'' \<longrightarrow> truthy (obj_get n ''isTradeLocked''),
     \<lambda>n. on ''minMintDate'' \<longrightarrow> num_le (to_number (g ''minMintDate'')) (date (obj_get n ''mintDate'')),
     \<lambda>n. on ''maxMintDate'' \<longrightarrow> num_le (date (obj_get n ''mintDate'')) (to_number (g ''maxMintDate'')),
     \<lambda>n. list_all (\<lambda>t. list_ex (same_trait t) (elems (obj_get n ''traits''))) (elems (g ''traits''))])"

lemma stage_specs_match: "list_all (\<lambda>q. q n) (stage_specs date f) = nft_matches date f n"
  by (simp only: stage_specs_def nft_matches_def Let_def list.pred_inject simp_thms)

lemma search_stage:
  assumes "filters_ok f" "truthy (obj_get f ''search'')"
  shows "lower_case (obj_get f ''search'') = Inr (JStr (to_lower (to_str (obj_get f ''search''))))"
  using assms by (auto simp: filters_ok_def nullish_def intro: lower_case_str)

lemma traits_okE:
  assumes "traits_ok v"
  obtains xs where "v = JArr xs" | "v = JUndef" | "v = JNull"
  using assms by (cases v) (auto simp: traits_ok_def nullish_def)

lemma traits_stage:
  assumes "traits_ok ts" "traits_ok (obj_get n ''traits'')"
  shows "if truthy ts \<and> js_lt (JInt 0) (jopt ts ''length'')
    then traits_match ts n = Inr (list_all (\<lambda>t. list_ex (same_trait t) (elems (obj_get n ''traits''))) (elems ts))
    else list_all (\<lambda>t. list_ex (same_trait t) (elems (obj_get n ''traits''))) (elems ts)"
  using assms(1)
proof (cases rule: traits_okE)
  case (1 xs)
  from traits_match_ok [OF assms(2), of xs] assms(1) 1 show ?thesis by (cases xs) (simp_all add: elems_def)
qed (simp_all add: elems_def)

lemma stages_meet_specs:
  assumes "filters_ok f"
  shows "list_all2 (\<lambda>(on, p) q. \<forall>x\<in>{n. nft_ok n}. if on then p x = Inr (q x) else q x)
    (filter_stages date f) (stage_specs date f)"
proof -
  have search: "if truthy (obj_get f ''search'')
      then (case lower_case (obj_get f ''search'') of Inl e \<Rightarrow> Inl e | Inr q \<Rightarrow> search_match (to_str q) n) = Inr P
      else P"
    if "nft_ok n" "P = (truthy (obj_get f ''search'') \<longrightarrow>
      list_ex (\<lambda>k. mentions (to_lower (to_str (obj_get f ''search''))) (obj_get n k))
        [''name'', ''description'', ''creator'', ''category''])" for n P
    using that search_match_ok [OF that(1)]
    by (cases "truthy (obj_get f ''search'')") (simp_all only: search_stage [OF assms] sum.case to_str.simps if_True if_False simp_thms)
  have traits: "if truthy (obj_get f ''traits'') \<and> js_lt (JInt 0) (jopt (obj_get f ''traits'') ''length'')
      then traits_match (obj_get f ''traits'') n = Inr P else P"
    if "nft_ok n" "P = list_all (\<lambda>t. list_ex (same_trait t) (elems (obj_get n ''traits''))) (elems (obj_get f ''traits''))"
    for n P
    unfolding that(2) by (rule traits_stage) (use assms that(1) in \<open>simp_all only: filters_ok_def nft_ok_def\<close>)
  have plain: "if c then (Inr b :: js_error + bool) = Inr (c \<longrightarrow> b) else (c \<longrightarrow> b)" for b c
    by simp
  show ?thesis
    unfolding filter_stages_def stage_specs_def Let_def list_all2_Cons list_all2_Nil split_conv
    by (intro conjI ballI TrueI refl)
       ((elim CollectE, erule search [OF _ refl]) | rule plain | (elim CollectE, erule traits [OF _ refl]))+
qed

lemma map_res_length: "map_res f xs = Inr ys \<Longrightarrow> length ys = length xs"
  by (induction xs arbitrary: ys) (auto split: sum.splits)

text \<open>Amounts and tallies of well-typed transactions.\<close>

lemma tx_amount_ok: "tx_ok tx \<Longrightarrow> tx_amount tx = JNum (Fin (satoshis tx))"
  unfolding tx_ok_def satoshis_def tx_amount_def js_or_def
  by (cases "obj_get tx ''amountSatoshis''") (auto simp: num_truthy_def nullish_def split: jsnum.splits)

lemma volume_ok:
  assumes "list_all tx_ok txs"
  shows "volume txs = JNum (Fin (sum_list (map satoshis txs)))"
proof -
  have "foldl (\<lambda>sum tx. js_plus sum (tx_amount tx)) (JNum (Fin a)) txs = JNum (Fin (a + sum_list (map satoshis txs)))" for a
    using assms by (induction txs arbitrary: a) (simp_all add: tx_amount_ok add.assoc)
  from this [of 0] show ?thesis by (simp add: volume_def)
qed

definition tallied :: "fields \<Rightarrow> string \<Rightarrow> jv" where
  "tallied fs k = js_or (obj_get fs k) (JInt 0)"

lemma tally_add_ok:
  assumes "tallied acc k = JNum (Fin r)" "\<forall>l. l \<notin> set proto_keys \<longrightarrow> (\<exists>r. tallied acc l = JNum (Fin r))"
    and "l \<notin> set proto_keys" "k \<notin> set proto_keys"
  shows "tallied (tally_add acc (l, JNum (Fin a))) k = JNum (Fin (r + (if l = k then a else 0)))"
proof -
  have l: "l \<noteq> ''__proto__''" using assms(3) by (auto simp: proto_keys_def)
  obtain rl where rl: "tallied acc l = JNum (Fin rl)" using assms(2,3) by blast
  show ?thesis
  proof (cases "l = k")
    case True
    with rl assms(1) have "rl = r" by simp
    with rl l True show ?thesis
      by (simp add: tally_add_def tallied_def) (simp add: js_or_def num_truthy_def)
  next
    case False
    with assms(1) l show ?thesis by (simp add: tally_add_def tallied_def)
  qed
qed

lemma tally_ok:
  assumes "\<forall>kv\<in>set kvs. fst kv \<notin> set proto_keys \<and> snd kv = JNum (Fin (val kv))" "k \<notin> set proto_keys"
  shows "tallied (tally kvs) k = JNum (Fin (sum_list (map val (filter (\<lambda>kv. fst kv = k) kvs))))"
  using assms
proof (induction kvs arbitrary: k rule: rev_induct)
  case Nil
  then show ?case by (simp add: tally_def tallied_def js_or_def proto_value_undef)
next
  case (snoc kv kvs)
  obtain l v where kv: "kv = (l, v)" by (cases kv)
  have "tallied (tally_add (tally kvs) (l, JNum (Fin (val kv)))) k =
      JNum (Fin (sum_list (map val (filter (\<lambda>kv. fst kv = k) kvs)) + (if l = k then val kv else 0)))"
    by (rule tally_add_ok) (use snoc kv in auto)
  with snoc.prems kv show ?case by (auto simp: tally_def)
qed

lemma creatorVolumes_ok:
  assumes "list_all tx_ok txs" "c \<notin> set proto_keys" "c \<noteq> []"
  shows "tallied (creatorVolumes txs) c =
    JNum (Fin (sum_list (map satoshis (filter (\<lambda>tx. obj_get tx ''creator'' = JStr c) txs))))"
proof -
  let ?txs = "filter (\<lambda>tx. truthy (obj_get tx ''creator'')) txs"
  let ?kv = "\<lambda>tx. (to_str (obj_get tx ''creator''), tx_amount tx)"
  let ?val = "\<lambda>kv. case snd kv of JNum (Fin a) \<Rightarrow> a | _ \<Rightarrow> 0"
  have str: "\<exists>d. obj_get tx ''creator'' = JStr d \<and> d \<notin> set proto_keys"
    if "tx_ok tx" "truthy (obj_get tx ''creator'')" for tx
    using that unfolding tx_ok_def by (cases "obj_get tx ''creator''") (simp_all add: nullish_def)
  have "tallied (tally (map ?kv ?txs)) c =
      JNum (Fin (sum_list (map ?val (filter (\<lambda>kv. fst kv = c) (map ?kv ?txs)))))"
    by (rule tally_ok) (use assms str in \<open>auto simp: list_all_iff tx_amount_ok\<close>, use str in fastforce)
  also have "sum_list (map ?val (filter (\<lambda>kv. fst kv = c) (map ?kv ?txs))) =
      sum_list (map satoshis (filter (\<lambda>tx. obj_get tx ''creator'' = JStr c) txs))"
    using assms(1)
  proof (induction txs)
    case (Cons tx txs)
    then have tx: "tx_ok tx" by simp
    show ?case
    proof (cases "truthy (obj_get tx ''creator'')")
      case True
      with str [OF tx] Cons tx show ?thesis by (auto simp: tx_amount_ok)
    next
      case False
      with assms(3) have "obj_get tx ''creator'' \<noteq> JStr c" by auto
      with False Cons show ?thesis by simp
    qed
  qed simp
  finally show ?thesis by (simp add: creatorVolumes_def)
qed

text \<open>Transactions and the API.\<close>

lemma validateNFTData_cases:
  "validateNFTData nft = Inr True \<or> (\<exists>m. validateNFTData nft = Inl (Error m))"
  by (simp add: validateNFTData_def Let_def)

lemma never_throws_post [total_intros]: "never_throws (api_post env url label body)"
  unfolding api_post_def by (intro total_intros)

lemma js_catch_rethrow [simp]: "js_catch m js_throw = m"
  by (auto simp: js_catch_def js_throw_def fun_eq_iff split: prod.splits sum.splits)

lemma api_post_run:
  "\<exists>v cs. api_post env url l b (s, tr) = (Inr v, (s, tr @ Call ''fetch'' [JStr url, b] # cs))"
  by (auto simp: api_post_def js_simps split: sum.splits)

lemma purchase_data:
  assumes "createPurchaseTransaction env False nft buyer w = (Inr tx, w')"
  obtains ts where "tx = JObj [(''nftId'', obj_get nft ''id''), (''sellerAddress'', obj_get nft ''owner''),
        (''buyerAddress'', buyer), (''priceSatoshis'', obj_get nft ''listPriceSatoshis''),
        (''timestamp'', ts), (''type'', JStr ''purchase'')]" "validateNFTData nft = Inr True"
proof -
  from assms obtain x w1 ts w2 where "js_lift (validateNFTData nft) w = (Inr x, w1)"
    "sign_or_return env False (JObj [(''nftId'', obj_get nft ''id''), (''sellerAddress'', obj_get nft ''owner''),
        (''buyerAddress'', buyer), (''priceSatoshis'', obj_get nft ''listPriceSatoshis''),
        (''timestamp'', ts), (''type'', JStr ''purchase'')]) w2 = (Inr tx, w')"
    unfolding createPurchaseTransaction_def js_catch_rethrow by (elim js_bind_okE)
  with validateNFTData_cases [of nft] that [of ts] show thesis
    by (simp only: sign_or_return_def if_False js_return_apply js_lift_apply prod.inject sum.inject) auto
qed

lemma never_throws_load: "never_throws (loadNFTs env config)"
proof (rule never_throwsI)
  fix w :: "market world"
  let ?m = "js_catch (js_bind (js_update (\<lambda>s. s\<lparr>mp_loading := True, mp_error := JNull\<rparr>)) (\<lambda>_.
      js_bind (js_ext env (Call ''marketplaceAPI.getVerifiedNFTs'' [])) (\<lambda>d.
      js_bind (js_update (\<lambda>s. s\<lparr>mp_nfts := d\<rparr>)) (\<lambda>_.
      if truthy (obj_get config ''enableAnalytics'')
      then js_bind (js_ext env (Call ''marketplaceAPI.getAnalytics'' [])) (\<lambda>a.
           js_update (\<lambda>s. s\<lparr>mp_analytics := a\<rparr>))
      else js_return ()))))
     (\<lambda>e. js_update (\<lambda>s. s\<lparr>mp_error := JStr (message e)\<rparr>))"
  have "never_throws ?m" by (intro total_intros)
  then obtain x w' where "?m w = (Inr x, w')" by (rule never_throwsE)
  then show "\<exists>x w'. loadNFTs env config w = (Inr x, w')"
    by (simp add: loadNFTs_def js_finally_def split: prod.splits)
qed

lemma js_slice_append: "js_slice a (a + m + n) xs = js_slice a (a + m) xs @ js_slice (a + m) (a + m + n) xs"
  by (simp add: js_slice_def take_add add.commute)

lemma map_of_json_body:
  "map_of (filter (\<lambda>(k, v). v \<noteq> JUndef) (map (\<lambda>k. (k, obj_get src k)) ks)) k =
     (if k \<in> set ks \<and> obj_get src k \<noteq> JUndef then Some (obj_get src k) else None)"
  by (induction ks) auto

section \<open>Properties\<close>

text \<open>C9: On well-typed NFTs and filters \<open>filterNFTs\<close> does not throw, and its thirteen passes
  over the list select, in the original order, exactly the NFTs that satisfy every filter
  that is set.\<close>

theorem filterNFTs_selects_matches:
  assumes "filters_ok filters" "list_all nft_ok nfts"
  shows "filterNFTs date nfts filters = Inr (filter (nft_matches date filters) nfts)"
proof -
  have "search_ok filters = Inr ()"
    using search_stage [OF assms(1)] by (simp add: search_ok_def)
  moreover have "run_stages (filter_stages date filters) nfts =
      Inr (filter (\<lambda>n. list_all (\<lambda>q. q n) (stage_specs date filters)) nfts)"
    by (rule run_stages_total [OF stages_meet_specs [OF assms(1)]]) (use assms(2) in \<open>auto simp: list_all_iff\<close>)
  ultimately show ?thesis by (simp add: filterNFTs_def stage_specs_match)
qed

theorem filterNFTs_selects_matches_witness:
  "let a = [(''name'', JStr ''Genesis''), (''description'', JStr ''first''), (''creator'', JStr ''Sa''),
            (''owner'', JStr ''Sb''), (''listPriceSatoshis'', JInt 5)];
       b = [(''name'', JStr ''Art''), (''description'', JStr ''second''), (''creator'', JStr ''Sa''),
            (''owner'', JStr ''Sc''), (''listPriceSatoshis'', JInt 9)]
   in filterNFTs (\<lambda>_. NaN) [a, b] [(''maxPrice'', JInt 7), (''creator'', JStr ''Sa'')] = Inr [a]"
proof -
  let ?a = "[(''name'', JStr ''Genesis''), (''description'', JStr ''first''), (''creator'', JStr ''Sa''),
            (''owner'', JStr ''Sb''), (''listPriceSatoshis'', JInt 5)]"
  let ?b = "[(''name'', JStr ''Art''), (''description'', JStr ''second''), (''creator'', JStr ''Sa''),
            (''owner'', JStr ''Sc''), (''listPriceSatoshis'', JInt 9)]"
  let ?f = "[(''maxPrice'', JInt 7), (''creator'', JStr ''Sa'')]"
  have "filters_ok ?f" by (simp add: filters_ok_def nullish_def traits_ok_def proto_value_def proto_keys_def)
  moreover have "list_all nft_ok [?a, ?b]"
    by (simp add: nft_ok_def is_str_def nullish_def traits_ok_def proto_value_def proto_keys_def)
  ultimately have "filterNFTs (\<lambda>_. NaN) [?a, ?b] ?f = Inr (filter (nft_matches (\<lambda>_. NaN) ?f) [?a, ?b])"
    by (rule filterNFTs_selects_matches)
  moreover have "nft_matches (\<lambda>_. NaN) ?f ?a" "\<not> nft_matches (\<lambda>_. NaN) ?f ?b"
    by (simp_all add: nft_matches_def elems_def proto_value_def proto_keys_def num_eq_def num_le_def num_truthy_def)
  ultimately show ?thesis by simp
qed

text \<open>Sorting neither loses nor invents an NFT, whatever the sorting algorithm does.  The
  comparator orders NFTs with different keys consistently, but of two NFTs with equal keys
  it says that each comes before the other, so the platform may return them in any order.\<close>

theorem sortNFTs_permutation_and_ties:
  assumes "permutes srt" "sortNFTs srt date nfts sortBy sortOrder = Inr out"
  shows "mset out = mset nfts \<and>
    (sort_cmp ord (JNum (Fin x), m) (JNum (Fin y), n) = - sort_cmp ord (JNum (Fin y), n) (JNum (Fin x), m) \<longleftrightarrow> x \<noteq> y) \<and>
    (sort_cmp ord (JStr u, m) (JStr v, n) = - sort_cmp ord (JStr v, n) (JStr u, m) \<longleftrightarrow> u \<noteq> v)"
proof (intro conjI)
  show "mset out = mset nfts"
  proof (cases "length nfts < 2")
    case False
    with assms(2) obtain ks where ks: "map_res (sort_key date sortBy) nfts = Inr ks"
      "out = map snd (srt (sort_cmp sortOrder) (zip ks nfts))"
      by (auto simp: sortNFTs_def split: sum.splits)
    have "mset (map snd (srt (sort_cmp sortOrder) (zip ks nfts))) = mset (map snd (zip ks nfts))"
      using assms(1) by (simp add: permutes_def)
    then show ?thesis using map_res_length [OF ks(1)] ks(2) by simp
  qed (use assms(2) in \<open>simp add: sortNFTs_def\<close>)
  show "(sort_cmp ord (JNum (Fin x), m) (JNum (Fin y), n) = - sort_cmp ord (JNum (Fin y), n) (JNum (Fin x), m)) \<longleftrightarrow> x \<noteq> y"
    by (auto simp: sort_cmp_def)
  show "(sort_cmp ord (JStr u, m) (JStr v, n) = - sort_cmp ord (JStr v, n) (JStr u, m)) \<longleftrightarrow> u \<noteq> v"
    using str_lt_linear [of u v] str_lt_trans [of u v u] by (auto simp: sort_cmp_def)
qed

theorem sortNFTs_permutation_and_ties_witness:
  "let a = [(''listPriceSatoshis'', JInt 5)]; b = [(''listPriceSatoshis'', JInt 3)] in
   sortNFTs (\<lambda>_. rev) (\<lambda>_. NaN) [a, b] ''price'' ''asc'' = Inr [b, a] \<and> mset [b, a] = mset [a, b]"
proof -
  let ?a = "[(''listPriceSatoshis'', JInt 5)]" and ?b = "[(''listPriceSatoshis'', JInt 3)]"
  have s: "sortNFTs (\<lambda>_. rev) (\<lambda>_. NaN) [?a, ?b] ''price'' ''asc'' = Inr [?b, ?a]"
    by (simp add: sortNFTs_def sort_key_def js_or_def num_truthy_def)
  have "permutes ((\<lambda>_. rev) :: (jv \<times> nft) sorter)" by (simp add: permutes_def)
  from sortNFTs_permutation_and_ties [OF this s] s show ?thesis by simp
qed



text \<open>Recording a purchase loses the buyer.  The transaction made for a valid NFT without a
  wallet provider names the buyer \<open>buyerAddress\<close>, the API reads \<open>buyer\<close>, so the record
  posted to the backend has the NFT but no buyer, no dollar price and no transaction id;
  and recording never throws, so the hook treats a failed record as a success.\<close>

theorem purchase_record_loses_buyer:
  assumes "createPurchaseTransaction env False nft buyer w = (Inr tx, w')"
  shows "\<exists>fs body v cs. tx = JObj fs \<and> obj_get fs ''buyerAddress'' = buyer \<and>
    recordPurchase env' base fs (s, tr) = (Inr v, (s, tr @ Call ''fetch'' [JStr (base @ ''/purchases''), JObj body] # cs)) \<and>
    map_of body ''nftId'' = Some (obj_get nft ''id'') \<and>
    map_of body ''buyer'' = None \<and> map_of body ''priceUSD'' = None \<and> map_of body ''txid'' = None"
proof -
  from assms obtain ts where tx: "tx = JObj [(''nftId'', obj_get nft ''id''), (''sellerAddress'', obj_get nft ''owner''),
        (''buyerAddress'', buyer), (''priceSatoshis'', obj_get nft ''listPriceSatoshis''),
        (''timestamp'', ts), (''type'', JStr ''purchase'')]" (is "tx = JObj ?fs")
    and ok: "validateNFTData nft = Inr True" by (rule purchase_data)
  have id: "obj_get nft ''id'' \<noteq> JUndef"
    using ok by (auto simp: validateNFTData_def Let_def missing_fields_def nft_required_def split: if_splits)
  let ?body = "filter (\<lambda>(k, v). v \<noteq> JUndef)
    (map (\<lambda>k. (k, obj_get ?fs k)) [''nftId'', ''buyer'', ''priceSatoshis'', ''priceUSD'', ''txid''])"
  have body: "map_of ?body ''nftId'' = Some (obj_get nft ''id'')" "map_of ?body ''buyer'' = None"
    "map_of ?body ''priceUSD'' = None" "map_of ?body ''txid'' = None"
    unfolding map_of_json_body using id by (simp_all add: proto_value_def proto_keys_def)
  have buyer: "obj_get ?fs ''buyerAddress'' = buyer" by simp
  have "\<exists>v cs. recordPurchase env' base ?fs (s, tr) =
      (Inr v, (s, tr @ Call ''fetch'' [JStr (base @ ''/purchases''), JObj ?body] # cs))"
    unfolding recordPurchase_def json_body_def by (rule api_post_run)
  then obtain v cs where rec: "recordPurchase env' base ?fs (s, tr) =
      (Inr v, (s, tr @ Call ''fetch'' [JStr (base @ ''/purchases''), JObj ?body] # cs))" by (elim exE)
  show ?thesis by (intro exI conjI) (rule tx, rule buyer, rule rec, (rule body)+)
qed

theorem purchase_record_loses_buyer_witness:
  "let nft = [(''id'', JStr ''N1''), (''name'', JStr ''n''), (''description'', JStr ''d''), (''imageUrl'', JStr ''u''),
              (''creator'', JStr ''c''), (''owner'', JStr ''o'')];
       env = (\<lambda>_ _. Inr (JStr ''2025''))
   in \<exists>fs w. createPurchaseTransaction env False nft (JStr ''me'') ((), []) = (Inr (JObj fs), w) \<and>
      obj_get fs ''buyerAddress'' = JStr ''me''"
proof -
  let ?nft = "[(''id'', JStr ''N1''), (''name'', JStr ''n''), (''description'', JStr ''d''), (''imageUrl'', JStr ''u''),
              (''creator'', JStr ''c''), (''owner'', JStr ''o'')]"
  let ?env = "\<lambda>_ _. Inr (JStr ''2025'')"
  have "validateNFTData ?nft = Inr True"
    by (simp add: validateNFTData_def missing_fields_def nft_required_def)
  then obtain tx w where tx: "createPurchaseTransaction ?env False ?nft (JStr ''me'') ((), []) = (Inr tx, w)"
    by (simp add: createPurchaseTransaction_def sign_or_return_def js_simps)
  from purchase_record_loses_buyer [OF tx, of ?env "[]" "()" "[]"] tx show ?thesis by (cases w) auto
qed

text \<open>C19: A transfer needs a complete NFT owned by the connected wallet: otherwise the hook
  makes no external call at all, reports the error in its state and throws it.\<close>

theorem transfer_only_by_owner:
  assumes "validateNFTData nft \<noteq> Inr True \<or> \<not> strict_eq (obj_get nft ''owner'') (obj_get config ''walletAddress'')"
  shows "\<exists>e. transferNFT env config wallet nft toAddress (s, tr) =
    (Inl (Error e), (s\<lparr>mp_error := JStr e\<rparr>, tr))"
  using validateNFTData_cases [of nft]
proof
  assume "validateNFTData nft = Inr True"
  with assms show ?thesis
    by (simp add: transferNFT_def createTransferTransaction_def fail_with_def js_simps)
next
  assume "\<exists>m. validateNFTData nft = Inl (Error m)"
  then show ?thesis
    by (auto simp: transferNFT_def createTransferTransaction_def fail_with_def js_simps)
qed

theorem transfer_only_by_owner_witness:
  "\<exists>e. transferNFT (\<lambda>_ _. Inr JNull) [(''walletAddress'', JStr ''me'')] True [] JNull (new_market, []) =
     (Inl (Error e), (new_market\<lparr>mp_error := JStr e\<rparr>, []))"
  by (rule transfer_only_by_owner)
     (simp add: validateNFTData_def missing_fields_def nft_required_def proto_value_def proto_keys_def)

text \<open>Loading always finishes: it never throws, the loading flag is cleared, and the error
  is set exactly when one of the requests failed; if the request for the NFTs failed the
  list shown before is kept.\<close>

theorem load_always_finishes:
  "\<exists>s' tr'. loadNFTs env config (s, tr) = (Inr (), (s', tr')) \<and> \<not> mp_loading s' \<and>
    (case env (length tr) (Call ''marketplaceAPI.getVerifiedNFTs'' []) of
       Inl e \<Rightarrow> mp_nfts s' = mp_nfts s \<and> mp_error s' = JStr (message e)
     | Inr d \<Rightarrow> mp_nfts s' = d \<and>
         mp_error s' = (if truthy (obj_get config ''enableAnalytics'')
           then case env (Suc (length tr)) (Call ''marketplaceAPI.getAnalytics'' []) of
                  Inl e \<Rightarrow> JStr (message e) | Inr _ \<Rightarrow> JNull
           else JNull))"
  by (auto simp: loadNFTs_def js_simps split: sum.splits)

text \<open>The verified NFTs are paged without gaps or repetitions and are all verified, and no
  creator profile of the demo data is ever trusted.\<close>

theorem verified_pages:
  "getVerifiedNFTs (m + n) k f = getVerifiedNFTs m k f @ getVerifiedNFTs n (k + m) f \<and>
   list_all isVerified (getVerifiedNFTs m k f) \<and>
   obj_get (getCreatorProfile a) ''trustedCreator'' = JBool False"
proof (intro conjI)
  show "getVerifiedNFTs (m + n) k f = getVerifiedNFTs m k f @ getVerifiedNFTs n (k + m) f"
    using js_slice_append [of k m n] by (simp add: getVerifiedNFTs_def add.assoc)
  show "list_all isVerified (getVerifiedNFTs m k f)"
    by (auto simp: getVerifiedNFTs_def js_slice_def list_all_iff dest!: in_set_takeD in_set_dropD)
  have two: "length sample_nfts = 2" by (simp add: sample_nfts_def)
  have "length (getAllNFTs l 0 g) \<le> length sample_nfts" for l g
    unfolding getAllNFTs_def js_slice_def Let_def
    by (auto intro!: min.coboundedI1 intro: order_trans [OF length_filter_le])
  from this [of 1000 "[(''creator'', a)]"] show "obj_get (getCreatorProfile a) ''trustedCreator'' = JBool False"
    unfolding two by (simp add: getCreatorProfile_def Let_def del: One_nat_def)
qed

end
