(* ===== verification/NodeSDK.thy ===== *)
theory NodeSDK
  imports Effects
begin

text \<open>
  The node SDK (sdk-core/shahcoin.js): the connection to a Shahcoin node, the RPC call, the
  guarded wallet, chain and token operations, and the mock identifiers.

  \<open>fetch\<close>, the clock and \<open>Math.random\<close> are external calls.  An operation that renames the
  fields of an RPC result is a table of (new name, field of the result) pairs.
\<close>

section \<open>State and RPC\<close>

record node =
  node_config :: fields
  node_connected :: bool
  lastBlockHeight :: jv
  networkInfo :: jv

definition new_node :: "fields \<Rightarrow> node" where
  "new_node config =
     \<lparr>node_config = obj_spread
        [(''rpcUrl'', js_or (obj_get config ''rpcUrl'') (JStr ''http://localhost:8368'')),
         (''network'', js_or (obj_get config ''network'') (JStr ''mainnet'')),
         (''timeout'', js_or (obj_get config ''timeout'') (JInt 30000))] config,
      node_connected = False, lastBlockHeight = JInt 0, networkInfo = JNull\<rparr>"

definition rpcCall :: "env \<Rightarrow> string \<Rightarrow> jv list \<Rightarrow> (node, jv) js" where
  "rpcCall env m ps =
     js_bind (date_now env) (\<lambda>t.
     js_bind js_this (\<lambda>s.
     js_bind (js_ext env (Call ''fetch'' [obj_get (node_config s) ''rpcUrl'',
        JObj [(''jsonrpc'', JStr ''2.0''), (''id'', JNum t), (''method'', JStr m), (''params'', JArr ps)],
        obj_get (node_config s) ''timeout''])) (\<lambda>response.
     js_bind (js_get response ''ok'') (\<lambda>ok.
     if \<not> truthy ok
     then js_throw (Error (''HTTP '' @ to_str (jopt response ''status'') @ '': '' @ to_str (jopt response ''statusText'')))
     else js_bind (js_ext env (Call ''response.json'' [response])) (\<lambda>data.
       js_bind (js_get data ''error'') (\<lambda>e.
       if truthy e then js_throw (Error (''RPC Error: '' @ to_str (jopt e ''message'')))
       else js_return data))))))"

definition rpc_result :: "env \<Rightarrow> string \<Rightarrow> jv list \<Rightarrow> (node, jv) js" where
  "rpc_result env m ps = js_bind (rpcCall env m ps) (\<lambda>response. js_get response ''result'')"

definition node_connect :: "env \<Rightarrow> (node, bool) js" where
  "node_connect env = js_catch
     (js_bind (rpc_result env ''getblockchaininfo'' []) (\<lambda>r.
      js_bind (js_update (\<lambda>s. s\<lparr>networkInfo := r\<rparr>)) (\<lambda>_.
      js_bind (js_get r ''blocks'') (\<lambda>b.
      js_bind (js_update (\<lambda>s. s\<lparr>lastBlockHeight := b, node_connected := True\<rparr>)) (\<lambda>_.
      js_return True)))))
     (\<lambda>_. js_bind (js_update (\<lambda>s. s\<lparr>node_connected := False\<rparr>)) (\<lambda>_. js_return False))"

definition node_disconnect :: "(node, unit) js" where
  "node_disconnect = js_update (\<lambda>s. s\<lparr>node_connected := False, networkInfo := JNull, lastBlockHeight := JInt 0\<rparr>)"

text \<open>The guard at the start of every operation.\<close>

definition connected_only :: "(node, 'a) js \<Rightarrow> (node, 'a) js" where
  "connected_only m = js_bind js_this (\<lambda>s.
     if node_connected s then m else js_throw (Error ''Not connected to Shahcoin node''))"

section \<open>Renaming results\<close>

fun pick :: "(string \<times> string) list \<Rightarrow> jv \<Rightarrow> js_error + fields" where
  "pick [] r = Inr []"
| "pick ((k, f) # ks) r = (case jget r f of Inl e \<Rightarrow> Inl e
     | Inr v \<Rightarrow> (case pick ks r of Inl e \<Rightarrow> Inl e | Inr fs \<Rightarrow> Inr ((k, v) # fs)))"

fun pick_all :: "(string \<times> string) list \<Rightarrow> jv list \<Rightarrow> js_error + jv list" where
  "pick_all ks [] = Inr []"
| "pick_all ks (x # xs) = (case pick ks x of Inl e \<Rightarrow> Inl e
     | Inr fs \<Rightarrow> (case pick_all ks xs of Inl e \<Rightarrow> Inl e | Inr ys \<Rightarrow> Inr (JObj fs # ys)))"

definition renamed :: "env \<Rightarrow> string \<Rightarrow> jv list \<Rightarrow> (string \<times> string) list \<Rightarrow> (node, jv) js" where
  "renamed env m ps ks = js_bind (rpc_result env m ps) (\<lambda>r.
     js_bind (js_lift (pick ks r)) (\<lambda>fs. js_return (JObj fs)))"

definition renamed_list :: "env \<Rightarrow> string \<Rightarrow> jv list \<Rightarrow> (string \<times> string) list \<Rightarrow> (node, jv) js" where
  "renamed_list env m ps ks = js_bind (rpc_result env m ps) (\<lambda>r.
     case r of JArr xs \<Rightarrow> js_bind (js_lift (pick_all ks xs)) (\<lambda>ys. js_return (JArr ys))
     | _ \<Rightarrow> js_bind (js_get r ''map'') (\<lambda>_. js_throw (TypeError ''response.result.map is not a function'')))"

definition utxo_fields :: "(string \<times> string) list" where
  "utxo_fields =
     [(''txid'', ''txid''), (''vout'', ''vout''), (''address'', ''address''), (''amount'', ''amount''),
      (''confirmations'', ''confirmations''), (''spendable'', ''spendable''), (''solvable'', ''solvable''),
      (''safe'', ''safe'')]"

definition staking_fields :: "(string \<times> string) list" where
  "staking_fields =
     [(''enabled'', ''enabled''), (''staking'', ''staking''), (''errors'', ''errors''),
      (''currentBlockSize'', ''currentblocksize''), (''currentBlockTx'', ''currentblocktx''),
      (''pooledTx'', ''pooledtx''), (''difficulty'', ''difficulty'')]"

definition transaction_fields :: "(string \<times> string) list" where
  "transaction_fields =
     [(''txid'', ''txid''), (''amount'', ''amount''), (''confirmations'', ''confirmations''),
      (''blockhash'', ''blockhash''), (''blockindex'', ''blockindex''), (''blocktime'', ''blocktime''),
      (''walletconflicts'', ''walletconflicts''), (''time'', ''time''), (''timereceived'', ''timereceived''),
      (''details'', ''details''), (''hex'', ''hex'')]"

definition network_fields :: "(string \<times> string) list" where
  "network_fields =
     [(''version'', ''version''), (''subversion'', ''subversion''),
      (''protocolversion'', ''protocolversion''), (''localservices'', ''localservices''),
      (''localrelay'', ''localrelay''), (''timeoffset'', ''timeoffset''), (''connections'', ''connections''),
      (''networkactive'', ''networkactive''), (''networks'', ''networks''), (''relayfee'', ''relayfee''),
      (''incrementalfee'', ''incrementalfee''), (''localaddresses'', ''localaddresses''),
      (''warnings'', ''warnings'')]"

definition mining_fields :: "(string \<times> string) list" where
  "mining_fields =
     [(''blocks'', ''blocks''), (''currentblocksize'', ''currentblocksize''),
      (''currentblocktx'', ''currentblocktx''), (''difficulty'', ''difficulty''), (''errors'', ''errors''),
      (''networkhashps'', ''networkhashps''), (''pooledtx'', ''pooledtx''), (''chain'', ''chain'')]"

definition algo_fields :: "(string \<times> string) list" where
  "algo_fields =
     [(''currentAlgo'', ''current_algo''), (''currentHeight'', ''current_height''),
      (''nextAlgo'', ''next_algo''), (''sha256dDifficulty'', ''sha256d_difficulty''),
      (''scryptDifficulty'', ''scrypt_difficulty''), (''groestlDifficulty'', ''groestl_difficulty''),
      (''posTarget'', ''pos_target'')]"

definition fee_fields :: "(string \<times> string) list" where
  "fee_fields =
     [(''feerate'', ''feerate''), (''blocks'', ''blocks'')]"

definition block_fields :: "(string \<times> string) list" where
  "block_fields =
     [(''hash'', ''hash''), (''confirmations'', ''confirmations''), (''size'', ''size''),
      (''height'', ''height''), (''version'', ''version''), (''merkleroot'', ''merkleroot''), (''tx'', ''tx''),
      (''time'', ''time''), (''mediantime'', ''mediantime''), (''nonce'', ''nonce''), (''bits'', ''bits''),
      (''difficulty'', ''difficulty''), (''chainwork'', ''chainwork''),
      (''previousblockhash'', ''previousblockhash''), (''nextblockhash'', ''nextblockhash'')]"

definition recent_fields :: "(string \<times> string) list" where
  "recent_fields =
     [(''account'', ''account''), (''address'', ''address''), (''category'', ''category''),
      (''amount'', ''amount''), (''label'', ''label''), (''vout'', ''vout''),
      (''confirmations'', ''confirmations''), (''blockhash'', ''blockhash''), (''blockindex'', ''blockindex''),
      (''blocktime'', ''blocktime''), (''txid'', ''txid''), (''time'', ''time''),
      (''timereceived'', ''timereceived''), (''comment'', ''comment''), (''to'', ''to'')]"

definition address_fields :: "(string \<times> string) list" where
  "address_fields =
     [(''isValid'', ''isvalid''), (''address'', ''address''), (''scriptPubKey'', ''scriptPubKey''),
      (''isMine'', ''ismine''), (''isWatchOnly'', ''iswatchonly''), (''isScript'', ''isscript''),
      (''isWitness'', ''iswitness''), (''witnessVersion'', ''witness_version''),
      (''witnessProgram'', ''witness_program''), (''pubKey'', ''pubkey''),
      (''isCompressed'', ''iscompressed''), (''account'', ''account''), (''hdkeypath'', ''hdkeypath''),
      (''hdmasterkeyid'', ''hdmasterkeyid'')]"

section \<open>Operations\<close>

definition node_getBalance :: "env \<Rightarrow> (node, jv) js" where
  "node_getBalance env = connected_only (js_bind (rpc_result env ''getbalance'' []) (\<lambda>r.
     js_return (JObj [(''confirmed'', r), (''unconfirmed'', JInt 0), (''total'', r)])))"

definition node_getUTXOs :: "env \<Rightarrow> jv \<Rightarrow> (node, jv) js" where
  "node_getUTXOs env address = connected_only
     (renamed_list env ''listunspent'' (if truthy address then [address] else []) utxo_fields)"

definition staking_unavailable :: jv where
  "staking_unavailable = JObj [(''enabled'', JBool False), (''staking'', JBool False),
     (''errors'', JArr [JStr ''Staking not available'']), (''currentBlockSize'', JInt 0), (''currentBlockTx'', JInt 0),
     (''pooledTx'', JInt 0), (''difficulty'', JInt 0), (''searchInterval'', JInt 0), (''weight'', JInt 0),
     (''netStakeWeight'', JInt 0), (''expectedTime'', JInt 0)]"

text \<open>\<open>response.result.search-interval\<close> is the difference of \<open>response.result.search\<close> and a
  variable \<open>interval\<close> that is declared nowhere.\<close>

definition getStakingStatus :: "env \<Rightarrow> (node, jv) js" where
  "getStakingStatus env = connected_only (js_catch
     (js_bind (rpc_result env ''getstakinginfo'' []) (\<lambda>r.
      js_bind (js_lift (pick staking_fields r)) (\<lambda>fs.
      js_bind (js_get r ''search'') (\<lambda>_.
      js_throw (ReferenceError ''interval is not defined'')))))
     (\<lambda>_. js_return staking_unavailable))"

definition sendToAddress :: "env \<Rightarrow> jv \<Rightarrow> jv \<Rightarrow> fields \<Rightarrow> (node, jv) js" where
  "sendToAddress env address amount opts = connected_only
     (js_bind (rpc_result env ''sendtoaddress'' [address, amount, js_or (obj_get opts ''comment'') (JStr []),
        js_or (obj_get opts ''commentTo'') (JStr []), js_or (obj_get opts ''subtractFeeFromAmount'') (JBool False)]) (\<lambda>r.
      js_return (JObj [(''txid'', r), (''address'', address), (''amount'', amount), (''fee'', JInt 0)])))"

definition createAddress :: "env \<Rightarrow> jv \<Rightarrow> (node, jv) js" where
  "createAddress env label = connected_only
     (js_bind (rpc_result env ''getnewaddress'' [js_default label (JStr [])]) (\<lambda>r.
      js_return (JObj [(''address'', r), (''label'', js_default label (JStr []))])))"

definition node_getTransaction :: "env \<Rightarrow> jv \<Rightarrow> (node, jv) js" where
  "node_getTransaction env txid = connected_only (renamed env ''gettransaction'' [txid] transaction_fields)"

definition node_getNetworkInfo :: "env \<Rightarrow> (node, jv) js" where
  "node_getNetworkInfo env = connected_only (renamed env ''getnetworkinfo'' [] network_fields)"

definition node_getMiningInfo :: "env \<Rightarrow> (node, jv) js" where
  "node_getMiningInfo env = connected_only (renamed env ''getmininginfo'' [] mining_fields)"

definition getAlgorithmInfo :: "env \<Rightarrow> (node, jv) js" where
  "getAlgorithmInfo env = connected_only (js_catch
     (renamed env ''getalgoinfo'' [] algo_fields)
     (\<lambda>_. js_bind js_this (\<lambda>s. js_return (JObj [(''currentAlgo'', JStr ''sha256d''),
        (''currentHeight'', lastBlockHeight s), (''nextAlgo'', JStr ''scrypt''), (''sha256dDifficulty'', JInt 0),
        (''scryptDifficulty'', JInt 0), (''groestlDifficulty'', JInt 0), (''posTarget'', JInt 0)]))))"

section \<open>Mock identifiers\<close>

text \<open>\<open>s.charAt(x)\<close>: an index that is not a number is 0, one out of range gives the empty string.\<close>

definition char_at :: "string \<Rightarrow> jsnum \<Rightarrow> string" where
  "char_at s x = (case x of Fin a \<Rightarrow> if 0 \<le> \<lfloor>a\<rfloor> \<and> \<lfloor>a\<rfloor> < int (length s) then [s ! nat \<lfloor>a\<rfloor>] else []
     | NaN \<Rightarrow> take 1 s | _ \<Rightarrow> [])"

fun random_chars :: "env \<Rightarrow> string \<Rightarrow> nat \<Rightarrow> string \<Rightarrow> (node, string) js" where
  "random_chars env chars 0 result = js_return result"
| "random_chars env chars (Suc n) result = js_bind (js_ext env (Call ''Math.random'' [])) (\<lambda>r.
     random_chars env chars n
       (result @ char_at chars (num_floor (num_mul (to_number r) (Fin (of_nat (length chars)))))))"

definition base58_chars :: string where
  "base58_chars = ''123456789ABCDEFGHJKLMNPQRSTUVWXYZabcdefghijkmnopqrstuvwxyz''"

definition hex_chars :: string where
  "hex_chars = ''0123456789abcdef''"

definition generateMockAddress :: "env \<Rightarrow> (node, string) js" where
  "generateMockAddress env = random_chars env base58_chars 33 ''S''"

definition generateMockTxid :: "env \<Rightarrow> (node, string) js" where
  "generateMockTxid env = random_chars env hex_chars 64 []"

definition createSHI20Token :: "env \<Rightarrow> jv \<Rightarrow> jv \<Rightarrow> jv \<Rightarrow> jv \<Rightarrow> (node, jv) js" where
  "createSHI20Token env name symbol decimals totalSupply = connected_only
     (js_bind (generateMockAddress env) (\<lambda>a. js_bind (generateMockTxid env) (\<lambda>t.
      js_return (JObj [(''success'', JBool True), (''tokenAddress'', JStr a), (''name'', name), (''symbol'', symbol),
        (''decimals'', decimals), (''totalSupply'', totalSupply), (''txid'', JStr t), (''gasUsed'', JInt 100000),
        (''gasPrice'', JNum (Fin (1/1000)))]))))"

definition createSHI30NFT :: "env \<Rightarrow> jv \<Rightarrow> jv \<Rightarrow> jv \<Rightarrow> (node, jv) js" where
  "createSHI30NFT env name symbol metadata = connected_only
     (js_bind (generateMockAddress env) (\<lambda>a. js_bind (generateMockTxid env) (\<lambda>t.
      js_return (JObj [(''success'', JBool True), (''nftAddress'', JStr a), (''name'', name), (''symbol'', symbol),
        (''metadata'', metadata), (''txid'', JStr t), (''gasUsed'', JInt 150000), (''gasPrice'', JNum (Fin (1/1000)))]))))"

definition getTokenBalance :: "env \<Rightarrow> jv \<Rightarrow> jv \<Rightarrow> (node, jv) js" where
  "getTokenBalance env tokenAddress address = connected_only
     (js_bind (js_ext env (Call ''Math.random'' [])) (\<lambda>r.
      js_return (JObj [(''tokenAddress'', tokenAddress), (''address'', address),
        (''balance'', JNum (num_mul (to_number r) (Fin 1000))), (''decimals'', JInt 18), (''symbol'', JStr ''TOKEN'')])))"

definition getNFTBalance :: "env \<Rightarrow> jv \<Rightarrow> jv \<Rightarrow> (node, jv) js" where
  "getNFTBalance env nftAddress address = connected_only
     (js_bind (js_ext env (Call ''Math.random'' [])) (\<lambda>r.
      js_return (JObj [(''nftAddress'', nftAddress), (''address'', address),
        (''balance'', JNum (num_floor (num_mul (to_number r) (Fin 10)))),
        (''tokenIds'', JArr [JInt 1, JInt 2, JInt 3])])))"

definition estimateFee :: "env \<Rightarrow> jv \<Rightarrow> (node, jv) js" where
  "estimateFee env confTarget = connected_only
     (renamed env ''estimatesmartfee'' [js_default confTarget (JInt 6)] fee_fields)"

definition node_getBlock :: "env \<Rightarrow> jv \<Rightarrow> (node, jv) js" where
  "node_getBlock env b = connected_only (renamed env ''getblock'' [b] block_fields)"

definition getRecentTransactions :: "env \<Rightarrow> jv \<Rightarrow> (node, jv) js" where
  "getRecentTransactions env count = connected_only
     (renamed_list env ''listtransactions'' [JStr [], js_default count (JInt 10)] recent_fields)"

definition validateAddress :: "env \<Rightarrow> jv \<Rightarrow> (node, jv) js" where
  "validateAddress env address = connected_only (renamed env ''validateaddress'' [address] address_fields)"

section \<open>Runs\<close>

datatype node_op = GetBalance | GetUTXOs jv | GetStakingStatus | SendToAddress jv jv fields | CreateAddress jv
  | GetTransaction jv | GetNetworkInfo | GetMiningInfo | GetAlgorithmInfo | CreateSHI20Token jv jv jv jv
  | CreateSHI30NFT jv jv jv | GetTokenBalance jv jv | GetNFTBalance jv jv | EstimateFee jv | GetBlock jv
  | GetRecentTransactions jv | ValidateAddress jv

primrec run_op :: "env \<Rightarrow> node_op \<Rightarrow> (node, jv) js" where
  "run_op env GetBalance = node_getBalance env"
| "run_op env (GetUTXOs a) = node_getUTXOs env a"
| "run_op env GetStakingStatus = getStakingStatus env"
| "run_op env (SendToAddress a v opts) = sendToAddress env a v opts"
| "run_op env (CreateAddress l) = createAddress env l"
| "run_op env (GetTransaction t) = node_getTransaction env t"
| "run_op env GetNetworkInfo = node_getNetworkInfo env"
| "run_op env GetMiningInfo = node_getMiningInfo env"
| "run_op env GetAlgorithmInfo = getAlgorithmInfo env"
| "run_op env (CreateSHI20Token n s d t) = createSHI20Token env n s d t"
| "run_op env (CreateSHI30NFT n s m) = createSHI30NFT env n s m"
| "run_op env (GetTokenBalance t a) = getTokenBalance env t a"
| "run_op env (GetNFTBalance t a) = getNFTBalance env t a"
| "run_op env (EstimateFee c) = estimateFee env c"
| "run_op env (GetBlock b) = node_getBlock env b"
| "run_op env (GetRecentTransactions c) = getRecentTransactions env c"
| "run_op env (ValidateAddress a) = validateAddress env a"

lemmas op_defs = node_getBalance_def node_getUTXOs_def getStakingStatus_def sendToAddress_def createAddress_def
  node_getTransaction_def node_getNetworkInfo_def node_getMiningInfo_def getAlgorithmInfo_def createSHI20Token_def
  createSHI30NFT_def getTokenBalance_def getNFTBalance_def estimateFee_def node_getBlock_def
  getRecentTransactions_def validateAddress_def

inductive node_reach :: "env \<Rightarrow> fields \<Rightarrow> node world \<Rightarrow> bool" for env cfg where
  start: "node_reach env cfg (new_node cfg, [])"
| connect: "node_reach env cfg w \<Longrightarrow> node_reach env cfg (snd (node_connect env w))"
| disconnect: "node_reach env cfg w \<Longrightarrow> node_reach env cfg (snd (node_disconnect w))"
| op: "node_reach env cfg w \<Longrightarrow> node_reach env cfg (snd (run_op env q w))"

text \<open>The keys of the object an operation returns; \<open>None\<close> for a list.\<close>

primrec result_keys :: "node_op \<Rightarrow> string list option" where
  "result_keys GetBalance = Some [''confirmed'', ''unconfirmed'', ''total'']"
| "result_keys (GetUTXOs a) = None"
| "result_keys GetStakingStatus = Some [''enabled'', ''staking'', ''errors'', ''currentBlockSize'', ''currentBlockTx'',
     ''pooledTx'', ''difficulty'', ''searchInterval'', ''weight'', ''netStakeWeight'', ''expectedTime'']"
| "result_keys (SendToAddress a v opts) = Some [''txid'', ''address'', ''amount'', ''fee'']"
| "result_keys (CreateAddress l) = Some [''address'', ''label'']"
| "result_keys (GetTransaction t) = Some (map fst transaction_fields)"
| "result_keys GetNetworkInfo = Some (map fst network_fields)"
| "result_keys GetMiningInfo = Some (map fst mining_fields)"
| "result_keys GetAlgorithmInfo = Some (map fst algo_fields)"
| "result_keys (CreateSHI20Token n s d t) = Some [''success'', ''tokenAddress'', ''name'', ''symbol'', ''decimals'',
     ''totalSupply'', ''txid'', ''gasUsed'', ''gasPrice'']"
| "result_keys (CreateSHI30NFT n s m) = Some [''success'', ''nftAddress'', ''name'', ''symbol'', ''metadata'', ''txid'',
     ''gasUsed'', ''gasPrice'']"
| "result_keys (GetTokenBalance t a) = Some [''tokenAddress'', ''address'', ''balance'', ''decimals'', ''symbol'']"
| "result_keys (GetNFTBalance t a) = Some [''nftAddress'', ''address'', ''balance'', ''tokenIds'']"
| "result_keys (EstimateFee c) = Some (map fst fee_fields)"
| "result_keys (GetBlock b) = Some (map fst block_fields)"
| "result_keys (GetRecentTransactions c) = None"
| "result_keys (ValidateAddress a) = Some (map fst address_fields)"

definition has_shape :: "string list option \<Rightarrow> jv \<Rightarrow> bool" where
  "has_shape ks v = (case ks of Some k \<Rightarrow> (case v of JObj fs \<Rightarrow> map fst fs = k | _ \<Rightarrow> False)
     | None \<Rightarrow> (case v of JArr _ \<Rightarrow> True | _ \<Rightarrow> False))"

section \<open>Library\<close>

lemma connected_only_run:
  "connected_only m (s, tr) =
     (if node_connected s then m (s, tr) else (Inl (Error ''Not connected to Shahcoin node''), (s, tr)))"
  by (simp add: connected_only_def js_bind_this js_throw_apply)

lemma connected_only_ok: "connected_only m w = (Inr v, w') \<Longrightarrow> m w = (Inr v, w')"
  by (cases w) (auto simp: connected_only_run split: if_splits)

lemma keeps_rpc [keeps_intros]: "keeps_state (rpcCall env m ps)" "keeps_state (rpc_result env m ps)"
proof -
  show "keeps_state (rpcCall env m ps)" unfolding rpcCall_def by (intro keeps_intros)
  then show "keeps_state (rpc_result env m ps)" unfolding rpc_result_def by (intro keeps_intros)
qed

lemma keeps_connected_only [keeps_intros]: "keeps_state m \<Longrightarrow> keeps_state (connected_only m)"
  unfolding connected_only_def by (intro keeps_intros)

lemma keeps_renamed [keeps_intros]: "keeps_state (renamed env m ps ks)"
  unfolding renamed_def by (intro keeps_intros)

lemma keeps_case_jarr [keeps_intros]:
  "(\<And>xs. keeps_state (f xs)) \<Longrightarrow> keeps_state g \<Longrightarrow>
   keeps_state (case r of JArr xs \<Rightarrow> f xs | _ \<Rightarrow> g)"
  by (cases r) simp_all

lemma keeps_renamed_list [keeps_intros]: "keeps_state (renamed_list env m ps ks)"
  unfolding renamed_list_def by (intro keeps_intros)

lemma keeps_random [keeps_intros]: "keeps_state (random_chars env chars n acc)"
  by (induction n arbitrary: acc) (auto intro!: keeps_intros)

lemma keeps_op: "keeps_state (run_op env q)"
  by (cases q; simp only: run_op.simps op_defs generateMockAddress_def generateMockTxid_def) (intro keeps_intros)+

text \<open>Connecting either records the chain information or ends disconnected.\<close>

lemma node_connect_outcome:
  "\<exists>b s' tr'. node_connect env (s, tr) = (Inr b, (s', tr')) \<and> node_connected s' = b \<and>
     (b \<longrightarrow> networkInfo s' \<noteq> JUndef \<and> networkInfo s' \<noteq> JNull \<and> lastBlockHeight s' = jopt (networkInfo s') ''blocks'')"
proof -
  obtain x s1 tr1 where x: "rpc_result env ''getblockchaininfo'' [] (s, tr) = (x, (s1, tr1))"
    by (metis surj_pair)
  then have "s1 = s" by (rule keeps_stateD [OF keeps_rpc(2)])
  show ?thesis
  proof (cases x)
    case (Inl e)
    then show ?thesis using x by (intro exI [of _ False]) (simp add: node_connect_def js_simps)
  next
    case (Inr r)
    show ?thesis
    proof (cases "r = JUndef \<or> r = JNull")
      case True
      then show ?thesis using x Inr by (intro exI [of _ False]) (auto simp: node_connect_def js_simps)
    next
      case False
      then show ?thesis using x Inr
        by (intro exI [of _ True]) (simp add: node_connect_def js_simps jget_jopt)
    qed
  qed
qed

definition conn_inv :: "node \<Rightarrow> bool" where
  "conn_inv s = (node_connected s \<longrightarrow>
     networkInfo s \<noteq> JUndef \<and> networkInfo s \<noteq> JNull \<and> lastBlockHeight s = jopt (networkInfo s) ''blocks'')"

lemma node_reach_inv: "node_reach env cfg w \<Longrightarrow> conn_inv (fst w)"
proof (induction rule: node_reach.induct)
  case (connect w)
  obtain s tr where w: "w = (s, tr)" by (cases w)
  obtain b s' tr' where "node_connect env (s, tr) = (Inr b, (s', tr'))" "conn_inv s'"
    using node_connect_outcome [of env s tr] by (auto simp: conn_inv_def)
  then show ?case by (simp add: w)
next
  case (disconnect w)
  then show ?case by (cases w) (simp add: conn_inv_def node_disconnect_def js_simps)
next
  case (op w q)
  have "fst (snd (run_op env q w)) = fst w" using keeps_op [of env q] unfolding keeps_state_def by blast
  with op show ?case by simp
qed (simp add: conn_inv_def new_node_def)

lemma pick_keys: "pick ks r = Inr fs \<Longrightarrow> map fst fs = map fst ks"
  by (induction ks r arbitrary: fs rule: pick.induct) (auto split: sum.splits)

lemma renamed_shape: "renamed env m ps ks w = (Inr v, w') \<Longrightarrow> has_shape (Some (map fst ks)) v"
  unfolding renamed_def
  by (elim js_bind_okE) (auto simp: js_simps has_shape_def pick_keys)

lemma renamed_list_shape: "renamed_list env m ps ks w = (Inr v, w') \<Longrightarrow> has_shape None v"
  unfolding renamed_list_def
  by (elim js_bind_okE) (auto simp: js_simps has_shape_def split: jv.splits sum.splits)

lemmas renamed_shapes = renamed_shape [OF connected_only_ok] renamed_list_shape [OF connected_only_ok]

lemma getAlgorithmInfo_shape:
  assumes "getAlgorithmInfo env w = (Inr v, w')"
  shows "has_shape (Some (map fst algo_fields)) v"
proof -
  obtain x w1 where x: "renamed env ''getalgoinfo'' [] algo_fields w = (x, w1)" by (metis surj_pair)
  have r: "js_catch (renamed env ''getalgoinfo'' [] algo_fields)
     (\<lambda>_. js_bind js_this (\<lambda>s. js_return (JObj [(''currentAlgo'', JStr ''sha256d''),
        (''currentHeight'', lastBlockHeight s), (''nextAlgo'', JStr ''scrypt''), (''sha256dDifficulty'', JInt 0),
        (''scryptDifficulty'', JInt 0), (''groestlDifficulty'', JInt 0), (''posTarget'', JInt 0)]))) w = (Inr v, w')"
    using connected_only_ok [OF assms [unfolded getAlgorithmInfo_def]] .
  show ?thesis
  proof (cases x)
    case (Inl e)
    with r x show ?thesis
      by (cases w1) (auto simp: js_simps js_catch_def js_bind_this has_shape_def algo_fields_def)
  next
    case (Inr u)
    with r x have "v = u" by (simp add: js_catch_def)
    with x Inr show ?thesis using renamed_shape by blast
  qed
qed

lemma literal_shape:
  assumes "connected_only (js_bind m (\<lambda>x. js_return (JObj (f x)))) w = (Inr v, w')" "\<And>x. map fst (f x) = ks"
  shows "has_shape (Some ks) v"
  using connected_only_ok [OF assms(1)]
  by (elim js_bind_okE) (auto simp: js_return_apply has_shape_def assms(2))

lemma literal_shape2:
  assumes "connected_only (js_bind m (\<lambda>x. js_bind n (\<lambda>y. js_return (JObj (f x y))))) w = (Inr v, w')"
    "\<And>x y. map fst (f x y) = ks"
  shows "has_shape (Some ks) v"
  using connected_only_ok [OF assms(1)]
  by (elim js_bind_okE) (auto simp: js_return_apply has_shape_def assms(2))

text \<open>The staking status never gets past the undeclared variable.\<close>

lemma always_throws_caught: "always_throws m \<Longrightarrow> \<exists>w'. js_catch m (\<lambda>_. js_return x) w = (Inr x, w')"
  by (erule always_throwsE [of m w]) (simp add: js_catch_def js_return_apply)

lemma getStakingStatus_run:
  "\<exists>w'. getStakingStatus env (s, tr) = (if node_connected s then (Inr staking_unavailable, w')
     else (Inl (Error ''Not connected to Shahcoin node''), (s, tr)))"
  unfolding getStakingStatus_def connected_only_run
  using always_throws_caught [of "js_bind (rpc_result env ''getstakinginfo'' []) (\<lambda>r.
     js_bind (js_lift (pick staking_fields r)) (\<lambda>fs.
     js_bind (js_get r ''search'') (\<lambda>_. js_throw (ReferenceError ''interval is not defined''))))"
     staking_unavailable "(s, tr)"]
  by (auto intro!: throws_intros)

lemma char_at_random:
  assumes "0 \<le> q" "q < 1" "chars \<noteq> []"
  shows "\<exists>c\<in>set chars. char_at chars (num_floor (num_mul (Fin q) (Fin (of_nat (length chars))))) = [c]"
proof -
  let ?n = "of_nat (length chars) :: rat"
  have n: "0 < ?n" using assms(3) by simp
  have "q * ?n < 1 * ?n" using assms(2) n by (rule mult_strict_right_mono)
  then have lt: "\<lfloor>q * ?n\<rfloor> < int (length chars)" by (simp add: floor_less_iff)
  have ge: "0 \<le> \<lfloor>q * ?n\<rfloor>" using assms(1) by simp
  with lt have "nat \<lfloor>q * ?n\<rfloor> < length chars" by linarith
  then show ?thesis using lt ge by (simp add: char_at_def)
qed

lemma random_chars_run:
  assumes "random_ok env" "chars \<noteq> []"
  shows "\<exists>cs tr'. random_chars env chars n acc (s, tr) = (Inr (acc @ cs), (s, tr')) \<and>
    length cs = n \<and> set cs \<subseteq> set chars"
proof (induction n arbitrary: acc tr)
  case (Suc n)
  obtain q where q: "env (length tr) (Call ''Math.random'' []) = Inr (JNum (Fin q))" "0 \<le> q" "q < 1"
    using assms(1) by (auto simp: random_ok_def)
  obtain c where c: "c \<in> set chars"
    "char_at chars (num_floor (num_mul (Fin q) (Fin (of_nat (length chars))))) = [c]"
    using char_at_random [OF q(2,3) assms(2)] by blast
  obtain cs tr' where "random_chars env chars n (acc @ [c]) (s, tr @ [Call ''Math.random'' []]) =
      (Inr ((acc @ [c]) @ cs), (s, tr'))" "length cs = n" "set cs \<subseteq> set chars"
    using Suc.IH by blast
  then show ?case using q c by (intro exI [of _ "c # cs"] exI [of _ tr']) (simp add: js_simps)
qed (simp add: js_simps)

section \<open>Properties\<close>





text \<open>The staking status of a connected node is never reported: for every answer of the node
  \<open>getStakingStatus\<close> returns the fallback that says staking is not available.\<close>

theorem staking_status_never_reported:
  assumes "node_connected s"
  shows "\<exists>w'. getStakingStatus env (s, tr) = (Inr staking_unavailable, w')"
  using getStakingStatus_run [of env s tr] assms by simp

theorem staking_status_never_reported_witness:
  "let s = (new_node [])\<lparr>node_connected := True\<rparr>;
       env = (\<lambda>i c. if i = 0 then Inr (JInt 0) else Inr (JObj [(''ok'', JBool True),
               (''result'', JObj [(''enabled'', JBool True), (''staking'', JBool True)])]))
   in \<exists>w'. getStakingStatus env (s, []) = (Inr staking_unavailable, w')"
  unfolding Let_def by (rule staking_status_never_reported) simp

text \<open>With a random source in the unit interval a mock address is S followed by 33 base-58
  characters and a mock transaction id is 64 hexadecimal digits.\<close>

theorem mock_identifiers_well_formed:
  assumes "random_ok env"
  shows "\<exists>a t tr1 tr2. generateMockAddress env (s, tr) = (Inr (CHR ''S'' # a), (s, tr1)) \<and>
    length a = 33 \<and> set a \<subseteq> set base58_chars \<and>
    generateMockTxid env (s, tr1) = (Inr t, (s, tr2)) \<and> length t = 64 \<and> set t \<subseteq> set hex_chars"
proof -
  obtain a tr1 where a: "generateMockAddress env (s, tr) = (Inr (''S'' @ a), (s, tr1))" "length a = 33"
    "set a \<subseteq> set base58_chars"
    using random_chars_run [OF assms, of base58_chars 33 "''S''" s tr]
    by (auto simp: generateMockAddress_def base58_chars_def)
  obtain t tr2 where t: "generateMockTxid env (s, tr1) = (Inr t, (s, tr2))" "length t = 64" "set t \<subseteq> set hex_chars"
    using random_chars_run [OF assms, of hex_chars 64 "[]" s tr1]
    by (auto simp: generateMockTxid_def hex_chars_def)
  from a t show ?thesis by auto
qed

theorem mock_identifiers_well_formed_witness:
  "\<exists>a tr1. generateMockAddress (\<lambda>_ _. Inr (JNum (Fin 0))) (new_node [], []) = (Inr (CHR ''S'' # a), (new_node [], tr1)) \<and>
     length a = 33"
proof -
  have "random_ok (\<lambda>_ _. Inr (JNum (Fin 0)))" by (simp add: random_ok_def)
  from mock_identifiers_well_formed [OF this, of "new_node []" "[]"] show ?thesis by blast
qed

end
