(* ===== verification/PremiumBot.thy ===== *)
theory PremiumBot
  imports Effects
begin

text \<open>
  The Telegram bot of the premium subscription (telegram/PremiumTelegramMiniApp.js): routing of
  commands and button callbacks, the purchase flow, the feature gate and the cancellation.

  An update is a command or the callback data of a button, from a user with a numeric id.  A
  message is an external call with the name of the message, the values its text shows and the
  callback data of its buttons; the wording and the emoji of the texts are left out.  The time
  value of a date is the argument \<open>date\<close>, since parsing dates is left to implementations.
\<close>

section \<open>Routing\<close>

text \<open>The regular expressions: \<open>(.+)\<close> at the end takes the whole rest, and in
  \<open>payment_(.+)_(.+)\<close> the first group is greedy, so the split is at the last underscore that
  leaves something on both sides.  A dot does not match a line break.\<close>

definition one_line :: "string \<Rightarrow> bool" where
  "one_line s = (s \<noteq> [] \<and> list_all (\<lambda>c. (of_char c :: nat) \<noteq> 10 \<and> (of_char c :: nat) \<noteq> 13) s)"

definition match_rest :: "string \<Rightarrow> string \<Rightarrow> string option" where
  "match_rest p d = (if starts_with d p \<and> one_line (drop (length p) d) then Some (drop (length p) d) else None)"

definition underscores :: "string \<Rightarrow> nat list" where
  "underscores r = filter (\<lambda>i. r ! i = CHR ''_'') [1..<length r - 1]"

definition match_two :: "string \<Rightarrow> string \<Rightarrow> (string \<times> string) option" where
  "match_two p d = (case match_rest p d of None \<Rightarrow> None
     | Some r \<Rightarrow> if underscores r = [] then None
                else let i = last (underscores r) in Some (take i r, drop (i + 1) r))"

datatype update = Command string | Action string

datatype route = Premium | Upgrade | Features | Subscription | Gated string | Purchase string
  | Payment string string | Cancel | ConfirmCancel | WebApp | Unhandled

definition command_route :: "string \<Rightarrow> route" where
  "command_route c =
     (if c = ''premium'' then Premium else if c = ''upgrade'' then Upgrade
      else if c = ''features'' then Features else if c = ''subscription'' then Subscription
      else if c = ''ai'' then Gated ''AI_WALLET_ASSISTANT''
      else if c = ''portfolio'' then Gated ''AI_PORTFOLIO_ANALYZER''
      else if c = ''alerts'' then Gated ''NFT_FLOOR_PRICE_ALERTS'' else Unhandled)"

text \<open>The actions in the order they are registered.\<close>

definition action_route :: "string \<Rightarrow> route" where
  "action_route d =
     (case match_rest ''upgrade_'' d of Some plan \<Rightarrow> Purchase plan | None \<Rightarrow>
      case match_two ''payment_'' d of Some (plan, m) \<Rightarrow> Payment plan m | None \<Rightarrow>
      if d = ''manage_subscription'' then Subscription
      else if d = ''cancel_subscription'' then Cancel
      else if d = ''confirm_cancel'' then ConfirmCancel
      else case match_rest ''feature_'' d of Some f \<Rightarrow> Gated f
      | None \<Rightarrow> if d = ''open_webapp'' then WebApp else Unhandled)"

section \<open>Messages and requests\<close>

type_synonym 's bot = "('s, unit) js"

definition edit_message :: "env \<Rightarrow> string \<Rightarrow> jv list \<Rightarrow> string list \<Rightarrow> 's bot" where
  "edit_message env name vals buttons =
     js_bind (js_ext env (Call ''ctx.editMessageText'' [JStr name, JArr vals, JArr (map JStr buttons)])) (\<lambda>_. js_return ())"

definition reply :: "env \<Rightarrow> string \<Rightarrow> jv list \<Rightarrow> string list \<Rightarrow> 's bot" where
  "reply env name vals buttons =
     js_bind (js_ext env (Call ''ctx.reply'' [JStr name, JArr vals, JArr (map JStr buttons)])) (\<lambda>_. js_return ())"

definition answer_query :: "env \<Rightarrow> string \<Rightarrow> 's bot" where
  "answer_query env text = js_bind (js_ext env (Call ''ctx.answerCbQuery'' [JStr text])) (\<lambda>_. js_return ())"

definition getUserToken :: "env \<Rightarrow> nat \<Rightarrow> ('s, string) js" where
  "getUserToken env uid = js_bind (date_now env) (\<lambda>t. js_return (''telegram_'' @ nat_str uid @ ''_'' @ num_str t))"

definition getWalletAddress :: "nat \<Rightarrow> string" where
  "getWalletAddress uid = ''shah1'' @ pad_left 39 (nat_str uid)"

definition bot_fetch :: "env \<Rightarrow> nat \<Rightarrow> string \<Rightarrow> jv \<Rightarrow> ('s, jv) js" where
  "bot_fetch env uid url body = js_bind (getUserToken env uid) (\<lambda>tok.
     js_ext env (Call ''fetch'' [JStr url, JStr (''Bearer '' @ tok), body]))"

definition getSubscriptionData :: "env \<Rightarrow> string \<Rightarrow> nat \<Rightarrow> ('s, jv) js" where
  "getSubscriptionData env api uid = js_catch
     (js_bind (bot_fetch env uid (api @ ''/premium/subscription/'' @ nat_str uid) JUndef) (\<lambda>response.
      js_bind (js_get response ''ok'') (\<lambda>ok.
      if truthy ok then js_ext env (Call ''response.json'' [response]) else js_return JNull)))
     (\<lambda>_. js_return JNull)"

definition active :: "jv \<Rightarrow> bool" where
  "active sub = (truthy sub \<and> truthy (jopt sub ''isActive''))"

definition checkFeatureAccess :: "env \<Rightarrow> string \<Rightarrow> nat \<Rightarrow> ('s, bool) js" where
  "checkFeatureAccess env api uid = js_catch
     (js_bind (getSubscriptionData env api uid) (\<lambda>sub. js_return (active sub)))
     (\<lambda>_. js_return False)"

definition mock_portfolio :: jv where
  "mock_portfolio = JObj [(''totalValue'', JStr ''1,250.00''), (''change24h'', JNum (Fin (5/2))), (''riskScore'', JInt 75),
     (''recommendations'', JArr [JStr ''Consider diversifying with NFT investments'',
        JStr ''Your portfolio shows good growth potential'', JStr ''Optimal time for DCA strategy''])]"

definition empty_portfolio :: jv where
  "empty_portfolio = JObj [(''totalValue'', JStr ''0.00''), (''change24h'', JInt 0), (''riskScore'', JInt 0),
     (''recommendations'', JArr [JStr ''Unable to load recommendations''])]"

definition getPortfolioData :: "env \<Rightarrow> string \<Rightarrow> nat \<Rightarrow> ('s, jv) js" where
  "getPortfolioData env api uid = js_catch
     (js_bind (bot_fetch env uid (api @ ''/premium/portfolio/'' @ nat_str uid) JUndef) (\<lambda>response.
      js_bind (js_get response ''ok'') (\<lambda>ok.
      if truthy ok then js_ext env (Call ''response.json'' [response]) else js_return mock_portfolio)))
     (\<lambda>_. js_return empty_portfolio)"

definition premiumFeatures :: fields where
  "premiumFeatures =
     [(''AI_WALLET_ASSISTANT'', JStr ''AI Wallet Assistant''), (''AI_INSIGHTS_PANEL'', JStr ''AI Insights Panel''),
      (''AI_FEE_OPTIMIZER'', JStr ''AI Fee Optimizer''), (''AI_TROUBLESHOOTER'', JStr ''AI Troubleshooter''),
      (''MULTILINGUAL_ASSISTANT'', JStr ''Multilingual Assistant''), (''AI_ART_BOOSTER'', JStr ''AI Art Booster''),
      (''NFT_COLLECTION_DROPS'', JStr ''NFT Collection Drops''), (''AUCTION_MODULE'', JStr ''Auction Module''),
      (''AI_PORTFOLIO_ANALYZER'', JStr ''AI Portfolio Analyzer''), (''NFT_FLOOR_PRICE_ALERTS'', JStr ''NFT Floor Price Alerts''),
      (''USAGE_DASHBOARD'', JStr ''Usage Dashboard''), (''EMAIL_CONFIRMATION_TOGGLE'', JStr ''Email Confirmations'')]"

definition all_features :: jv where
  "all_features = JArr (map snd premiumFeatures)"

section \<open>Screens\<close>

definition num_ceil :: "jsnum \<Rightarrow> jsnum" where
  "num_ceil x = num_neg (num_floor (num_neg x))"

definition daysRemaining :: "(jv \<Rightarrow> jsnum) \<Rightarrow> jv \<Rightarrow> jsnum \<Rightarrow> jsnum" where
  "daysRemaining date sub now =
     num_ceil (num_div (num_sub (date (jopt sub ''expirationDate'')) now) (Fin (1000 * 60 * 60 * 24)))"

definition showPremiumStatus :: "env \<Rightarrow> (jv \<Rightarrow> jsnum) \<Rightarrow> string \<Rightarrow> nat \<Rightarrow> 's bot" where
  "showPremiumStatus env date api uid = js_bind (getSubscriptionData env api uid) (\<lambda>sub.
     if active sub
     then js_bind (date_now env) (\<lambda>now. let days = daysRemaining date sub now in
       edit_message env ''status_active''
         [jopt sub ''planName'', jopt sub ''expirationDate'', JNum days, JBool (truthy (jopt sub ''autoRenew'')),
          JBool (num_le days (Fin 7)), all_features]
         [''manage_subscription'', ''open_webapp'', ''premium''])
     else edit_message env ''status_free'' [all_features] [''upgrade_yearly'', ''upgrade_plans'', ''open_webapp''])"

definition showUpgradeOptions :: "env \<Rightarrow> 's bot" where
  "showUpgradeOptions env = edit_message env ''upgrade'' [all_features]
     [''upgrade_yearly'', ''upgrade_monthly'', ''features'', ''premium'']"

definition planDetails :: fields where
  "planDetails =
     [(''yearly'', JObj [(''name'', JStr ''Yearly Premium''), (''price'', JStr ''$49.99/year'')]),
      (''monthly'', JObj [(''name'', JStr ''Monthly Premium''), (''price'', JStr ''$4.99/month'')])]"

definition payment_buttons :: "string \<Rightarrow> string list" where
  "payment_buttons plan = [''payment_'' @ plan @ ''_shah_native'', ''payment_'' @ plan @ ''_shah_token'',
     ''payment_'' @ plan @ ''_stripe'', ''upgrade_plans'']"

definition initiatePurchase :: "env \<Rightarrow> string \<Rightarrow> 's bot" where
  "initiatePurchase env plan = js_bind (js_get (obj_get planDetails plan) ''name'') (\<lambda>name.
     js_bind (js_get (obj_get planDetails plan) ''price'') (\<lambda>price.
     edit_message env ''purchase'' [name, price] (payment_buttons plan)))"

definition getPaymentMethodName :: "string \<Rightarrow> jv" where
  "getPaymentMethodName m = js_or (obj_get [(''shah_native'', JStr ''SHAH (Native)''),
     (''shah_token'', JStr ''SHAHtoken (ERC-20)''), (''stripe'', JStr ''Credit Card'')] m) (JStr m)"

definition purchase_body :: "nat \<Rightarrow> string \<Rightarrow> string \<Rightarrow> jv" where
  "purchase_body uid plan m = JObj [(''plan'', JStr (to_upper plan)), (''paymentMethod'', JStr (to_upper m)),
     (''walletAddress'', JStr (getWalletAddress uid)), (''telegramUserId'', JInt (int uid))]"

definition processPurchase :: "env \<Rightarrow> string \<Rightarrow> nat \<Rightarrow> string \<Rightarrow> string \<Rightarrow> 's bot" where
  "processPurchase env api uid plan m =
     (if getWalletAddress uid = [] then answer_query env ''Please connect your wallet first!''
      else js_bind (edit_message env ''processing''
          [JStr (if plan = ''yearly'' then ''Yearly Premium'' else ''Monthly Premium''), getPaymentMethodName m] []) (\<lambda>_.
        js_catch
          (js_bind (bot_fetch env uid (api @ ''/premium/purchase'') (purchase_body uid plan m)) (\<lambda>response.
           js_bind (js_ext env (Call ''response.json'' [response])) (\<lambda>result.
           js_bind (js_get response ''ok'') (\<lambda>ok.
           js_bind (if truthy ok then js_get result ''success'' else js_return ok) (\<lambda>success.
           if truthy success
           then js_bind (edit_message env ''welcome''
                  [jopt result ''planName'', jopt result ''expirationDate'', jopt result ''transactionId'']
                  [''feature_AI_WALLET_ASSISTANT'', ''feature_AI_PORTFOLIO_ANALYZER'', ''feature_AI_FEE_OPTIMIZER'', ''premium''])
                (\<lambda>_. js_bind (js_ext env (Call ''setTimeout'' [JStr ''premium_tips'', JInt 2000])) (\<lambda>_. js_return ()))
           else js_bind (js_get result ''error'') (\<lambda>err. js_throw (new_error (js_or err (JStr ''Payment failed''))))
           )))))
          (\<lambda>e. edit_message env ''payment_failed'' [JStr (message e)] [''upgrade_'' @ plan, ''premium''])))"

definition showFeatureGate :: "env \<Rightarrow> string \<Rightarrow> 's bot" where
  "showFeatureGate env f = reply env ''gate'' [obj_get premiumFeatures f] [''upgrade_yearly'', ''features'', ''premium'']"

definition showAIAssistant :: "env \<Rightarrow> 's bot" where
  "showAIAssistant env = reply env ''ai_assistant'' [] [''ai_balance'', ''ai_security'', ''ai_fees'', ''ai_portfolio'']"

definition recommendations :: "jv \<Rightarrow> js_error + jv" where
  "recommendations p = (case jget p ''recommendations'' of Inl e \<Rightarrow> Inl e
     | Inr (JArr rs) \<Rightarrow> Inr (JArr rs)
     | Inr r \<Rightarrow> (case jget r ''map'' of Inl e \<Rightarrow> Inl e
                 | Inr _ \<Rightarrow> Inl (TypeError ''portfolioData.recommendations.map is not a function'')))"

definition showPortfolioAnalysis :: "env \<Rightarrow> string \<Rightarrow> nat \<Rightarrow> 's bot" where
  "showPortfolioAnalysis env api uid = js_bind (getPortfolioData env api uid) (\<lambda>p.
     js_bind (js_get p ''totalValue'') (\<lambda>v.
     js_bind (js_lift (recommendations p)) (\<lambda>rs.
     reply env ''portfolio_analysis''
       [v, jopt p ''change24h'', JBool (js_lt (JInt 0) (jopt p ''change24h'')), jopt p ''riskScore'', rs]
       [''portfolio_detailed'', ''portfolio_rebalance'', ''portfolio_history'', ''portfolio''])))"

definition showSubscriptionManagement :: "env \<Rightarrow> string \<Rightarrow> nat \<Rightarrow> 's bot" where
  "showSubscriptionManagement env api uid = js_bind (getSubscriptionData env api uid) (\<lambda>sub.
     if \<not> active sub then answer_query env ''No active subscription found''
     else let st = jopt sub ''stats'' in edit_message env ''management''
       [jopt sub ''planName'', jopt sub ''expirationDate'', JBool (truthy (jopt sub ''autoRenew'')),
        jopt sub ''lastPaymentDate'', jopt sub ''lastPaymentAmount'', js_or (jopt st ''aiQueries'') (JInt 0),
        js_or (jopt st ''portfolioAnalyses'') (JInt 0), js_or (jopt st ''feeOptimizations'') (JInt 0)]
       [''upgrade_plans'', ''payment_history'', ''toggle_renewal'', ''cancel_subscription'', ''premium''])"

definition openWebApp :: "env \<Rightarrow> string \<Rightarrow> nat \<Rightarrow> 's bot" where
  "openWebApp env api uid = reply env ''web_app''
     [JStr (replace_first api ''api.'' ''app.'' @ ''/premium?telegram_user_id='' @ nat_str uid)] [''premium'']"

definition confirmCancellation :: "env \<Rightarrow> 's bot" where
  "confirmCancellation env = edit_message env ''confirm_cancellation'' [all_features]
     [''confirm_cancel'', ''manage_subscription'']"

definition cancelSubscription :: "env \<Rightarrow> string \<Rightarrow> nat \<Rightarrow> 's bot" where
  "cancelSubscription env api uid = js_catch
     (js_bind (bot_fetch env uid (api @ ''/premium/cancel'') (JObj [(''telegramUserId'', JInt (int uid))])) (\<lambda>response.
      js_bind (js_get response ''ok'') (\<lambda>ok.
      if truthy ok then edit_message env ''cancelled'' [] [''upgrade_plans'', ''premium'']
      else js_throw (Error ''Failed to cancel subscription''))))
     (\<lambda>_. answer_query env ''Failed to cancel subscription. Please try again.'')"

section \<open>Handling an update\<close>

text \<open>The functions \<open>showPremiumFeatures\<close>, \<open>showPriceAlerts\<close> and \<open>showFeatureDetails\<close> that the
  handlers call are not defined in the class.  A gate opened by a button shows the details of
  the feature, one opened by a command its screen.\<close>

definition no_function :: "string \<Rightarrow> 's bot" where
  "no_function f = js_throw (TypeError (''this.'' @ f @ '' is not a function''))"

definition open_feature :: "env \<Rightarrow> string \<Rightarrow> nat \<Rightarrow> bool \<Rightarrow> string \<Rightarrow> 's bot" where
  "open_feature env api uid button f =
     (if button then no_function ''showFeatureDetails''
      else if f = ''AI_WALLET_ASSISTANT'' then showAIAssistant env
      else if f = ''AI_PORTFOLIO_ANALYZER'' then showPortfolioAnalysis env api uid
      else no_function ''showPriceAlerts'')"

definition gated :: "env \<Rightarrow> string \<Rightarrow> nat \<Rightarrow> bool \<Rightarrow> string \<Rightarrow> 's bot" where
  "gated env api uid button f = js_bind (checkFeatureAccess env api uid) (\<lambda>unlocked.
     if \<not> unlocked then showFeatureGate env f else open_feature env api uid button f)"

definition route_of :: "update \<Rightarrow> route" where
  "route_of u = (case u of Command c \<Rightarrow> command_route c | Action d \<Rightarrow> action_route d)"

definition is_button :: "update \<Rightarrow> bool" where
  "is_button u = (case u of Command _ \<Rightarrow> False | Action _ \<Rightarrow> True)"

definition handle :: "env \<Rightarrow> (jv \<Rightarrow> jsnum) \<Rightarrow> string \<Rightarrow> nat \<Rightarrow> update \<Rightarrow> 's bot" where
  "handle env date api uid u = (case route_of u of
       Premium \<Rightarrow> showPremiumStatus env date api uid
     | Upgrade \<Rightarrow> showUpgradeOptions env
     | Features \<Rightarrow> no_function ''showPremiumFeatures''
     | Subscription \<Rightarrow> showSubscriptionManagement env api uid
     | Gated f \<Rightarrow> gated env api uid (is_button u) f
     | Purchase plan \<Rightarrow> initiatePurchase env plan
     | Payment plan m \<Rightarrow> processPurchase env api uid plan m
     | Cancel \<Rightarrow> confirmCancellation env
     | ConfirmCancel \<Rightarrow> cancelSubscription env api uid
     | WebApp \<Rightarrow> openWebApp env api uid
     | Unhandled \<Rightarrow> js_return ())"

section \<open>Library\<close>

text \<open>Messages that show premium content.\<close>

definition premium_content :: "call \<Rightarrow> bool" where
  "premium_content c = (callee c = ''ctx.reply'' \<and>
     (case args c of JStr n # _ \<Rightarrow> n = ''ai_assistant'' \<or> n = ''portfolio_analysis'' | _ \<Rightarrow> False))"

text \<open>A backend that knows every user as a subscriber.\<close>

definition subscriber_env :: env where
  "subscriber_env i c = Inr (if callee c = ''Date.now'' then JInt 0
     else if callee c = ''fetch'' then JObj [(''ok'', JBool True)] else JObj [(''isActive'', JBool True)])"

lemma quiet_messages [avoids_intros]:
  "avoids premium_content (edit_message env n vs bs)"
  "avoids premium_content (answer_query env t)"
  "n \<noteq> ''ai_assistant'' \<Longrightarrow> n \<noteq> ''portfolio_analysis'' \<Longrightarrow> avoids premium_content (reply env n vs bs)"
  unfolding edit_message_def answer_query_def reply_def
  by (intro avoids_intros; simp add: premium_content_def)+

lemma avoids_fetch [avoids_intros]:
  assumes "\<And>t. \<not> B (Call ''Date.now'' [])" "\<And>u t b. \<not> B (Call ''fetch'' [u, t, b])"
  shows "avoids B (bot_fetch env uid url body)"
  unfolding bot_fetch_def getUserToken_def by (intro avoids_intros) (use assms in auto)

lemma avoids_subscription [avoids_intros]:
  assumes "\<And>t. \<not> B (Call ''Date.now'' [])" "\<And>u t b. \<not> B (Call ''fetch'' [u, t, b])" "\<And>r. \<not> B (Call ''response.json'' [r])"
  shows "avoids B (getSubscriptionData env api uid)" "avoids B (checkFeatureAccess env api uid)"
proof -
  show 1: "avoids B (getSubscriptionData env api uid)"
    unfolding getSubscriptionData_def by (intro avoids_intros) (use assms in auto)
  show "avoids B (checkFeatureAccess env api uid)"
    unfolding checkFeatureAccess_def by (intro avoids_intros 1)
qed

lemma quiet_screens:
  "avoids premium_content (showPremiumStatus env date api uid)"
  "avoids premium_content (showUpgradeOptions env)"
  "avoids premium_content (no_function f)"
  "avoids premium_content (showSubscriptionManagement env api uid)"
  "avoids premium_content (initiatePurchase env plan)"
  "avoids premium_content (confirmCancellation env)"
  "avoids premium_content (cancelSubscription env api uid)"
  "avoids premium_content (openWebApp env api uid)"
  "avoids premium_content (showFeatureGate env f)"
  "avoids premium_content (processPurchase env api uid plan m)"
  unfolding showPremiumStatus_def showUpgradeOptions_def no_function_def showSubscriptionManagement_def
    initiatePurchase_def confirmCancellation_def cancelSubscription_def openWebApp_def showFeatureGate_def
    processPurchase_def Let_def
  by (intro avoids_intros; simp add: premium_content_def)+

text \<open>A gate that opens has read an active subscription in this very update.\<close>

lemma getSubscriptionData_cases:
  assumes "getSubscriptionData env api uid (s, tr) = (Inr sub, (s1, tr1))"
  shows "sub = JNull \<or> (\<exists>resp tr0. tr1 = tr0 @ [Call ''response.json'' [resp]] \<and> length tr \<le> length tr0 \<and>
    env (length tr0) (Call ''response.json'' [resp]) = Inr sub)"
proof -
  let ?m = "js_bind (bot_fetch env uid (api @ ''/premium/subscription/'' @ nat_str uid) JUndef) (\<lambda>response.
      js_bind (js_get response ''ok'') (\<lambda>ok.
      if truthy ok then js_ext env (Call ''response.json'' [response]) else js_return JNull))"
  obtain r w where m: "?m (s, tr) = (r, w)" by (rule prod.exhaust)
  show ?thesis
  proof (cases r)
    case (Inl e)
    with m assms show ?thesis unfolding getSubscriptionData_def by (simp add: js_catch_def js_return_apply)
  next
    case (Inr v)
    with m assms have v: "v = sub" "w = (s1, tr1)" unfolding getSubscriptionData_def by (simp_all add: js_catch_def)
    from m Inr obtain resp w1 ok w2 where
      f: "bot_fetch env uid (api @ ''/premium/subscription/'' @ nat_str uid) JUndef (s, tr) = (Inr resp, w1)"
      and ok: "js_get resp ''ok'' w1 = (Inr ok, w2)"
      and j: "(if truthy ok then js_ext env (Call ''response.json'' [resp]) else js_return JNull) w2 = (Inr v, w)"
      unfolding Inr by (elim js_bind_okE)
    have "w2 = w1" using ok by (simp add: js_get_apply)
    have "avoids (\<lambda>_. False) (bot_fetch env uid (api @ ''/premium/subscription/'' @ nat_str uid) JUndef :: ('a, jv) js)"
      by (rule avoids_fetch) simp_all
    from avoidsD [OF this f] obtain cs where "snd w1 = tr @ cs" by auto
    with j v \<open>w2 = w1\<close> show ?thesis
      by (cases "truthy ok") (auto simp: js_ext_def js_return_apply)
  qed
qed

lemma access_evidence:
  assumes "checkFeatureAccess env api uid (s, tr) = (Inr True, (s1, tr1))"
  shows "\<exists>i resp sub. length tr \<le> i \<and> i < length tr1 \<and> tr1 ! i = Call ''response.json'' [resp] \<and>
    env i (tr1 ! i) = Inr sub \<and> active sub"
proof -
  obtain r w where m: "getSubscriptionData env api uid (s, tr) = (r, w)" by (rule prod.exhaust)
  with assms obtain sub where r: "r = Inr sub" "active sub" "w = (s1, tr1)"
    unfolding checkFeatureAccess_def
    by (cases r) (auto simp: js_catch_def js_bind_def js_return_apply)
  with getSubscriptionData_cases [of env api uid s tr sub s1 tr1] m
  obtain resp tr0 where "tr1 = tr0 @ [Call ''response.json'' [resp]]" "length tr \<le> length tr0"
    "env (length tr0) (Call ''response.json'' [resp]) = Inr sub"
    by (auto simp: active_def)
  with r(2) show ?thesis by (intro exI [of _ "length tr0"]) auto
qed

lemma appends: "(m :: 's bot) (s, tr) = (r, (s', tr')) \<Longrightarrow> avoids (\<lambda>_. False) m \<Longrightarrow> \<exists>cs. tr' = tr @ cs"
  using avoidsD [of "\<lambda>_. False" m "(s, tr)" r "(s', tr')"] by auto

lemma appends_feature: "avoids (\<lambda>_. False) (open_feature env api uid button f)"
  unfolding open_feature_def no_function_def showAIAssistant_def showPortfolioAnalysis_def getPortfolioData_def reply_def
  by (intro avoids_intros; simp)

text \<open>Splitting at the last underscore.\<close>

lemma underscores_last:
  assumes "x \<noteq> []" "b \<noteq> []" "CHR ''_'' \<notin> set b"
  shows "underscores (x @ CHR ''_'' # b) \<noteq> [] \<and> last (underscores (x @ CHR ''_'' # b)) = length x"
proof -
  let ?r = "x @ CHR ''_'' # b"
  have n: "1 \<le> length x" "length x < length ?r - 1" using assms(1,2) by (auto simp: Suc_le_eq)
  have split: "[1..<length ?r - 1] = [1..<length x] @ length x # [Suc (length x)..<length ?r - 1]"
    using n upt_add_eq_append [of 1 "length x" "length ?r - 1 - length x"] upt_conv_Cons [of "length x" "length ?r - 1"]
    by simp
  have "filter (\<lambda>i. ?r ! i = CHR ''_'') [Suc (length x)..<length ?r - 1] = []"
    using assms(3) by (auto simp: filter_empty_conv nth_append nth_Cons' in_set_conv_nth)
  then have "underscores ?r = filter (\<lambda>i. ?r ! i = CHR ''_'') [1..<length x] @ [length x]"
    unfolding underscores_def split by simp
  then show ?thesis by simp
qed

lemma match_rest_append: "one_line r \<Longrightarrow> match_rest p (p @ r) = Some r"
  by (simp add: match_rest_def starts_with_def)

lemma match_two_append:
  assumes "x \<noteq> []" "b \<noteq> []" "CHR ''_'' \<notin> set b" "one_line (x @ CHR ''_'' # b)"
  shows "match_two p (p @ x @ CHR ''_'' # b) = Some (x, b)"
  using underscores_last [OF assms(1-3)] by (simp add: match_two_def match_rest_append [OF assms(4)] Let_def)

lemma payment_route:
  assumes "one_line x" "one_line b" "CHR ''_'' \<notin> set b"
  shows "action_route (''payment_'' @ x @ ''_'' @ b) = Payment x b"
proof -
  have "match_rest ''upgrade_'' (''payment_'' @ x @ ''_'' @ b) = None"
    by (simp add: match_rest_def starts_with_def)
  moreover have "match_two ''payment_'' (''payment_'' @ x @ CHR ''_'' # b) = Some (x, b)"
    by (rule match_two_append) (use assms in \<open>auto simp: one_line_def\<close>)
  ultimately show ?thesis by (simp add: action_route_def)
qed

section \<open>Properties\<close>



text \<open>The payment buttons do not survive the round trip through the callback data.  The handler
  takes the text after the last underscore as the payment method, so a method without an
  underscore comes back as it was sent, but the two SHAH methods come back as \<open>native\<close> and
  \<open>token\<close> with \<open>_shah\<close> glued to the plan, and this is what the purchase request contains.\<close>

theorem payment_buttons_round_trip:
  assumes "one_line plan"
  shows "(one_line m \<and> CHR ''_'' \<notin> set m \<longrightarrow> action_route (''payment_'' @ plan @ ''_'' @ m) = Payment plan m) \<and>
    map action_route (payment_buttons plan) =
      [Payment (plan @ ''_shah'') ''native'', Payment (plan @ ''_shah'') ''token'', Payment plan ''stripe'', Purchase ''plans''] \<and>
    jopt (purchase_body uid (plan @ ''_shah'') ''native'') ''plan'' = JStr (to_upper plan @ ''_SHAH'') \<and>
    jopt (purchase_body uid (plan @ ''_shah'') ''native'') ''paymentMethod'' = JStr ''NATIVE''"
proof -
  have shah: "one_line (plan @ ''_shah'')" using assms by (simp add: one_line_def)
  have "action_route (''payment_'' @ plan @ ''_shah_native'') = Payment (plan @ ''_shah'') ''native''"
    using payment_route [OF shah, of "''native''"] by (simp add: one_line_def)
  moreover have "action_route (''payment_'' @ plan @ ''_shah_token'') = Payment (plan @ ''_shah'') ''token''"
    using payment_route [OF shah, of "''token''"] by (simp add: one_line_def)
  moreover have "action_route (''payment_'' @ plan @ ''_stripe'') = Payment plan ''stripe''"
    using payment_route [OF assms, of "''stripe''"] by (simp add: one_line_def)
  moreover have "action_route ''upgrade_plans'' = Purchase ''plans''" by code_simp
  moreover have "to_upper ''_shah'' = ''_SHAH''" "to_upper ''native'' = ''NATIVE''" by code_simp+
  moreover have "to_upper (plan @ x) = to_upper plan @ to_upper x" for x by (simp add: to_upper_def)
  ultimately show ?thesis using payment_route [OF assms, of m]
    by (simp add: payment_buttons_def purchase_body_def)
qed

theorem payment_buttons_round_trip_witness:
  "map action_route (payment_buttons ''yearly'') =
     [Payment ''yearly_shah'' ''native'', Payment ''yearly_shah'' ''token'', Payment ''yearly'' ''stripe'', Purchase ''plans'']"
proof -
  have "one_line ''yearly''" by code_simp
  from payment_buttons_round_trip [OF this] show ?thesis by simp
qed

text \<open>Buttons that lead nowhere: the refresh, feature list, payment history, renewal, assistant
  and portfolio buttons have no handler, and the button for all plans is taken for the purchase
  of a plan named \<open>plans\<close>, which throws before any message is sent.\<close>

theorem dead_buttons:
  "list_all (\<lambda>d. action_route d = Unhandled)
     [''premium'', ''features'', ''payment_history'', ''toggle_renewal'', ''ai_balance'', ''ai_security'', ''ai_fees'',
      ''ai_portfolio'', ''portfolio_detailed'', ''portfolio_rebalance'', ''portfolio_history'', ''portfolio''] \<and>
   handle env date api uid (Action ''upgrade_plans'') w = (Inl (cannot_read ''undefined'' ''name''), w)"
proof
  show "list_all (\<lambda>d. action_route d = Unhandled)
     [''premium'', ''features'', ''payment_history'', ''toggle_renewal'', ''ai_balance'', ''ai_security'', ''ai_fees'',
      ''ai_portfolio'', ''portfolio_detailed'', ''portfolio_rebalance'', ''portfolio_history'', ''portfolio'']"
    by code_simp
  have "action_route ''upgrade_plans'' = Purchase ''plans''" by code_simp
  then show "handle env date api uid (Action ''upgrade_plans'') w = (Inl (cannot_read ''undefined'' ''name''), w)"
    by (simp add: handle_def route_of_def initiatePurchase_def planDetails_def proto_value_def proto_keys_def
      js_bind_apply js_get_apply)
qed

text \<open>A purchase that succeeded can be reported as failed: if the backend confirms the purchase
  but showing the welcome message fails, the user is told that the payment failed and is
  offered to pay again.\<close>

theorem paid_but_reported_failed:
  assumes "env (length tr) (Call ''ctx.editMessageText'' p) = Inr v0" "p = [JStr ''processing'',
      JArr [JStr (if plan = ''yearly'' then ''Yearly Premium'' else ''Monthly Premium''), getPaymentMethodName m], JArr []]"
    and "env (Suc (length tr)) (Call ''Date.now'' []) = Inr (JNum t)"
    and "\<And>f. env (Suc (Suc (length tr))) (Call ''fetch'' f) = Inr (JObj resp)" "truthy (obj_get resp ''ok'')"
    and "env (Suc (Suc (Suc (length tr)))) (Call ''response.json'' [JObj resp]) = Inr (JObj res)" "truthy (obj_get res ''success'')"
    and "\<And>a. env (Suc (Suc (Suc (Suc (length tr))))) (Call ''ctx.editMessageText'' a) = Inl e"
    and "\<And>a. env (Suc (Suc (Suc (Suc (Suc (length tr)))))) (Call ''ctx.editMessageText'' a) = Inr v1"
  shows "\<exists>cs. processPurchase env api uid plan m (s, tr) = (Inr (), (s, tr @ cs @
    [Call ''ctx.editMessageText'' [JStr ''payment_failed'', JArr [JStr (message e)], JArr [JStr (''upgrade_'' @ plan), JStr ''premium'']]]))"
  using assms
  by (simp add: processPurchase_def getWalletAddress_def edit_message_def bot_fetch_def getUserToken_def date_now_def
    js_bind_apply js_catch_apply js_ext_apply js_return_apply js_get_apply)

theorem paid_but_reported_failed_witness:
  "let env = (\<lambda>i c. if i = 4 then Inl (Error ''message is not modified'')
       else if callee c = ''Date.now'' then Inr (JInt 0) else Inr (JObj [(''ok'', JBool True), (''success'', JBool True)]))
   in \<exists>cs. processPurchase env [] 7 ''yearly'' ''stripe'' ((), []) = (Inr (), ((), [] @ cs @
     [Call ''ctx.editMessageText'' [JStr ''payment_failed'', JArr [JStr (message (Error ''message is not modified''))],
        JArr [JStr (''upgrade_'' @ ''yearly''), JStr ''premium'']]]))"
  unfolding Let_def
  by (rule paid_but_reported_failed [OF _ refl, where resp = "[(''ok'', JBool True), (''success'', JBool True)]"
      and res = "[(''ok'', JBool True), (''success'', JBool True)]"]) simp_all

end
