(* ===== verification/Checkout.thy ===== *)
theory Checkout
  imports PriceOracle
begin

text \<open>
  Buying an NFT by card: the Stripe client and its hook (sdk-core/marketplace-api/stripe-payments.js),
  the payment component (web/components/StripeNFTPayment.jsx) and the hook \<open>usePriceOracle\<close> of
  sdk-core/marketplace-api/price-oracle.js, all on the shared price oracle of the theory
  PriceOracle.

  The page's origin and whether Stripe's script is loaded are arguments, and the component's
  callbacks are given.  A mounted component is its subscription with the oracle and the values it
  shows.  Both hooks use React's \<open>useState\<close>, \<open>useEffect\<close> and \<open>useCallback\<close>, which neither module
  imports; the definitions say what the hooks do in a page where these names are bound.
\<close>

section \<open>The Stripe client\<close>

record stripe =
  stripePublicKey :: jv
  stripe_api :: jv
  isTestMode :: jv

definition new_StripePayments :: "jv \<Rightarrow> jv \<Rightarrow> fields \<Rightarrow> stripe" where
  "new_StripePayments env_key node_env config =
     \<lparr>stripePublicKey = js_or (obj_get config ''stripePublicKey'') env_key,
      stripe_api = js_or (obj_get config ''apiBaseUrl'') (JStr ''https://api.shah.vip/marketplace''),
      isTestMode = js_or (obj_get config ''isTestMode'') (JBool (strict_eq node_env (JStr ''development'')))\<rparr>"

definition stripe_verified :: "fields \<Rightarrow> bool" where
  "stripe_verified nft = (let md = obj_get nft ''metadata''; tier = obj_get nft ''tier'' in
     truthy (obj_get nft ''verified'') \<or> (truthy md \<and> truthy (jopt md ''adminVerified'')) \<or>
     (truthy tier \<and> (strict_eq tier (JStr ''Pro'') \<or> strict_eq tier (JStr ''Premium''))))"

definition stripe_listed :: "fields \<Rightarrow> bool" where
  "stripe_listed nft = (truthy (obj_get nft ''isListed'') \<or> js_lt (JInt 0) (obj_get nft ''listedPriceSatoshis''))"

definition isStripeEnabled :: "stripe \<Rightarrow> fields \<Rightarrow> bool" where
  "isStripeEnabled sp nft = (truthy (stripePublicKey sp) \<and> stripe_verified nft \<and> stripe_listed nft)"

definition calculateUSDPrice :: "env \<Rightarrow> fields \<Rightarrow> (price_oracle, jsnum) js" where
  "calculateUSDPrice env nft = js_bind (getShahPrice env False) (\<lambda>shahPrice.
     js_return (num_mul (num_div (to_number (js_or (obj_get nft ''listedPriceSatoshis'') (JInt 0))) (Fin 100000000))
       (to_number shahPrice)))"

definition unit_amount :: "jsnum \<Rightarrow> jsnum" where
  "unit_amount usdPrice = num_round (num_mul usdPrice (Fin 100))"

definition session_data :: "string \<Rightarrow> fields \<Rightarrow> jv \<Rightarrow> fields \<Rightarrow> jsnum \<Rightarrow> js_error + jv" where
  "session_data origin nft buyerAddress opts usdPrice =
     (case js_toString (obj_get nft ''listedPriceSatoshis'') of Inl e \<Rightarrow> Inl e | Inr price_satoshis \<Rightarrow>
      let tier = js_or (obj_get nft ''tier'') (JStr ''Basic'') in
      Inr (JObj [(''payment_method_types'', JArr [JStr ''card'']),
        (''line_items'', JArr [JObj [
          (''price_data'', JObj [(''currency'', JStr ''usd''),
            (''product_data'', JObj [(''name'', obj_get nft ''name''),
              (''description'', js_or (obj_get nft ''description'') (JStr (''NFT by '' @ to_str (obj_get nft ''creator'')))),
              (''images'', JArr (if truthy (obj_get nft ''imageURI'') then [obj_get nft ''imageURI''] else [])),
              (''metadata'', JObj [(''nft_id'', obj_get nft ''id''), (''creator'', obj_get nft ''creator''), (''tier'', tier)])]),
            (''unit_amount'', JNum (unit_amount usdPrice))]),
          (''quantity'', JInt 1)]]),
        (''mode'', JStr ''payment''),
        (''success_url'', js_or (obj_get opts ''successUrl'')
           (JStr (origin @ ''/marketplace/purchase/success?session_id={CHECKOUT_SESSION_ID}''))),
        (''cancel_url'', js_or (obj_get opts ''cancelUrl'') (JStr (origin @ ''/marketplace/purchase/cancel''))),
        (''metadata'', JObj [(''nft_id'', obj_get nft ''id''), (''buyer_address'', buyerAddress),
           (''seller_address'', obj_get nft ''owner''), (''price_satoshis'', price_satoshis),
           (''price_usd'', JStr (num_str usdPrice)), (''tier'', tier)]),
        (''customer_email'', obj_get opts ''customerEmail''),
        (''allow_promotion_codes'', JBool True), (''billing_address_collection'', JStr ''required''),
        (''shipping_address_collection'', JObj [(''allowed_countries'',
           JArr (map JStr [''US'', ''CA'', ''GB'', ''DE'', ''FR'', ''AU'', ''JP'', ''SG'']))])]))"

text \<open>A request to the payment backend: a failure is logged and thrown on.\<close>

definition stripe_fetch :: "env \<Rightarrow> jv list \<Rightarrow> string \<Rightarrow> ('s, jv) js" where
  "stripe_fetch env req err = js_catch
     (js_bind (js_ext env (Call ''fetch'' req)) (\<lambda>response.
      js_bind (js_get response ''ok'') (\<lambda>ok.
      if \<not> truthy ok then js_throw (Error (err @ to_str (jopt response ''status'')))
      else js_ext env (Call ''response.json'' [response]))))
     js_throw"

definition bearer :: "fields \<Rightarrow> jv" where
  "bearer opts = JStr (''Bearer '' @ to_str (js_or (obj_get opts ''apiKey'') (JStr [])))"

definition createCheckoutSession :: "env \<Rightarrow> stripe \<Rightarrow> string \<Rightarrow> fields \<Rightarrow> jv \<Rightarrow> fields \<Rightarrow> (price_oracle, jv) js" where
  "createCheckoutSession env sp origin nft buyerAddress opts =
     (if \<not> isStripeEnabled sp nft then js_throw (Error ''Stripe payments not available for this NFT'')
      else js_bind (calculateUSDPrice env nft) (\<lambda>usdPrice.
        js_bind (js_lift (session_data origin nft buyerAddress opts usdPrice)) (\<lambda>d.
        stripe_fetch env [JStr (to_str (stripe_api sp) @ ''/stripe/create-checkout-session''), bearer opts, d]
          ''Failed to create checkout session: '')))"

definition stripe_processPayment :: "env \<Rightarrow> stripe \<Rightarrow> jv \<Rightarrow> fields \<Rightarrow> ('s, jv) js" where
  "stripe_processPayment env sp sessionId opts = stripe_fetch env
     [JStr (to_str (stripe_api sp) @ ''/stripe/process-payment''), bearer opts,
      JObj [(''session_id'', sessionId), (''buyer_address'', obj_get opts ''buyerAddress''),
        (''auto_convert'', JBool (\<not> strict_eq (obj_get opts ''autoConvert'') (JBool False)))]]
     ''Payment processing failed: ''"

definition getPaymentStatus :: "env \<Rightarrow> stripe \<Rightarrow> jv \<Rightarrow> ('s, jv) js" where
  "getPaymentStatus env sp sessionId = stripe_fetch env
     [JStr (to_str (stripe_api sp) @ ''/stripe/payment-status/'' @ to_str sessionId)] ''Failed to get payment status: ''"

definition createRefund :: "env \<Rightarrow> stripe \<Rightarrow> jv \<Rightarrow> fields \<Rightarrow> ('s, jv) js" where
  "createRefund env sp sessionId opts = stripe_fetch env
     [JStr (to_str (stripe_api sp) @ ''/stripe/refund''), bearer opts,
      JObj [(''session_id'', sessionId), (''reason'', js_or (obj_get opts ''reason'') (JStr ''requested_by_customer'')),
        (''amount'', obj_get opts ''amount'')]]
     ''Refund failed: ''"

definition getPaymentHistory :: "env \<Rightarrow> stripe \<Rightarrow> jv \<Rightarrow> fields \<Rightarrow> ('s, jv) js" where
  "getPaymentHistory env sp walletAddress opts = stripe_fetch env
     [JStr (to_str (stripe_api sp) @ ''/stripe/payment-history''),
      JObj [(''address'', walletAddress), (''limit'', js_or (obj_get opts ''limit'') (JInt 50)),
        (''offset'', js_or (obj_get opts ''offset'') (JInt 0))]]
     ''Failed to get payment history: ''"

definition validateSession :: "env \<Rightarrow> stripe \<Rightarrow> jv \<Rightarrow> ('s, bool) js" where
  "validateSession env sp sessionId = js_catch
     (js_bind (getPaymentStatus env sp sessionId) (\<lambda>status.
      js_bind (js_get status ''status'') (\<lambda>st.
      js_return (strict_eq st (JStr ''complete'') \<and> strict_eq (jopt status ''payment_status'') (JStr ''paid'')))))
     (\<lambda>_. js_return False)"

section \<open>The payment hook and component\<close>

record checkout =
  co_oracle :: price_oracle
  co_loading :: bool
  co_error :: jv
  co_status :: jv
  co_terms :: bool
  co_processing :: bool
  co_step :: string

definition on_oracle :: "(price_oracle, 'a) js \<Rightarrow> (checkout, 'a) js" where
  "on_oracle = js_zoom co_oracle (\<lambda>o' s. s\<lparr>co_oracle := o'\<rparr>)"

text \<open>The price shown: \<open>usdPrice\<close> is set when the NFT has a listed price.\<close>

definition shown_price :: "env \<Rightarrow> fields \<Rightarrow> (price_oracle, jsnum) js" where
  "shown_price env nft = (if truthy (obj_get nft ''listedPriceSatoshis'')
     then satoshisToUSD env (to_number (obj_get nft ''listedPriceSatoshis'')) else js_return (Fin 0))"

text \<open>Stripe's \<open>redirectToCheckout\<close> answers with an object whose \<open>error\<close>, if any, is thrown.\<close>

definition redirect :: "env \<Rightarrow> stripe \<Rightarrow> bool \<Rightarrow> jv \<Rightarrow> (checkout, unit) js" where
  "redirect env sp stripe_loaded session =
     (if stripe_loaded
      then js_bind (js_get session ''id'') (\<lambda>i.
        js_bind (js_ext env (Call ''redirectToCheckout'' [stripePublicKey sp, i])) (\<lambda>r.
        js_bind (js_get r ''error'') (\<lambda>e.
        if truthy e then js_throw (new_error (jopt e ''message'')) else js_return ())))
      else js_bind (js_get session ''url'') (\<lambda>url.
        js_bind (js_ext env (Call ''window.location.href'' [url])) (\<lambda>_. js_return ())))"

definition createPayment :: "env \<Rightarrow> stripe \<Rightarrow> string \<Rightarrow> bool \<Rightarrow> fields \<Rightarrow> jv \<Rightarrow> fields \<Rightarrow> (checkout, jv) js" where
  "createPayment env sp origin stripe_loaded nft buyerAddress opts =
     js_bind (js_update (\<lambda>s. s\<lparr>co_loading := True, co_error := JNull\<rparr>)) (\<lambda>_.
     js_finally (js_catch
       (js_bind (on_oracle (createCheckoutSession env sp origin nft buyerAddress opts)) (\<lambda>session.
        js_bind (redirect env sp stripe_loaded session) (\<lambda>_. js_return session)))
       (\<lambda>e. js_bind (js_update (\<lambda>s. s\<lparr>co_error := JStr (message e)\<rparr>)) (\<lambda>_. js_throw e)))
     (\<lambda>s. s\<lparr>co_loading := False\<rparr>))"

definition checkPaymentStatus :: "env \<Rightarrow> stripe \<Rightarrow> jv \<Rightarrow> (checkout, jv) js" where
  "checkPaymentStatus env sp sessionId = js_catch
     (js_bind (getPaymentStatus env sp sessionId) (\<lambda>status.
      js_bind (js_update (\<lambda>s. s\<lparr>co_status := status\<rparr>)) (\<lambda>_. js_return status)))
     (\<lambda>e. js_bind (js_update (\<lambda>s. s\<lparr>co_error := JStr (message e)\<rparr>)) (\<lambda>_. js_throw e))"

definition payment_opts :: "string \<Rightarrow> string \<Rightarrow> fields" where
  "payment_opts origin paymentMethod =
     [(''successUrl'', JStr (origin @ ''/marketplace/purchase/success?session_id={CHECKOUT_SESSION_ID}'')),
      (''cancelUrl'', JStr (origin @ ''/marketplace/purchase/cancel'')), (''customerEmail'', JStr []),
      (''paymentMethod'', JStr paymentMethod)]"

definition payment_failed :: "env \<Rightarrow> js_error \<Rightarrow> (checkout, unit) js" where
  "payment_failed env e = js_bind (js_update (\<lambda>s. s\<lparr>co_processing := False, co_step := []\<rparr>)) (\<lambda>_.
     js_bind (js_ext env (Call ''onPaymentError'' [js_or (JStr (message e)) (JStr ''Payment failed'')])) (\<lambda>_.
     js_return ()))"

definition handlePayment :: "env \<Rightarrow> stripe \<Rightarrow> string \<Rightarrow> bool \<Rightarrow> fields \<Rightarrow> jv \<Rightarrow> string \<Rightarrow> (checkout, unit) js" where
  "handlePayment env sp origin stripe_loaded nft buyerAddress paymentMethod = js_bind js_this (\<lambda>s.
     if \<not> co_terms s
     then js_bind (js_ext env (Call ''onPaymentError'' [JStr ''Please accept the terms and conditions''])) (\<lambda>_. js_return ())
     else js_bind (js_update (\<lambda>s. s\<lparr>co_processing := True, co_step := ''Creating payment session...''\<rparr>)) (\<lambda>_.
       js_catch
         (js_bind (createPayment env sp origin stripe_loaded nft buyerAddress (payment_opts origin paymentMethod)) (\<lambda>_.
          js_update (\<lambda>s. s\<lparr>co_step := ''Redirecting to payment...''\<rparr>)))
         (payment_failed env)))"

definition handleCancel :: "env \<Rightarrow> (checkout, unit) js" where
  "handleCancel env = js_bind js_this (\<lambda>s.
     if co_processing s then js_return ()
     else js_bind (js_ext env (Call ''onPaymentCancel'' [])) (\<lambda>_. js_return ()))"

section \<open>The hook usePriceOracle\<close>

record oracle_view =
  ov_price :: jv
  ov_loading :: bool
  ov_error :: jv
  ov_lastUpdate :: jv

definition new_view :: oracle_view where
  "new_view = \<lparr>ov_price = JNull, ov_loading = True, ov_error = JNull, ov_lastUpdate = JNull\<rparr>"

text \<open>Mounting with the callback \<open>cb\<close>: the view after \<open>initPrice\<close>, and whether it subscribed.\<close>

definition view_mount :: "env \<Rightarrow> fields \<Rightarrow> string \<Rightarrow> (price_oracle, oracle_view \<times> bool) js" where
  "view_mount env config cb = js_catch
     (js_bind (getShahPrice env False) (\<lambda>p.
      js_bind (date_now env) (\<lambda>t.
      js_bind (subscribeToPriceUpdates cb) (\<lambda>_.
      let v = new_view\<lparr>ov_price := p, ov_lastUpdate := JNum t, ov_loading := False\<rparr> in
      js_catch
        (js_bind (if strict_eq (obj_get config ''enablePolling'') (JBool False) then js_return ()
                  else startPolling env (obj_get config ''pollInterval'')) (\<lambda>_. js_return (v, True)))
        (\<lambda>e. js_return (v\<lparr>ov_error := JStr (message e)\<rparr>, True))))))
     (\<lambda>e. js_return (new_view\<lparr>ov_error := JStr (message e), ov_loading := False\<rparr>, False))"

definition view_unmount :: "env \<Rightarrow> fields \<Rightarrow> string \<Rightarrow> bool \<Rightarrow> (price_oracle, unit) js" where
  "view_unmount env config cb subscribed =
     js_bind (if subscribed then unsubscribe cb else js_return ()) (\<lambda>_.
     if strict_eq (obj_get config ''enablePolling'') (JBool False) then js_return () else stopPolling env)"

text \<open>The callback a mounted view registers: it runs at every price update.\<close>

definition view_notified :: "env \<Rightarrow> jv \<Rightarrow> oracle_view \<Rightarrow> (price_oracle, oracle_view) js" where
  "view_notified env newPrice v = js_bind (date_now env) (\<lambda>t.
     js_return (v\<lparr>ov_price := newPrice, ov_lastUpdate := JNum t\<rparr>))"

definition refreshPrice :: "env \<Rightarrow> oracle_view \<Rightarrow> (price_oracle, oracle_view) js" where
  "refreshPrice env v = js_catch
     (js_bind (getShahPrice env True) (\<lambda>p.
      js_bind (date_now env) (\<lambda>t.
      js_return (v\<lparr>ov_price := p, ov_lastUpdate := JNum t, ov_error := JNull, ov_loading := False\<rparr>))))
     (\<lambda>e. js_return (v\<lparr>ov_error := JStr (message e), ov_loading := False\<rparr>))"

section \<open>Runs of the client\<close>

text \<open>The amount in cents of the only line item.\<close>

definition charged :: "jv \<Rightarrow> jv" where
  "charged d = (case jopt d ''line_items'' of
     JArr (item # _) \<Rightarrow> jopt (jopt item ''price_data'') ''unit_amount'' | _ \<Rightarrow> JUndef)"

lemma charged_session_data:
  "session_data origin nft buyer opts usd = Inr d \<Longrightarrow> charged d = JNum (unit_amount usd)"
  by (auto simp: session_data_def Let_def charged_def split: sum.splits)

lemma unit_amount_half_cent:
  "\<exists>c::int. unit_amount (Fin a) = Fin (of_int c) \<and> \<bar>of_int c - a * 100\<bar> \<le> 1 / 2"
proof -
  have "\<bar>of_int \<lfloor>a * 100 + 1 / 2\<rfloor> - a * 100\<bar> \<le> 1 / 2" by linarith
  then show ?thesis by (auto simp: unit_amount_def)
qed

lemma stripe_fetch_okE:
  assumes "stripe_fetch env req err (s, tr) = (Inr r, w')"
  obtains resp where "w' = (s, tr @ [Call ''fetch'' req, Call ''response.json'' [resp]])"
  using assms unfolding stripe_fetch_def
  by (auto simp: js_simps split: prod.splits sum.splits if_splits)

lemma calculateUSDPrice_okE:
  assumes "calculateUSDPrice env nft w = (Inr u, w')"
  obtains p where "getShahPrice env False w = (Inr p, w')"
    "u = num_mul (num_div (to_number (js_or (obj_get nft ''listedPriceSatoshis'') (JInt 0))) (Fin 100000000)) (to_number p)"
  using assms unfolding calculateUSDPrice_def by (elim js_bind_okE) (auto simp: js_simps)

lemma getShahPrice_returns:
  assumes "clock_ok env"
  obtains p s1 tr1 where "getShahPrice env f (s, tr) = (Inr p, (s1, tr1))"
proof -
  obtain now where "env (length tr) (Call ''Date.now'' []) = Inr (JNum now)"
    using assms unfolding clock_ok_def by blast
  from getShahPrice_cell [OF assms this, of f s] that show thesis by blast
qed

lemma session_needs_price:
  "obj_get nft ''listedPriceSatoshis'' \<in> {JUndef, JNull} \<Longrightarrow>
   \<exists>m. session_data origin nft buyer opts u = Inl (TypeError m)"
  by (auto simp: session_data_def js_toString_def cannot_read_def)

text \<open>What an attempt leaves in the component's state.\<close>

lemma createPayment_flags:
  "co_loading (fst (snd (createPayment env sp origin l nft buyer opts (s, tr)))) = False"
  "co_processing (fst (snd (createPayment env sp origin l nft buyer opts (s, tr)))) = co_processing s"
proof -
  let ?body = "js_catch (js_bind (on_oracle (createCheckoutSession env sp origin nft buyer opts)) (\<lambda>session.
        js_bind (redirect env sp l session) (\<lambda>_. js_return session)))
       (\<lambda>e. js_bind (js_update (\<lambda>s. s\<lparr>co_error := JStr (message e)\<rparr>)) (\<lambda>_. js_throw e))"
  have zoom: "js_inv (\<lambda>w. co_processing (fst w) = b) (on_oracle m)" for b and m :: "(price_oracle, jv) js"
    by (rule js_invI) (auto simp: on_oracle_def js_zoom_def split: prod.splits)
  have inv: "js_inv (\<lambda>w. co_processing (fst w) = b) ?body" for b
    unfolding redirect_def
    by (intro inv_intros zoom js_inv_stateI [where P = "\<lambda>s. co_processing s = b"]
          js_inv_state_ext [where P = "\<lambda>s. co_processing s = b"]) simp_all
  let ?w = "(s\<lparr>co_loading := True, co_error := JNull\<rparr>, tr)"
  obtain r w1 where b1: "?body ?w = (r, w1)" by (rule prod.exhaust)
  obtain s1 tr1 where w1: "w1 = (s1, tr1)" by (rule prod.exhaust)
  note b = b1 [unfolded w1]
  have run: "createPayment env sp origin l nft buyer opts (s, tr) = (r, (s1\<lparr>co_loading := False\<rparr>, tr1))"
    unfolding createPayment_def js_bind_apply [of "js_update _"] js_update_apply prod.case sum.case js_finally_apply b ..
  show "co_loading (fst (snd (createPayment env sp origin l nft buyer opts (s, tr)))) = False"
    by (simp add: run)
  show "co_processing (fst (snd (createPayment env sp origin l nft buyer opts (s, tr)))) = co_processing s"
    using js_invD [OF inv [of "co_processing s"], of ?w] b by (simp add: run)
qed

section \<open>Properties\<close>

text \<open>C14: A checkout session is only created for an NFT Stripe is enabled for, by one request
  after the price is known, and the amount charged is within half a cent of the listed price in
  satoshis at the oracle's price.\<close>

theorem checkout_charges_quoted_price:
  assumes run: "createCheckoutSession env sp origin nft buyer opts (s, tr) = (Inr r, (s', tr'))"
    and listed: "obj_get nft ''listedPriceSatoshis'' = JNum (Fin q)"
  shows "isStripeEnabled sp nft \<and> (\<exists>p tr1 d resp.
    getShahPrice env False (s, tr) = (Inr p, (s', tr1)) \<and>
    tr' = tr1 @ [Call ''fetch'' [JStr (to_str (stripe_api sp) @ ''/stripe/create-checkout-session''), bearer opts, d],
                 Call ''response.json'' [resp]] \<and>
    (\<forall>x. to_number p = Fin x \<longrightarrow>
      (\<exists>c::int. charged d = JNum (Fin (of_int c)) \<and> \<bar>of_int c - q * x / 1000000\<bar> \<le> 1 / 2)))"
proof -
  have en: "isStripeEnabled sp nft" using run by (simp add: createCheckoutSession_def js_simps split: if_splits)
  obtain u w1 d where u: "calculateUSDPrice env nft (s, tr) = (Inr u, w1)"
    and d: "session_data origin nft buyer opts u = Inr d"
    and f: "stripe_fetch env [JStr (to_str (stripe_api sp) @ ''/stripe/create-checkout-session''), bearer opts, d]
          ''Failed to create checkout session: '' w1 = (Inr r, (s', tr'))"
    using run en unfolding createCheckoutSession_def
    by (simp only: not_True_eq_False if_False) (elim js_bind_okE, simp add: js_simps)
  obtain s1 tr1 where w1: "w1 = (s1, tr1)" by (rule prod.exhaust)
  obtain p where p: "getShahPrice env False (s, tr) = (Inr p, w1)"
    and up: "u = num_mul (num_div (to_number (js_or (obj_get nft ''listedPriceSatoshis'') (JInt 0))) (Fin 100000000)) (to_number p)"
    using u by (rule calculateUSDPrice_okE)
  obtain resp where tr': "s' = s1" "tr' = tr1 @ [Call ''fetch'' [JStr (to_str (stripe_api sp) @
      ''/stripe/create-checkout-session''), bearer opts, d], Call ''response.json'' [resp]]"
    using f unfolding w1 by (rule stripe_fetch_okE) simp
  have q: "to_number (js_or (obj_get nft ''listedPriceSatoshis'') (JInt 0)) = Fin q"
    by (cases "q = 0") (simp_all add: listed js_or_def num_truthy_def proto_value_def)
  have "\<exists>c::int. charged d = JNum (Fin (of_int c)) \<and> \<bar>of_int c - q * x / 1000000\<bar> \<le> 1 / 2"
    if "to_number p = Fin x" for x
    using unit_amount_half_cent [of "q / 100000000 * x"]
    unfolding charged_session_data [OF d] up q that by (simp add: num_simps)
  then show ?thesis using en p tr' w1 by blast
qed

text \<open>A page that answers every request, and an oracle with a fresh price of two dollars.\<close>

definition answering :: env where
  "answering = (\<lambda>_ c. if callee c = ''Date.now'' then Inr (JInt 1000) else Inr (JObj [(''ok'', JBool True)]))"

definition fresh_oracle :: price_oracle where
  "fresh_oracle = (new_PriceOracle [])\<lparr>priceCache := \<lparr>price = JInt 2, timestamp = Fin 1000, source = JNull\<rparr>\<rparr>"

definition sample_stripe :: stripe where
  "sample_stripe = new_StripePayments (JStr ''pk'') JUndef []"

lemma fresh_cached: "cached_valid (Fin 1000) fresh_oracle" "price (priceCache fresh_oracle) = JInt 2"
  by (simp_all add: cached_valid_def fresh_oracle_def new_PriceOracle_def js_or_def num_truthy_def proto_value_def proto_keys_def)

lemma fresh_price: "getShahPrice answering False (fresh_oracle, []) = (Inr (JInt 2), (fresh_oracle, [Call ''Date.now'' []]))"
  using fresh_cached by (simp add: getShahPrice_def date_now_def js_simps answering_def)

lemma answering_fetch:
  "stripe_fetch answering req err (s, tr) = (Inr (JObj [(''ok'', JBool True)]),
     (s, tr @ [Call ''fetch'' req, Call ''response.json'' [JObj [(''ok'', JBool True)]]]))"
  by (simp add: stripe_fetch_def js_simps answering_def)

theorem checkout_charges_quoted_price_witness:
  "let nft = [(''verified'', JBool True), (''listedPriceSatoshis'', JNum (Fin 150000000))] in
   isStripeEnabled sample_stripe nft \<and>
   (\<exists>tr1 d resp. snd (snd (createCheckoutSession answering sample_stripe [] nft (JStr ''b'') [] (fresh_oracle, []))) =
     tr1 @ [Call ''fetch'' [JStr (to_str (stripe_api sample_stripe) @ ''/stripe/create-checkout-session''), bearer [], d],
            Call ''response.json'' [resp]] \<and>
     (\<exists>c::int. charged d = JNum (Fin (of_int c)) \<and> \<bar>of_int c - 300\<bar> \<le> (1 / 2 :: rat)))"
proof -
  let ?nft = "[(''verified'', JBool True), (''listedPriceSatoshis'', JNum (Fin 150000000))]"
  have en: "isStripeEnabled sample_stripe ?nft"
    by (simp add: isStripeEnabled_def sample_stripe_def new_StripePayments_def js_or_def stripe_verified_def stripe_listed_def
          Let_def num_truthy_def js_lt_def is_text_def proto_value_def)
  obtain u where u: "calculateUSDPrice answering ?nft (fresh_oracle, []) = (Inr u, (fresh_oracle, [Call ''Date.now'' []]))"
    by (simp add: calculateUSDPrice_def js_bind_apply fresh_price js_return_apply)
  obtain d where d: "session_data [] ?nft (JStr ''b'') [] u = Inr d"
    by (simp add: session_data_def js_toString_def Let_def)
  obtain r s' tr' where r: "createCheckoutSession answering sample_stripe [] ?nft (JStr ''b'') [] (fresh_oracle, []) = (Inr r, (s', tr'))"
    unfolding createCheckoutSession_def js_bind_apply
    using en by (simp add: js_bind_apply u d js_lift_apply answering_fetch)
  from checkout_charges_quoted_price [OF r, of 150000000] en show ?thesis
    unfolding Let_def r fresh_price by auto
qed

text \<open>An NFT that is marked as listed and has no listed price passes the availability test, and
  its checkout fails with a TypeError once the price is known, before any request to the payment
  backend.\<close>

theorem listed_without_price_fails:
  assumes "clock_ok env" "isStripeEnabled sp nft"
    and "obj_get nft ''listedPriceSatoshis'' \<in> {JUndef, JNull}"
  shows "\<exists>p m w1. getShahPrice env False (s, tr) = (Inr p, w1) \<and>
    createCheckoutSession env sp origin nft buyer opts (s, tr) = (Inl (TypeError m), w1)"
proof -
  obtain p s1 tr1 where p: "getShahPrice env False (s, tr) = (Inr p, (s1, tr1))"
    using assms(1) by (rule getShahPrice_returns)
  then obtain u where u: "calculateUSDPrice env nft (s, tr) = (Inr u, (s1, tr1))"
    by (simp add: calculateUSDPrice_def js_bind_apply js_return_apply)
  obtain m where "session_data origin nft buyer opts u = Inl (TypeError m)"
    using session_needs_price [OF assms(3)] by blast
  then have "createCheckoutSession env sp origin nft buyer opts (s, tr) = (Inl (TypeError m), (s1, tr1))"
    using assms(2) by (simp add: createCheckoutSession_def js_bind_apply u js_lift_apply)
  then show ?thesis using p by blast
qed

theorem listed_without_price_fails_witness:
  "\<exists>p m w1. getShahPrice answering False (fresh_oracle, []) = (Inr p, w1) \<and>
    createCheckoutSession answering sample_stripe [] [(''verified'', JBool True), (''isListed'', JBool True)] JNull []
      (fresh_oracle, []) = (Inl (TypeError m), w1)"
proof (rule listed_without_price_fails)
  show "clock_ok answering" by (simp add: clock_ok_def answering_def)
qed (simp_all add: isStripeEnabled_def sample_stripe_def new_StripePayments_def js_or_def stripe_verified_def
       stripe_listed_def Let_def proto_value_def proto_keys_def)



text \<open>All views share one oracle: when one view that polls is unmounted, polling stops, although
  the other views are still subscribed.\<close>

theorem unmount_stops_everyone:
  assumes "timers_ok env" "\<not> strict_eq (obj_get config ''enablePolling'') (JBool False)"
    and "b \<in> set (priceUpdateCallbacks s)" "b \<noteq> a"
  shows "\<exists>s' tr'. view_unmount env config a subscribed (s, tr) = (Inr (), (s', tr')) \<and>
    \<not> isPolling s' \<and> \<not> truthy (pollInterval s') \<and> b \<in> set (priceUpdateCallbacks s')"
proof -
  have b: "b \<in> set (remove1 a (priceUpdateCallbacks s))" using assms(3,4) by (simp add: in_set_remove1)
  obtain v where "env (length tr) (Call ''clearInterval'' [pollInterval s]) = Inr v"
    using assms(1) unfolding timers_ok_def by (metis call.sel(1))
  then show ?thesis using assms(2,3) b
    by (cases subscribed; cases "truthy (pollInterval s)")
       (simp_all add: view_unmount_def unsubscribe_def stopPolling_def js_simps)
qed

theorem unmount_stops_everyone_witness:
  "\<exists>s' tr'. view_unmount sample_clock [] ''badge'' True
      ((new_PriceOracle [])\<lparr>priceUpdateCallbacks := [''badge'', ''checkout''], isPolling := True, pollInterval := JInt 7\<rparr>, [])
      = (Inr (), (s', tr')) \<and>
    \<not> isPolling s' \<and> \<not> truthy (pollInterval s') \<and> ''checkout'' \<in> set (priceUpdateCallbacks s')"
  by (rule unmount_stops_everyone [OF sample_clock_ok(2)]) (simp_all add: proto_value_def proto_keys_def)

end
