(* ===== verification/MarketplaceViews.thy ===== *)
theory MarketplaceViews
  imports Marketplace
begin

text \<open>
  The two marketplace screens, sdk-core/marketplace-ui/WebMarketplace.js and MobileMarketplace.js.

  The two components are the same program but for the way they alert the user, the pull-to-refresh of
  the mobile one and the screen width the web one watches; the definitions take the platform as an
  argument, and the names starting with \<open>mobile\<close> are the mobile instances.  The \<open>marketplaceAPI\<close>
  object is external: the module both files import it from does not exist.  Rendering is modelled by
  the values a render function computes and shows, and by which action a button offers; the markup is
  left out.  After every event the effect that calls \<open>applyFilters\<close> runs; a throw in it is a crash of
  the component.
\<close>

section \<open>State\<close>

datatype platform = Web | Mobile

record shop_filters =
  fl_category :: string
  fl_creator :: string
  fl_minPrice :: string
  fl_maxPrice :: string
  fl_verifiedOnly :: bool
  fl_myNFTsOnly :: bool
  fl_favoritedOnly :: bool
  fl_hasUnlockableContent :: bool
  fl_isTradeLocked :: bool
  fl_minMintDate :: jv
  fl_maxMintDate :: jv
  fl_traits :: "jv list"
  fl_sortBy :: string
  fl_sortOrder :: string

definition new_filters :: shop_filters where
  "new_filters = \<lparr>fl_category = [], fl_creator = [], fl_minPrice = [], fl_maxPrice = [],
     fl_verifiedOnly = True, fl_myNFTsOnly = False, fl_favoritedOnly = False, fl_hasUnlockableContent = False,
     fl_isTradeLocked = False, fl_minMintDate = JNull, fl_maxMintDate = JNull, fl_traits = [],
     fl_sortBy = ''price'', fl_sortOrder = ''asc''\<rparr>"

definition new_analytics :: jv where
  "new_analytics = JObj [(''totalVolume24h'', JInt 0), (''totalVolume7d'', JInt 0), (''totalTransactions24h'', JInt 0),
     (''averagePrice24h'', JInt 0), (''topCreators'', JArr []), (''topCategories'', JArr [])]"

record shop =
  sh_activeTab :: string
  sh_viewMode :: string
  sh_nfts :: "nft list"
  sh_filteredNfts :: "nft list"
  sh_loading :: bool
  sh_refreshing :: bool
  sh_selectedNFT :: "nft option"
  sh_showFilters :: bool
  sh_showSearch :: bool
  sh_searchQuery :: string
  sh_filters :: shop_filters
  sh_creatorProfiles :: fields
  sh_analytics :: jv
  sh_isMobile :: bool

definition new_shop :: shop where
  "new_shop = \<lparr>sh_activeTab = ''marketplace'', sh_viewMode = ''verified'', sh_nfts = [], sh_filteredNfts = [],
     sh_loading = True, sh_refreshing = False, sh_selectedNFT = None, sh_showFilters = False, sh_showSearch = False,
     sh_searchQuery = [], sh_filters = new_filters, sh_creatorProfiles = [], sh_analytics = new_analytics,
     sh_isMobile = False\<rparr>"

section \<open>Loading\<close>

definition notify_user :: "env \<Rightarrow> platform \<Rightarrow> string \<Rightarrow> string \<Rightarrow> ('s, unit) js" where
  "notify_user env p title msg = js_bind
     (js_ext env (case p of Web \<Rightarrow> Call ''alert'' [JStr msg] | Mobile \<Rightarrow> Call ''Alert.alert'' [JStr title, JStr msg]))
     (\<lambda>_. js_return ())"

definition fetch_nfts :: "env \<Rightarrow> jv \<Rightarrow> string \<Rightarrow> ('s, jv) js" where
  "fetch_nfts env wallet viewMode =
     (if viewMode = ''verified'' then js_ext env (Call ''marketplaceAPI.getVerifiedNFTs'' [])
      else if viewMode = ''all'' then js_ext env (Call ''marketplaceAPI.getAllNFTs'' [])
      else if viewMode = ''my'' then js_ext env (Call ''marketplaceAPI.getMyNFTs'' [wallet])
      else if viewMode = ''favorites'' then js_ext env (Call ''marketplaceAPI.getFavoritedNFTs'' [wallet])
      else js_ext env (Call ''marketplaceAPI.getVerifiedNFTs'' []))"

text \<open>Reading the NFTs of an answer: \<open>nftData.map(nft => nft.creator)\<close> throws unless the answer is an
  array without null elements.\<close>

fun as_nft :: "jv \<Rightarrow> js_error + nft" where
  "as_nft (JObj fs) = Inr fs"
| "as_nft JUndef = Inl (cannot_read ''undefined'' ''creator'')"
| "as_nft JNull = Inl (cannot_read ''null'' ''creator'')"
| "as_nft _ = Inr []"

definition as_nfts :: "jv \<Rightarrow> js_error + nft list" where
  "as_nfts v = (case v of JArr xs \<Rightarrow> map_res as_nft xs
     | _ \<Rightarrow> (case jget v ''map'' of Inl e \<Rightarrow> Inl e | Inr _ \<Rightarrow> Inl (TypeError ''nftData.map is not a function'')))"

text \<open>\<open>[...new Set(xs)]\<close> keeps the first occurrence of each value.\<close>

definition js_unique :: "'a list \<Rightarrow> 'a list" where
  "js_unique xs = rev (remdups (rev xs))"

fun load_profiles :: "env \<Rightarrow> jv list \<Rightarrow> fields \<Rightarrow> ('s, fields) js" where
  "load_profiles env [] profiles = js_return profiles"
| "load_profiles env (address # rest) profiles =
     js_bind (js_catch
       (js_bind (js_ext env (Call ''marketplaceAPI.getCreatorProfile'' [address])) (\<lambda>pr.
        js_return (obj_set profiles (to_str address) pr)))
       (\<lambda>_. js_return profiles))
     (load_profiles env rest)"

definition loadMarketplaceData :: "env \<Rightarrow> platform \<Rightarrow> jv \<Rightarrow> (shop, unit) js" where
  "loadMarketplaceData env p wallet = js_finally (js_catch
     (js_bind (js_update (\<lambda>s. s\<lparr>sh_loading := True\<rparr>)) (\<lambda>_.
      js_bind js_this (\<lambda>s.
      js_bind (fetch_nfts env wallet (sh_viewMode s)) (\<lambda>nftData.
      js_bind (js_lift (as_nfts nftData)) (\<lambda>ns.
      js_bind (load_profiles env (js_unique (map (\<lambda>n. obj_get n ''creator'') ns)) []) (\<lambda>profiles.
      js_bind (js_update (\<lambda>s. s\<lparr>sh_nfts := ns, sh_creatorProfiles := profiles\<rparr>)) (\<lambda>_.
      js_bind (js_ext env (Call ''marketplaceAPI.getAnalytics'' [])) (\<lambda>a.
      js_update (\<lambda>s. s\<lparr>sh_analytics := a\<rparr>)))))))))
     (\<lambda>_. notify_user env p ''Error'' ''Failed to load marketplace data. Please try again.''))
     (\<lambda>s. s\<lparr>sh_loading := False\<rparr>)"

section \<open>Filtering and sorting\<close>

text \<open>\<open>parseInt(s)\<close> with no radix.\<close>

definition hex_digit :: "char \<Rightarrow> nat option" where
  "hex_digit c = (let n = of_char (lower_char c) :: nat in
     if 48 \<le> n \<and> n \<le> 57 then Some (n - 48) else if 97 \<le> n \<and> n \<le> 102 then Some (n - 87) else None)"

definition parse_int :: "string \<Rightarrow> jsnum" where
  "parse_int s = (let (neg, u) = split_sign (dropWhile is_space s);
      isHex = starts_with (to_lower u) ''0x'';
      ds = (if isHex then takeWhile (\<lambda>c. hex_digit c \<noteq> None) (drop 2 u) else takeWhile is_digit u);
      v = (if isHex then foldl (\<lambda>a c. a * 16 + the (hex_digit c)) 0 ds else digits_val ds)
    in if ds = [] then NaN else Fin (if neg then - of_nat v else of_nat v))"

definition shop_search :: "string \<Rightarrow> nft \<Rightarrow> js_error + bool" where
  "shop_search query nft = some_res (\<lambda>f. text_includes (obj_get nft f) query)
     [''name'', ''description'', ''creator'', ''category'']"

definition shop_stages :: "(jv \<Rightarrow> jsnum) \<Rightarrow> jv \<Rightarrow> string \<Rightarrow> shop_filters \<Rightarrow> (bool \<times> (nft \<Rightarrow> js_error + bool)) list" where
  "shop_stages date wallet searchQuery f =
    [(trim_str searchQuery \<noteq> [], shop_search (to_lower searchQuery)),
     (fl_category f \<noteq> [], \<lambda>n. Inr (strict_eq (obj_get n ''category'') (JStr (fl_category f)))),
     (fl_creator f \<noteq> [], \<lambda>n. Inr (strict_eq (obj_get n ''creator'') (JStr (fl_creator f)))),
     (fl_minPrice f \<noteq> [], \<lambda>n. Inr (js_le (JNum (parse_int (fl_minPrice f))) (obj_get n ''listPriceSatoshis''))),
     (fl_maxPrice f \<noteq> [], \<lambda>n. Inr (js_le (obj_get n ''listPriceSatoshis'') (JNum (parse_int (fl_maxPrice f))))),
     (fl_verifiedOnly f, \<lambda>n. Inr (truthy (obj_get n ''isVerified''))),
     (fl_myNFTsOnly f, \<lambda>n. Inr (strict_eq (obj_get n ''owner'') wallet)),
     (fl_favoritedOnly f, \<lambda>n. Inr (truthy (obj_get n ''isFavorited''))),
     (fl_hasUnlockableContent f, \<lambda>n. Inr (truthy (obj_get n ''hasUnlockableContent''))),
     (fl_isTradeLocked f, \<lambda>n. Inr (truthy (obj_get n ''isTradeLocked''))),
     (truthy (fl_minMintDate f), \<lambda>n. Inr (num_le (to_number (fl_minMintDate f)) (date (obj_get n ''mintDate'')))),
     (truthy (fl_maxMintDate f), \<lambda>n. Inr (num_le (date (obj_get n ''mintDate'')) (to_number (fl_maxMintDate f)))),
     (fl_traits f \<noteq> [], traits_match (JArr (fl_traits f)))]"

definition shop_key :: "(jv \<Rightarrow> jsnum) \<Rightarrow> string \<Rightarrow> nft \<Rightarrow> js_error + jv" where
  "shop_key date sortBy a =
     (if sortBy = ''price'' then Inr (js_or (obj_get a ''listPriceSatoshis'') (JInt 0))
      else if sortBy = ''name'' then lower_case (obj_get a ''name'')
      else if sortBy = ''mintDate'' then Inr (JNum (date (obj_get a ''mintDate'')))
      else if sortBy = ''creator'' then lower_case (obj_get a ''creator'')
      else Inr (js_or (obj_get a ''listPriceSatoshis'') (JInt 0)))"

definition shop_sort :: "(jv \<times> nft) sorter \<Rightarrow> (jv \<Rightarrow> jsnum) \<Rightarrow> shop_filters \<Rightarrow> nft list \<Rightarrow> js_error + nft list" where
  "shop_sort srt date f ns =
     (if length ns < 2 then Inr ns
      else case map_res (shop_key date (fl_sortBy f)) ns of Inl e \<Rightarrow> Inl e
        | Inr ks \<Rightarrow> Inr (map snd (srt (sort_cmp (fl_sortOrder f)) (zip ks ns))))"

definition applyFilters :: "(jv \<times> nft) sorter \<Rightarrow> (jv \<Rightarrow> jsnum) \<Rightarrow> jv \<Rightarrow> shop \<Rightarrow> js_error + nft list" where
  "applyFilters srt date wallet s =
     (case run_stages (shop_stages date wallet (sh_searchQuery s) (sh_filters s)) (sh_nfts s) of Inl e \<Rightarrow> Inl e
      | Inr filtered \<Rightarrow> shop_sort srt date (sh_filters s) filtered)"

definition filter_effect :: "(jv \<times> nft) sorter \<Rightarrow> (jv \<Rightarrow> jsnum) \<Rightarrow> jv \<Rightarrow> (shop, unit) js" where
  "filter_effect srt date wallet = js_bind js_this (\<lambda>s.
     js_bind (js_lift (applyFilters srt date wallet s)) (\<lambda>filtered.
     js_update (\<lambda>s. s\<lparr>sh_filteredNfts := filtered\<rparr>)))"

section \<open>Handlers\<close>

definition handleNFTPress :: "nft \<Rightarrow> (shop, unit) js" where
  "handleNFTPress nft = js_update (\<lambda>s. s\<lparr>sh_selectedNFT := Some nft\<rparr>)"

definition onRefresh :: "env \<Rightarrow> jv \<Rightarrow> (shop, unit) js" where
  "onRefresh env wallet = js_bind (js_update (\<lambda>s. s\<lparr>sh_refreshing := True\<rparr>)) (\<lambda>_.
     js_bind (loadMarketplaceData env Mobile wallet) (\<lambda>_. js_update (\<lambda>s. s\<lparr>sh_refreshing := False\<rparr>)))"

definition shop_handlePurchase :: "env \<Rightarrow> platform \<Rightarrow> jv \<Rightarrow> nft \<Rightarrow> (shop, unit) js" where
  "shop_handlePurchase env p wallet nft = js_catch
     (js_bind (js_ext env (Call ''onNFTPurchase'' [JObj nft])) (\<lambda>_.
      js_bind (js_update (\<lambda>s. s\<lparr>sh_selectedNFT := None\<rparr>)) (\<lambda>_.
      js_bind (loadMarketplaceData env p wallet) (\<lambda>_.
      notify_user env p ''Success'' ''NFT purchased successfully!''))))
     (\<lambda>_. notify_user env p ''Error'' ''Failed to purchase NFT. Please try again.'')"

definition shop_handleTransfer :: "env \<Rightarrow> platform \<Rightarrow> jv \<Rightarrow> nft \<Rightarrow> (shop, unit) js" where
  "shop_handleTransfer env p wallet nft = js_catch
     (js_bind (js_ext env (Call ''onNFTTransfer'' [JObj nft])) (\<lambda>_.
      js_bind (js_update (\<lambda>s. s\<lparr>sh_selectedNFT := None\<rparr>)) (\<lambda>_.
      js_bind (loadMarketplaceData env p wallet) (\<lambda>_.
      notify_user env p ''Success'' ''NFT transferred successfully!''))))
     (\<lambda>_. notify_user env p ''Error'' ''Failed to transfer NFT. Please try again.'')"

definition shop_toggleFavorite :: "env \<Rightarrow> platform \<Rightarrow> jv \<Rightarrow> nft \<Rightarrow> (shop, unit) js" where
  "shop_toggleFavorite env p wallet nft = js_catch
     (js_bind (js_ext env (Call ''marketplaceAPI.toggleFavorite'' [obj_get nft ''id'', wallet])) (\<lambda>_.
      loadMarketplaceData env p wallet))
     (\<lambda>_. notify_user env p ''Error'' ''Failed to update favorite status.'')"

definition checkScreenSize :: "jsnum \<Rightarrow> (shop, unit) js" where
  "checkScreenSize innerWidth = js_update (\<lambda>s. s\<lparr>sh_isMobile := num_lt innerWidth (Fin 768)\<rparr>)"

datatype chip = VerifiedOnly | MyNFTs | Favorited | Unlockable

primrec toggle_chip :: "chip \<Rightarrow> shop_filters \<Rightarrow> shop_filters" where
  "toggle_chip VerifiedOnly f = f\<lparr>fl_verifiedOnly := \<not> fl_verifiedOnly f\<rparr>"
| "toggle_chip MyNFTs f = f\<lparr>fl_myNFTsOnly := \<not> fl_myNFTsOnly f\<rparr>"
| "toggle_chip Favorited f = f\<lparr>fl_favoritedOnly := \<not> fl_favoritedOnly f\<rparr>"
| "toggle_chip Unlockable f = f\<lparr>fl_hasUnlockableContent := \<not> fl_hasUnlockableContent f\<rparr>"

text \<open>Everything the page lets the user do.\<close>

datatype shop_event = OpenTab string | ViewMode string | Query string | Chip chip | ToggleSearch | ToggleFilters
  | Press nft | CloseDetail | Purchase nft | Transfer nft | Favorite nft | Refresh | Resize jsnum

fun shop_event_handler :: "env \<Rightarrow> platform \<Rightarrow> jv \<Rightarrow> shop_event \<Rightarrow> (shop, unit) js" where
  "shop_event_handler env p wallet (OpenTab t) = js_update (\<lambda>s. s\<lparr>sh_activeTab := t\<rparr>)"
| "shop_event_handler env p wallet (ViewMode v) = js_bind js_this (\<lambda>s.
     if sh_viewMode s = v then js_return ()
     else js_bind (js_update (\<lambda>s. s\<lparr>sh_viewMode := v\<rparr>)) (\<lambda>_. loadMarketplaceData env p wallet))"
| "shop_event_handler env p wallet (Query q) = js_update (\<lambda>s. s\<lparr>sh_searchQuery := q\<rparr>)"
| "shop_event_handler env p wallet (Chip c) = js_update (\<lambda>s. s\<lparr>sh_filters := toggle_chip c (sh_filters s)\<rparr>)"
| "shop_event_handler env p wallet ToggleSearch = js_update (\<lambda>s. s\<lparr>sh_showSearch := \<not> sh_showSearch s\<rparr>)"
| "shop_event_handler env p wallet ToggleFilters = js_update (\<lambda>s. s\<lparr>sh_showFilters := \<not> sh_showFilters s\<rparr>)"
| "shop_event_handler env p wallet (Press n) = handleNFTPress n"
| "shop_event_handler env p wallet CloseDetail = js_update (\<lambda>s. s\<lparr>sh_selectedNFT := None\<rparr>)"
| "shop_event_handler env p wallet (Purchase n) = shop_handlePurchase env p wallet n"
| "shop_event_handler env p wallet (Transfer n) = shop_handleTransfer env p wallet n"
| "shop_event_handler env p wallet (Favorite n) = shop_toggleFavorite env p wallet n"
| "shop_event_handler env p wallet Refresh = (if p = Mobile then onRefresh env wallet else js_return ())"
| "shop_event_handler env p wallet (Resize w) = (if p = Web then checkScreenSize w else js_return ())"

definition shop_step :: "env \<Rightarrow> (jv \<times> nft) sorter \<Rightarrow> (jv \<Rightarrow> jsnum) \<Rightarrow> platform \<Rightarrow> jv \<Rightarrow> shop_event \<Rightarrow> (shop, unit) js" where
  "shop_step env srt date p wallet ev =
     js_bind (shop_event_handler env p wallet ev) (\<lambda>_. filter_effect srt date wallet)"

text \<open>The effects of the first render run in the order of the code.\<close>

definition shop_mount :: "env \<Rightarrow> (jv \<times> nft) sorter \<Rightarrow> (jv \<Rightarrow> jsnum) \<Rightarrow> platform \<Rightarrow> jv \<Rightarrow> (shop, unit) js" where
  "shop_mount env srt date p wallet = js_bind (filter_effect srt date wallet) (\<lambda>_.
     js_bind (loadMarketplaceData env p wallet) (\<lambda>_. filter_effect srt date wallet))"

inductive shop_reach ::
  "env \<Rightarrow> (jv \<times> nft) sorter \<Rightarrow> (jv \<Rightarrow> jsnum) \<Rightarrow> platform \<Rightarrow> jv \<Rightarrow> shop world \<Rightarrow> bool"
  for env srt date p wallet where
  mounted: "shop_mount env srt date p wallet (new_shop, []) = (Inr (), w) \<Longrightarrow> shop_reach env srt date p wallet w"
| event: "shop_reach env srt date p wallet w \<Longrightarrow> shop_step env srt date p wallet ev w = (Inr (), w') \<Longrightarrow>
    shop_reach env srt date p wallet w'"

section \<open>Rendering\<close>

definition shop_formatPrice :: "jv \<Rightarrow> string" where
  "shop_formatPrice amount = formatPrice (to_number amount)"

text \<open>\<open>address.slice\<close> exists on strings and on arrays.\<close>

definition shop_formatAddress :: "jv \<Rightarrow> js_error + string" where
  "shop_formatAddress a = (case a of
       JStr s \<Rightarrow> Inr (take 6 s @ ''...'' @ drop (length s - 4) s)
     | JArr xs \<Rightarrow> Inr (to_str (JArr (take 6 xs)) @ ''...'' @ to_str (JArr (drop (length xs - 4) xs)))
     | _ \<Rightarrow> (case jget a ''slice'' of Inl e \<Rightarrow> Inl e | Inr _ \<Rightarrow> Inl (TypeError ''address.slice is not a function'')))"

datatype nft_action = TransferButton | BuyButton

record card =
  card_image :: jv
  card_name :: jv
  card_description :: jv
  card_verified :: bool
  card_favorited :: bool
  card_trusted :: bool
  card_creator :: string
  card_price :: string
  card_action :: nft_action

definition nft_button :: "jv \<Rightarrow> nft \<Rightarrow> nft_action" where
  "nft_button wallet nft = (if strict_eq (obj_get nft ''owner'') wallet then TransferButton else BuyButton)"

definition renderNFTCard :: "jv \<Rightarrow> shop \<Rightarrow> nft \<Rightarrow> js_error + card" where
  "renderNFTCard wallet s nft =
     (let creatorProfile = js_or (obj_get (sh_creatorProfiles s) (to_str (obj_get nft ''creator''))) (JObj []) in
      case shop_formatAddress (obj_get nft ''creator'') of Inl e \<Rightarrow> Inl e
      | Inr a \<Rightarrow> Inr \<lparr>card_image = obj_get nft ''imageUrl'', card_name = obj_get nft ''name'',
          card_description = obj_get nft ''description'', card_verified = truthy (obj_get nft ''isVerified''),
          card_favorited = truthy (obj_get nft ''isFavorited''), card_trusted = truthy (jopt creatorProfile ''isTrusted''),
          card_creator = a, card_price = shop_formatPrice (obj_get nft ''listPriceSatoshis''),
          card_action = nft_button wallet nft\<rparr>)"

datatype grid = Spinner | Empty | Cards "card list"

definition renderMarketplaceContent :: "jv \<Rightarrow> shop \<Rightarrow> js_error + grid" where
  "renderMarketplaceContent wallet s =
     (if sh_loading s then Inr Spinner
      else if sh_filteredNfts s = [] then Inr Empty
      else map_sum id Cards (map_res (renderNFTCard wallet s) (sh_filteredNfts s)))"

text \<open>The lists of the analytics page: a rank, the label and the amount.\<close>

definition rows_of :: "string \<Rightarrow> jv \<Rightarrow> (jv \<Rightarrow> js_error + string \<times> string) \<Rightarrow> js_error + (nat \<times> string \<times> string) list" where
  "rows_of label v row = (case v of
       JArr xs \<Rightarrow> map_sum id (enumerate 1) (map_res row xs)
     | _ \<Rightarrow> (case jget v ''map'' of Inl e \<Rightarrow> Inl e | Inr _ \<Rightarrow> Inl (TypeError (label @ ''.map is not a function''))))"

definition creator_row :: "jv \<Rightarrow> js_error + string \<times> string" where
  "creator_row creator = (case jget creator ''address'' of Inl e \<Rightarrow> Inl e
     | Inr a \<Rightarrow> map_sum id (\<lambda>t. (t, shop_formatPrice (jopt creator ''volume''))) (shop_formatAddress a))"

definition category_row :: "jv \<Rightarrow> js_error + string \<times> string" where
  "category_row category = (case jget category ''name'' of Inl e \<Rightarrow> Inl e
     | Inr n \<Rightarrow> Inr (to_str n, to_str (jopt category ''count'') @ '' NFTs''))"

definition renderAnalyticsContent ::
  "shop \<Rightarrow> js_error + string list \<times> (nat \<times> string \<times> string) list \<times> (nat \<times> string \<times> string) list" where
  "renderAnalyticsContent s = (let a = sh_analytics s in
     case jget a ''totalVolume24h'' of Inl e \<Rightarrow> Inl e
     | Inr v24 \<Rightarrow>
       case rows_of ''topCreators'' (jopt a ''topCreators'') creator_row of Inl e \<Rightarrow> Inl e
       | Inr creators \<Rightarrow>
         case rows_of ''topCategories'' (jopt a ''topCategories'') category_row of Inl e \<Rightarrow> Inl e
         | Inr categories \<Rightarrow> Inr ([shop_formatPrice v24, shop_formatPrice (jopt a ''totalVolume7d''),
             to_str (jopt a ''totalTransactions24h''), shop_formatPrice (jopt a ''averagePrice24h'')], creators, categories))"

text \<open>Owned, created and favourite NFTs.\<close>

definition renderProfileContent :: "jv \<Rightarrow> shop \<Rightarrow> nat \<times> nat \<times> nat" where
  "renderProfileContent wallet s =
     (length (filter (\<lambda>n. strict_eq (obj_get n ''owner'') wallet) (sh_nfts s)),
      length (filter (\<lambda>n. strict_eq (obj_get n ''creator'') wallet) (sh_nfts s)),
      length (filter (\<lambda>n. truthy (obj_get n ''isFavorited'')) (sh_nfts s)))"

record detail =
  dt_name :: jv
  dt_description :: jv
  dt_verified :: bool
  dt_creator :: string
  dt_owner :: string
  dt_price :: string
  dt_mintDate :: string
  dt_category :: jv
  dt_traits :: "(jv \<times> jv) list"
  dt_favorite :: string
  dt_action :: nft_action

definition trait_chip :: "jv \<Rightarrow> js_error + jv \<times> jv" where
  "trait_chip t = (case jget t ''type'' of Inl e \<Rightarrow> Inl e | Inr ty \<Rightarrow> Inr (ty, jopt t ''value''))"

definition detail_traits :: "jv \<Rightarrow> js_error + (jv \<times> jv) list" where
  "detail_traits v = (if truthy v \<and> js_lt (JInt 0) (jopt v ''length'')
     then (case v of JArr ts \<Rightarrow> map_res trait_chip ts | _ \<Rightarrow> Inl (TypeError ''selectedNFT.traits.map is not a function''))
     else Inr [])"

text \<open>\<open>locale_date\<close> is the platform's \<open>new Date(v).toLocaleDateString()\<close>.\<close>

definition renderNFTDetailModal :: "(jv \<Rightarrow> string) \<Rightarrow> jv \<Rightarrow> shop \<Rightarrow> js_error + detail option" where
  "renderNFTDetailModal locale_date wallet s = (case sh_selectedNFT s of None \<Rightarrow> Inr None
     | Some nft \<Rightarrow>
       (case shop_formatAddress (obj_get nft ''creator'') of Inl e \<Rightarrow> Inl e
        | Inr creator \<Rightarrow>
          case shop_formatAddress (obj_get nft ''owner'') of Inl e \<Rightarrow> Inl e
          | Inr owner \<Rightarrow>
            case detail_traits (obj_get nft ''traits'') of Inl e \<Rightarrow> Inl e
            | Inr traits \<Rightarrow> Inr (Some \<lparr>dt_name = obj_get nft ''name'', dt_description = obj_get nft ''description'',
                dt_verified = truthy (obj_get nft ''isVerified''), dt_creator = creator, dt_owner = owner,
                dt_price = shop_formatPrice (obj_get nft ''listPriceSatoshis''),
                dt_mintDate = locale_date (obj_get nft ''mintDate''), dt_category = obj_get nft ''category'',
                dt_traits = traits, dt_favorite = (if truthy (obj_get nft ''isFavorited'') then ''Favorited'' else ''Favorite''),
                dt_action = nft_button wallet nft\<rparr>)))"

datatype page = MarketplacePage grid
  | AnalyticsPage "string list" "(nat \<times> string \<times> string) list" "(nat \<times> string \<times> string) list"
  | ProfilePage nat nat nat | BlankPage

definition render_page :: "jv \<Rightarrow> shop \<Rightarrow> js_error + page" where
  "render_page wallet s =
     (if sh_activeTab s = ''marketplace'' then map_sum id MarketplacePage (renderMarketplaceContent wallet s)
      else if sh_activeTab s = ''analytics''
      then map_sum id (\<lambda>(st, cr, ca). AnalyticsPage st cr ca) (renderAnalyticsContent s)
      else if sh_activeTab s = ''profile''
      then (case renderProfileContent wallet s of (a, b, c) \<Rightarrow> Inr (ProfilePage a b c))
      else Inr BlankPage)"

definition shop_render :: "(jv \<Rightarrow> string) \<Rightarrow> jv \<Rightarrow> shop \<Rightarrow> js_error + page \<times> detail option" where
  "shop_render locale_date wallet s = (case render_page wallet s of Inl e \<Rightarrow> Inl e
     | Inr pg \<Rightarrow> map_sum id (\<lambda>d. (pg, d)) (renderNFTDetailModal locale_date wallet s))"

section \<open>The mobile screen\<close>

definition mobile_loadMarketplaceData :: "env \<Rightarrow> jv \<Rightarrow> (shop, unit) js" where
  "mobile_loadMarketplaceData env = loadMarketplaceData env Mobile"

definition mobile_applyFilters :: "(jv \<times> nft) sorter \<Rightarrow> (jv \<Rightarrow> jsnum) \<Rightarrow> jv \<Rightarrow> shop \<Rightarrow> js_error + nft list" where
  "mobile_applyFilters = applyFilters"

definition mobile_handlePurchase :: "env \<Rightarrow> jv \<Rightarrow> nft \<Rightarrow> (shop, unit) js" where
  "mobile_handlePurchase env = shop_handlePurchase env Mobile"

definition mobile_handleTransfer :: "env \<Rightarrow> jv \<Rightarrow> nft \<Rightarrow> (shop, unit) js" where
  "mobile_handleTransfer env = shop_handleTransfer env Mobile"

definition mobile_toggleFavorite :: "env \<Rightarrow> jv \<Rightarrow> nft \<Rightarrow> (shop, unit) js" where
  "mobile_toggleFavorite env = shop_toggleFavorite env Mobile"

definition mobile_mount :: "env \<Rightarrow> (jv \<times> nft) sorter \<Rightarrow> (jv \<Rightarrow> jsnum) \<Rightarrow> jv \<Rightarrow> (shop, unit) js" where
  "mobile_mount env srt date = shop_mount env srt date Mobile"

definition mobile_event_handler :: "env \<Rightarrow> jv \<Rightarrow> shop_event \<Rightarrow> (shop, unit) js" where
  "mobile_event_handler env = shop_event_handler env Mobile"

section \<open>Library\<close>

lemma filter_res_ok: "filter_res p xs = Inr ys \<Longrightarrow> ys = filter (\<lambda>x. p x = Inr True) xs"
  by (induction xs arbitrary: ys) (auto split: sum.splits if_splits)

text \<open>Stages that ran through have filtered by the conjunction of the stages that are on.\<close>

lemma run_stages_ok:
  "run_stages st xs = Inr ys \<Longrightarrow> ys = filter (\<lambda>x. list_all (\<lambda>(on, p). on \<longrightarrow> p x = Inr True) st) xs"
proof (induction st xs arbitrary: ys rule: run_stages.induct)
  case (2 on p st xs)
  then obtain zs where z: "(if on then filter_res p xs else Inr xs) = Inr zs" "run_stages st zs = Inr ys"
    by (auto split: sum.splits)
  have "zs = filter (\<lambda>x. on \<longrightarrow> p x = Inr True) xs"
    using z(1) filter_res_ok [of p xs zs] by (cases on) auto
  moreover have "ys = filter (\<lambda>x. list_all (\<lambda>(on, p). on \<longrightarrow> p x = Inr True) st) zs"
    by (rule "2.IH" [OF z])
  ultimately show ?case by (simp add: conj_commute)
qed simp

lemma shop_sort_permutes:
  assumes "permutes srt" "shop_sort srt date f ns = Inr ys"
  shows "mset ys = mset ns"
proof (cases "length ns < 2")
  case False
  then obtain ks where ks: "map_res (shop_key date (fl_sortBy f)) ns = Inr ks"
    "ys = map snd (srt (sort_cmp (fl_sortOrder f)) (zip ks ns))"
    using assms(2) by (auto simp: shop_sort_def split: sum.splits)
  have "mset ys = image_mset snd (mset (zip ks ns))"
    using assms(1) by (simp add: ks(2) permutes_def)
  also have "\<dots> = mset (map snd (zip ks ns))" by simp
  also have "map snd (zip ks ns) = ns" using map_res_length [OF ks(1)] by simp
  finally show ?thesis .
qed (use assms(2) in \<open>simp add: shop_sort_def\<close>)

text \<open>What the state machine does to the parts of the state that decide what is shown.\<close>

definition basic_filters :: "shop_filters \<Rightarrow> bool" where
  "basic_filters f = (f = new_filters\<lparr>fl_verifiedOnly := fl_verifiedOnly f, fl_myNFTsOnly := fl_myNFTsOnly f,
     fl_favoritedOnly := fl_favoritedOnly f, fl_hasUnlockableContent := fl_hasUnlockableContent f\<rparr>)"

definition shown_by :: "jv \<Rightarrow> shop \<Rightarrow> nft \<Rightarrow> bool" where
  "shown_by wallet s n =
     ((trim_str (sh_searchQuery s) \<noteq> [] \<longrightarrow> shop_search (to_lower (sh_searchQuery s)) n = Inr True) \<and>
      (fl_verifiedOnly (sh_filters s) \<longrightarrow> truthy (obj_get n ''isVerified'')) \<and>
      (fl_myNFTsOnly (sh_filters s) \<longrightarrow> strict_eq (obj_get n ''owner'') wallet) \<and>
      (fl_favoritedOnly (sh_filters s) \<longrightarrow> truthy (obj_get n ''isFavorited'')) \<and>
      (fl_hasUnlockableContent (sh_filters s) \<longrightarrow> truthy (obj_get n ''hasUnlockableContent'')))"

lemma basic_new: "basic_filters new_filters"
  by (simp add: basic_filters_def)

lemma basic_toggle: "basic_filters f \<Longrightarrow> basic_filters (toggle_chip c f)"
  by (cases c; cases f) (simp_all add: basic_filters_def new_filters_def)

lemma applyFilters_shown:
  assumes "permutes srt" "basic_filters (sh_filters s)" "applyFilters srt date wallet s = Inr ys"
  shows "mset ys = filter_mset (shown_by wallet s) (mset (sh_nfts s))"
proof -
  obtain zs where z: "run_stages (shop_stages date wallet (sh_searchQuery s) (sh_filters s)) (sh_nfts s) = Inr zs"
    "shop_sort srt date (sh_filters s) zs = Inr ys"
    using assms(3) by (auto simp: applyFilters_def split: sum.splits)
  obtain v m fa u where f: "sh_filters s = new_filters\<lparr>fl_verifiedOnly := v, fl_myNFTsOnly := m,
      fl_favoritedOnly := fa, fl_hasUnlockableContent := u\<rparr>"
    using assms(2) unfolding basic_filters_def by blast
  have "list_all (\<lambda>(on, p). on \<longrightarrow> p n = Inr True) (shop_stages date wallet (sh_searchQuery s) (sh_filters s))
      = shown_by wallet s n" for n
    by (simp add: shop_stages_def shown_by_def f new_filters_def)
  then have "zs = filter (shown_by wallet s) (sh_nfts s)" using run_stages_ok [OF z(1)] by simp
  then show ?thesis using shop_sort_permutes [OF assms(1) z(2)] by simp
qed

lemma load_profiles_keeps [keeps_intros]: "keeps_state (load_profiles env xs pr)"
  by (induction xs arbitrary: pr) (auto intro!: keeps_intros)

lemma fetch_nfts_keeps [keeps_intros]: "keeps_state (fetch_nfts env wallet v)"
  unfolding fetch_nfts_def by (intro keeps_intros)

lemma notify_user_keeps [keeps_intros]: "keeps_state (notify_user env p t m)"
  unfolding notify_user_def by (intro keeps_intros)

text \<open>No handler touches the advanced filters.\<close>

lemma load_keeps_filters: "js_inv (\<lambda>w. (\<lambda>s. basic_filters (sh_filters s)) (fst w)) (loadMarketplaceData env p wallet)"
  unfolding loadMarketplaceData_def
  by (intro js_inv_finally [where P = "\<lambda>s. basic_filters (sh_filters s)"] inv_intros
        js_inv_stateI [where P = "\<lambda>s. basic_filters (sh_filters s)"]
        js_inv_state_ext [where P = "\<lambda>s. basic_filters (sh_filters s)"]
        js_inv_keeps [OF fetch_nfts_keeps, where P = "\<lambda>s. basic_filters (sh_filters s)"]
        js_inv_keeps [OF load_profiles_keeps, where P = "\<lambda>s. basic_filters (sh_filters s)"]
        js_inv_keeps [OF notify_user_keeps, where P = "\<lambda>s. basic_filters (sh_filters s)"]) simp_all

lemma handler_keeps_filters:
  "js_inv (\<lambda>w. (\<lambda>s. basic_filters (sh_filters s)) (fst w)) (shop_event_handler env p wallet ev)"
  by (cases ev)
     (auto intro!: inv_intros load_keeps_filters basic_toggle
        js_inv_stateI [where P = "\<lambda>s. basic_filters (sh_filters s)"]
        js_inv_state_ext [where P = "\<lambda>s. basic_filters (sh_filters s)"]
        js_inv_keeps [OF notify_user_keeps, where P = "\<lambda>s. basic_filters (sh_filters s)"]
      simp: handleNFTPress_def shop_handlePurchase_def shop_handleTransfer_def shop_toggleFavorite_def
        onRefresh_def checkScreenSize_def)

lemma filter_effect_okE:
  assumes "filter_effect srt date wallet (s, tr) = (Inr (), w')"
  obtains ys where "applyFilters srt date wallet s = Inr ys" "w' = (s\<lparr>sh_filteredNfts := ys\<rparr>, tr)"
  using assms unfolding filter_effect_def by (auto simp: js_simps split: sum.splits)

definition shop_inv :: "jv \<Rightarrow> shop \<Rightarrow> bool" where
  "shop_inv wallet s = (basic_filters (sh_filters s) \<and>
     mset (sh_filteredNfts s) = filter_mset (shown_by wallet s) (mset (sh_nfts s)))"

lemma filter_effect_inv:
  assumes "permutes srt" "basic_filters (sh_filters s)" "filter_effect srt date wallet (s, tr) = (Inr (), (s', tr'))"
  shows "shop_inv wallet s'"
proof -
  obtain ys where y: "applyFilters srt date wallet s = Inr ys" "s' = s\<lparr>sh_filteredNfts := ys\<rparr>"
    using assms(3) by (rule filter_effect_okE) simp
  have "shown_by wallet s' = shown_by wallet s" by (simp add: y(2) shown_by_def fun_eq_iff)
  then show ?thesis
    using applyFilters_shown [OF assms(1,2) y(1)] assms(2) by (simp add: shop_inv_def y(2))
qed

lemma shop_reach_inv:
  assumes "permutes srt" "shop_reach env srt date p wallet w"
  shows "shop_inv wallet (fst w)"
  using assms(2)
proof (induction rule: shop_reach.induct)
  case (mounted w)
  obtain w1 w2 where r: "filter_effect srt date wallet (new_shop, []) = (Inr (), w1)"
    "loadMarketplaceData env p wallet w1 = (Inr (), w2)" "filter_effect srt date wallet w2 = (Inr (), w)"
    using mounted unfolding shop_mount_def by (elim js_bind_okE) simp
  have "basic_filters (sh_filters (fst w1))"
    using r(1) by (rule filter_effect_okE) (simp add: new_shop_def basic_new)
  then have "basic_filters (sh_filters (fst w2))"
    using js_invD [OF load_keeps_filters [of env p wallet], of w1] r(2) by simp
  then show ?case using filter_effect_inv [OF assms(1), of "fst w2" date wallet "snd w2"] r(3) by (cases w) simp
next
  case (event w ev w')
  obtain w1 where r: "shop_event_handler env p wallet ev w = (Inr (), w1)" "filter_effect srt date wallet w1 = (Inr (), w')"
    using event.hyps(2) unfolding shop_step_def by (elim js_bind_okE) simp
  have "basic_filters (sh_filters (fst w1))"
    using js_invD [OF handler_keeps_filters [of env p wallet ev], of w] r(1) event.IH by (simp add: shop_inv_def)
  then show ?case using filter_effect_inv [OF assms(1), of "fst w1" date wallet "snd w1"] r(2) by (cases w') simp
qed

lemma filter_res_cong: "(\<And>x. x \<in> set xs \<Longrightarrow> p x = p' x) \<Longrightarrow> filter_res p xs = filter_res p' xs"
  by (induction xs) (auto split: sum.splits)

lemma some_res_cong: "(\<And>x. x \<in> set xs \<Longrightarrow> p x = p' x) \<Longrightarrow> some_res p xs = some_res p' xs"
  by (induction xs) (auto split: sum.splits)

text \<open>Passes that agree give the same result.\<close>

lemma run_stages_cong:
  assumes "list_all2 (\<lambda>(on, p) (on', p'). on = on' \<and> (on \<longrightarrow> (\<forall>x\<in>A. p x = p' x))) st st'" "set xs \<subseteq> A"
  shows "run_stages st xs = run_stages st' xs"
  using assms
proof (induction st st' arbitrary: xs rule: list_all2_induct)
  case (Cons a st b st')
  obtain on p p' where ab: "a = (on, p)" "b = (on, p')" "on \<Longrightarrow> \<forall>x\<in>A. p x = p' x"
    using Cons.hyps(1) by (cases a; cases b) auto
  have eq: "filter_res p zs = filter_res p' zs" if "on" "set zs \<subseteq> A" for zs
    by (rule filter_res_cong) (use ab(3) that in auto)
  have sub: "set ys \<subseteq> set zs" if "filter_res q zs = Inr ys" for q ys and zs :: "'a list"
    using filter_res_ok [OF that] by auto
  show ?case
  proof (cases "if on then filter_res p xs else Inr xs")
    case (Inr ys)
    have "set ys \<subseteq> A" using Inr sub [of p xs ys] Cons.prems by (auto split: if_splits)
    from Cons.IH [OF this] Inr eq [OF _ Cons.prems] show ?thesis by (cases on) (simp_all add: ab)
  qed (use eq [OF _ Cons.prems] in \<open>cases on; simp add: ab\<close>)
qed simp

lemma filter_res_throws: "x \<in> set xs \<Longrightarrow> p x = Inl e \<Longrightarrow> \<exists>e'. filter_res p xs = Inl e'"
  by (induction xs) (auto split: sum.splits)

text \<open>The filters of the utilities that ask for the same.\<close>

definition as_util_filters :: "jv \<Rightarrow> string \<Rightarrow> shop_filters \<Rightarrow> fields" where
  "as_util_filters wallet q f =
     [(''search'', JStr (if trim_str q = [] then [] else q)), (''category'', JStr (fl_category f)),
      (''creator'', JStr (fl_creator f)),
      (''minPrice'', if fl_minPrice f = [] then JUndef else JNum (parse_int (fl_minPrice f))),
      (''maxPrice'', if fl_maxPrice f = [] then JUndef else JNum (parse_int (fl_maxPrice f))),
      (''verifiedOnly'', JBool (fl_verifiedOnly f)), (''owner'', if fl_myNFTsOnly f then wallet else JUndef),
      (''favoritedOnly'', JBool (fl_favoritedOnly f)), (''hasUnlockableContent'', JBool (fl_hasUnlockableContent f)),
      (''isTradeLocked'', JBool (fl_isTradeLocked f)), (''minMintDate'', fl_minMintDate f),
      (''maxMintDate'', fl_maxMintDate f), (''traits'', JArr (fl_traits f))]"

lemma trim_empty: "q = [] \<Longrightarrow> trim_str q = []"
  by (simp add: trim_str_def)

lemma shop_search_match:
  assumes "\<not> nullish (obj_get n ''category'')"
  shows "shop_search q n = search_match q n"
  unfolding shop_search_def search_match_def
  by (rule some_res_cong) (use assms in \<open>auto simp: nullish_def\<close>)

lemma stages_agree:
  assumes "fl_minPrice f \<noteq> [] \<Longrightarrow> truthy (JNum (parse_int (fl_minPrice f)))"
    and "fl_maxPrice f \<noteq> [] \<Longrightarrow> truthy (JNum (parse_int (fl_maxPrice f)))"
    and "fl_myNFTsOnly f \<Longrightarrow> truthy wallet"
  shows "list_all2 (\<lambda>(on, p) (on', p'). on = on' \<and> (on \<longrightarrow> (\<forall>x\<in>{n. \<not> nullish (obj_get n ''category'')}. p x = p' x)))
    (shop_stages date wallet q f) (filter_stages date (as_util_filters wallet q f))"
proof -
  let ?g = "obj_get (as_util_filters wallet q f)"
  have g: "?g ''search'' = JStr (if trim_str q = [] then [] else q)" "?g ''category'' = JStr (fl_category f)"
    "?g ''creator'' = JStr (fl_creator f)"
    "?g ''minPrice'' = (if fl_minPrice f = [] then JUndef else JNum (parse_int (fl_minPrice f)))"
    "?g ''maxPrice'' = (if fl_maxPrice f = [] then JUndef else JNum (parse_int (fl_maxPrice f)))"
    "?g ''verifiedOnly'' = JBool (fl_verifiedOnly f)" "?g ''owner'' = (if fl_myNFTsOnly f then wallet else JUndef)"
    "?g ''favoritedOnly'' = JBool (fl_favoritedOnly f)" "?g ''hasUnlockableContent'' = JBool (fl_hasUnlockableContent f)"
    "?g ''isTradeLocked'' = JBool (fl_isTradeLocked f)" "?g ''minMintDate'' = fl_minMintDate f"
    "?g ''maxMintDate'' = fl_maxMintDate f" "?g ''traits'' = JArr (fl_traits f)"
    unfolding as_util_filters_def by simp_all
  have search: "(trim_str q \<noteq> []) = truthy (JStr (if trim_str q = [] then [] else q))"
    using trim_empty [of q] by auto
  have traits: "(fl_traits f \<noteq> []) = (truthy (JArr (fl_traits f)) \<and> js_lt (JInt 0) (jopt (JArr (fl_traits f)) ''length''))"
    by (cases "fl_traits f") simp_all
  have lower: "lower_case (JStr q) = Inr (JStr (to_lower q))"
    by (simp add: lower_case_def)
  show ?thesis
    unfolding shop_stages_def filter_stages_def Let_def g list_all2_Cons list_all2_Nil split_conv
    using assms search traits
    by (auto simp: lower shop_search_match)
qed

lemma as_nfts_objects: "as_nfts (JArr (map JObj ns)) = Inr ns"
proof -
  have "map_res as_nft (map JObj ns) = Inr ns" by (induction ns) simp_all
  then show ?thesis by (simp add: as_nfts_def)
qed

lemma api_nfts_lack_flag:
  assumes "n \<in> set (getAllNFTs l k fs)"
  shows "obj_get n ''isVerified'' = JUndef"
proof -
  have "n \<in> set sample_nfts"
    using assms by (auto simp: getAllNFTs_def js_slice_def Let_def dest!: in_set_takeD in_set_dropD split: if_splits)
  then show ?thesis by (auto simp: sample_nfts_def proto_value_def proto_keys_def)
qed

section \<open>Properties\<close>

text \<open>C8: Whatever the user does, the screen lists exactly the loaded NFTs that match the search
  text and the filter chips that are on; the category, creator, price, trade lock, date and trait
  filters and the sort order can never be changed.\<close>

theorem shop_lists_matching_nfts:
  assumes "permutes srt" "shop_reach env srt date p wallet (s, tr)"
  shows "mset (sh_filteredNfts s) = filter_mset (shown_by wallet s) (mset (sh_nfts s)) \<and>
    sh_filters s = new_filters\<lparr>fl_verifiedOnly := fl_verifiedOnly (sh_filters s), fl_myNFTsOnly := fl_myNFTsOnly (sh_filters s),
      fl_favoritedOnly := fl_favoritedOnly (sh_filters s), fl_hasUnlockableContent := fl_hasUnlockableContent (sh_filters s)\<rparr>"
  using shop_reach_inv [OF assms] by (simp add: shop_inv_def basic_filters_def)

text \<open>A shop whose API has one verified NFT.\<close>

definition one_nft :: nft where
  "one_nft = [(''name'', JStr ''n''), (''creator'', JStr ''c''), (''isVerified'', JBool True)]"

definition one_shop :: env where
  "one_shop = (\<lambda>_ c. Inr (if callee c = ''marketplaceAPI.getVerifiedNFTs'' then JArr [JObj one_nft] else JNull))"

definition plain_sort :: "(jv \<times> nft) sorter" where
  "plain_sort cmp xs = xs"

lemma one_shop_loads:
  "\<exists>tr'. loadMarketplaceData one_shop Web JNull (new_shop, []) =
     (Inr (), (new_shop\<lparr>sh_loading := False, sh_nfts := [one_nft], sh_creatorProfiles := [(''c'', JNull)], sh_analytics := JNull\<rparr>, tr'))"
  by (simp add: loadMarketplaceData_def fetch_nfts_def as_nfts_def js_unique_def one_shop_def one_nft_def js_simps new_shop_def)

theorem shop_lists_matching_nfts_witness:
  "\<exists>s tr. shop_reach one_shop plain_sort (\<lambda>_. NaN) Web JNull (s, tr) \<and> sh_nfts s = [one_nft] \<and>
    mset (sh_filteredNfts s) = filter_mset (shown_by JNull s) (mset (sh_nfts s))"
proof -
  have perm: "permutes plain_sort" by (simp add: permutes_def plain_sort_def)
  let ?s = "new_shop\<lparr>sh_loading := False, sh_nfts := [one_nft], sh_creatorProfiles := [(''c'', JNull)], sh_analytics := JNull\<rparr>"
  obtain tr where l: "loadMarketplaceData one_shop Web JNull (new_shop, []) = (Inr (), (?s, tr))"
    using one_shop_loads by blast
  have e: "filter_effect plain_sort (\<lambda>_. NaN) JNull (new_shop, []) = (Inr (), (new_shop, []))"
    by (simp add: filter_effect_def js_simps applyFilters_def shop_stages_def shop_sort_def new_shop_def new_filters_def trim_str_def)
  obtain s' where f: "filter_effect plain_sort (\<lambda>_. NaN) JNull (?s, tr) = (Inr (), (s', tr))" "sh_nfts s' = [one_nft]"
    by (simp add: filter_effect_def js_simps applyFilters_def shop_stages_def shop_sort_def new_shop_def new_filters_def
          trim_str_def one_nft_def)
  have "shop_reach one_shop plain_sort (\<lambda>_. NaN) Web JNull (s', tr)"
    by (rule shop_reach.mounted) (simp add: shop_mount_def js_bind_apply e l f)
  with shop_lists_matching_nfts [OF perm this] f(2) show ?thesis by blast
qed

text \<open>C21: The screens' own filtering agrees with the filtering of the marketplace utilities on the
  same request, for NFTs that have a category: with prices that do not parse to zero and a wallet
  address, both select the same NFTs in the same order, or both throw.\<close>

theorem shop_filters_as_utilities:
  assumes "fl_minPrice f \<noteq> [] \<Longrightarrow> truthy (JNum (parse_int (fl_minPrice f)))"
    and "fl_maxPrice f \<noteq> [] \<Longrightarrow> truthy (JNum (parse_int (fl_maxPrice f)))"
    and "fl_myNFTsOnly f \<Longrightarrow> truthy wallet"
    and "\<And>n. n \<in> set ns \<Longrightarrow> \<not> nullish (obj_get n ''category'')"
  shows "run_stages (shop_stages date wallet q f) ns = filterNFTs date ns (as_util_filters wallet q f)"
proof -
  have "search_ok (as_util_filters wallet q f) = Inr ()"
    by (simp add: search_ok_def as_util_filters_def lower_case_def)
  then show ?thesis
    using run_stages_cong [OF stages_agree [OF assms(1-3)], of ns] assms(4) by (auto simp: filterNFTs_def)
qed

theorem shop_filters_as_utilities_witness:
  "run_stages (shop_stages (\<lambda>_. NaN) (JStr ''S'') ''art'' (new_filters\<lparr>fl_myNFTsOnly := True\<rparr>))
     [[(''category'', JStr ''Art''), (''name'', JStr ''a'')]] =
   filterNFTs (\<lambda>_. NaN) [[(''category'', JStr ''Art''), (''name'', JStr ''a'')]]
     (as_util_filters (JStr ''S'') ''art'' (new_filters\<lparr>fl_myNFTsOnly := True\<rparr>))"
  by (rule shop_filters_as_utilities) (simp_all add: new_filters_def nullish_def)

text \<open>One NFT without a category makes a search crash the screen: when none of its texts
  contains the query the filter throws, where the utilities' search just leaves the NFT out.\<close>

theorem search_crashes_without_category:
  assumes "n \<in> set (sh_nfts s)" "trim_str (sh_searchQuery s) \<noteq> []" "nullish (obj_get n ''category'')"
    and "list_all (\<lambda>k. is_str (obj_get n k) \<and> \<not> mentions (to_lower (sh_searchQuery s)) (obj_get n k)) [''name'', ''description'', ''creator'']"
  shows "(\<exists>e. applyFilters srt date wallet s = Inl e) \<and> search_match (to_lower (sh_searchQuery s)) n = Inr False"
proof -
  let ?q = "to_lower (sh_searchQuery s)"
  have no: "text_includes (obj_get n k) ?q = Inr False" if "k \<in> {''name'', ''description'', ''creator''}" for k
    using assms(4) that text_includes_str [of "obj_get n k" ?q] by auto
  have "\<exists>e. text_includes (obj_get n ''category'') ?q = Inl e"
    using assms(3) by (auto simp: nullish_def text_includes_def lower_case_def)
  then obtain e where "shop_search ?q n = Inl e" using no by (auto simp: shop_search_def)
  then obtain e' where "filter_res (shop_search ?q) (sh_nfts s) = Inl e'"
    using filter_res_throws [OF assms(1)] by blast
  moreover have "search_match ?q n = Inr False"
    using no assms(3) by (auto simp: search_match_def nullish_def)
  ultimately show ?thesis using assms(2) by (simp add: applyFilters_def shop_stages_def)
qed

theorem search_crashes_without_category_witness:
  "let s = new_shop\<lparr>sh_nfts := [[(''name'', JStr ''a''), (''description'', JStr ''b''), (''creator'', JStr ''c'')]],
                   sh_searchQuery := ''x''\<rparr> in
   \<exists>e. applyFilters plain_sort (\<lambda>_. NaN) JNull s = Inl e"
proof -
  let ?n = "[(''name'', JStr ''a''), (''description'', JStr ''b''), (''creator'', JStr ''c'')]"
  let ?s = "new_shop\<lparr>sh_nfts := [?n], sh_searchQuery := ''x''\<rparr>"
  have "list_all (\<lambda>k. is_str (obj_get ?n k) \<and> \<not> mentions (to_lower (sh_searchQuery ?s)) (obj_get ?n k)) [''name'', ''description'', ''creator'']"
    by code_simp
  moreover have "trim_str (sh_searchQuery ?s) \<noteq> []" by code_simp
  moreover have "nullish (obj_get ?n ''category'')" by code_simp
  ultimately show ?thesis
    unfolding Let_def using search_crashes_without_category [of ?n ?s plain_sort "\<lambda>_. NaN" JNull] by simp
qed

text \<open>With the filters the screens start with, and as long as the verified chip is on, none of the NFTs of the
  marketplace API is listed: the API marks them \<open>verified\<close> and the filter reads \<open>isVerified\<close>.\<close>

theorem default_view_hides_api_nfts:
  assumes "permutes srt" "shop_reach env srt date p wallet (s, tr)"
    and "fl_verifiedOnly (sh_filters s)" "set (sh_nfts s) \<subseteq> set (getAllNFTs l k fs)"
  shows "sh_filteredNfts s = []"
proof -
  have "\<not> shown_by wallet s n" if "n \<in> set (sh_nfts s)" for n
    using api_nfts_lack_flag [of n l k fs] assms(3,4) that by (auto simp: shown_by_def)
  then have "filter (shown_by wallet s) (sh_nfts s) = []" by (simp add: filter_empty_conv)
  then show ?thesis using shop_reach_inv [OF assms(1,2)] by (simp add: shop_inv_def flip: mset_filter)
qed

definition api_shop :: env where
  "api_shop = (\<lambda>_ c. Inr (if callee c = ''marketplaceAPI.getVerifiedNFTs'' then JArr (map JObj (getAllNFTs 1000 0 []))
     else JNull))"

lemma load_profiles_runs: "\<exists>pr tr'. load_profiles api_shop xs pr0 (s, tr) = (Inr pr, (s, tr'))"
  by (induction xs arbitrary: pr0 tr) (simp_all add: js_simps api_shop_def)

lemma api_shop_loads:
  "\<exists>pr tr'. loadMarketplaceData api_shop Web JNull (new_shop, []) =
     (Inr (), (new_shop\<lparr>sh_loading := False, sh_nfts := getAllNFTs 1000 0 [], sh_creatorProfiles := pr, sh_analytics := JNull\<rparr>, tr'))"
proof -
  let ?s = "new_shop\<lparr>sh_loading := True\<rparr>" and ?ns = "getAllNFTs 1000 0 []"
  let ?cs = "js_unique (map (\<lambda>n. obj_get n ''creator'') ?ns)"
  have f: "fetch_nfts api_shop JNull ''verified'' (?s, []) = (Inr (JArr (map JObj ?ns)), (?s, [Call ''marketplaceAPI.getVerifiedNFTs'' []]))"
    by (simp add: fetch_nfts_def js_simps api_shop_def)
  obtain pr tr' where p: "load_profiles api_shop ?cs [] (?s, [Call ''marketplaceAPI.getVerifiedNFTs'' []]) = (Inr pr, (?s, tr'))"
    using load_profiles_runs [of ?cs "[]" ?s "[Call ''marketplaceAPI.getVerifiedNFTs'' []]"] by (elim exE)
  have a: "api_shop i (Call ''marketplaceAPI.getAnalytics'' []) = Inr JNull" for i by (simp add: api_shop_def)
  have v: "sh_viewMode new_shop = ''verified''" by (simp add: new_shop_def)
  show ?thesis
    unfolding loadMarketplaceData_def
    by (rule exI [of _ pr]) (simp add: js_simps f p as_nfts_objects a v)
qed

theorem default_view_hides_api_nfts_witness:
  "\<exists>s tr. shop_reach api_shop plain_sort (\<lambda>_. NaN) Web JNull (s, tr) \<and> sh_nfts s = getAllNFTs 1000 0 [] \<and>
    sh_filteredNfts s = []"
proof -
  have perm: "permutes plain_sort" by (simp add: permutes_def plain_sort_def)
  obtain pr tr where l: "loadMarketplaceData api_shop Web JNull (new_shop, []) =
     (Inr (), (new_shop\<lparr>sh_loading := False, sh_nfts := getAllNFTs 1000 0 [], sh_creatorProfiles := pr, sh_analytics := JNull\<rparr>, tr))"
    (is "_ = (_, (?s, _))")
    using api_shop_loads by (elim exE)
  have e: "filter_effect plain_sort (\<lambda>_. NaN) JNull (new_shop, []) = (Inr (), (new_shop, []))"
    by (simp add: filter_effect_def js_simps applyFilters_def shop_stages_def shop_sort_def new_shop_def new_filters_def trim_str_def)
  have none: "filter_res (\<lambda>n. Inr (truthy (obj_get n ''isVerified''))) (getAllNFTs 1000 0 []) = Inr []"
    using filter_res_total [of "getAllNFTs 1000 0 []" _ "\<lambda>n. truthy (obj_get n ''isVerified'')", OF refl] api_nfts_lack_flag
    by (simp add: filter_empty_conv)
  have st: "sh_searchQuery ?s = []" "sh_filters ?s = new_filters" "sh_nfts ?s = getAllNFTs 1000 0 []" by (simp_all add: new_shop_def)
  have "applyFilters plain_sort (\<lambda>_. NaN) JNull ?s = Inr []"
    unfolding applyFilters_def st shop_stages_def by (simp add: new_filters_def trim_str_def none shop_sort_def)
  then have f: "filter_effect plain_sort (\<lambda>_. NaN) JNull (?s, tr) = (Inr (), (?s\<lparr>sh_filteredNfts := []\<rparr>, tr))"
    by (simp add: filter_effect_def js_simps)
  have r: "shop_reach api_shop plain_sort (\<lambda>_. NaN) Web JNull (?s\<lparr>sh_filteredNfts := []\<rparr>, tr)"
    by (rule shop_reach.mounted) (simp add: shop_mount_def js_bind_apply e l f)
  have "sh_filteredNfts (?s\<lparr>sh_filteredNfts := []\<rparr>) = []"
    by (rule default_view_hides_api_nfts [OF perm r, of 1000 0 "[]"]) (simp_all add: new_shop_def new_filters_def)
  with r st(3) show ?thesis by (intro exI [of _ "?s\<lparr>sh_filteredNfts := []\<rparr>"] exI [of _ tr]) simp
qed

end
