(* ===== verification/FeeExplanation.thy ===== *)
theory FeeExplanation
  imports TokenMonetization
begin

text \<open>
  The fee page of the token creator,
  sdk-core/smart-contract-toolkit/TokenCreationFeeExplanation.js, on the monetization system of the
  theory TokenMonetization.

  A \<open>setState\<close> in an event handler is applied before its callback runs.  After an await it is applied
  at once up to React 17 and batched from React 18 on, where code that follows still reads the old
  state; the argument \<open>batched\<close> says which.  The callbacks \<open>onSuccess\<close> and \<open>onError\<close> are given.
\<close>

section \<open>State\<close>

record fee_page =
  fe_tokenName :: string
  fe_tokenSymbol :: string
  fe_decimals :: jsnum
  fe_maxSupply :: string
  fe_initialSupply :: string
  fe_currentShahPrice :: jv
  fe_totalFeeUSD :: jsnum
  fe_totalFeeSHAH :: jsnum
  fe_isCalculating :: bool
  fe_paymentMethod :: string
  fe_selectedAddOns :: "string list"
  fe_termsAccepted :: bool
  fe_errors :: "string list"
  fe_showConfirmation :: bool
  fe_isSubmitting :: bool

definition new_fee_page :: fee_page where
  "new_fee_page = \<lparr>fe_tokenName = [], fe_tokenSymbol = [], fe_decimals = Fin 18, fe_maxSupply = [], fe_initialSupply = [],
     fe_currentShahPrice = JInt 0, fe_totalFeeUSD = Fin 49, fe_totalFeeSHAH = Fin 0, fe_isCalculating = False,
     fe_paymentMethod = ''shah'', fe_selectedAddOns = [], fe_termsAccepted = False, fe_errors = [],
     fe_showConfirmation = False, fe_isSubmitting = False\<rparr>"

section \<open>The fee\<close>

text \<open>The \<open>switch\<close> of the loop over the selected add-ons.\<close>

definition fee_of :: "string \<Rightarrow> rat" where
  "fee_of addOn = (if addOn = ''customLogo'' then 10 else if addOn = ''verifiedBadge'' then 20
     else if addOn = ''upgradeableContract'' then 15 else if addOn = ''airdropTool'' then 8 else 0)"

definition fee_total :: "string list \<Rightarrow> rat" where
  "fee_total addOns = foldl (\<lambda>totalUSD addOn. totalUSD + fee_of addOn) 49 addOns"

text \<open>\<open>st\<close> is what \<open>this.state\<close> is when the method runs.\<close>

definition calculateTotalFee :: "fee_page \<Rightarrow> (fee_page, unit) js" where
  "calculateTotalFee st =
     (if js_le (fe_currentShahPrice st) (JInt 0) then js_return ()
      else let totalUSD = fee_total (fe_selectedAddOns st) in
        js_update (\<lambda>s. s\<lparr>fe_totalFeeUSD := Fin totalUSD,
          fe_totalFeeSHAH := num_div (Fin totalUSD) (to_number (fe_currentShahPrice st))\<rparr>))"

definition fetchShahPrice :: "env \<Rightarrow> monetization_system \<Rightarrow> bool \<Rightarrow> (fee_page, unit) js" where
  "fetchShahPrice env sys batched =
     js_bind (js_update (\<lambda>s. s\<lparr>fe_isCalculating := True\<rparr>)) (\<lambda>_.
     js_catch
       (js_bind (token_getShahPrice env sys) (\<lambda>shahPrice.
        js_bind js_this (\<lambda>before.
        js_bind (js_update (\<lambda>s. s\<lparr>fe_currentShahPrice := shahPrice, fe_isCalculating := False\<rparr>)) (\<lambda>_.
        js_bind js_this (\<lambda>after. calculateTotalFee (if batched then before else after))))))
       (\<lambda>_. js_update (\<lambda>s. s\<lparr>fe_errors := [''Failed to fetch SHAH price. Please try again.''], fe_isCalculating := False\<rparr>)))"

section \<open>Input and confirmation\<close>

definition bad_supply :: "string \<Rightarrow> bool" where
  "bad_supply v = (trim_str v = [] \<or> parse_float v = NaN \<or> num_le (parse_float v) (Fin 0))"

definition input_errors :: "fee_page \<Rightarrow> string list" where
  "input_errors s =
     (if trim_str (fe_tokenName s) = [] then [''Token name is required''] else []) @
     (if trim_str (fe_tokenSymbol s) = [] then [''Token symbol is required''] else []) @
     (if bad_supply (fe_maxSupply s) then [''Valid max supply is required''] else []) @
     (if bad_supply (fe_initialSupply s) then [''Valid initial supply is required''] else []) @
     (if \<not> fe_termsAccepted s then [''You must accept the terms and conditions''] else [])"

definition validateInputs :: "(fee_page, bool) js" where
  "validateInputs = js_bind js_this (\<lambda>s.
     js_bind (js_update (\<lambda>s'. s'\<lparr>fe_errors := input_errors s\<rparr>)) (\<lambda>_. js_return (input_errors s = [])))"

text \<open>The fields the form sets; the symbol is converted to upper case.\<close>

datatype fee_input = TokenName string | TokenSymbol string | TokenDecimals jsnum | MaxSupply string
  | InitialSupply string | TermsAccepted bool

primrec set_field :: "fee_input \<Rightarrow> fee_page \<Rightarrow> fee_page" where
  "set_field (TokenName v) s = s\<lparr>fe_tokenName := v\<rparr>"
| "set_field (TokenSymbol v) s = s\<lparr>fe_tokenSymbol := to_upper v\<rparr>"
| "set_field (TokenDecimals v) s = s\<lparr>fe_decimals := v\<rparr>"
| "set_field (MaxSupply v) s = s\<lparr>fe_maxSupply := v\<rparr>"
| "set_field (InitialSupply v) s = s\<lparr>fe_initialSupply := v\<rparr>"
| "set_field (TermsAccepted v) s = s\<lparr>fe_termsAccepted := v\<rparr>"

definition handleInputChange :: "fee_input \<Rightarrow> (fee_page, unit) js" where
  "handleInputChange i = js_bind (js_update (set_field i)) (\<lambda>_. js_bind validateInputs (\<lambda>_. js_return ()))"

definition fee_handleAddOnToggle :: "string \<Rightarrow> (fee_page, unit) js" where
  "fee_handleAddOnToggle addOn = js_bind js_this (\<lambda>st.
     let new = (if addOn \<in> set (fe_selectedAddOns st) then filter (\<lambda>item. item \<noteq> addOn) (fe_selectedAddOns st)
                else fe_selectedAddOns st @ [addOn]) in
     js_bind (js_update (\<lambda>s. s\<lparr>fe_selectedAddOns := new\<rparr>)) (\<lambda>_. js_bind js_this calculateTotalFee))"

definition fee_handlePaymentMethodChange :: "string \<Rightarrow> (fee_page, unit) js" where
  "fee_handlePaymentMethodChange method = js_update (\<lambda>s. s\<lparr>fe_paymentMethod := method\<rparr>)"

definition handleConfirmCreation :: "(fee_page, unit) js" where
  "handleConfirmCreation = js_bind validateInputs (\<lambda>valid.
     if \<not> valid then js_return () else js_update (\<lambda>s. s\<lparr>fe_showConfirmation := True\<rparr>))"

definition handleCancelConfirmation :: "(fee_page, unit) js" where
  "handleCancelConfirmation = js_update (\<lambda>s. s\<lparr>fe_showConfirmation := False\<rparr>)"

definition fee_tokenConfig :: "fee_page \<Rightarrow> jv" where
  "fee_tokenConfig s = JObj [(''name'', JStr (fe_tokenName s)), (''symbol'', JStr (fe_tokenSymbol s)),
     (''decimals'', JNum (fe_decimals s)), (''maxSupply'', JNum (parse_float (fe_maxSupply s))),
     (''initialSupply'', JNum (parse_float (fe_initialSupply s)))]"

definition handleProcessCreation :: "env \<Rightarrow> monetization_system \<Rightarrow> (fee_page, unit) js" where
  "handleProcessCreation env sys = js_bind js_this (\<lambda>st.
     js_bind (js_update (\<lambda>s. s\<lparr>fe_isSubmitting := True\<rparr>)) (\<lambda>_.
     js_catch
       (js_bind (token_calculateTotalPrice env sys (fe_selectedAddOns st) (JObj [])) (\<lambda>priceData.
        js_bind (token_processPayment env sys (fe_paymentMethod st) priceData (fee_tokenConfig st)) (\<lambda>paymentResult.
        js_bind (token_savePaymentData env paymentResult (fee_tokenConfig st) (fe_selectedAddOns st)) (\<lambda>_.
        js_bind (js_update (\<lambda>s. s\<lparr>fe_showConfirmation := False, fe_isSubmitting := False\<rparr>)) (\<lambda>_.
        js_bind (js_ext env (Call ''onSuccess'' [JObj [(''tokenConfig'', fee_tokenConfig st),
          (''paymentResult'', paymentResult), (''priceData'', priceData)]])) (\<lambda>_. js_return ()))))))
       (\<lambda>e. js_bind (js_update (\<lambda>s. s\<lparr>fe_errors := [message e], fe_isSubmitting := False\<rparr>)) (\<lambda>_.
            js_bind (js_ext env (Call ''onError'' [JStr (message e)])) (\<lambda>_. js_return ())))))"

section \<open>What the page shows\<close>

definition shown_base_fee :: "fee_page \<Rightarrow> string" where
  "shown_base_fee s = (if js_lt (JInt 0) (fe_currentShahPrice s)
     then ''$49 worth of SHAH ('' @ to_fixed 6 (num_div (Fin 49) (to_number (fe_currentShahPrice s))) @
          '' SHAH) - calculated live via ShahSwap''
     else ''$49 worth of SHAH (calculating...)'')"

definition shown_total_fee :: "fee_page \<Rightarrow> string" where
  "shown_total_fee s = ''$'' @ to_fixed 2 (fe_totalFeeUSD s) @ '' ('' @
     (if num_lt (Fin 0) (fe_totalFeeSHAH s) then to_fixed 6 (num_add (fe_totalFeeSHAH s) (Fin (1/1000))) else ''0.000000'') @
     '' SHAH)''"

definition confirm_enabled :: "fee_page \<Rightarrow> bool" where
  "confirm_enabled s = (fe_errors s = [] \<and> fe_termsAccepted s)"

text \<open>Everything the page lets the user do, with the conditions under which a button is enabled.\<close>

datatype fee_event = CalculateFee | EnterField fee_input | ToggleAddOn string | PayWith string
  | Confirm | Process | CancelConfirmation

definition fee_event_enabled :: "monetization_system \<Rightarrow> fee_page \<Rightarrow> fee_event \<Rightarrow> bool" where
  "fee_event_enabled sys s ev = (case ev of
       CalculateFee \<Rightarrow> \<not> fe_isCalculating s
     | ToggleAddOn k \<Rightarrow> k \<in> fst ` set (getPremiumAddOns sys)
     | PayWith k \<Rightarrow> k \<in> fst ` set (getPaymentMethods sys)
     | Confirm \<Rightarrow> confirm_enabled s
     | Process \<Rightarrow> fe_showConfirmation s \<and> \<not> fe_isSubmitting s
     | CancelConfirmation \<Rightarrow> fe_showConfirmation s \<and> \<not> fe_isSubmitting s
     | EnterField _ \<Rightarrow> True)"

primrec fee_event_handler :: "env \<Rightarrow> monetization_system \<Rightarrow> bool \<Rightarrow> fee_event \<Rightarrow> (fee_page, unit) js" where
  "fee_event_handler env sys batched CalculateFee = fetchShahPrice env sys batched"
| "fee_event_handler env sys batched (EnterField i) = handleInputChange i"
| "fee_event_handler env sys batched (ToggleAddOn k) = fee_handleAddOnToggle k"
| "fee_event_handler env sys batched (PayWith m) = fee_handlePaymentMethodChange m"
| "fee_event_handler env sys batched Confirm = handleConfirmCreation"
| "fee_event_handler env sys batched Process = handleProcessCreation env sys"
| "fee_event_handler env sys batched CancelConfirmation = handleCancelConfirmation"

inductive fee_reach :: "env \<Rightarrow> monetization_system \<Rightarrow> bool \<Rightarrow> fee_page world \<Rightarrow> bool" for env sys batched where
  mounted: "fee_reach env sys batched (snd (fetchShahPrice env sys batched (new_fee_page, [])))"
| event: "fee_reach env sys batched w \<Longrightarrow> fee_event_enabled sys (fst w) ev \<Longrightarrow>
    fee_reach env sys batched (snd (fee_event_handler env sys batched ev w))"

section \<open>Library\<close>

lemma fee_of_catalogue: "fee_of k = addon_usd token_premiumAddOns k"
  by (simp add: fee_of_def addon_usd_def token_premiumAddOns_def)

lemma fee_total_sum: "fee_total ks = 49 + tok.sum_usd ks"
proof -
  have "foldl (\<lambda>t k. t + fee_of k) a ks = a + (\<Sum>k\<leftarrow>ks. addon_usd token_premiumAddOns k)" for a
    by (induction ks arbitrary: a) (simp_all add: fee_of_catalogue)
  then show ?thesis by (simp add: fee_total_def tok.sum_usd_def)
qed

definition fee_inv :: "fee_page \<Rightarrow> bool" where
  "fee_inv s = (distinct (fe_selectedAddOns s) \<and> set (fe_selectedAddOns s) \<subseteq> fst ` set token_premiumAddOns \<and>
     (\<not> js_le (fe_currentShahPrice s) (JInt 0) \<longrightarrow>
        fe_totalFeeUSD s = Fin (fee_total (fe_selectedAddOns s)) \<and>
        fe_totalFeeSHAH s = num_div (Fin (fee_total (fe_selectedAddOns s))) (to_number (fe_currentShahPrice s))))"

lemma token_getShahPrice_keeps [keeps_intros]: "keeps_state (token_getShahPrice env sys)"
  unfolding token_getShahPrice_def by (intro keeps_intros)

definition with_total :: "fee_page \<Rightarrow> fee_page \<Rightarrow> fee_page" where
  "with_total st s = (if js_le (fe_currentShahPrice st) (JInt 0) then s
     else s\<lparr>fe_totalFeeUSD := Fin (fee_total (fe_selectedAddOns st)),
        fe_totalFeeSHAH := num_div (Fin (fee_total (fe_selectedAddOns st))) (to_number (fe_currentShahPrice st))\<rparr>)"

lemma calculateTotalFee_run: "calculateTotalFee st (s, tr) = (Inr (), (with_total st s, tr))"
  by (simp add: calculateTotalFee_def with_total_def js_simps Let_def)

lemma with_total_inv:
  "distinct (fe_selectedAddOns s) \<Longrightarrow> set (fe_selectedAddOns s) \<subseteq> fst ` set token_premiumAddOns \<Longrightarrow>
   fee_inv (with_total s s)"
  by (simp add: fee_inv_def with_total_def)

lemma fetchShahPrice_run:
  assumes "token_getShahPrice env sys (s\<lparr>fe_isCalculating := True\<rparr>, tr) = (r, w1)"
  shows "fetchShahPrice env sys batched (s, tr) = (Inr (), (case r of
      Inl e \<Rightarrow> s\<lparr>fe_errors := [''Failed to fetch SHAH price. Please try again.''], fe_isCalculating := False\<rparr>
    | Inr p \<Rightarrow> let s' = s\<lparr>fe_currentShahPrice := p, fe_isCalculating := False\<rparr> in
        with_total (if batched then s\<lparr>fe_isCalculating := True\<rparr> else s') s', snd w1))"
proof -
  obtain s1 tr1 where w: "w1 = (s1, tr1)" by (rule prod.exhaust)
  have s1: "s1 = s\<lparr>fe_isCalculating := True\<rparr>" by (rule keeps_stateD [OF token_getShahPrice_keeps assms [unfolded w]])
  show ?thesis
    by (cases r; cases batched)
       (simp_all add: fetchShahPrice_def js_simps assms w s1 calculateTotalFee_run Let_def)
qed

lemma fetch_keeps_inv:
  assumes "fee_inv s"
  shows "fee_inv (fst (snd (fetchShahPrice env sys False (s, tr))))"
proof -
  obtain r w where r: "token_getShahPrice env sys (s\<lparr>fe_isCalculating := True\<rparr>, tr) = (r, w)" by (rule prod.exhaust)
  have d: "distinct (fe_selectedAddOns s)" "set (fe_selectedAddOns s) \<subseteq> fst ` set token_premiumAddOns"
    using assms by (simp_all add: fee_inv_def)
  show ?thesis
  proof (cases r)
    case (Inl e)
    then show ?thesis using assms by (simp add: fetchShahPrice_run [OF r] fee_inv_def)
  next
    case (Inr p)
    have "fee_inv (with_total (s\<lparr>fe_currentShahPrice := p, fe_isCalculating := False\<rparr>)
        (s\<lparr>fe_currentShahPrice := p, fe_isCalculating := False\<rparr>))"
      by (rule with_total_inv) (simp_all add: d)
    then show ?thesis by (simp only: fetchShahPrice_run [OF r] Inr sum.case Let_def if_False fst_conv snd_conv)
  qed
qed

lemma toggle_keeps_inv:
  assumes "fee_inv s" "k \<in> fst ` set token_premiumAddOns"
  shows "fee_inv (fst (snd (fee_handleAddOnToggle k (s, tr))))"
proof -
  let ?new = "if k \<in> set (fe_selectedAddOns s) then filter (\<lambda>i. i \<noteq> k) (fe_selectedAddOns s) else fe_selectedAddOns s @ [k]"
  let ?s = "s\<lparr>fe_selectedAddOns := ?new\<rparr>"
  have d: "distinct (fe_selectedAddOns s)" "set (fe_selectedAddOns s) \<subseteq> fst ` set token_premiumAddOns"
    using assms(1) by (simp_all add: fee_inv_def)
  have "distinct ?new" using d(1) by simp
  moreover have "set ?new \<subseteq> fst ` set token_premiumAddOns" using d(2) assms(2) by auto
  ultimately have "fee_inv (with_total ?s ?s)" by (intro with_total_inv) simp_all
  then show ?thesis by (simp only: fee_handleAddOnToggle_def js_bind_this js_bind_apply [of "js_update _"]
    js_update_apply prod.case sum.case Let_def calculateTotalFee_run fst_conv snd_conv)
qed

lemma process_keeps_inv: "js_inv (\<lambda>w. fee_inv (fst w)) (handleProcessCreation env sys)"
proof -
  have keep: "keeps_state (token_calculateTotalPrice env sys ks opts :: (fee_page, jv) js)"
    "keeps_state (token_processPayment env sys m a c :: (fee_page, jv) js)"
    "keeps_state (token_savePaymentData env r c ks :: (fee_page, jv) js)" for ks opts m a c r
    unfolding token_calculateTotalPrice_def token_calculateBaseFee_def token_processPayment_def
      token_processShahPayment_def token_processShahTokenPayment_def token_processStripePayment_def
      token_savePaymentData_def Let_def
    by (intro keeps_intros)+
  show ?thesis
    unfolding handleProcessCreation_def
    by (intro inv_intros js_inv_stateI [where P = fee_inv] js_inv_state_ext [where P = fee_inv]
          js_inv_keeps [OF keep(1), where P = fee_inv] js_inv_keeps [OF keep(2), where P = fee_inv]
          js_inv_keeps [OF keep(3), where P = fee_inv]) (simp_all add: fee_inv_def)
qed

lemma fee_reach_inv:
  assumes "fee_reach env (new_TokenMonetizationSystem cfg) False w"
  shows "fee_inv (fst w)"
  using assms
proof (induction rule: fee_reach.induct)
  case mounted
  show ?case by (rule fetch_keeps_inv) (simp add: fee_inv_def new_fee_page_def)
next
  case (event w ev)
  obtain s tr where w: "w = (s, tr)" by (rule prod.exhaust)
  note inv = event.IH [unfolded w fst_conv]
  show ?case
  proof (cases ev)
    case (ToggleAddOn k)
    then show ?thesis using event.hyps(2) toggle_keeps_inv [OF inv]
      by (simp add: w fee_event_enabled_def getPremiumAddOns_def new_TokenMonetizationSystem_def)
  next
    case (EnterField i)
    then show ?thesis using inv
      by (cases i) (simp_all add: w handleInputChange_def validateInputs_def js_simps fee_inv_def)
  next
    case Process
    then show ?thesis using js_invD [OF process_keeps_inv, of w] event.IH by simp
  qed (use inv fetch_keeps_inv [OF inv] in \<open>simp_all add: w fee_handlePaymentMethodChange_def handleConfirmCreation_def
         validateInputs_def handleCancelConfirmation_def js_simps fee_inv_def\<close>)
qed

lemma page_never_deploys: "avoids is_deploy (fee_event_handler env sys batched ev)"
proof -
  have fetch: "avoids is_deploy (fetchShahPrice env sys batched)"
    unfolding fetchShahPrice_def token_getShahPrice_def calculateTotalFee_def Let_def
    by (intro avoids_intros) (simp_all add: charge_defs)
  have process: "avoids is_deploy (handleProcessCreation env sys)"
    unfolding handleProcessCreation_def
    by (intro avoids_intros avoids_weaken [OF token_price_quiet] token_pay_no_deploy avoids_weaken [OF token_save_quiet])
       (simp_all add: charge_defs)
  show ?thesis
    by (cases ev) (auto intro!: avoids_intros fetch process simp: handleInputChange_def validateInputs_def
      fee_handleAddOnToggle_def calculateTotalFee_def fee_handlePaymentMethodChange_def handleConfirmCreation_def
      handleCancelConfirmation_def Let_def)
qed

lemma fee_reach_no_deploy: "fee_reach env sys batched w \<Longrightarrow> \<forall>c\<in>set (snd w). \<not> is_deploy c"
proof (induction rule: fee_reach.induct)
  case mounted
  obtain r w where r: "fee_event_handler env sys batched CalculateFee (new_fee_page, []) = (r, w)" by (rule prod.exhaust)
  from avoidsD [OF page_never_deploys r] r show ?case by auto
next
  case (event w ev)
  obtain r w' where r: "fee_event_handler env sys batched ev w = (r, w')" by (rule prod.exhaust)
  from avoidsD [OF page_never_deploys r] event.IH show ?case by (auto simp: r)
qed

section \<open>Properties\<close>



text \<open>Where React batches updates after an await, the fee in SHAH is not computed when the page
  opens: the price that was fetched is shown, the total stays at zero SHAH.\<close>

theorem fee_page_batched_total_missing:
  assumes "token_getShahPrice env sys (new_fee_page\<lparr>fe_isCalculating := True\<rparr>, []) = (Inr p, w1)"
  shows "let s = fst (snd (fetchShahPrice env sys True (new_fee_page, []))) in
    fe_currentShahPrice s = p \<and> fe_totalFeeSHAH s = Fin 0 \<and> shown_total_fee s = ''$49.00 (0.000000 SHAH)''"
proof -
  let ?s = "new_fee_page\<lparr>fe_currentShahPrice := p, fe_isCalculating := False\<rparr>"
  have "js_le (JInt 0) (JInt 0)" by (simp add: js_le_def is_text_def)
  then have "with_total (new_fee_page\<lparr>fe_isCalculating := True\<rparr>) s = s" for s
    by (simp add: with_total_def new_fee_page_def)
  then have s: "fst (snd (fetchShahPrice env sys True (new_fee_page, []))) = ?s"
    unfolding fetchShahPrice_run [OF assms] by (simp only: sum.case Let_def if_True fst_conv snd_conv)
  have t: "to_fixed 2 (Fin 49) = ''49.00''" by code_simp
  have f: "fe_currentShahPrice ?s = p" "fe_totalFeeSHAH ?s = Fin 0" "fe_totalFeeUSD ?s = Fin 49"
    by (simp_all add: new_fee_page_def)
  show ?thesis unfolding s Let_def shown_total_fee_def f t by simp
qed

theorem fee_page_batched_total_missing_witness:
  "shown_total_fee (fst (snd (fetchShahPrice (price_env (1/2)) (new_TokenMonetizationSystem []) True (new_fee_page, [])))) =
    ''$49.00 (0.000000 SHAH)''"
  by (rule fee_page_batched_total_missing [OF token_getShahPrice_price_env, unfolded Let_def, THEN conjunct2, THEN conjunct2])

text \<open>Whatever the user does, the page deploys no contract: a successful creation charges the fee, stores
  the payment and reports success.\<close>

theorem fee_page_deploys_nothing:
  assumes "fee_reach env sys batched (s, tr)"
  shows "list_all (\<lambda>c. \<not> is_deploy c) tr"
  using fee_reach_no_deploy [OF assms] by (simp add: list_all_iff)

theorem fee_page_deploys_nothing_witness:
  "list_all (\<lambda>c. \<not> is_deploy c)
     (snd (snd (fetchShahPrice (price_env (1/2)) (new_TokenMonetizationSystem []) False (new_fee_page, []))))"
  by (rule fee_page_deploys_nothing [where s = "fst (snd (fetchShahPrice (price_env (1/2)) (new_TokenMonetizationSystem []) False (new_fee_page, [])))"],
      subst prod.collapse, rule fee_reach.mounted)

end
