(* ===== verification/Upgrade.thy ===== *)
theory Upgrade
  imports Effects
begin

text \<open>
  Paying for the AI wallet: the endpoints of shah-wallet-dashboard/api (upgrade/price.ts,
  upgrade/checkout.ts, upgrade/subscribe.ts, webhook/stripe.ts), the confirmation mail endpoint
  api/email/payment-confirmation.js, and the components web/components/UpgradeAIWallet.tsx and
  BuyShah.tsx.

  The ellipsis character of two messages is written as three dots.  An endpoint returns its response.
  The Stripe library, reading the request's body, the console and the component's callbacks are external calls, and the environment variables an endpoint reads are
  its arguments.
\<close>

record response =
  status :: int
  body :: jv

definition respond :: "int \<Rightarrow> fields \<Rightarrow> ('s, response) js" where
  "respond n fs = js_return \<lparr>status = n, body = JObj fs\<rparr>"

section \<open>The price endpoint\<close>

definition PREMIUM_PRICE_USD :: rat where
  "PREMIUM_PRICE_USD = 999/100"

definition getFromShahSwap :: "('s, jv) js" where
  "getFromShahSwap = js_return (JObj [(''shah'', JUndef), (''shahtoken'', JUndef)])"

definition getFromGeckoTerminal :: "('s, jv) js" where
  "getFromGeckoTerminal = js_return (JObj [(''shah'', JUndef), (''shahtoken'', JUndef)])"

definition pickPrice :: "jv \<Rightarrow> jv \<Rightarrow> jsnum \<Rightarrow> jsnum" where
  "pickPrice a b fallback =
     (if truthy a \<and> js_lt (JInt 0) a then to_number a
      else if truthy b \<and> js_lt (JInt 0) b then to_number b else fallback)"

text \<open>\<open>Math.round(x * 1e4) / 1e4\<close>.\<close>

definition round4 :: "jsnum \<Rightarrow> jsnum" where
  "round4 x = num_div (num_round (num_mul x (Fin 10000))) (Fin 10000)"

definition price_body :: "jv \<Rightarrow> jv \<Rightarrow> fields" where
  "price_body s1 s2 =
     (let usdPrice = pickPrice (jopt s1 ''shah'') (jopt s2 ''shah'') (Fin (1/10));
          usdPriceToken = pickPrice (jopt s1 ''shahtoken'') (jopt s2 ''shahtoken'') usdPrice
      in [(''usdPrice'', JNum usdPrice),
          (''requiredShah'', JNum (round4 (num_div (Fin PREMIUM_PRICE_USD) usdPrice))),
          (''requiredShahToken'', JNum (round4 (num_div (Fin PREMIUM_PRICE_USD) usdPriceToken)))])"

definition price_handler :: "('s, response) js" where
  "price_handler = js_catch
     (js_bind getFromShahSwap (\<lambda>s1. js_bind getFromGeckoTerminal (\<lambda>s2. respond 200 (price_body s1 s2))))
     (\<lambda>e. respond 500 [(''error'', js_or (JStr (message e)) (JStr ''oracle-error''))])"

section \<open>The checkout and subscription endpoints\<close>

definition method_not_allowed :: "env \<Rightarrow> ('s, response) js" where
  "method_not_allowed env = js_bind (js_ext env (Call ''res.setHeader'' [JStr ''Allow'', JStr ''POST''])) (\<lambda>_.
     respond 405 [(''error'', JStr ''Method Not Allowed'')])"

definition session_urls :: "jv \<Rightarrow> jv \<Rightarrow> string \<Rightarrow> string \<Rightarrow> fields" where
  "session_urls successUrl cancelUrl defaultSuccess defaultCancel =
     [(''success_url'', js_plus (js_or successUrl (JStr defaultSuccess)) (JStr ''?session_id={CHECKOUT_SESSION_ID}'')),
      (''cancel_url'', js_or cancelUrl (JStr defaultCancel))]"

definition create_session :: "env \<Rightarrow> jv \<Rightarrow> string \<Rightarrow> string \<Rightarrow> ('s, response) js" where
  "create_session env params label fallback = js_catch
     (js_bind (js_ext env (Call ''stripe.checkout.sessions.create'' [params])) (\<lambda>session.
      js_bind (js_get session ''url'') (\<lambda>url.
      js_bind (js_get session ''id'') (\<lambda>i. respond 200 [(''url'', url), (''id'', i)]))))
     (\<lambda>e. js_bind (js_ext env (Call ''console.error'' [JStr label])) (\<lambda>_.
          respond 500 [(''error'', js_or (JStr (message e)) (JStr fallback))]))"

definition checkout_params :: "jv \<Rightarrow> string \<Rightarrow> string \<Rightarrow> jv" where
  "checkout_params b defaultSuccess defaultCancel = JObj ([(''mode'', JStr ''payment''), (''submit_type'', JStr ''pay''),
     (''line_items'', JArr [JObj [(''quantity'', JInt 1),
        (''price_data'', JObj [(''currency'', JStr ''usd''), (''unit_amount'', JInt 999),
           (''product_data'', JObj [(''name'', JStr ''AI Wallet Upgrade''),
              (''description'', JStr ''One-time upgrade to Premium AI Wallet access'')])])]]),
     (''allow_promotion_codes'', JBool False)] @
     session_urls (jopt b ''successUrl'') (jopt b ''cancelUrl'') defaultSuccess defaultCancel @
     [(''metadata'', JObj [(''type'', JStr ''ai_wallet_upgrade''), (''wallet'', js_or (jopt b ''wallet'') (JStr []))])])"

definition checkout_handler :: "env \<Rightarrow> string \<Rightarrow> string \<Rightarrow> string \<Rightarrow> string \<Rightarrow> jv \<Rightarrow> ('s, response) js" where
  "checkout_handler env secret_key defaultSuccess defaultCancel method req_body =
     (if method \<noteq> ''POST'' then method_not_allowed env
      else if secret_key = [] then respond 500 [(''error'', JStr ''Stripe not configured'')]
      else create_session env (checkout_params (js_or req_body (JObj [])) defaultSuccess defaultCancel)
        ''checkout error'' ''Checkout error'')"

definition subscription_item :: "jv \<Rightarrow> jv" where
  "subscription_item price_id =
     (if truthy price_id then JObj [(''quantity'', JInt 1), (''price'', price_id)]
      else JObj [(''quantity'', JInt 1),
        (''price_data'', JObj [(''currency'', JStr ''usd''), (''recurring'', JObj [(''interval'', JStr ''month'')]),
           (''unit_amount'', JInt 499), (''product_data'', JObj [(''name'', JStr ''AI Wallet Subscription (Monthly)'')])])])"

definition subscribe_params :: "jv \<Rightarrow> jv \<Rightarrow> string \<Rightarrow> string \<Rightarrow> jv" where
  "subscribe_params price_id b defaultSuccess defaultCancel = JObj ([(''mode'', JStr ''subscription''),
     (''line_items'', JArr [subscription_item price_id])] @
     session_urls (jopt b ''successUrl'') (jopt b ''cancelUrl'') defaultSuccess defaultCancel @
     [(''metadata'', JObj [(''type'', JStr ''ai_wallet_subscription''), (''wallet'', js_or (jopt b ''wallet'') (JStr []))])])"

definition subscribe_handler :: "env \<Rightarrow> string \<Rightarrow> jv \<Rightarrow> string \<Rightarrow> string \<Rightarrow> string \<Rightarrow> jv \<Rightarrow> ('s, response) js" where
  "subscribe_handler env secret_key price_id defaultSuccess defaultCancel method req_body =
     (if method \<noteq> ''POST'' then method_not_allowed env
      else if secret_key = [] then respond 500 [(''error'', JStr ''Stripe not configured'')]
      else create_session env (subscribe_params price_id (js_or req_body (JObj [])) defaultSuccess defaultCancel)
        ''subscribe error'' ''Subscribe error'')"

section \<open>The webhook\<close>

text \<open>A response with a text body.\<close>

definition send_text :: "int \<Rightarrow> string \<Rightarrow> ('s, response) js" where
  "send_text n t = js_return \<lparr>status = n, body = JStr t\<rparr>"

definition completed_session :: "env \<Rightarrow> jv \<Rightarrow> ('s, unit) js" where
  "completed_session env event =
     js_bind (js_get event ''data'') (\<lambda>d.
     js_bind (js_get d ''object'') (\<lambda>session.
     js_bind (js_get session ''metadata'') (\<lambda>md.
     let wallet = js_or (jopt md ''wallet'') (JStr []) in
     js_bind (if strict_eq (jopt session ''mode'') (JStr ''payment'')
              then js_ext env (Call ''console.log'' [JStr ''Upgrade complete for wallet:'', wallet, JStr ''session:'', jopt session ''id''])
              else js_return JUndef) (\<lambda>_.
     js_bind (if strict_eq (jopt session ''mode'') (JStr ''subscription'')
              then js_ext env (Call ''console.log'' [JStr ''Subscription started for wallet:'', wallet, JStr ''session:'', jopt session ''id''])
              else js_return JUndef) (\<lambda>_. js_return ())))))"

definition webhook_event :: "env \<Rightarrow> jv \<Rightarrow> ('s, response) js" where
  "webhook_event env event = js_catch
     (js_bind (js_get event ''type'') (\<lambda>ty.
      js_bind (if strict_eq ty (JStr ''checkout.session.completed'') then completed_session env event else js_return ()) (\<lambda>_.
      respond 200 [(''received'', JBool True)])))
     (\<lambda>e. js_bind (js_ext env (Call ''console.error'' [JStr ''webhook error''])) (\<lambda>_.
          respond 500 [(''error'', js_or (JStr (message e)) (JStr ''webhook-error''))]))"

definition webhook_handler :: "env \<Rightarrow> string \<Rightarrow> string \<Rightarrow> jv \<Rightarrow> ('s, response) js" where
  "webhook_handler env webhook_secret method signature =
     (if method \<noteq> ''POST''
      then js_bind (js_ext env (Call ''res.setHeader'' [JStr ''Allow'', JStr ''POST''])) (\<lambda>_. send_text 405 ''Method Not Allowed'')
      else if webhook_secret = [] then send_text 500 ''Webhook not configured''
      else js_bind (js_ext env (Call ''buffer'' [])) (\<lambda>buf.
        js_bind (js_catch
          (js_bind (js_ext env (Call ''stripe.webhooks.constructEvent'' [buf, signature, JStr webhook_secret])) (\<lambda>ev. js_return (Inr ev)))
          (\<lambda>e. js_bind (js_ext env (Call ''console.error'' [JStr ''Webhook signature verification failed.''])) (\<lambda>_.
               js_return (Inl (message e)))))
        (\<lambda>r. case r of Inl m \<Rightarrow> send_text 400 (''Webhook Error: '' @ m) | Inr ev \<Rightarrow> webhook_event env ev)))"

section \<open>The confirmation mail\<close>

definition mail_fields :: "string list" where
  "mail_fields = [''email'', ''plan'', ''amount'', ''method'', ''date'', ''tx_id'']"

text \<open>The text of the mail is built and not used.\<close>

definition payment_confirmation :: "env \<Rightarrow> jv \<Rightarrow> ('s, response) js" where
  "payment_confirmation env req_body = js_catch
     (js_bind (js_get req_body ''email'') (\<lambda>email.
      if list_ex (\<lambda>k. \<not> truthy (jopt req_body k)) mail_fields
      then respond 400 [(''success'', JBool False), (''error'', JStr ''Missing required fields'')]
      else js_bind (js_ext env (Call ''console.log'' [JStr ''Sending payment confirmation email:'',
          JObj [(''to'', email), (''plan'', jopt req_body ''plan''), (''amount'', jopt req_body ''amount''),
            (''method'', jopt req_body ''method''), (''date'', jopt req_body ''date''),
            (''transactionId'', jopt req_body ''tx_id'')]])) (\<lambda>_.
        respond 200 [(''success'', JBool True), (''message'', JStr ''Payment confirmation email sent successfully''),
          (''transactionId'', jopt req_body ''tx_id'')])))
     (\<lambda>_. js_bind (js_ext env (Call ''console.error'' [JStr ''Error sending payment confirmation email:''])) (\<lambda>_.
          respond 500 [(''success'', JBool False), (''error'', JStr ''Failed to send payment confirmation email'')]))"

section \<open>The upgrade and purchase components\<close>

record upgrade_page =
  up_method :: string
  up_loading :: bool
  up_message :: string

definition new_upgrade_page :: upgrade_page where
  "new_upgrade_page = \<lparr>up_method = ''SHAH'', up_loading = False, up_message = []\<rparr>"

definition shahAmount :: "jsnum \<Rightarrow> jsnum \<Rightarrow> jsnum" where
  "shahAmount usdPerShah premiumPriceUsd =
     (if num_le usdPerShah (Fin 0) then Fin 0 else round4 (num_div premiumPriceUsd usdPerShah))"

text \<open>\<open>x ?? d\<close>.\<close>

definition js_coalesce :: "jv \<Rightarrow> jv \<Rightarrow> jv" where
  "js_coalesce x d = (if x = JUndef \<or> x = JNull then d else x)"

definition onConfirm :: "env \<Rightarrow> jsnum \<Rightarrow> jsnum \<Rightarrow> (upgrade_page, unit) js" where
  "onConfirm env usdPerShah premiumPriceUsd = js_bind js_this (\<lambda>st.
     js_bind (js_update (\<lambda>s. s\<lparr>up_loading := True, up_message := ''Processing payment...''\<rparr>)) (\<lambda>_.
     js_finally (js_catch
       (js_bind (js_ext env (Call ''onUpgrade'' [JStr (up_method st), JNum (shahAmount usdPerShah premiumPriceUsd)])) (\<lambda>res.
        js_bind (js_get res ''success'') (\<lambda>ok.
        if truthy ok
        then js_update (\<lambda>s. s\<lparr>up_message := ''Success! Receipt/TX: '' @ to_str (js_coalesce (jopt res ''receipt'') (JStr ''N/A''))\<rparr>)
        else js_update (\<lambda>s. s\<lparr>up_message := ''Payment failed: '' @ to_str (js_coalesce (jopt res ''error'') (JStr ''Unknown error''))\<rparr>))))
       (\<lambda>e. js_update (\<lambda>s. s\<lparr>up_message := ''Payment failed: '' @ message e\<rparr>)))
     (\<lambda>s. s\<lparr>up_loading := False\<rparr>)))"

record buy_page =
  buy_usd :: jsnum
  buy_loading :: bool
  buy_msg :: string

definition shahEst :: "jsnum \<Rightarrow> jsnum \<Rightarrow> jsnum" where
  "shahEst usd usdPerShah = (if num_lt (Fin 0) usdPerShah then num_div usd usdPerShah else Fin 0)"

definition est4 :: "jsnum \<Rightarrow> jsnum \<Rightarrow> jsnum" where
  "est4 usd usdPerShah = round4 (shahEst usd usdPerShah)"

definition onBuy :: "env \<Rightarrow> (buy_page, unit) js" where
  "onBuy env = js_bind js_this (\<lambda>st.
     js_bind (js_update (\<lambda>s. s\<lparr>buy_loading := True, buy_msg := ''Processing Stripe payment...''\<rparr>)) (\<lambda>_.
     js_finally (js_catch
       (js_bind (js_ext env (Call ''onStripePay'' [JNum (buy_usd st)])) (\<lambda>r.
        js_bind (js_get r ''success'') (\<lambda>ok.
        if truthy ok
        then js_update (\<lambda>s. s\<lparr>buy_msg := ''Success! Deposit TX: '' @ to_str (js_coalesce (jopt r ''txid'') (JStr ''N/A''))\<rparr>)
        else js_update (\<lambda>s. s\<lparr>buy_msg := ''Failed: '' @ to_str (js_coalesce (jopt r ''error'') (JStr ''Unknown error''))\<rparr>))))
       (\<lambda>e. js_update (\<lambda>s. s\<lparr>buy_msg := ''Failed: '' @ message e\<rparr>)))
     (\<lambda>s. s\<lparr>buy_loading := False\<rparr>)))"

section \<open>Library\<close>

lemma round4_close: "\<exists>b. round4 (Fin a) = Fin b \<and> \<bar>b - a\<bar> \<le> 1 / 20000"
proof -
  have "\<bar>of_int \<lfloor>a * 10000 + 1 / 2\<rfloor> - a * 10000\<bar> \<le> 1 / 2" by linarith
  then have "\<bar>of_int \<lfloor>a * 10000 + 1 / 2\<rfloor> / 10000 - a\<bar> \<le> 1 / 20000" by (simp add: abs_le_iff field_simps)
  moreover have "round4 (Fin a) = Fin (of_int \<lfloor>a * 10000 + 1 / 2\<rfloor> / 10000)" by (simp add: round4_def num_simps)
  ultimately show ?thesis by blast
qed

lemma js_get_obj: "js_get (JObj fs) k = js_return (obj_get fs k)"
  by (simp add: js_get_def js_lift_def js_return_def)

lemma js_lt_zero: "js_lt (JInt 0) a \<Longrightarrow> num_lt (Fin 0) (to_number a)"
  by (auto simp: js_lt_def is_text_def split: if_splits)

lemma pickPrice_pos:
  assumes "num_lt (Fin 0) f"
  shows "num_lt (Fin 0) (pickPrice a b f)"
  using assms js_lt_zero [of a] js_lt_zero [of b] by (simp add: pickPrice_def)

text \<open>What the webhook may call.\<close>

definition webhook_calls :: "string list" where
  "webhook_calls = [''res.setHeader'', ''buffer'', ''stripe.webhooks.constructEvent'', ''console.log'', ''console.error'']"

lemma webhook_avoids: "avoids (\<lambda>c. callee c \<notin> set webhook_calls) (webhook_handler env secret method sig)"
proof -
  have "avoids (\<lambda>c. callee c \<notin> set webhook_calls) (webhook_event env ev)" for ev
    unfolding webhook_event_def completed_session_def respond_def Let_def
    by (intro avoids_intros) (simp_all add: webhook_calls_def)
  then have "avoids (\<lambda>c. callee c \<notin> set webhook_calls) (case r of Inl m \<Rightarrow> send_text 400 (''Webhook Error: '' @ m)
      | Inr ev \<Rightarrow> webhook_event env ev)" for r
    by (cases r) (auto simp: send_text_def intro: avoids_intros)
  then show ?thesis
    unfolding webhook_handler_def send_text_def
    by (intro avoids_intros) (simp_all add: webhook_calls_def)
qed

lemma webhook_keeps: "keeps_state (webhook_handler env secret method sig)"
proof -
  have "keeps_state (webhook_event env ev)" for ev
    unfolding webhook_event_def completed_session_def respond_def Let_def by (intro keeps_intros)
  then have "keeps_state (case r of Inl m \<Rightarrow> send_text 400 (''Webhook Error: '' @ m) | Inr ev \<Rightarrow> webhook_event env ev)" for r
    by (cases r) (auto simp: send_text_def intro: keeps_intros)
  then show ?thesis
    unfolding webhook_handler_def send_text_def by (intro keeps_intros)
qed

section \<open>Properties\<close>

text \<open>C20: The price endpoint and the upgrade page ask for the same amount of SHAH at the same price,
  whatever the price sources answer; the price is positive, and the amount is worth the premium price
  up to the rounding to four decimals.\<close>

theorem upgrade_price_agrees:
  assumes "obj_get (price_body s1 s2) ''usdPrice'' = JNum (Fin x)"
  shows "\<exists>r. obj_get (price_body s1 s2) ''requiredShah'' = JNum (Fin r) \<and>
    shahAmount (Fin x) (Fin PREMIUM_PRICE_USD) = Fin r \<and> 0 < x \<and> \<bar>r * x - PREMIUM_PRICE_USD\<bar> \<le> x / 20000"
proof -
  have p: "pickPrice (jopt s1 ''shah'') (jopt s2 ''shah'') (Fin (1/10)) = Fin x"
    using assms by (simp add: price_body_def Let_def)
  have pos: "0 < x" using pickPrice_pos [of "Fin (1/10)" "jopt s1 ''shah''" "jopt s2 ''shah''"] by (simp add: p)
  obtain r where r: "round4 (Fin (PREMIUM_PRICE_USD / x)) = Fin r" "\<bar>r - PREMIUM_PRICE_USD / x\<bar> \<le> 1 / 20000"
    using round4_close by blast
  have "\<bar>r * x - PREMIUM_PRICE_USD\<bar> = \<bar>r - PREMIUM_PRICE_USD / x\<bar> * x"
  proof -
    have "r * x - PREMIUM_PRICE_USD = (r - PREMIUM_PRICE_USD / x) * x" using pos by (simp add: left_diff_distrib)
    then show ?thesis using pos by (simp add: abs_mult)
  qed
  also have "\<dots> \<le> 1 / 20000 * x" by (rule mult_right_mono [OF r(2)]) (use pos in simp)
  finally have close: "\<bar>r * x - PREMIUM_PRICE_USD\<bar> \<le> x / 20000" by simp
  have "obj_get (price_body s1 s2) ''requiredShah'' = JNum (Fin r)"
    using r(1) pos by (simp add: price_body_def Let_def p num_simps)
  moreover have "shahAmount (Fin x) (Fin PREMIUM_PRICE_USD) = Fin r"
    using r(1) pos by (simp add: shahAmount_def num_simps)
  ultimately show ?thesis using pos close by blast
qed

theorem upgrade_price_agrees_witness:
  "\<exists>r. obj_get (price_body (JObj [(''shah'', JInt 3)]) (JObj [])) ''requiredShah'' = JNum (Fin r) \<and>
    shahAmount (Fin 3) (Fin PREMIUM_PRICE_USD) = Fin r \<and> (0 :: rat) < 3 \<and> \<bar>r * 3 - PREMIUM_PRICE_USD\<bar> \<le> 3 / 20000"
  by (rule upgrade_price_agrees) (simp add: price_body_def Let_def pickPrice_def num_truthy_def)

text \<open>The price endpoint always answers the fallback price of ten cents and 99.9 SHAH, because
  neither source is implemented.\<close>

theorem price_endpoint_is_constant:
  "price_handler w = (Inr \<lparr>status = 200, body = JObj [(''usdPrice'', JNum (Fin (1/10))),
     (''requiredShah'', JNum (Fin (999/10))), (''requiredShahToken'', JNum (Fin (999/10)))]\<rparr>, w)"
proof -
  have "\<lfloor>1998001 / 2 :: rat\<rfloor> = 999000" by (rule floor_unique) simp_all
  then have "round4 (num_div (Fin PREMIUM_PRICE_USD) (Fin (1/10))) = Fin (999/10)"
    by (simp add: round4_def num_simps PREMIUM_PRICE_USD_def)
  then show ?thesis
    by (simp add: price_handler_def getFromShahSwap_def getFromGeckoTerminal_def respond_def js_simps price_body_def
          Let_def pickPrice_def)
qed

text \<open>The webhook acknowledges a completed and verified payment and records nothing: nothing is
  called but the body reader, the signature check and the console, and no state changes.\<close>

theorem webhook_records_nothing:
  assumes "secret \<noteq> []" "env (length tr) (Call ''buffer'' []) = Inr buf"
    and "env (Suc (length tr)) (Call ''stripe.webhooks.constructEvent'' [buf, sig, JStr secret]) =
      Inr (JObj [(''type'', JStr ''checkout.session.completed''), (''data'', JObj [(''object'', JObj session)])])"
    and "\<And>i a. \<exists>v. env i (Call ''console.log'' a) = Inr v"
  shows "\<exists>cs. webhook_handler env secret ''POST'' sig (s, tr) =
      (Inr \<lparr>status = 200, body = JObj [(''received'', JBool True)]\<rparr>, (s, tr @ cs)) \<and>
    list_all (\<lambda>c. callee c \<in> set webhook_calls) cs"
proof -
  let ?ev = "JObj [(''type'', JStr ''checkout.session.completed''), (''data'', JObj [(''object'', JObj session)])]"
  obtain r w where r: "webhook_handler env secret ''POST'' sig (s, tr) = (r, w)" by (rule prod.exhaust)
  obtain s' tr' where w: "w = (s', tr')" by (rule prod.exhaust)
  have s': "s' = s" by (rule keeps_stateD [OF webhook_keeps r [unfolded w]])
  obtain cs where cs: "tr' = tr @ cs" "\<forall>c\<in>set cs. callee c \<in> set webhook_calls"
    using avoidsD [OF webhook_avoids r] by (auto simp: w)
  have log: "\<exists>v. js_ext env (Call ''console.log'' a) (q, t) = (Inr v, (q, t @ [Call ''console.log'' a]))" for a q t
    using assms(4) [of "length t" a] by (auto simp: js_ext_apply)
  have "never_throws (js_ext env (Call ''console.log'' a))" for a
    by (rule never_throwsI) (metis log surj_pair)
  then have "never_throws (completed_session env ?ev)"
    unfolding completed_session_def Let_def by (auto simp: js_get_obj intro!: total_intros)
  note fin = this
  have "fst (webhook_event env ?ev w1) = Inr \<lparr>status = 200, body = JObj [(''received'', JBool True)]\<rparr>" for w1
  proof -
    obtain w2 where "completed_session env ?ev w1 = (Inr (), w2)" using fin by (rule never_throwsE) auto
    then show ?thesis by (simp add: webhook_event_def respond_def js_simps)
  qed
  then have "fst (webhook_handler env secret ''POST'' sig (s, tr)) = Inr \<lparr>status = 200, body = JObj [(''received'', JBool True)]\<rparr>"
    using assms(1-3) by (simp add: webhook_handler_def js_simps)
  then show ?thesis using r w s' cs by (auto simp: list_all_iff)
qed

theorem webhook_records_nothing_witness:
  "let env = (\<lambda>i c. Inr (if callee c = ''stripe.webhooks.constructEvent''
        then JObj [(''type'', JStr ''checkout.session.completed''), (''data'', JObj [(''object'', JObj [(''mode'', JStr ''payment'')])])]
        else JUndef)) in
   \<exists>cs. webhook_handler env ''whsec'' ''POST'' (JStr ''sig'') ((), []) =
      (Inr \<lparr>status = 200, body = JObj [(''received'', JBool True)]\<rparr>, ((), [] @ cs)) \<and>
    list_all (\<lambda>c. callee c \<in> set webhook_calls) cs"
  unfolding Let_def
  by (rule webhook_records_nothing [where buf = JUndef and session = "[(''mode'', JStr ''payment'')]"]) simp_all

text \<open>The mail endpoint reports a mail as sent exactly when every field is given, and sends none:
  its only calls are to the console.\<close>

theorem mail_reported_not_sent:
  assumes "\<And>i a. \<exists>v. env i (Call ''console.log'' a) = Inr v" "\<And>i a. \<exists>v. env i (Call ''console.error'' a) = Inr v"
  shows "\<exists>r cs. payment_confirmation env b (s, tr) = (Inr r, (s, tr @ cs)) \<and>
    (status r = 200 \<longleftrightarrow> b \<noteq> JUndef \<and> b \<noteq> JNull \<and> list_all (\<lambda>k. truthy (jopt b k)) mail_fields) \<and>
    list_all (\<lambda>c. callee c \<in> {''console.log'', ''console.error''}) cs"
proof (cases "b = JUndef \<or> b = JNull")
  case True
  obtain v where "env (length tr) (Call ''console.error'' [JStr ''Error sending payment confirmation email:'']) = Inr v"
    using assms(2) by blast
  then show ?thesis using True by (auto simp: payment_confirmation_def respond_def js_simps)
next
  case False
  then have g: "jget b k = Inr (jopt b k)" for k by (simp add: jget_jopt)
  show ?thesis
  proof (cases "list_ex (\<lambda>k. \<not> truthy (jopt b k)) mail_fields")
    case True
    then have "\<not> list_all (\<lambda>k. truthy (jopt b k)) mail_fields" by (auto simp: list_all_iff list_ex_iff)
    then show ?thesis using True by (simp add: payment_confirmation_def respond_def js_simps g)
  next
    case all: False
    let ?a = "[JStr ''Sending payment confirmation email:'',
          JObj [(''to'', jopt b ''email''), (''plan'', jopt b ''plan''), (''amount'', jopt b ''amount''),
            (''method'', jopt b ''method''), (''date'', jopt b ''date''), (''transactionId'', jopt b ''tx_id'')]]"
    obtain v where v: "env (length tr) (Call ''console.log'' ?a) = Inr v" using assms(1) by blast
    have "list_all (\<lambda>k. truthy (jopt b k)) mail_fields" using all by (auto simp: list_all_iff list_ex_iff)
    then show ?thesis using all False
      by (simp add: payment_confirmation_def respond_def js_simps g v)
  qed
qed

theorem mail_reported_not_sent_witness:
  "\<exists>r cs. payment_confirmation (\<lambda>_ _. Inr JUndef) (JObj []) ((), []) = (Inr r, ((), [] @ cs)) \<and>
    (status r = 200 \<longleftrightarrow> JObj [] \<noteq> JUndef \<and> JObj [] \<noteq> JNull \<and> list_all (\<lambda>k. truthy (jopt (JObj []) k)) mail_fields) \<and>
    list_all (\<lambda>c. callee c \<in> {''console.log'', ''console.error''}) cs"
  by (rule mail_reported_not_sent) simp_all

text \<open>A confirmed upgrade and a purchase always end with the loading flag cleared, whatever the
  payment callback does; the callback runs exactly once.\<close>

theorem payment_pages_settle:
  "(\<exists>s' a. onConfirm env p q (s, tr) = (Inr (), (s', tr @ [Call ''onUpgrade'' a])) \<and> \<not> up_loading s') \<and>
   (\<exists>b' a. onBuy env (b, tr) = (Inr (), (b', tr @ [Call ''onStripePay'' a])) \<and> \<not> buy_loading b')"
  by (auto simp: onConfirm_def onBuy_def js_simps split: sum.splits if_splits)

end
