(* ===== verification/PremiumSubscription.thy ===== *)
theory PremiumSubscription
  imports Effects "HOL-Library.AList"
begin

text \<open>
  Premium subscriptions on the web, web/components/PremiumSubscription.jsx: the catalogue, the hook
  \<open>usePremiumSubscription\<close>, the status widget, the feature gate, the upgrade dialog, the features
  dashboard and the subscription page.

  Every component that uses the hook has a state of its own.  The emoji in the labels are left out, and
  rendering is modelled by the values a component computes and the controls it offers.
\<close>

section \<open>The catalogue\<close>

text \<open>Key, title, description and category.\<close>

definition PREMIUM_FEATURES :: "(string \<times> string \<times> string \<times> string) list" where
  "PREMIUM_FEATURES =
    [(''AI_WALLET_ASSISTANT'', ''AI Wallet Assistant'', ''Get intelligent help with transactions, security, and wallet management'', ''ai''),
     (''AI_INSIGHTS_PANEL'', ''AI Insights Panel'', ''Real-time security analysis and performance insights powered by AI'', ''ai''),
     (''AI_FEE_OPTIMIZER'', ''AI Fee Optimizer'', ''Automatically optimize transaction fees for cost and speed'', ''ai''),
     (''AI_TROUBLESHOOTER'', ''AI Troubleshooter'', ''Diagnose and fix wallet issues with AI-powered assistance'', ''ai''),
     (''MULTILINGUAL_ASSISTANT'', ''Multilingual Assistant'', ''Get support in multiple languages with real-time translation'', ''ai''),
     (''AI_ART_BOOSTER'', ''AI Art Booster'', ''Generate and enhance NFT artwork with AI tools'', ''trading''),
     (''NFT_COLLECTION_DROPS'', ''NFT Collection Drops'', ''Create and manage large-scale NFT collection launches'', ''trading''),
     (''AUCTION_MODULE'', ''Auction Module'', ''Participate in and create NFT auctions with advanced features'', ''trading''),
     (''AI_PORTFOLIO_ANALYZER'', ''AI Portfolio Analyzer'', ''Deep portfolio analysis with AI-powered recommendations'', ''tools''),
     (''NFT_FLOOR_PRICE_ALERTS'', ''NFT Floor Price Alerts'', ''Get notified when NFT collections hit your target prices'', ''tools''),
     (''USAGE_DASHBOARD'', ''Usage Dashboard'', ''Comprehensive transaction history and usage analytics'', ''tools''),
     (''EMAIL_CONFIRMATION_TOGGLE'', ''Email Confirmation Settings'', ''Configure email notifications for transactions and security'', ''settings'')]"

record plan =
  plan_id :: string
  plan_name :: string
  plan_price :: rat
  plan_interval :: "string option"
  plan_features :: "string list"
  plan_recommended :: bool

definition SUBSCRIPTION_PLANS :: "(string \<times> plan) list" where
  "SUBSCRIPTION_PLANS =
    [(''FREE'', \<lparr>plan_id = ''free'', plan_name = ''Free'', plan_price = 0, plan_interval = None,
        plan_features = [''Basic wallet features'', ''Standard transaction support'', ''Basic NFT browsing''], plan_recommended = False\<rparr>),
     (''MONTHLY'', \<lparr>plan_id = ''monthly'', plan_name = ''Monthly Premium'', plan_price = 499/100, plan_interval = Some ''month'',
        plan_features = [''All Premium Features'', ''AI-powered assistance'', ''Advanced analytics'', ''Priority support''], plan_recommended = False\<rparr>),
     (''YEARLY'', \<lparr>plan_id = ''yearly'', plan_name = ''Yearly Premium'', plan_price = 4999/100, plan_interval = Some ''year'',
        plan_features = [''All Premium Features'', ''AI-powered assistance'', ''Advanced analytics'', ''Priority support'', ''17% savings vs monthly''],
        plan_recommended = True\<rparr>)]"

text \<open>Key, identifier, name and description.\<close>

definition PAYMENT_METHODS :: "(string \<times> string \<times> string \<times> string) list" where
  "PAYMENT_METHODS =
    [(''SHAH_NATIVE'', ''shah_native'', ''SHAH (Native)'', ''Pay with native SHAH from your wallet''),
     (''SHAH_TOKEN'', ''shah_token'', ''SHAHtoken (ERC-20)'', ''Pay with SHAHtoken on Ethereum network''),
     (''STRIPE_CARD'', ''stripe_card'', ''Credit/Debit Card'', ''Pay with credit card through Stripe'')]"

section \<open>The hook\<close>

record premium =
  ps_data :: jv
  ps_loading :: bool
  ps_error :: jv

definition new_premium :: premium where
  "new_premium = \<lparr>ps_data = JNull, ps_loading = True, ps_error = JNull\<rparr>"

definition authorised_fetch :: "env \<Rightarrow> string \<Rightarrow> jv list \<Rightarrow> ('s, jv) js" where
  "authorised_fetch env url req =
     js_bind (js_ext env (Call ''localStorage.getItem'' [JStr ''authToken''])) (\<lambda>t.
     js_ext env (Call ''fetch'' ([JStr url, JStr (''Bearer '' @ to_str t)] @ req)))"

definition loadSubscription :: "env \<Rightarrow> (premium, unit) js" where
  "loadSubscription env = js_finally (js_catch
     (js_bind (js_update (\<lambda>s. s\<lparr>ps_loading := True\<rparr>)) (\<lambda>_.
      js_bind (authorised_fetch env ''/api/premium/subscription'' []) (\<lambda>response.
      js_bind (js_get response ''ok'') (\<lambda>ok.
      if truthy ok
      then js_bind (js_ext env (Call ''response.json'' [response])) (\<lambda>d. js_update (\<lambda>s. s\<lparr>ps_data := d\<rparr>))
      else js_update (\<lambda>s. s\<lparr>ps_data := JNull\<rparr>)))))
     (\<lambda>e. js_update (\<lambda>s. s\<lparr>ps_error := JStr (message e)\<rparr>)))
     (\<lambda>s. s\<lparr>ps_loading := False\<rparr>)"

definition failure :: "jv \<Rightarrow> jv" where
  "failure m = JObj [(''success'', JBool False), (''error'', m)]"

text \<open>The two requests that change a subscription: \<open>accepted\<close> gives the result when the backend accepts.\<close>

definition change_subscription :: "env \<Rightarrow> string \<Rightarrow> jv list \<Rightarrow> (jv \<Rightarrow> (premium, jv) js) \<Rightarrow> (premium, jv) js" where
  "change_subscription env url req accepted = js_finally (js_catch
     (js_bind (js_update (\<lambda>s. s\<lparr>ps_loading := True\<rparr>)) (\<lambda>_.
      js_bind (authorised_fetch env url req) (\<lambda>response.
      js_bind (js_get response ''ok'') (\<lambda>ok.
      if truthy ok then accepted response
      else js_bind (js_ext env (Call ''response.json'' [response])) (\<lambda>error.
           js_bind (js_get error ''message'') (\<lambda>m. js_return (failure m)))))))
     (\<lambda>e. js_return (failure (JStr (message e)))))
     (\<lambda>s. s\<lparr>ps_loading := False\<rparr>)"

definition purchaseSubscription :: "env \<Rightarrow> string \<Rightarrow> string \<Rightarrow> string \<Rightarrow> (premium, jv) js" where
  "purchaseSubscription env pl paymentMethod email = change_subscription env ''/api/premium/purchase''
     [JObj [(''plan'', JStr pl), (''paymentMethod'', JStr paymentMethod), (''email'', JStr email)]]
     (\<lambda>response. js_bind (js_ext env (Call ''response.json'' [response])) (\<lambda>result.
        js_bind (loadSubscription env) (\<lambda>_. js_return (JObj [(''success'', JBool True), (''data'', result)]))))"

definition premium_cancelSubscription :: "env \<Rightarrow> (premium, jv) js" where
  "premium_cancelSubscription env = change_subscription env ''/api/premium/cancel'' []
     (\<lambda>_. js_bind (loadSubscription env) (\<lambda>_. js_return (JObj [(''success'', JBool True)])))"

definition isFeatureUnlocked :: "premium \<Rightarrow> string \<Rightarrow> bool" where
  "isFeatureUnlocked s feature =
     (truthy (jopt (ps_data s) ''isActive'') \<and> \<not> strict_eq (jopt (ps_data s) ''plan'') (JStr ''free''))"

section \<open>The status widget and the feature gate\<close>

datatype widget = WidgetLoading | WidgetFree | WidgetPremium jv string

definition PremiumStatusWidget :: "premium \<Rightarrow> widget" where
  "PremiumStatusWidget s =
     (if ps_loading s then WidgetLoading
      else if \<not> truthy (jopt (ps_data s) ''isActive'') then WidgetFree
      else let d = js_or (jopt (ps_data s) ''daysRemaining'') (JInt 0) in
        WidgetPremium (jopt (ps_data s) ''planName'')
          (if js_lt (JInt 7) d then ''Active'' else if js_lt (JInt 0) d then to_str d @ '' days left'' else ''Expired''))"

text \<open>What a gate renders: the children, the overlay and the upgrade dialog.\<close>

record gate =
  gate_children :: bool
  gate_overlay :: bool
  gate_dialog :: bool

definition FeatureGate :: "premium \<Rightarrow> string \<Rightarrow> bool \<Rightarrow> gate" where
  "FeatureGate s feature showUpgrade =
     (if isFeatureUnlocked s feature then \<lparr>gate_children = True, gate_overlay = False, gate_dialog = False\<rparr>
      else \<lparr>gate_children = True, gate_overlay = True, gate_dialog = showUpgrade\<rparr>)"

section \<open>The upgrade dialog\<close>

record upgrade_modal =
  um_selectedPlan :: string
  um_selectedPayment :: string
  um_email :: string
  um_loading :: bool
  um_step :: string
  um_hook :: premium

definition new_upgrade_modal :: upgrade_modal where
  "new_upgrade_modal = \<lparr>um_selectedPlan = ''yearly'', um_selectedPayment = ''stripe_card'', um_email = [],
     um_loading = False, um_step = ''plans'', um_hook = new_premium\<rparr>"

definition on_hook :: "(premium, 'a) js \<Rightarrow> (upgrade_modal, 'a) js" where
  "on_hook = js_zoom um_hook (\<lambda>h s. s\<lparr>um_hook := h\<rparr>)"

definition premium_alert :: "env \<Rightarrow> string \<Rightarrow> ('s, unit) js" where
  "premium_alert env m = js_bind (js_ext env (Call ''alert'' [JStr m])) (\<lambda>_. js_return ())"

definition email_prompt :: string where
  "email_prompt = ''Please enter your email address for Stripe payments''"

definition premium_handlePurchase :: "env \<Rightarrow> (upgrade_modal, unit) js" where
  "premium_handlePurchase env = js_bind js_this (\<lambda>s.
     if um_selectedPayment s = ''stripe_card'' \<and> um_email s = [] then premium_alert env email_prompt
     else js_bind (js_update (\<lambda>s. s\<lparr>um_loading := True\<rparr>)) (\<lambda>_.
       js_bind (on_hook (purchaseSubscription env (um_selectedPlan s) (um_selectedPayment s) (um_email s))) (\<lambda>result.
       js_bind (js_update (\<lambda>s. s\<lparr>um_loading := False\<rparr>)) (\<lambda>_.
       if truthy (jopt result ''success'')
       then js_bind (premium_alert env ''Welcome to Shahcoin Premium! Your subscription is now active.'') (\<lambda>_.
            js_bind (js_ext env (Call ''onClose'' [])) (\<lambda>_. js_return ()))
       else premium_alert env (''Payment failed: '' @ to_str (jopt result ''error''))))))"

text \<open>The cards of the first step, and whether each is drawn as selected.\<close>

definition plan_cards :: "upgrade_modal \<Rightarrow> (string \<times> bool) list" where
  "plan_cards s = map (\<lambda>(key, _). (key, um_selectedPlan s = key)) (filter (\<lambda>(key, _). key \<noteq> ''FREE'') SUBSCRIPTION_PLANS)"

definition payment_cards :: "upgrade_modal \<Rightarrow> (string \<times> bool) list" where
  "payment_cards s = map (\<lambda>(key, _). (key, um_selectedPayment s = key)) PAYMENT_METHODS"

definition email_shown :: "upgrade_modal \<Rightarrow> bool" where
  "email_shown s = (um_selectedPayment s = ''stripe_card'')"

text \<open>The order summary: plan, payment method, total and, if given, the email.\<close>

definition order_summary :: "upgrade_modal \<Rightarrow> js_error + string \<times> string \<times> rat \<times> string option" where
  "order_summary s = (case map_of SUBSCRIPTION_PLANS (um_selectedPlan s) of
       None \<Rightarrow> Inl (cannot_read ''undefined'' ''name'')
     | Some p \<Rightarrow> (case map_of PAYMENT_METHODS (um_selectedPayment s) of
         None \<Rightarrow> Inl (cannot_read ''undefined'' ''name'')
       | Some (_, name, _) \<Rightarrow> Inr (plan_name p, name, plan_price p, if um_email s = [] then None else Some (um_email s))))"

datatype modal_view = PlansStep "(string \<times> bool) list" | PaymentStep "(string \<times> bool) list" bool
  | SummaryStep "string \<times> string \<times> rat \<times> string option" | NoStep

definition render_modal :: "upgrade_modal \<Rightarrow> js_error + modal_view" where
  "render_modal s =
     (if um_step s = ''plans'' then Inr (PlansStep (plan_cards s))
      else if um_step s = ''payment'' then Inr (PaymentStep (payment_cards s) (email_shown s))
      else if um_step s = ''summary'' then map_sum id SummaryStep (order_summary s)
      else Inr NoStep)"

text \<open>The controls: each is on the page only in its step, and only if the step could be rendered.\<close>

datatype modal_event = PickPlan string | ToPayment | PickPayment string | EnterEmail string | BackToPlans | ToSummary
  | BackToPayment | PurchaseNow | CloseModal

definition modal_enabled :: "upgrade_modal \<Rightarrow> modal_event \<Rightarrow> bool" where
  "modal_enabled s ev = (case render_modal s of Inl _ \<Rightarrow> False | Inr _ \<Rightarrow> (case ev of
       PickPlan k \<Rightarrow> um_step s = ''plans'' \<and> k \<in> fst ` set (plan_cards s)
     | ToPayment \<Rightarrow> um_step s = ''plans''
     | PickPayment k \<Rightarrow> um_step s = ''payment'' \<and> k \<in> fst ` set (payment_cards s)
     | EnterEmail _ \<Rightarrow> um_step s = ''payment'' \<and> email_shown s
     | BackToPlans \<Rightarrow> um_step s = ''payment''
     | ToSummary \<Rightarrow> um_step s = ''payment''
     | BackToPayment \<Rightarrow> um_step s = ''summary''
     | PurchaseNow \<Rightarrow> um_step s = ''summary'' \<and> \<not> um_loading s
     | CloseModal \<Rightarrow> True))"

primrec modal_handler :: "env \<Rightarrow> modal_event \<Rightarrow> (upgrade_modal, unit) js" where
  "modal_handler env (PickPlan k) = js_update (\<lambda>s. s\<lparr>um_selectedPlan := k\<rparr>)"
| "modal_handler env ToPayment = js_update (\<lambda>s. s\<lparr>um_step := ''payment''\<rparr>)"
| "modal_handler env (PickPayment k) = js_update (\<lambda>s. s\<lparr>um_selectedPayment := k\<rparr>)"
| "modal_handler env (EnterEmail e) = js_update (\<lambda>s. s\<lparr>um_email := e\<rparr>)"
| "modal_handler env BackToPlans = js_update (\<lambda>s. s\<lparr>um_step := ''plans''\<rparr>)"
| "modal_handler env ToSummary = js_update (\<lambda>s. s\<lparr>um_step := ''summary''\<rparr>)"
| "modal_handler env BackToPayment = js_update (\<lambda>s. s\<lparr>um_step := ''payment''\<rparr>)"
| "modal_handler env PurchaseNow = premium_handlePurchase env"
| "modal_handler env CloseModal = js_bind (js_ext env (Call ''onClose'' [])) (\<lambda>_. js_return ())"

inductive modal_reach :: "env \<Rightarrow> upgrade_modal world \<Rightarrow> bool" for env where
  opened: "modal_reach env (snd (on_hook (loadSubscription env) (new_upgrade_modal, [])))"
| event: "modal_reach env w \<Longrightarrow> modal_enabled (fst w) ev \<Longrightarrow> modal_reach env (snd (modal_handler env ev w))"

text \<open>A sequence of user actions, None if one of them is not offered.\<close>

fun modal_run :: "env \<Rightarrow> modal_event list \<Rightarrow> upgrade_modal world \<Rightarrow> upgrade_modal world option" where
  "modal_run env [] w = Some w"
| "modal_run env (ev # evs) w = (if modal_enabled (fst w) ev then modal_run env evs (snd (modal_handler env ev w)) else None)"

lemma modal_run_reach: "modal_reach env w \<Longrightarrow> modal_run env evs w = Some w' \<Longrightarrow> modal_reach env w'"
proof (induction evs arbitrary: w)
  case (Cons ev evs)
  from Cons.prems(2) have on: "modal_enabled (fst w) ev" "modal_run env evs (snd (modal_handler env ev w)) = Some w'"
    by (simp_all split: if_splits)
  show ?case by (rule Cons.IH [OF modal_reach.event [OF Cons.prems(1) on(1)] on(2)])
qed simp

definition dialog_after :: "env \<Rightarrow> modal_event list \<Rightarrow> upgrade_modal world" where
  "dialog_after env evs = the (modal_run env evs (snd (on_hook (loadSubscription env) (new_upgrade_modal, []))))"

lemma dialog_after_reach:
  "modal_run env evs (snd (on_hook (loadSubscription env) (new_upgrade_modal, []))) \<noteq> None \<Longrightarrow> modal_reach env (dialog_after env evs)"
  using modal_run_reach [OF modal_reach.opened] by (auto simp: dialog_after_def)

definition sample_backend :: env where
  "sample_backend n c = Inr (if callee c = ''fetch'' then JObj [(''ok'', JBool True)]
     else if callee c = ''response.json'' then JObj [(''isActive'', JBool False)] else JNull)"

section \<open>The dashboard and the subscription page\<close>

definition add_feature :: "(string \<times> string list) list \<Rightarrow> string \<times> string \<times> string \<times> string \<Rightarrow> (string \<times> string list) list" where
  "add_feature acc f = (case f of (key, _, _, category) \<Rightarrow>
     (case map_of acc category of None \<Rightarrow> acc @ [(category, [key])]
      | Some ks \<Rightarrow> AList.update category (ks @ [key]) acc))"

definition featuresByCategory :: "(string \<times> string list) list" where
  "featuresByCategory = foldl add_feature [] PREMIUM_FEATURES"

definition dashboard_tabs :: "string list" where
  "dashboard_tabs = [''ai'', ''trading'', ''tools'', ''settings'']"

text \<open>The features of the active tab, with their lock.\<close>

definition PremiumFeaturesDashboard :: "premium \<Rightarrow> string \<Rightarrow> (string \<times> bool) list" where
  "PremiumFeaturesDashboard s activeTab = (case map_of featuresByCategory activeTab of None \<Rightarrow> []
     | Some ks \<Rightarrow> map (\<lambda>k. (k, isFeatureUnlocked s k)) ks)"

record subscription_page =
  sp_hook :: premium
  sp_showCancel :: bool

definition cancel_question :: string where
  "cancel_question = ''Are you sure you want to cancel your subscription? You will lose access to premium features.''"

definition premium_handleCancel :: "env \<Rightarrow> (subscription_page, unit) js" where
  "premium_handleCancel env =
     js_bind (js_ext env (Call ''window.confirm'' [JStr cancel_question])) (\<lambda>yes.
     if \<not> truthy yes then js_return ()
     else js_bind (js_zoom sp_hook (\<lambda>h s. s\<lparr>sp_hook := h\<rparr>) (premium_cancelSubscription env)) (\<lambda>result.
       if truthy (jopt result ''success'')
       then js_bind (premium_alert env ''Subscription cancelled successfully.'') (\<lambda>_. js_update (\<lambda>s. s\<lparr>sp_showCancel := False\<rparr>))
       else premium_alert env (''Failed to cancel subscription: '' @ to_str (jopt result ''error''))))"

datatype subscription_view = SubscriptionLoading | SubscriptionInactive | SubscriptionDetails jv string string bool

definition SubscriptionManagement :: "(jv \<Rightarrow> string) \<Rightarrow> subscription_page \<Rightarrow> subscription_view" where
  "SubscriptionManagement locale_date s = (let d = ps_data (sp_hook s) in
     if ps_loading (sp_hook s) then SubscriptionLoading
     else if \<not> truthy (jopt d ''isActive'') then SubscriptionInactive
     else SubscriptionDetails (jopt d ''planName'') (locale_date (jopt d ''expirationDate''))
       (if truthy (jopt d ''autoRenew'') then ''Enabled'' else ''Disabled'') (sp_showCancel s))"

text \<open>The controls of the page, on it only when the details are.\<close>

datatype page_event = ShowCancel | KeepSubscription | ConfirmCancel

primrec page_handler :: "env \<Rightarrow> page_event \<Rightarrow> (subscription_page, unit) js" where
  "page_handler env ShowCancel = js_update (\<lambda>s. s\<lparr>sp_showCancel := True\<rparr>)"
| "page_handler env KeepSubscription = js_update (\<lambda>s. s\<lparr>sp_showCancel := False\<rparr>)"
| "page_handler env ConfirmCancel = premium_handleCancel env"

section \<open>The requests always end, with the loading flag cleared\<close>

lemma never_throws_loadSubscription: "never_throws (loadSubscription env)"
  unfolding loadSubscription_def by (intro total_intros)

lemma never_throws_change: "never_throws (change_subscription env url req f)"
  unfolding change_subscription_def by (intro total_intros)

lemma load_ends: "\<not> ps_loading (fst (snd (loadSubscription env w)))"
  unfolding loadSubscription_def by (simp add: js_finally_state)

lemma change_ends: "\<not> ps_loading (fst (snd (change_subscription env url req f w)))"
  unfolding change_subscription_def by (simp add: js_finally_state)

text \<open>Whatever the storage, the network and the backend do, loading, buying and cancelling a subscription
  each return a value, never an exception, and leave the hook no longer loading.\<close>

theorem premium_requests_settle:
  "(\<exists>s' tr'. loadSubscription env (s, tr) = (Inr (), (s', tr')) \<and> \<not> ps_loading s') \<and>
   (\<exists>r s' tr'. purchaseSubscription env pl m e (s, tr) = (Inr r, (s', tr')) \<and> \<not> ps_loading s') \<and>
   (\<exists>r s' tr'. premium_cancelSubscription env (s, tr) = (Inr r, (s', tr')) \<and> \<not> ps_loading s')"
proof -
  have settle: "\<exists>r s' tr'. x (s, tr) = (Inr r, (s', tr')) \<and> \<not> ps_loading s'"
    if "never_throws x" "\<not> ps_loading (fst (snd (x (s, tr))))" for x :: "(premium, 'b) js"
    using that by (cases "x (s, tr)") (auto simp: never_throws_def elim!: allE [of _ s] allE [of _ tr])
  show ?thesis
    using settle [OF never_throws_loadSubscription [of env] load_ends]
      settle [OF never_throws_change change_ends]
    unfolding purchaseSubscription_def premium_cancelSubscription_def by auto
qed

section \<open>What a subscription unlocks\<close>

lemma dashboard_keys: "map fst (PremiumFeaturesDashboard s tab) = (case map_of featuresByCategory tab of None \<Rightarrow> [] | Some ks \<Rightarrow> ks)"
  by (simp add: PremiumFeaturesDashboard_def comp_def split: option.splits)

lemma dashboard_locks: "list_all (\<lambda>(_, unlocked). unlocked = isFeatureUnlocked s []) (PremiumFeaturesDashboard s tab)"
  by (auto simp: PremiumFeaturesDashboard_def isFeatureUnlocked_def list_all_iff split: option.splits)

lemma features_by_category:
  "featuresByCategory =
    [(''ai'', [''AI_WALLET_ASSISTANT'', ''AI_INSIGHTS_PANEL'', ''AI_FEE_OPTIMIZER'', ''AI_TROUBLESHOOTER'', ''MULTILINGUAL_ASSISTANT'']),
     (''trading'', [''AI_ART_BOOSTER'', ''NFT_COLLECTION_DROPS'', ''AUCTION_MODULE'']),
     (''tools'', [''AI_PORTFOLIO_ANALYZER'', ''NFT_FLOOR_PRICE_ALERTS'', ''USAGE_DASHBOARD'']),
     (''settings'', [''EMAIL_CONFIRMATION_TOGGLE''])]"
  by (simp add: featuresByCategory_def PREMIUM_FEATURES_def add_feature_def)

text \<open>The dashboard files each of the twelve features under one of its four tabs, the one of the feature's
  category, in catalogue order, and all of them are locked or unlocked together: unlocked exactly with an active
  subscription to a plan other than the free one.\<close>

theorem dashboard_partitions_features:
  "map fst featuresByCategory = dashboard_tabs \<and>
   concat (map snd featuresByCategory) = map fst PREMIUM_FEATURES \<and>
   list_all (\<lambda>(key, _, _, category). list_all (\<lambda>tab.
      (key \<in> set (map fst (PremiumFeaturesDashboard s tab))) = (tab = category)) dashboard_tabs) PREMIUM_FEATURES \<and>
   list_all (\<lambda>tab. list_all (\<lambda>(_, unlocked). unlocked =
      (truthy (jopt (ps_data s) ''isActive'') \<and> \<not> strict_eq (jopt (ps_data s) ''plan'') (JStr ''free'')))
      (PremiumFeaturesDashboard s tab)) dashboard_tabs"
proof (intro conjI)
  show "map fst featuresByCategory = dashboard_tabs" by (simp add: features_by_category dashboard_tabs_def)
  show "concat (map snd featuresByCategory) = map fst PREMIUM_FEATURES" by (simp add: features_by_category PREMIUM_FEATURES_def)
  show "list_all (\<lambda>(key, _, _, category). list_all (\<lambda>tab.
      (key \<in> set (map fst (PremiumFeaturesDashboard s tab))) = (tab = category)) dashboard_tabs) PREMIUM_FEATURES"
    unfolding dashboard_keys by (simp add: features_by_category dashboard_tabs_def PREMIUM_FEATURES_def)
  show "list_all (\<lambda>tab. list_all (\<lambda>(_, unlocked). unlocked =
      (truthy (jopt (ps_data s) ''isActive'') \<and> \<not> strict_eq (jopt (ps_data s) ''plan'') (JStr ''free'')))
      (PremiumFeaturesDashboard s tab)) dashboard_tabs"
    using dashboard_locks [of s] unfolding isFeatureUnlocked_def by (simp add: list_all_iff)
qed

text \<open>The gate keeps nothing from the page: its children are rendered whether or not the feature is unlocked;
  a locked one only adds the overlay.\<close>

theorem gate_always_renders_children:
  "gate_children (FeatureGate s feature show) \<and> gate_overlay (FeatureGate s feature show) = (\<not> isFeatureUnlocked s feature)"
  by (simp add: FeatureGate_def)

section \<open>The upgrade dialog\<close>

text \<open>The keys a selection can hold: the initial identifier, which is no key, or the key of a card.\<close>

definition modal_ok :: "upgrade_modal \<Rightarrow> bool" where
  "modal_ok s = (um_selectedPlan s \<in> {''yearly'', ''MONTHLY'', ''YEARLY''} \<and>
     um_selectedPayment s \<in> {''stripe_card'', ''SHAH_NATIVE'', ''SHAH_TOKEN'', ''STRIPE_CARD''})"

lemma js_inv_on_hook: "js_inv (\<lambda>w. modal_ok (fst w)) (on_hook m)"
  by (rule js_invI) (auto simp: on_hook_def js_zoom_def modal_ok_def split: prod.splits)

lemma js_inv_premium_alert [inv_intros]: "js_inv (\<lambda>w. P (fst w)) (premium_alert env m)"
  unfolding premium_alert_def by (intro inv_intros)

lemma modal_handler_ok:
  assumes "modal_enabled s ev" and "modal_ok s"
  shows "modal_ok (fst (snd (modal_handler env ev (s, tr))))"
proof (cases ev)
  case PurchaseNow
  have "js_inv (\<lambda>w. modal_ok (fst w)) (premium_handlePurchase env)"
    unfolding premium_handlePurchase_def
    by (intro inv_intros js_inv_on_hook js_inv_state_ext) (auto simp: modal_ok_def)
  from js_invD [OF this, of "(s, tr)"] assms(2) PurchaseNow show ?thesis by simp
qed (use assms in \<open>auto simp: modal_ok_def modal_enabled_def plan_cards_def SUBSCRIPTION_PLANS_def
      payment_cards_def PAYMENT_METHODS_def js_simps split: sum.splits\<close>)

lemma modal_reach_ok: "modal_reach env w \<Longrightarrow> modal_ok (fst w)"
proof (induction rule: modal_reach.induct)
  case opened
  from js_invD [OF js_inv_on_hook, of "(new_upgrade_modal, [])" "loadSubscription env"]
  show ?case by (simp add: modal_ok_def new_upgrade_modal_def)
next
  case (event w ev)
  then show ?case using modal_handler_ok by (cases w) simp
qed

lemma order_summary_cases:
  assumes "modal_ok s"
  shows "isl (order_summary s) \<longleftrightarrow> um_selectedPlan s = ''yearly'' \<or> um_selectedPayment s = ''stripe_card''"
  using assms by (auto simp: modal_ok_def order_summary_def SUBSCRIPTION_PLANS_def PAYMENT_METHODS_def)

text \<open>C40: In every state of the dialog that can be reached, rendering the order summary fails with a TypeError exactly
  if the plan or the payment method is still the preselected one, whose identifier is not a key of its table;
  rendering any other step succeeds.\<close>

theorem summary_crashes_on_defaults:
  assumes "modal_reach env w"
  shows "isl (render_modal (fst w)) \<longleftrightarrow>
    um_step (fst w) = ''summary'' \<and> (um_selectedPlan (fst w) = ''yearly'' \<or> um_selectedPayment (fst w) = ''stripe_card'')"
  using order_summary_cases [OF modal_reach_ok [OF assms]]
  by (cases "order_summary (fst w)") (auto simp: render_modal_def)

theorem summary_crashes_on_defaults_witness:
  "isl (render_modal (fst (dialog_after sample_backend [ToPayment, ToSummary])))"
proof -
  have "modal_run sample_backend [ToPayment, ToSummary] (snd (on_hook (loadSubscription sample_backend) (new_upgrade_modal, []))) \<noteq> None"
    by code_simp
  from summary_crashes_on_defaults [OF dialog_after_reach [OF this]]
  show ?thesis by (rule iffD2) code_simp
qed

text \<open>The purchase orders in the log.\<close>

definition purchase_order :: "call \<Rightarrow> (string \<times> string \<times> string) option" where
  "purchase_order c = (case c of Call f [JStr url, tok, JObj [(_, JStr p), (_, JStr m), (_, JStr e)]] \<Rightarrow>
       if f = ''fetch'' \<and> url = ''/api/premium/purchase'' then Some (p, m, e) else None
     | _ \<Rightarrow> None)"

definition order_ok :: "call \<Rightarrow> bool" where
  "order_ok c = (c \<noteq> Call ''alert'' [JStr email_prompt] \<and>
     (case purchase_order c of None \<Rightarrow> True
      | Some (p, m, _) \<Rightarrow> p \<in> {''MONTHLY'', ''YEARLY''} \<and> m \<in> fst ` set PAYMENT_METHODS))"

lemma order_ok_calls:
  "order_ok (Call ''localStorage.getItem'' as)" "order_ok (Call ''response.json'' as)" "order_ok (Call ''onClose'' as)"
  "order_ok (Call ''fetch'' [JStr ''/api/premium/subscription'', t])"
  by (simp_all add: order_ok_def purchase_order_def split: list.splits jv.splits prod.splits)

lemma order_ok_alert: "m \<noteq> email_prompt \<Longrightarrow> order_ok (Call ''alert'' [JStr m])"
  by (simp add: order_ok_def purchase_order_def split: list.splits)

lemma order_ok_purchase:
  "p \<in> {''MONTHLY'', ''YEARLY''} \<Longrightarrow> m \<in> fst ` set PAYMENT_METHODS \<Longrightarrow>
   order_ok (Call ''fetch'' [JStr url, t, JObj [(k1, JStr p), (k2, JStr m), (k3, JStr e)]])"
  by (simp add: order_ok_def purchase_order_def)

lemma load_orders: "avoids (\<lambda>c. \<not> order_ok c) (loadSubscription env)"
  unfolding loadSubscription_def authorised_fetch_def
  by (intro avoids_intros) (simp_all add: order_ok_calls)

lemma purchase_orders:
  assumes "p \<in> {''MONTHLY'', ''YEARLY''}" and "m \<in> fst ` set PAYMENT_METHODS"
  shows "avoids (\<lambda>c. \<not> order_ok c) (purchaseSubscription env p m e)"
  unfolding purchaseSubscription_def change_subscription_def authorised_fetch_def
  by (intro avoids_intros load_orders) (simp_all add: order_ok_calls order_ok_purchase [OF assms])

lemma handlePurchase_orders:
  assumes "modal_ok s" and "\<not> isl (order_summary s)"
  shows "\<exists>cs. snd (snd (premium_handlePurchase env (s, tr))) = tr @ cs \<and> list_all order_ok cs"
proof -
  from assms have "um_selectedPlan s \<in> {''MONTHLY'', ''YEARLY''}" "um_selectedPayment s \<in> fst ` set PAYMENT_METHODS"
      "um_selectedPayment s \<noteq> ''stripe_card''"
    by (auto simp: order_summary_cases modal_ok_def PAYMENT_METHODS_def)
  note ok = purchase_orders [OF this(1,2)] this(3)
  let ?rest = "js_bind (js_update (\<lambda>s. s\<lparr>um_loading := True\<rparr>)) (\<lambda>_.
       js_bind (on_hook (purchaseSubscription env (um_selectedPlan s) (um_selectedPayment s) (um_email s))) (\<lambda>result.
       js_bind (js_update (\<lambda>s. s\<lparr>um_loading := False\<rparr>)) (\<lambda>_.
       if truthy (jopt result ''success'')
       then js_bind (premium_alert env ''Welcome to Shahcoin Premium! Your subscription is now active.'') (\<lambda>_.
            js_bind (js_ext env (Call ''onClose'' [])) (\<lambda>_. js_return ()))
       else premium_alert env (''Payment failed: '' @ to_str (jopt result ''error'')))))"
  have "avoids (\<lambda>c. \<not> order_ok c) ?rest"
    unfolding on_hook_def premium_alert_def
    by (intro avoids_intros ok) (simp_all add: order_ok_calls order_ok_alert email_prompt_def)
  then have "\<exists>cs. snd (snd (?rest (s, tr))) = tr @ cs \<and> (\<forall>c\<in>set cs. order_ok c)"
    unfolding avoids_def by (auto dest: spec [of _ "(s, tr)"])
  with ok(2) show ?thesis
    by (auto simp: premium_handlePurchase_def js_bind_this list_all_iff)
qed

lemma modal_handler_orders:
  assumes "modal_enabled s ev" and "modal_ok s"
  shows "\<exists>cs. snd (snd (modal_handler env ev (s, tr))) = tr @ cs \<and> list_all order_ok cs"
proof (cases ev)
  case PurchaseNow
  with assms(1) have "um_step s = ''summary''" "\<not> isl (render_modal s)"
    by (auto simp: modal_enabled_def split: sum.splits)
  then have "\<not> isl (order_summary s)"
    by (cases "order_summary s") (simp_all add: render_modal_def)
  from handlePurchase_orders [OF assms(2) this] PurchaseNow show ?thesis by simp
qed (auto simp: js_simps order_ok_calls split: sum.splits)



end
