(* ===== verification/DevTools.thy ===== *)
theory DevTools
  imports Metadata
begin

text \<open>
  The developer tools of sdk-core and the small helpers of the web wallet: the metadata explorer
  (sdk-core/metadata-explorer-apis), the vault of contract bundles (vault-deploy-tool), the transaction sandbox
  (transaction-sandbox), the usage analytics (developer-analytics), the balance checker
  (web/lib/AIBalanceChecker.ts) and the help panel (web/components/AIHelpPanel.tsx).

  The explorer is shown to be the metadata store of the contract toolkit, and the vault to be one more
  registry; the sandbox and the two event sources are step relations.
\<close>

section \<open>The metadata explorer\<close>

definition explorer_storeMetadata :: "env \<Rightarrow> string \<Rightarrow> jv \<Rightarrow> (md_store, jv) js" where
  "explorer_storeMetadata env contractAddress metadata =
     js_bind (js_lift (validateMetadata metadata)) (\<lambda>_.
     js_bind (iso_now env) (\<lambda>storedAt.
     js_bind (iso_now env) (\<lambda>lastAccessed.
     js_bind (js_update (AList.update (to_lower contractAddress)
        (obj_set (obj_set (obj_spread [] (fields_of metadata)) ''storedAt'' storedAt) ''lastAccessed'' lastAccessed))) (\<lambda>_.
     js_return (JObj [(''ok'', JBool True)])))))"

definition explorer_getMetadata :: "env \<Rightarrow> string \<Rightarrow> (md_store, jv) js" where
  "explorer_getMetadata env contractAddress = js_bind js_this (\<lambda>store.
     case map_of store (to_lower contractAddress) of
       None \<Rightarrow> js_return JNull
     | Some data \<Rightarrow> js_bind (iso_now env) (\<lambda>t.
         let data' = obj_set data ''lastAccessed'' t in
         js_bind (js_update (AList.update (to_lower contractAddress) data')) (\<lambda>_. js_return (JObj data'))))"

definition listByType :: "jv \<Rightarrow> md_store \<Rightarrow> (string \<times> fields) list" where
  "listByType type = filter (\<lambda>(_, metadata). strict_eq (obj_get metadata ''type'') type)"

definition searchByName :: "jv \<Rightarrow> md_store \<Rightarrow> (string \<times> fields) list" where
  "searchByName query = (let q = to_lower (to_str (js_or query (JStr []))) in
     filter (\<lambda>(_, metadata). str_includes (to_lower (to_str (js_or (obj_get metadata ''name'') (JStr [])))) q))"

section \<open>The vault of bundles\<close>

text \<open>\<open>JSON.stringify(v, null, 2)\<close>: strings escaped, undefined fields left out, undefined array elements
  and non-finite numbers written as null.\<close>

definition hex_digit :: "nat \<Rightarrow> char" where
  "hex_digit n = char_of (if n < 10 then 48 + n else 87 + n)"

definition json_char :: "char \<Rightarrow> string" where
  "json_char c = (let n = (of_char c :: nat) in
     if c = CHR 0x22 \<or> c = CHR 0x5C then [CHR 0x5C, c]
     else if n = 8 then [CHR 0x5C, CHR ''b''] else if n = 9 then [CHR 0x5C, CHR ''t'']
     else if n = 10 then [CHR 0x5C, CHR ''n''] else if n = 12 then [CHR 0x5C, CHR ''f'']
     else if n = 13 then [CHR 0x5C, CHR ''r'']
     else if n < 32 then [CHR 0x5C, CHR ''u'', CHR ''0'', CHR ''0'', hex_digit (n div 16), hex_digit (n mod 16)]
     else [c])"

definition json_string :: "string \<Rightarrow> string" where
  "json_string s = [CHR 0x22] @ concat (map json_char s) @ [CHR 0x22]"

definition json_block :: "char \<Rightarrow> char \<Rightarrow> string \<Rightarrow> string list \<Rightarrow> string" where
  "json_block l r ind items = (if items = [] then [l, r]
     else [l] @ [CHR 0x0A] @ join_with ([CHR '','', CHR 0x0A]) (map ((@) (ind @ ''  '')) items) @ [CHR 0x0A] @ ind @ [r])"

fun json_pretty :: "string \<Rightarrow> jv \<Rightarrow> string" where
  "json_pretty ind (JBool b) = (if b then ''true'' else ''false'')"
| "json_pretty ind (JNum (Fin q)) = num_str (Fin q)"
| "json_pretty ind (JStr s) = json_string s"
| "json_pretty ind (JArr xs) = json_block (CHR ''['') (CHR '']'') ind (map (\<lambda>x. json_pretty (ind @ ''  '') x) xs)"
| "json_pretty ind (JObj fs) = json_block (CHR ''{'') (CHR ''}'') ind
     (concat (map (\<lambda>(k, x). if x = JUndef then [] else [json_string k @ '': '' @ json_pretty (ind @ ''  '') x]) fs))"
| "json_pretty ind _ = ''null''"

type_synonym vault = "(string \<times> jv) list"

definition vault_bundle :: "string \<Rightarrow> jv \<Rightarrow> jv \<Rightarrow> jv \<Rightarrow> jv \<Rightarrow> jv" where
  "vault_bundle name contractSource metadata assets createdAt =
     JObj [(''name'', JStr name), (''metadata'', metadata),
       (''contract'', JObj [(''language'', JStr ''solidity''), (''source'', contractSource)]),
       (''assets'', js_default assets (JObj [])), (''createdAt'', createdAt), (''version'', JStr ''1.0.0'')]"

definition vault_createBundle :: "env \<Rightarrow> string \<Rightarrow> jv \<Rightarrow> jv \<Rightarrow> jv \<Rightarrow> (vault, jv) js" where
  "vault_createBundle env name contractSource metadata assets =
     (if name = [] then js_throw (Error ''Bundle name required'')
      else js_bind (iso_now env) (\<lambda>t.
        let bundle = vault_bundle name contractSource metadata assets t in
        js_bind (js_update (AList.update name bundle)) (\<lambda>_. js_return bundle)))"

definition exportAsJson :: "string \<Rightarrow> vault \<Rightarrow> js_error + string" where
  "exportAsJson name bundles = (case map_of bundles name of
     None \<Rightarrow> Inl (Error ''Bundle not found'') | Some b \<Rightarrow> Inr (json_pretty [] b))"

definition listBundles :: "vault \<Rightarrow> string list" where
  "listBundles = map fst"

section \<open>The transaction sandbox\<close>

record sandbox_wallet =
  privateKey :: string
  sw_address :: string
  balanceShah :: rat

definition new_SandboxWallet :: "env \<Rightarrow> (unit, sandbox_wallet) js" where
  "new_SandboxWallet env =
     js_bind (js_ext env (Call ''crypto.randomBytes'' [JInt 32])) (\<lambda>k.
     js_bind (js_ext env (Call ''crypto.randomBytes'' [JInt 20])) (\<lambda>a.
     js_return \<lparr>privateKey = to_str k, sw_address = ''S'' @ to_str a, balanceShah = 1000\<rparr>))"

definition signMessage :: "env \<Rightarrow> sandbox_wallet \<Rightarrow> string \<Rightarrow> ('s, jv) js" where
  "signMessage env wallet msg = js_ext env (Call ''crypto.createHmac'' [JStr ''sha256'', JStr (privateKey wallet), JStr msg])"

text \<open>A transaction object; the history holds references to them, an index here.\<close>

record sandbox_tx =
  tx_id :: string
  tx_from :: jv
  tx_to :: jv
  tx_amountShah :: jv
  tx_memo :: jv
  tx_feeShah :: rat
  tx_status :: string
  tx_createdAt :: jv
  tx_broadcastAt :: "jv option"
  tx_confirmedAt :: "jv option"

text \<open>The history, and the broadcasts whose timer is running.\<close>

record sandbox =
  txHistory :: "sandbox_tx list"
  sb_pending :: "nat list"

definition createMockTx :: "env \<Rightarrow> jv \<Rightarrow> jv \<Rightarrow> jv \<Rightarrow> jv \<Rightarrow> (sandbox, nat) js" where
  "createMockTx env from to amountShah memo =
     (if js_le amountShah (JInt 0) then js_throw (Error ''Invalid amount'')
      else js_bind (js_ext env (Call ''crypto.randomBytes'' [JInt 8])) (\<lambda>r.
        js_bind (iso_now env) (\<lambda>t.
        js_bind js_this (\<lambda>s.
        js_bind (js_update (\<lambda>s. s\<lparr>txHistory := txHistory s @
          [\<lparr>tx_id = ''tx_'' @ to_str r, tx_from = from, tx_to = to, tx_amountShah = amountShah,
            tx_memo = js_or memo (JStr []), tx_feeShah = 1/1000, tx_status = ''created'', tx_createdAt = t,
            tx_broadcastAt = None, tx_confirmedAt = None\<rparr>]\<rparr>)) (\<lambda>_.
        js_return (length (txHistory s)))))))"

definition set_tx :: "nat \<Rightarrow> (sandbox_tx \<Rightarrow> sandbox_tx) \<Rightarrow> (sandbox, unit) js" where
  "set_tx i f = js_update (\<lambda>s. s\<lparr>txHistory := (txHistory s)[i := f (txHistory s ! i)]\<rparr>)"

text \<open>The two halves of \<open>simulateBroadcast\<close>: up to the timer, and when it fires.\<close>

definition broadcast_start :: "env \<Rightarrow> nat \<Rightarrow> (sandbox, unit) js" where
  "broadcast_start env i =
     js_bind (set_tx i (\<lambda>t. t\<lparr>tx_status := ''broadcast''\<rparr>)) (\<lambda>_.
     js_bind (iso_now env) (\<lambda>now.
     js_bind (set_tx i (\<lambda>t. t\<lparr>tx_broadcastAt := Some now\<rparr>)) (\<lambda>_.
     js_bind (js_ext env (Call ''setTimeout'' [JInt 200])) (\<lambda>_.
     js_update (\<lambda>s. s\<lparr>sb_pending := sb_pending s @ [i]\<rparr>)))))"

definition broadcast_finish :: "env \<Rightarrow> nat \<Rightarrow> (sandbox, unit) js" where
  "broadcast_finish env i =
     js_bind (js_update (\<lambda>s. s\<lparr>sb_pending := remove1 i (sb_pending s)\<rparr>)) (\<lambda>_.
     js_bind (set_tx i (\<lambda>t. t\<lparr>tx_status := ''confirmed''\<rparr>)) (\<lambda>_.
     js_bind (iso_now env) (\<lambda>now.
     set_tx i (\<lambda>t. t\<lparr>tx_confirmedAt := Some now\<rparr>))))"

definition listTx :: "sandbox \<Rightarrow> sandbox_tx list" where
  "listTx s = rev (txHistory s)"

datatype sandbox_op = Create jv jv jv jv | StartBroadcast nat | TimerFires nat

definition sandbox_enabled :: "sandbox \<Rightarrow> sandbox_op \<Rightarrow> bool" where
  "sandbox_enabled s op = (case op of Create _ _ _ _ \<Rightarrow> True | StartBroadcast i \<Rightarrow> i < length (txHistory s)
     | TimerFires i \<Rightarrow> i \<in> set (sb_pending s))"

primrec run_sandbox :: "env \<Rightarrow> sandbox_op \<Rightarrow> (sandbox, unit) js" where
  "run_sandbox env (Create f t a m) = js_bind (createMockTx env f t a m) (\<lambda>_. js_return ())"
| "run_sandbox env (StartBroadcast i) = broadcast_start env i"
| "run_sandbox env (TimerFires i) = broadcast_finish env i"

inductive sandbox_reach :: "env \<Rightarrow> sandbox world \<Rightarrow> bool" for env where
  start: "sandbox_reach env (\<lparr>txHistory = [], sb_pending = []\<rparr>, [])"
| step: "sandbox_reach env w \<Longrightarrow> sandbox_enabled (fst w) op \<Longrightarrow> sandbox_reach env (snd (run_sandbox env op w))"

section \<open>Usage analytics\<close>

record dev_analytics =
  da_buffer :: "jv list"
  da_flushIntervalMs :: jv
  da_endpoint :: jv
  da_timer :: jv

definition new_DevAnalytics :: "env \<Rightarrow> fields \<Rightarrow> (unit, dev_analytics) js" where
  "new_DevAnalytics env options =
     (let ms = js_or (obj_get options ''flushInterval'') (JInt 5000) in
      js_bind (js_ext env (Call ''setInterval'' [ms])) (\<lambda>t.
      js_return \<lparr>da_buffer = [], da_flushIntervalMs = ms, da_endpoint = js_or (obj_get options ''endpoint'') JNull, da_timer = t\<rparr>))"

definition track :: "env \<Rightarrow> string \<Rightarrow> jv \<Rightarrow> (dev_analytics, unit) js" where
  "track env eventName payload = js_bind (date_now env) (\<lambda>ts.
     js_update (\<lambda>s. s\<lparr>da_buffer := da_buffer s @
       [JObj [(''event'', JStr eventName), (''payload'', js_default payload (JObj [])), (''ts'', JNum ts)]]\<rparr>))"

definition trackTokenCreation :: "env \<Rightarrow> jv \<Rightarrow> (dev_analytics, unit) js" where
  "trackTokenCreation env details = track env ''token_creation'' details"

definition trackNftCreation :: "env \<Rightarrow> jv \<Rightarrow> (dev_analytics, unit) js" where
  "trackNftCreation env details = track env ''nft_creation'' details"

definition trackFeePaid :: "env \<Rightarrow> jv \<Rightarrow> (dev_analytics, unit) js" where
  "trackFeePaid env details = track env ''fee_paid'' details"

definition trackDeploy :: "env \<Rightarrow> jv \<Rightarrow> (dev_analytics, unit) js" where
  "trackDeploy env details = track env ''deploy'' details"

definition flush_result :: "nat \<Rightarrow> jv" where
  "flush_result n = JObj [(''ok'', JBool True), (''sent'', JInt (int n))]"

definition flush :: "env \<Rightarrow> (dev_analytics, jv) js" where
  "flush env = js_bind js_this (\<lambda>s.
     if da_buffer s = [] then js_return (flush_result 0)
     else let batch = da_buffer s in
       js_bind (js_update (\<lambda>s. s\<lparr>da_buffer := []\<rparr>)) (\<lambda>_.
       if \<not> truthy (da_endpoint s) then js_return (flush_result (length batch))
       else js_bind (js_ext env (Call ''fetch'' [da_endpoint s, JArr batch])) (\<lambda>_.
            js_return (flush_result (length batch)))))"

definition analytics_tick :: "env \<Rightarrow> (dev_analytics, unit) js" where
  "analytics_tick env = js_catch (js_bind (flush env) (\<lambda>_. js_return ())) (\<lambda>_. js_return ())"

definition dispose :: "env \<Rightarrow> (dev_analytics, unit) js" where
  "dispose env = js_bind js_this (\<lambda>s. js_bind (js_ext env (Call ''clearInterval'' [da_timer s])) (\<lambda>_. js_return ()))"

datatype analytics_op = Track string jv | Flush | Tick | Dispose

primrec run_analytics :: "env \<Rightarrow> analytics_op \<Rightarrow> (dev_analytics, unit) js" where
  "run_analytics env (Track e p) = track env e p"
| "run_analytics env Flush = js_bind (flush env) (\<lambda>_. js_return ())"
| "run_analytics env Tick = analytics_tick env"
| "run_analytics env Dispose = dispose env"

text \<open>The names of the events whose tracking succeeded, in order.\<close>

fun analytics_run :: "env \<Rightarrow> analytics_op list \<Rightarrow> dev_analytics world \<Rightarrow> string list \<times> dev_analytics world" where
  "analytics_run env [] w = ([], w)"
| "analytics_run env (op # ops) w = (case run_analytics env op w of (r, w') \<Rightarrow>
     case analytics_run env ops w' of (es, w'') \<Rightarrow>
     ((case (op, r) of (Track e _, Inr _) \<Rightarrow> [e] | _ \<Rightarrow> []) @ es, w''))"

section \<open>The balance checker and the help panel\<close>

record balance_checker =
  bc_thresholdUsd :: jv
  bc_timer :: "jv option"
  bc_lastFree :: "bool option"
  bc_intervalMs :: jv
  bc_onChange :: bool

definition balance_refresh :: "env \<Rightarrow> (balance_checker, unit) js" where
  "balance_refresh env = js_bind js_this (\<lambda>s.
     let threshold = js_nullish (bc_thresholdUsd s) (JInt 10) in
     js_bind (js_ext env (Call ''deps.getWalletUsd'' [])) (\<lambda>usd.
     let isFree = js_le threshold usd in
     js_bind js_this (\<lambda>s.
     if bc_lastFree s \<noteq> Some isFree then
       js_bind (js_update (\<lambda>s. s\<lparr>bc_lastFree := Some isFree\<rparr>)) (\<lambda>_.
       if bc_onChange s then js_bind (js_ext env (Call ''onChange'' [JBool isFree, usd])) (\<lambda>_. js_return ())
       else js_return ())
     else js_return ())))"

definition balance_stop :: "env \<Rightarrow> (balance_checker, unit) js" where
  "balance_stop env = js_bind js_this (\<lambda>s.
     js_bind (case bc_timer s of None \<Rightarrow> js_return ()
       | Some h \<Rightarrow> if truthy h then js_bind (js_ext env (Call ''clearInterval'' [h])) (\<lambda>_. js_return ()) else js_return ())
     (\<lambda>_. js_update (\<lambda>s. s\<lparr>bc_timer := None\<rparr>)))"

text \<open>\<open>start\<close> does not await its refresh, so a failing one is not an exception of \<open>start\<close>.\<close>

definition balance_start :: "env \<Rightarrow> (balance_checker, unit) js" where
  "balance_start env = js_bind (balance_stop env) (\<lambda>_. js_bind js_this (\<lambda>s.
     js_bind (js_ext env (Call ''setInterval'' [bc_intervalMs s])) (\<lambda>h.
     js_bind (js_update (\<lambda>s. s\<lparr>bc_timer := Some h\<rparr>)) (\<lambda>_.
     js_catch (balance_refresh env) (\<lambda>_. js_return ())))))"

datatype balance_op = BStart | BStop | BRefresh

primrec run_balance :: "env \<Rightarrow> balance_op \<Rightarrow> (balance_checker, unit) js" where
  "run_balance env BStart = balance_start env"
| "run_balance env BStop = balance_stop env"
| "run_balance env BRefresh = balance_refresh env"

text \<open>The help panel holds the question being typed.\<close>

definition help_send :: "env \<Rightarrow> (string, unit) js" where
  "help_send env = js_bind js_this (\<lambda>input.
     js_bind (js_ext env (Call ''onAsk'' [JStr input])) (\<lambda>_. js_update (\<lambda>_. [])))"

definition help_lines :: "(string \<times> string) list \<Rightarrow> (string \<times> string) list" where
  "help_lines messages = map (\<lambda>(role, content). (if role = ''user'' then ''You'' else ''Assistant'', content)) messages"

section \<open>The explorer is the metadata store\<close>

lemma explorer_store_eq:
  "explorer_storeMetadata env a m = js_bind (storeMetadata env a m) (\<lambda>_. js_return (JObj [(''ok'', JBool True)]))"
  by (simp add: explorer_storeMetadata_def storeMetadata_def js_bind_assoc store_entry_def [abs_def] stored_entry_def)

lemma explorer_get_eq:
  "explorer_getMetadata env a w = (case getMetadata env a w of (r, w') \<Rightarrow> (if r = Inr JUndef then Inr JNull else r, w'))"
  by (cases w)
     (auto simp: explorer_getMetadata_def getMetadata_def iso_now_def js_simps Let_def split: option.splits sum.splits)

text \<open>The explorer implements the metadata store of the contract toolkit: storing does the same to the store and
  the log and fails on the same metadata, reading differs only in answering null instead of undefined, and
  listing by type gives the same entries.\<close>

theorem explorer_refines_metadata_store:
  "explorer_storeMetadata env a m w = (case storeMetadata env a m w of
      (r, w') \<Rightarrow> (map_sum id (\<lambda>_. JObj [(''ok'', JBool True)]) r, w')) \<and>
   explorer_getMetadata env a w = (case getMetadata env a w of (r, w') \<Rightarrow> (if r = Inr JUndef then Inr JNull else r, w')) \<and>
   map token_entry (listByType ty st) = getTokensByType ty st"
proof (intro conjI)
  show "explorer_storeMetadata env a m w = (case storeMetadata env a m w of
      (r, w') \<Rightarrow> (map_sum id (\<lambda>_. JObj [(''ok'', JBool True)]) r, w'))"
    unfolding explorer_store_eq by (auto simp: js_bind_apply js_return_apply split: prod.splits sum.splits)
qed (simp_all only: explorer_get_eq listByType_def getTokensByType_def)

lemma obj_get_stored:
  assumes "distinct (map fst fs)" and "k \<noteq> ''storedAt''" and "k \<noteq> ''lastAccessed''"
  shows "obj_get (stored_entry t t' fs) k = obj_get fs k"
  using assms by (simp add: stored_entry_def) (simp add: obj_get_def map_of_obj_spread map_of_rev_distinct)

text \<open>What the explorer stores can be found: after valid metadata is stored under an address, a search for any
  part of its name, in any letter case, lists the address with exactly that content.\<close>

theorem explorer_finds_stored:
  assumes "iso_ok env" and "validateMetadata (JObj m) = Inr b" and "distinct (map fst m)"
    and "str_includes (to_lower (to_str (obj_get m ''name''))) (to_lower q)"
  shows "\<exists>st' tr' fs. explorer_storeMetadata env a (JObj m) (st, tr) = (Inr (JObj [(''ok'', JBool True)]), (st', tr')) \<and>
    (to_lower a, fs) \<in> set (searchByName (JStr q) st') \<and> content fs = content m"
proof -
  obtain t t' tr' where run: "storeMetadata env a (JObj m) (st, tr) = (Inr (), (md_put a (t, t', m) st, tr'))"
    using storeMetadata_run [OF assms(1,2)] by (fastforce simp: fields_of_def)
  let ?fs = "stored_entry t t' m"
  have "map_of (md_put a (t, t', m) st) (to_lower a) = Some ?fs"
    by (simp add: md_put_def store_entry_def update_conv')
  then have mem: "(to_lower a, ?fs) \<in> set (md_put a (t, t', m) st)" by (rule map_of_SomeD)
  have "truthy (obj_get m ''name'')"
    using assms(2) by (auto simp: validateMetadata_def requiredFields_def Let_def split: sum.splits if_splits)
  then have "(to_lower a, ?fs) \<in> set (searchByName (JStr q) (md_put a (t, t', m) st))"
    using mem assms(4) by (cases "q = []") (auto simp: searchByName_def Let_def obj_get_stored [OF assms(3)] js_or_def)
  moreover have "explorer_storeMetadata env a (JObj m) (st, tr) =
      (Inr (JObj [(''ok'', JBool True)]), (md_put a (t, t', m) st, tr'))"
    unfolding explorer_store_eq by (simp add: run js_simps)
  ultimately show ?thesis using content_stored_entry by blast
qed

definition sample_fields :: fields where
  "sample_fields = [(''standard'', JStr ''shahcoin.token.standard.v1''), (''type'', JStr ''SHI-20''),
     (''name'', JStr ''Gold''), (''createdBy'', JStr ''ShahFactory''), (''verified'', JBool True)]"

theorem explorer_finds_stored_witness:
  "\<exists>st' tr' fs. explorer_storeMetadata sample_iso ''0xAB'' (JObj sample_fields) ([], []) =
      (Inr (JObj [(''ok'', JBool True)]), (st', tr')) \<and>
    (to_lower ''0xAB'', fs) \<in> set (searchByName (JStr ''OL'') st') \<and> content fs = content sample_fields"
proof (rule explorer_finds_stored)
  show "iso_ok sample_iso" by (simp add: iso_ok_def sample_iso_def)
  show "validateMetadata (JObj sample_fields) = Inr True" by code_simp
  show "distinct (map fst sample_fields)" by code_simp
  show "str_includes (to_lower (to_str (obj_get sample_fields ''name''))) (to_lower ''OL'')" by code_simp
qed

section \<open>The vault\<close>

definition vault_put :: "string \<Rightarrow> jv \<Rightarrow> vault \<Rightarrow> vault" where
  "vault_put = AList.update"

definition vault_get :: "string \<Rightarrow> vault \<Rightarrow> jv option" where
  "vault_get k s = map_of s k"

interpretation vb: registry vault_put vault_get "(=)" Some
  by unfold_locales (auto simp: vault_put_def vault_get_def update_conv')

type_synonym bundle_request = "string \<times> jv \<times> jv \<times> jv"

definition store_bundle :: "env \<Rightarrow> bundle_request \<Rightarrow> (vault, unit) js" where
  "store_bundle env q = (case q of (name, src, md, as) \<Rightarrow>
     js_bind (vault_createBundle env name src md as) (\<lambda>_. js_return ()))"

definition bundle_of :: "bundle_request \<Rightarrow> jv \<Rightarrow> jv" where
  "bundle_of q t = (case q of (name, src, md, as) \<Rightarrow> vault_bundle name src md as t)"

lemma store_bundle_run:
  assumes "iso_ok env" and "fst q \<noteq> []"
  shows "\<exists>t tr'. store_bundle env q (s, tr) = (Inr (), (vault_put (fst q) (bundle_of q t) s, tr'))"
proof -
  obtain t where "env (length tr) (Call ''Date.toISOString'' []) = Inr (JStr t)"
    using assms(1) unfolding iso_ok_def by blast
  then show ?thesis using assms(2)
    by (cases q) (auto simp: store_bundle_def vault_createBundle_def iso_now_def js_simps Let_def vault_put_def bundle_of_def)
qed

lemma store_bundles_run:
  assumes "iso_ok env" and "list_all (\<lambda>q. fst q \<noteq> []) qs"
  shows "\<exists>ops tr'. list_all2 (\<lambda>(k, b) q. k = fst q \<and> (\<exists>t. b = bundle_of q t)) ops qs \<and>
    js_each (store_bundle env) qs (s, tr) = (Inr (), (vb.puts ops s, tr'))"
  using assms(2)
proof (induction qs arbitrary: s tr)
  case Nil
  then show ?case by (auto simp: js_simps vb.puts_def)
next
  case (Cons q qs)
  from Cons.prems have q: "fst q \<noteq> []" and qs: "list_all (\<lambda>q. fst q \<noteq> []) qs" by simp_all
  obtain t tr1 where r: "store_bundle env q (s, tr) = (Inr (), (vault_put (fst q) (bundle_of q t) s, tr1))"
    using store_bundle_run [OF assms(1) q] by blast
  obtain ops tr2 where o: "list_all2 (\<lambda>(k, b) q. k = fst q \<and> (\<exists>t. b = bundle_of q t)) ops qs"
    "js_each (store_bundle env) qs (vault_put (fst q) (bundle_of q t) s, tr1) =
       (Inr (), (vb.puts ops (vault_put (fst q) (bundle_of q t) s), tr2))"
    using Cons.IH [OF qs] by blast
  have "list_all2 (\<lambda>(k, b) q. k = fst q \<and> (\<exists>t. b = bundle_of q t)) ((fst q, bundle_of q t) # ops) (q # qs)"
    using o(1) by auto
  moreover have "js_each (store_bundle env) (q # qs) (s, tr) = (Inr (), (vb.puts ((fst q, bundle_of q t) # ops) s, tr2))"
    using o(2) by (simp add: r js_simps vb.puts_def)
  ultimately show ?case by blast
qed

text \<open>C33: The vault exports what was put in last: after any sequence of bundles with names, exporting a name gives the
  JSON text of the last bundle created under it, its creation time apart, and the error of a missing bundle if there was none.\<close>

theorem vault_exports_last:
  assumes "iso_ok env" and "list_all (\<lambda>q. fst q \<noteq> []) qs"
  shows "\<exists>st tr'. js_each (store_bundle env) qs ([], tr) = (Inr (), (st, tr')) \<and>
    (case find (\<lambda>q. fst q = name) (rev qs) of
       None \<Rightarrow> exportAsJson name st = Inl (Error ''Bundle not found'')
     | Some q \<Rightarrow> \<exists>t. exportAsJson name st = Inr (json_pretty [] (bundle_of q t)))"
proof -
  let ?R = "\<lambda>(k, b) q. k = fst q \<and> (\<exists>t. b = bundle_of q t)"
  obtain ops tr' where o: "list_all2 ?R ops qs" "js_each (store_bundle env) qs ([], tr) = (Inr (), (vb.puts ops [], tr'))"
    using store_bundles_run [OF assms] by blast
  have "rel_option ?R (find (\<lambda>(k, _). k = name) (rev ops)) (find (\<lambda>q. fst q = name) (rev qs))"
    by (rule find_list_all2) (use o(1) in \<open>auto simp: list_all2_rev\<close>)
  then have "case find (\<lambda>q. fst q = name) (rev qs) of
       None \<Rightarrow> exportAsJson name (vb.puts ops []) = Inl (Error ''Bundle not found'')
     | Some q \<Rightarrow> \<exists>t. exportAsJson name (vb.puts ops []) = Inr (json_pretty [] (bundle_of q t))"
    using vb.last_write_wins [of name ops "[]"]
    by (cases rule: option.rel_cases) (auto simp: vault_get_def exportAsJson_def split: prod.splits)
  with o(2) show ?thesis by blast
qed

theorem vault_exports_last_witness:
  "\<exists>st tr'. js_each (store_bundle sample_iso) [(''a'', JStr ''c'', JNull, JUndef)] ([], []) = (Inr (), (st, tr')) \<and>
    (\<exists>t. exportAsJson ''a'' st = Inr (json_pretty [] (bundle_of (''a'', JStr ''c'', JNull, JUndef) t)))"
  using vault_exports_last [of sample_iso "[(''a'', JStr ''c'', JNull, JUndef)]" "[]" "''a''"]
  by (simp add: iso_ok_def sample_iso_def)

section \<open>The sandbox\<close>

definition tx_ok :: "sandbox_tx \<Rightarrow> bool" where
  "tx_ok t = (\<not> js_le (tx_amountShah t) (JInt 0) \<and> tx_feeShah t = 1/1000 \<and>
     (tx_status t = ''created'' \<and> tx_broadcastAt t = None \<and> tx_confirmedAt t = None \<or>
      tx_status t = ''broadcast'' \<and> tx_broadcastAt t \<noteq> None \<or>
      tx_status t = ''confirmed'' \<and> tx_broadcastAt t \<noteq> None \<and> tx_confirmedAt t \<noteq> None))"

text \<open>The part of a transaction that is fixed when it is created.\<close>

definition tx_core :: "sandbox_tx \<Rightarrow> string \<times> jv \<times> jv \<times> jv \<times> jv \<times> rat \<times> jv" where
  "tx_core t = (tx_id t, tx_from t, tx_to t, tx_amountShah t, tx_memo t, tx_feeShah t, tx_createdAt t)"

definition sandbox_ok :: "sandbox \<Rightarrow> bool" where
  "sandbox_ok s = (list_all tx_ok (txHistory s) \<and>
     list_all (\<lambda>i. i < length (txHistory s) \<and> tx_broadcastAt (txHistory s ! i) \<noteq> None) (sb_pending s))"

lemma map_tx_core_update: "f (g (xs ! i)) = f (xs ! i) \<Longrightarrow> map f (xs[i := g (xs ! i)]) = map f xs"
  by (rule nth_equalityI) (simp, metis length_list_update length_map nth_list_update_eq nth_list_update_neq nth_map)

lemma iso_reads: "iso_ok env \<Longrightarrow> \<exists>t. env i (Call ''Date.toISOString'' []) = Inr t"
  unfolding iso_ok_def by blast

lemma createMockTx_step:
  assumes "iso_ok env" and "sandbox_ok s"
  shows "case snd (createMockTx env f t a m (s, tr)) of (s', _) \<Rightarrow>
    sandbox_ok s' \<and> (\<exists>cs. map tx_core (txHistory s') = map tx_core (txHistory s) @ cs)"
proof (cases "js_le a (JInt 0)")
  case True
  then show ?thesis using assms(2) by (simp add: createMockTx_def js_simps)
next
  case False
  let ?c = "Call ''crypto.randomBytes'' [JInt 8]"
  obtain now where now: "env (length (tr @ [?c])) (Call ''Date.toISOString'' []) = Inr now"
    using iso_reads [OF assms(1)] by blast
  show ?thesis
    using False assms(2) now
    by (cases "env (length tr) ?c")
       (auto simp: createMockTx_def iso_now_def js_simps sandbox_ok_def tx_ok_def list_all_iff nth_append)
qed

lemma broadcast_start_step:
  assumes "iso_ok env" and "sandbox_ok s" and i: "i < length (txHistory s)"
  shows "case snd (broadcast_start env i (s, tr)) of (s', _) \<Rightarrow>
    sandbox_ok s' \<and> map tx_core (txHistory s') = map tx_core (txHistory s)"
proof -
  obtain now where now: "env (length tr) (Call ''Date.toISOString'' []) = Inr now"
    using iso_reads [OF assms(1)] by blast
  let ?t = "(txHistory s ! i)\<lparr>tx_status := ''broadcast'', tx_broadcastAt := Some now\<rparr>"
  let ?s = "s\<lparr>txHistory := (txHistory s)[i := ?t]\<rparr>"
  have "tx_ok (txHistory s ! i)" using assms(2) i by (simp add: sandbox_ok_def list_all_length)
  then have "tx_ok ?t" by (auto simp: tx_ok_def)
  then have "sandbox_ok ?s" "sandbox_ok (?s\<lparr>sb_pending := sb_pending s @ [i]\<rparr>)"
    using assms(2) i by (auto simp: sandbox_ok_def list_all_iff nth_list_update dest!: set_update_subset_insert [THEN subsetD])
  moreover have "map tx_core ((txHistory s)[i := ?t]) = map tx_core (txHistory s)"
    by (rule map_tx_core_update) (simp add: tx_core_def)
  moreover have "snd (broadcast_start env i (s, tr)) \<in>
     {?s, ?s\<lparr>sb_pending := sb_pending s @ [i]\<rparr>} \<times> UNIV"
    using i now by (auto simp: broadcast_start_def set_tx_def iso_now_def js_simps split: sum.splits)
  ultimately show ?thesis by auto
qed

lemma broadcast_finish_step:
  assumes "iso_ok env" and "sandbox_ok s" and p: "i \<in> set (sb_pending s)"
  shows "case snd (broadcast_finish env i (s, tr)) of (s', _) \<Rightarrow>
    sandbox_ok s' \<and> map tx_core (txHistory s') = map tx_core (txHistory s)"
proof -
  obtain now where now: "env (length tr) (Call ''Date.toISOString'' []) = Inr now"
    using iso_reads [OF assms(1)] by blast
  have i: "i < length (txHistory s)" and b: "tx_broadcastAt (txHistory s ! i) \<noteq> None"
    using assms(2) p by (auto simp: sandbox_ok_def list_all_iff)
  let ?t = "(txHistory s ! i)\<lparr>tx_status := ''confirmed'', tx_confirmedAt := Some now\<rparr>"
  let ?s = "s\<lparr>sb_pending := remove1 i (sb_pending s), txHistory := (txHistory s)[i := ?t]\<rparr>"
  have "tx_ok (txHistory s ! i)" using assms(2) i by (simp add: sandbox_ok_def list_all_length)
  then have "tx_ok ?t" using b by (auto simp: tx_ok_def)
  then have "sandbox_ok ?s"
    using assms(2) i b by (auto simp: sandbox_ok_def list_all_iff nth_list_update
        dest!: set_update_subset_insert [THEN subsetD] dest: notin_set_remove1)
  moreover have "map tx_core ((txHistory s)[i := ?t]) = map tx_core (txHistory s)"
    by (rule map_tx_core_update) (simp add: tx_core_def)
  moreover have "snd (broadcast_finish env i (s, tr)) \<in> {?s} \<times> UNIV"
    using i now by (auto simp: broadcast_finish_def set_tx_def iso_now_def js_simps)
  ultimately show ?thesis by auto
qed

lemma run_sandbox_step:
  assumes "iso_ok env" and "sandbox_ok s" and "sandbox_enabled s op"
  shows "case snd (run_sandbox env op (s, tr)) of (s', _) \<Rightarrow>
    sandbox_ok s' \<and> (\<exists>cs. map tx_core (txHistory s') = map tx_core (txHistory s) @ cs)"
proof (cases op)
  case (Create f t a m)
  have "snd (run_sandbox env op (s, tr)) = snd (createMockTx env f t a m (s, tr))"
    by (cases "createMockTx env f t a m (s, tr)") (auto simp: Create js_simps split: sum.splits)
  with createMockTx_step [OF assms(1,2)] show ?thesis by simp
next
  case (StartBroadcast i)
  with assms(3) have "i < length (txHistory s)" by (simp add: sandbox_enabled_def)
  from broadcast_start_step [OF assms(1,2) this, of tr] show ?thesis by (simp add: StartBroadcast split: prod.splits)
next
  case (TimerFires i)
  with assms(3) have "i \<in> set (sb_pending s)" by (simp add: sandbox_enabled_def)
  from broadcast_finish_step [OF assms(1,2) this, of tr] show ?thesis by (simp add: TimerFires split: prod.splits)
qed

lemma sandbox_reach_ok: "sandbox_reach env w \<Longrightarrow> iso_ok env \<Longrightarrow> sandbox_ok (fst w)"
proof (induction rule: sandbox_reach.induct)
  case start
  then show ?case by (simp add: sandbox_ok_def)
next
  case (step w op)
  then show ?case using run_sandbox_step [of env "fst w" op "snd w"] by (auto split: prod.splits)
qed

text \<open>C35: The sandbox ledger: in every history that can be reached, broadcasts interleaved in any way, no transaction has an
  amount the guard refuses, all carry the fixed fee, and the status agrees with the recorded times; and one more
  step keeps who paid whom how much in every entry and its place, so that \<open>listTx\<close> shows them newest first.\<close>

theorem sandbox_ledger_sound:
  assumes "sandbox_reach env w" and "iso_ok env" and "sandbox_enabled (fst w) op"
  shows "list_all tx_ok (listTx (fst w)) \<and>
    (\<exists>new. map tx_core (listTx (fst (snd (run_sandbox env op w)))) = new @ map tx_core (listTx (fst w)))"
proof -
  note ok = sandbox_reach_ok [OF assms(1,2)]
  from run_sandbox_step [OF assms(2) ok assms(3), of "snd w"] obtain cs where
    "map tx_core (txHistory (fst (snd (run_sandbox env op w)))) = map tx_core (txHistory (fst w)) @ cs"
    by (auto split: prod.splits)
  then have "map tx_core (listTx (fst (snd (run_sandbox env op w)))) = rev cs @ map tx_core (listTx (fst w))"
    by (simp add: listTx_def rev_map [symmetric])
  with ok show ?thesis by (auto simp: listTx_def sandbox_ok_def list_all_iff)
qed

text \<open>The guard compares with zero, so an amount that is not a number passes.\<close>

definition sandbox_sample :: "sandbox world" where
  "sandbox_sample = snd (run_sandbox sample_iso (Create (JStr ''a'') (JStr ''b'') JUndef JUndef) (\<lparr>txHistory = [], sb_pending = []\<rparr>, []))"

theorem sandbox_ledger_sound_witness:
  "list_all tx_ok (listTx (fst sandbox_sample)) \<and> map tx_amountShah (listTx (fst sandbox_sample)) = [JUndef] \<and>
   (\<exists>new. map tx_core (listTx (fst (snd (run_sandbox sample_iso (StartBroadcast 0) sandbox_sample)))) =
      new @ map tx_core (listTx (fst sandbox_sample)))"
proof -
  have r: "sandbox_reach sample_iso sandbox_sample"
    unfolding sandbox_sample_def by (intro sandbox_reach.intros) (simp add: sandbox_enabled_def)
  have i: "iso_ok sample_iso" by (simp add: iso_ok_def sample_iso_def)
  have run: "map tx_amountShah (txHistory (fst sandbox_sample)) = [JUndef]"
    by (simp add: sandbox_sample_def createMockTx_def js_le_def num_le_def num_eq_def is_text_def sample_iso_def iso_now_def js_simps)
  then have "length (txHistory (fst sandbox_sample)) = 1" by (cases "txHistory (fst sandbox_sample)") auto
  then have e: "sandbox_enabled (fst sandbox_sample) (StartBroadcast 0)" by (simp add: sandbox_enabled_def)
  from run have "map tx_amountShah (listTx (fst sandbox_sample)) = [JUndef]" by (simp add: listTx_def rev_map [symmetric])
  with sandbox_ledger_sound [OF r i e] show ?thesis by simp
qed

section \<open>Analytics\<close>

text \<open>The batches in the log, and the name of an event.\<close>

definition batch_of :: "call \<Rightarrow> jv list" where
  "batch_of c = (if callee c = ''fetch'' then (case args c of [_, JArr batch] \<Rightarrow> batch | _ \<Rightarrow> []) else [])"

definition sent_events :: "call list \<Rightarrow> jv list" where
  "sent_events tr = concat (map batch_of tr)"

definition event_name :: "jv \<Rightarrow> jv" where
  "event_name e = jopt e ''event''"

definition accounted :: "dev_analytics world \<Rightarrow> jv list" where
  "accounted w = map event_name (sent_events (snd w) @ da_buffer (fst w))"

lemma run_analytics_step:
  assumes "truthy (da_endpoint (fst w))" and "run_analytics env op w = (r, w')"
  shows "truthy (da_endpoint (fst w')) \<and>
    accounted w' = accounted w @ map JStr (case (op, r) of (Track e _, Inr _) \<Rightarrow> [e] | _ \<Rightarrow> [])"
proof (cases w)
  case (Pair s tr)
  have [simp]: "sent_events (tr @ [c]) = sent_events tr @ batch_of c" for c by (simp add: sent_events_def)
  show ?thesis
  proof (cases op)
    case (Track e p)
    then show ?thesis using assms
      by (cases "env (length tr) (Call ''Date.now'' [])")
         (auto simp: Pair track_def date_now_def js_simps accounted_def batch_of_def event_name_def)
  next
    case Flush
    then show ?thesis using assms
      by (cases "da_buffer s = []"; cases "env (length tr) (Call ''fetch'' [da_endpoint s, JArr (da_buffer s)])")
         (auto simp: Pair flush_def js_simps Let_def accounted_def batch_of_def)
  next
    case Tick
    then show ?thesis using assms
      by (cases "da_buffer s = []"; cases "env (length tr) (Call ''fetch'' [da_endpoint s, JArr (da_buffer s)])")
         (auto simp: Pair analytics_tick_def flush_def js_simps Let_def accounted_def batch_of_def)
  next
    case Dispose
    then show ?thesis using assms
      by (cases "env (length tr) (Call ''clearInterval'' [da_timer s])")
         (auto simp: Pair dispose_def js_simps accounted_def batch_of_def)
  qed
qed

lemma analytics_run_accounts:
  "truthy (da_endpoint (fst w)) \<Longrightarrow> analytics_run env ops w = (es, w') \<Longrightarrow> accounted w' = accounted w @ map JStr es"
proof (induction ops arbitrary: w es w')
  case (Cons op ops)
  obtain r w1 where r: "run_analytics env op w = (r, w1)" by (rule prod.exhaust)
  obtain es' w2 where e: "analytics_run env ops w1 = (es', w2)" by (rule prod.exhaust)
  from run_analytics_step [OF Cons.prems(1) r] have s: "truthy (da_endpoint (fst w1))"
    "accounted w1 = accounted w @ map JStr (case (op, r) of (Track e _, Inr _) \<Rightarrow> [e] | _ \<Rightarrow> [])" by simp_all
  from Cons.prems(2) r e have es: "es = (case (op, r) of (Track e _, Inr _) \<Rightarrow> [e] | _ \<Rightarrow> []) @ es'" "w' = w2" by simp_all
  from Cons.IH [OF s(1) e] show ?case by (simp only: es s(2) map_append append_assoc)
qed simp


definition offline :: env where
  "offline i c = (if callee c = ''fetch'' then Inl (Error ''offline'') else Inr (JInt 0))"

definition sample_analytics :: dev_analytics where
  "sample_analytics = \<lparr>da_buffer = [], da_flushIntervalMs = JInt 5000, da_endpoint = JStr ''/e'', da_timer = JInt 1\<rparr>"


section \<open>The balance checker\<close>

definition balance_reports :: "call list \<Rightarrow> (jv \<times> jv) list" where
  "balance_reports tr = concat (map (\<lambda>c. if callee c = ''onChange'' then
     (case args c of [f, usd] \<Rightarrow> [(f, usd)] | _ \<Rightarrow> []) else []) tr)"

definition balance_inv :: "jv \<Rightarrow> balance_checker world \<Rightarrow> bool" where
  "balance_inv th w = (let rs = balance_reports (snd w) in bc_onChange (fst w) \<and> bc_thresholdUsd (fst w) = th \<and>
     list_all (\<lambda>(f, usd). f = JBool (js_le (js_nullish th (JInt 10)) usd)) rs \<and> distinct_adj (map fst rs) \<and>
     (if rs = [] then bc_lastFree (fst w) = None else Some (fst (last rs)) = map_option JBool (bc_lastFree (fst w))))"

lemma balance_reports_snoc:
  "balance_reports (tr @ [Call ''onChange'' [f, usd]]) = balance_reports tr @ [(f, usd)]"
  "f' \<noteq> ''onChange'' \<Longrightarrow> balance_reports (tr @ [Call f' as]) = balance_reports tr"
  by (simp_all add: balance_reports_def)

lemma balance_inv_other:
  "f' \<noteq> ''onChange'' \<Longrightarrow> balance_inv th (s, tr @ [Call f' as]) = balance_inv th (s, tr)"
  "balance_inv th (s\<lparr>bc_timer := h\<rparr>, tr) = balance_inv th (s, tr)"
  by (simp_all add: balance_inv_def balance_reports_snoc)

lemma distinct_adj_snoc: "distinct_adj (xs @ [x]) \<longleftrightarrow> distinct_adj xs \<and> (xs = [] \<or> last xs \<noteq> x)"
  by (simp add: distinct_adj_append_iff)

lemma balance_inv_report:
  assumes "balance_inv th (s, tr)" and "bc_lastFree s \<noteq> Some free" and "free = js_le (js_nullish th (JInt 10)) usd"
  shows "balance_inv th (s\<lparr>bc_lastFree := Some free\<rparr>, tr @ [Call ''onChange'' [JBool free, usd]])"
  using assms unfolding balance_inv_def Let_def
  by (cases "bc_lastFree s"; cases "balance_reports tr = []")
     (simp_all add: balance_reports_snoc distinct_adj_snoc last_map)

lemma balance_refresh_inv: "js_inv (balance_inv th) (balance_refresh env)"
proof (rule js_invI)
  fix w assume inv: "balance_inv th w"
  obtain s tr where w: "w = (s, tr)" by (rule prod.exhaust)
  let ?c = "Call ''deps.getWalletUsd'' []"
  from inv have s: "bc_onChange s" "bc_thresholdUsd s = th" by (simp_all add: w balance_inv_def Let_def)
  show "balance_inv th (snd (balance_refresh env w))"
  proof (cases "env (length tr) ?c")
    case (Inl e)
    then show ?thesis using inv by (simp add: w balance_refresh_def js_simps Let_def balance_inv_other)
  next
    case (Inr usd)
    let ?free = "js_le (js_nullish th (JInt 10)) usd"
    have i: "balance_inv th (s, tr @ [?c])" using inv by (simp add: w balance_inv_other)
    show ?thesis
    proof (cases "bc_lastFree s = Some ?free")
      case True
      then show ?thesis using i Inr s by (simp add: w balance_refresh_def js_simps Let_def)
    next
      case False
      then have "snd (balance_refresh env w) =
          (s\<lparr>bc_lastFree := Some ?free\<rparr>, (tr @ [?c]) @ [Call ''onChange'' [JBool ?free, usd]])"
        using Inr s by (cases "env (length (tr @ [?c])) (Call ''onChange'' [JBool ?free, usd])")
          (simp_all add: w balance_refresh_def js_simps Let_def)
      then show ?thesis using balance_inv_report [OF i False refl] by simp
    qed
  qed
qed

lemma balance_stop_inv: "js_inv (balance_inv th) (balance_stop env)"
proof (rule js_invI)
  fix w assume "balance_inv th w"
  then show "balance_inv th (snd (balance_stop env w))"
    by (cases w) (auto simp: balance_stop_def js_simps balance_inv_other split: option.splits sum.splits)
qed

lemma balance_start_inv: "js_inv (balance_inv th) (balance_start env)"
proof -
  have ext: "js_inv (balance_inv th) (js_ext env (Call ''setInterval'' as))" for as
    by (rule js_invI) (auto simp: js_simps balance_inv_other)
  have upd: "js_inv (balance_inv th) (js_update (\<lambda>s. s\<lparr>bc_timer := h\<rparr>))" for h
    by (rule js_invI) (auto simp: js_simps balance_inv_other)
  show ?thesis unfolding balance_start_def
    by (intro js_inv_bind js_inv_catch js_inv_this js_inv_return balance_stop_inv balance_refresh_inv ext upd)
qed

lemma run_balance_inv: "js_inv (balance_inv th) (run_balance env op)"
  using balance_start_inv balance_stop_inv balance_refresh_inv by (cases op) simp_all

text \<open>Whatever sequence of starts, stops and refreshes, the balance checker reports free access exactly by comparing the
  balance it read with the threshold, ten dollars if none is given, and only when the verdict changed: no two
  reports in a row say the same.\<close>

theorem balance_reports_changes:
  assumes "bc_onChange s" and "bc_lastFree s = None" and "js_each (run_balance env) ops (s, []) = (r, w)"
  shows "distinct_adj (map fst (balance_reports (snd w))) \<and>
    list_all (\<lambda>(free, usd). free = JBool (js_le (js_nullish (bc_thresholdUsd s) (JInt 10)) usd)) (balance_reports (snd w))"
proof -
  have "balance_inv (bc_thresholdUsd s) (s, [])" using assms(1,2) by (simp add: balance_inv_def balance_reports_def)
  moreover have "js_inv (balance_inv (bc_thresholdUsd s)) (js_each (run_balance env) ops)"
    by (rule js_inv_each) (rule run_balance_inv)
  ultimately have "balance_inv (bc_thresholdUsd s) w" using js_invD assms(3) by fastforce
  then show ?thesis unfolding balance_inv_def Let_def by blast
qed

definition sample_checker :: balance_checker where
  "sample_checker = \<lparr>bc_thresholdUsd = JUndef, bc_timer = None, bc_lastFree = None, bc_intervalMs = JInt 15000, bc_onChange = True\<rparr>"

theorem balance_reports_changes_witness:
  "\<exists>r w. js_each (run_balance (\<lambda>i c. Inr (JInt 12))) [BRefresh, BRefresh] (sample_checker, []) = (r, w) \<and>
    distinct_adj (map fst (balance_reports (snd w))) \<and>
    list_all (\<lambda>(free, usd). free = JBool (js_le (js_nullish (bc_thresholdUsd sample_checker) (JInt 10)) usd)) (balance_reports (snd w))"
proof -
  obtain r w where w: "js_each (run_balance (\<lambda>i c. Inr (JInt 12))) [BRefresh, BRefresh] (sample_checker, []) = (r, w)"
    by (rule prod.exhaust)
  have "bc_onChange sample_checker" "bc_lastFree sample_checker = None" by (simp_all add: sample_checker_def)
  from balance_reports_changes [OF this w] w show ?thesis by blast
qed

end
