(* ===== verification/ContractBuilder.thy ===== *)
theory ContractBuilder
  imports DevTools "HOL-Library.Word"
begin

text \<open>
  The contract builders of sdk-core/smart-contract-creator and the page that drives them,
  sdk-core/developer-playground/playground.js.  A source text is a list of lines joined by newlines.
\<close>

section \<open>The creator\<close>

record contract_creator =
  cc_network :: jv
  cc_compiler :: jv
  cc_optimizer :: bool
  cc_optimizerRuns :: jv

definition new_ContractCreator :: "fields \<Rightarrow> contract_creator" where
  "new_ContractCreator options = \<lparr>cc_network = js_or (obj_get options ''network'') (JStr ''shahcoin''),
     cc_compiler = js_or (obj_get options ''compiler'') (JStr ''solc''),
     cc_optimizer = (\<not> strict_eq (obj_get options ''optimizer'') (JBool False)),
     cc_optimizerRuns = js_or (obj_get options ''optimizerRuns'') (JInt 200)\<rparr>"

definition pad_end :: "nat \<Rightarrow> char \<Rightarrow> string \<Rightarrow> string" where
  "pad_end n c s = s @ replicate (n - length s) c"

text \<open>\<open>deploy\<close> makes up an address: the hexadecimal digits of a random fraction, padded.\<close>

definition creator_deploy :: "env \<Rightarrow> ('s, string) js" where
  "creator_deploy env = js_bind (js_ext env (Call ''Math.random().toString'' [JInt 16])) (\<lambda>r.
     js_return (''0x'' @ pad_end 40 (CHR ''0'') (drop 2 (to_str r))))"

definition creator_verify :: "jv \<Rightarrow> jv" where
  "creator_verify address = JObj [(''address'', address), (''verified'', JBool True)]"

section \<open>SHI-20 tokens\<close>

definition strip_spaces :: "string \<Rightarrow> string" where
  "strip_spaces s = filter (\<lambda>c. \<not> is_space c) s"

text \<open>\<open>name.replace\<close> is the one method called on a configuration value: it needs a string.\<close>

definition as_name :: "jv \<Rightarrow> js_error + string" where
  "as_name v = (case v of JStr s \<Rightarrow> Inr s | _ \<Rightarrow> Inl (TypeError ''name.replace is not a function''))"

definition token_lines :: "string \<Rightarrow> string \<Rightarrow> string \<Rightarrow> string \<Rightarrow> string \<Rightarrow> bool \<Rightarrow> bool \<Rightarrow> bool \<Rightarrow> string list" where
  "token_lines name symbol decimals totalSupply maxSupply pausable burnable mintable =
    [''// SPDX-License-Identifier: MIT'',
     ''pragma solidity ^0.8.20;'',
     [],
     ''import '' @ [CHR 0x22] @ ''@openzeppelin/contracts/token/ERC20/ERC20.sol'' @ [CHR 0x22] @ '';'',
     ''import '' @ [CHR 0x22] @ ''@openzeppelin/contracts/access/Ownable.sol'' @ [CHR 0x22] @ '';'',
     (if pausable then ''import '' @ [CHR 0x22] @ ''@openzeppelin/contracts/utils/Pausable.sol'' @ [CHR 0x22] @ '';'' else []),
     [],
     ''contract '' @ strip_spaces name @ '' is ERC20, Ownable '' @ (if pausable then '', Pausable'' else []) @ '' {'',
     [CHR 0x09] @ ''uint8 private constant _DECIMALS = '' @ decimals @ '';'',
     [CHR 0x09] @ ''uint256 public maxSupply = '' @ maxSupply @ '';'',
     [CHR 0x09] @ ''string public constant TOKEN_STANDARD = '' @ [CHR 0x22] @ ''shahcoin.token.standard.v1'' @ [CHR 0x22] @ '';'',
     [CHR 0x09] @ ''string public constant TOKEN_TYPE = '' @ [CHR 0x22] @ ''SHI-20'' @ [CHR 0x22] @ '';'',
     [CHR 0x09] @ ''string public constant CREATED_BY = '' @ [CHR 0x22] @ ''ShahFactory'' @ [CHR 0x22] @ '';'',
     [CHR 0x09] @ ''bool public verified = false;'',
     [],
     [CHR 0x09] @ ''constructor() ERC20('' @ [CHR 0x22] @ name @ [CHR 0x22] @ '', '' @ [CHR 0x22] @ symbol @ [CHR 0x22] @ '') {'',
     [CHR 0x09] @ [CHR 0x09] @ ''_mint(msg.sender, '' @ totalSupply @ '');'',
     [CHR 0x09] @ ''}'',
     [],
     [CHR 0x09] @ ''function decimals() public pure override returns (uint8) { return _DECIMALS; }'',
     [CHR 0x09] @ (if pausable then ''function pause() external onlyOwner { _pause(); } function unpause() external onlyOwner { _unpause(); }'' else []),
     [CHR 0x09] @ (if burnable then ''function burn(uint256 amount) external { _burn(msg.sender, amount); }'' else []),
     [CHR 0x09] @ (if mintable then ''function mint(address to, uint256 amount) external onlyOwner { require(totalSupply() + amount <= maxSupply, '' @ [CHR 0x22] @ ''Exceeds maxSupply'' @ [CHR 0x22] @ ''); _mint(to, amount); }'' else []),
     [],
     [CHR 0x09] @ ''function setVerified(bool _v) external onlyOwner { verified = _v; }'',
     [],
     [CHR 0x09] @ ''function getTokenMetadata() external view returns ('',
     [CHR 0x09] @ [CHR 0x09] @ ''string memory standard,'',
     [CHR 0x09] @ [CHR 0x09] @ ''string memory t,'',
     [CHR 0x09] @ [CHR 0x09] @ ''string memory n,'',
     [CHR 0x09] @ [CHR 0x09] @ ''string memory s,'',
     [CHR 0x09] @ [CHR 0x09] @ ''uint8 d,'',
     [CHR 0x09] @ [CHR 0x09] @ ''uint256 ts,'',
     [CHR 0x09] @ [CHR 0x09] @ ''uint256 ms,'',
     [CHR 0x09] @ [CHR 0x09] @ ''string memory cb,'',
     [CHR 0x09] @ [CHR 0x09] @ ''bool v'',
     [CHR 0x09] @ '') {'',
     [CHR 0x09] @ [CHR 0x09] @ ''return (TOKEN_STANDARD, TOKEN_TYPE, name(), symbol(), decimals(), totalSupply(), maxSupply, CREATED_BY, verified);'',
     [CHR 0x09] @ ''}'',
     ''}'']"

text \<open>\<open>new Set(v)\<close> of an array or of the characters of a string; other values are not iterable.\<close>

definition set_has :: "jv \<Rightarrow> js_error + (string \<Rightarrow> bool)" where
  "set_has v = (case v of JArr xs \<Rightarrow> Inr (\<lambda>k. list_ex (\<lambda>x. strict_eq x (JStr k)) xs)
     | JStr s \<Rightarrow> Inr (\<lambda>k. k \<in> set (map (\<lambda>c. [c]) s))
     | _ \<Rightarrow> Inl (TypeError ''object is not iterable''))"

definition token_metadata :: "jv \<Rightarrow> jv" where
  "token_metadata cfg = JObj [(''standard'', JStr ''shahcoin.token.standard.v1''), (''type'', JStr ''SHI-20''),
     (''name'', jopt cfg ''name''), (''symbol'', jopt cfg ''symbol''), (''createdBy'', JStr ''ShahFactory''),
     (''verified'', JBool False)]"

definition contract_value :: "string \<Rightarrow> string list \<Rightarrow> jv \<Rightarrow> jv" where
  "contract_value ty ls md = JObj [(''type'', JStr ty), (''sourceCode'', JStr (join_with [CHR 0x0A] ls)), (''metadata'', md)]"

definition token_source :: "fields \<Rightarrow> js_error + string list" where
  "token_source conf = (let cfg = obj_get conf in
     case set_has (js_or (cfg ''features'') (JArr [])) of Inl e \<Rightarrow> Inl e | Inr has \<Rightarrow>
     case as_name (js_or (cfg ''name'') (JStr ''MyToken'')) of Inl e \<Rightarrow> Inl e | Inr name \<Rightarrow>
       Inr (token_lines name (to_str (js_or (cfg ''symbol'') (JStr ''MTK'')))
         (to_str (js_nullish (cfg ''decimals'') (JInt 18)))
         (to_str (js_or (cfg ''totalSupply'') (JStr ''1000000000000000000000000'')))
         (to_str (js_or (jopt (cfg ''customLogic'') ''maxSupply'') (JStr ''10000000000000000000000000'')))
         (has ''pausable'') (has ''burnable'') (has ''mintable'')))"

definition builder_createToken :: "fields \<Rightarrow> js_error + jv" where
  "builder_createToken conf = map_sum id (\<lambda>ls. contract_value ''SHI-20'' ls (token_metadata (JObj conf))) (token_source conf)"

section \<open>SHI-30 NFTs\<close>

text \<open>\<open>x | 0\<close>: truncation towards zero, then the signed 32-bit value; what is not finite gives zero.\<close>

definition rat_trunc :: "rat \<Rightarrow> int" where
  "rat_trunc q = (if 0 \<le> q then \<lfloor>q\<rfloor> else - \<lfloor>- q\<rfloor>)"

definition to_int32 :: "jsnum \<Rightarrow> int" where
  "to_int32 n = (case n of Fin q \<Rightarrow> sint (word_of_int (rat_trunc q) :: 32 word) | _ \<Rightarrow> 0)"

definition royalty_of :: "fields \<Rightarrow> int" where
  "royalty_of conf = to_int32 (to_number (js_nullish (jopt (obj_get conf ''customLogic'') ''royaltyPercentage'') (JInt 0)))"

definition nft_lines :: "string \<Rightarrow> string \<Rightarrow> string \<Rightarrow> string \<Rightarrow> bool \<Rightarrow> string list" where
  "nft_lines name symbol baseURI royalty soulbound =
    [''// SPDX-License-Identifier: MIT'',
     ''pragma solidity ^0.8.20;'',
     [],
     ''import '' @ [CHR 0x22] @ ''@openzeppelin/contracts/token/ERC721/ERC721.sol'' @ [CHR 0x22] @ '';'',
     ''import '' @ [CHR 0x22] @ ''@openzeppelin/contracts/access/Ownable.sol'' @ [CHR 0x22] @ '';'',
     [],
     ''contract '' @ strip_spaces name @ '' is ERC721, Ownable {'',
     [CHR 0x09] @ ''string private _base;'',
     [CHR 0x09] @ ''string public constant TOKEN_STANDARD = '' @ [CHR 0x22] @ ''shahcoin.nft.standard.v1'' @ [CHR 0x22] @ '';'',
     [CHR 0x09] @ ''string public constant TOKEN_TYPE = '' @ [CHR 0x22] @ ''SHI-30'' @ [CHR 0x22] @ '';'',
     [CHR 0x09] @ ''string public constant CREATED_BY = '' @ [CHR 0x22] @ ''ShahFactory'' @ [CHR 0x22] @ '';'',
     [CHR 0x09] @ ''bool public verified = false;'',
     [CHR 0x09] @ ''uint96 public royaltyBps = '' @ royalty @ '';'',
     [],
     [CHR 0x09] @ ''constructor() ERC721('' @ [CHR 0x22] @ name @ [CHR 0x22] @ '', '' @ [CHR 0x22] @ symbol @ [CHR 0x22] @ '') { _base = '' @ [CHR 0x22] @ baseURI @ [CHR 0x22] @ ''; }'',
     [CHR 0x09] @ ''function _baseURI() internal view override returns (string memory) { return _base; }'',
     [CHR 0x09] @ ''function setBaseURI(string calldata uri) external onlyOwner { _base = uri; }'',
     [CHR 0x09] @ ''function setVerified(bool _v) external onlyOwner { verified = _v; }'',
     [CHR 0x09] @ (if soulbound then ''function _beforeTokenTransfer(address from, address to, uint256 tokenId, uint256 batch) internal override { require(from == address(0) || to == address(0), '' @ [CHR 0x22] @ ''Soulbound'' @ [CHR 0x22] @ ''); super._beforeTokenTransfer(from, to, tokenId, batch); }'' else []),
     [],
     [CHR 0x09] @ ''function getNftMetadata() external view returns ('',
     [CHR 0x09] @ [CHR 0x09] @ ''string memory standard,'',
     [CHR 0x09] @ [CHR 0x09] @ ''string memory t,'',
     [CHR 0x09] @ [CHR 0x09] @ ''string memory n,'',
     [CHR 0x09] @ [CHR 0x09] @ ''string memory s,'',
     [CHR 0x09] @ [CHR 0x09] @ ''string memory cb,'',
     [CHR 0x09] @ [CHR 0x09] @ ''bool v,'',
     [CHR 0x09] @ [CHR 0x09] @ ''uint96 r'',
     [CHR 0x09] @ '') {'',
     [CHR 0x09] @ [CHR 0x09] @ ''return (TOKEN_STANDARD, TOKEN_TYPE, name(), symbol(), CREATED_BY, verified, royaltyBps);'',
     [CHR 0x09] @ ''}'',
     ''}'']"

text \<open>\<open>v.includes\<close> of an array or a string.\<close>

definition js_includes :: "jv \<Rightarrow> string \<Rightarrow> js_error + bool" where
  "js_includes v k = (case v of JArr xs \<Rightarrow> Inr (list_ex (\<lambda>x. strict_eq x (JStr k)) xs)
     | JStr s \<Rightarrow> Inr (str_includes s k)
     | _ \<Rightarrow> Inl (TypeError ''includes is not a function''))"

definition nft_metadata :: "jv \<Rightarrow> jv" where
  "nft_metadata cfg = JObj [(''standard'', JStr ''shahcoin.nft.standard.v1''), (''type'', JStr ''SHI-30''),
     (''name'', jopt cfg ''name''), (''symbol'', jopt cfg ''symbol''), (''createdBy'', JStr ''ShahFactory''),
     (''verified'', JBool False)]"

definition nft_source :: "fields \<Rightarrow> js_error + string list" where
  "nft_source conf = (let cfg = obj_get conf in
     case js_includes (js_or (cfg ''features'') (JArr [])) ''soulbound'' of Inl e \<Rightarrow> Inl e | Inr soulbound \<Rightarrow>
     case as_name (js_or (cfg ''name'') (JStr ''MyNFT'')) of Inl e \<Rightarrow> Inl e | Inr name \<Rightarrow>
       Inr (nft_lines name (to_str (js_or (cfg ''symbol'') (JStr ''MNFT''))) (to_str (js_or (cfg ''baseURI'') (JStr [])))
         (int_str (royalty_of conf)) soulbound))"

definition builder_createNFT :: "fields \<Rightarrow> js_error + jv" where
  "builder_createNFT conf = map_sum id (\<lambda>ls. contract_value ''SHI-30'' ls (nft_metadata (JObj conf))) (nft_source conf)"

section \<open>The playground\<close>

text \<open>The two buttons, from the values of the input fields to the text shown.\<close>

definition or_text :: "string \<Rightarrow> string \<Rightarrow> jv" where
  "or_text s d = js_or (JStr s) (JStr d)"

definition playground_gen20 :: "string \<Rightarrow> string \<Rightarrow> string \<Rightarrow> js_error + jv" where
  "playground_gen20 tName tSymbol tSupply = map_sum id (\<lambda>v. jopt v ''sourceCode'') (builder_createToken
     [(''name'', or_text tName ''My Token''), (''symbol'', or_text tSymbol ''MTK''),
      (''totalSupply'', or_text tSupply ''1000000000000000000000000''),
      (''features'', JArr [JStr ''mintable'', JStr ''burnable''])])"

definition playground_gen30 :: "string \<Rightarrow> string \<Rightarrow> string \<Rightarrow> js_error + jv" where
  "playground_gen30 nName nSymbol nBase = map_sum id (\<lambda>v. jopt v ''sourceCode'') (builder_createNFT
     [(''name'', or_text nName ''My NFT''), (''symbol'', or_text nSymbol ''MNFT''),
      (''baseURI'', or_text nBase ''https://example.com/metadata/'')])"

section \<open>Contracts\<close>

definition mint_line :: string where
  "mint_line = [CHR 0x09] @ ''function mint(address to, uint256 amount) external onlyOwner { require(totalSupply() + amount <= maxSupply, '' @
     [CHR 0x22] @ ''Exceeds maxSupply'' @ [CHR 0x22] @ ''); _mint(to, amount); }''"

definition burn_line :: string where
  "burn_line = [CHR 0x09] @ ''function burn(uint256 amount) external { _burn(msg.sender, amount); }''"

definition pause_line :: string where
  "pause_line = [CHR 0x09] @ ''function pause() external onlyOwner { _pause(); } function unpause() external onlyOwner { _unpause(); }''"

lemma token_lines_members:
  "(mint_line \<in> set (token_lines n s d ts ms p b m)) = m"
  "(burn_line \<in> set (token_lines n s d ts ms p b m)) = b"
  "(pause_line \<in> set (token_lines n s d ts ms p b m)) = p"
  by (simp_all add: token_lines_def mint_line_def burn_line_def pause_line_def)




text \<open>C37: The builders and the stores do not fit together: the metadata of every contract they build says it is not verified,
  which the validation counts as a missing field, so that both metadata stores refuse it and stay as they were.\<close>

theorem built_metadata_refused:
  assumes "builder_createToken conf = Inr c \<or> builder_createNFT conf = Inr c"
  shows "\<exists>e. storeMetadata env a (jopt c ''metadata'') w = (Inl (Error e), w) \<and>
    explorer_storeMetadata env a (jopt c ''metadata'') w = (Inl (Error e), w)"
proof -
  have "jopt c ''metadata'' = token_metadata (JObj conf) \<or> jopt c ''metadata'' = nft_metadata (JObj conf)"
    using assms by (cases "token_source conf"; cases "nft_source conf")
      (auto simp: builder_createToken_def builder_createNFT_def contract_value_def)
  then have "\<exists>e. validateMetadata (jopt c ''metadata'') = Inl (Error e)"
    by (auto simp: validateMetadata_def token_metadata_def nft_metadata_def requiredFields_def Let_def)
  then show ?thesis
    by (auto simp: explorer_store_eq storeMetadata_def js_simps)
qed

theorem built_metadata_refused_witness:
  "\<exists>c e. builder_createNFT [] = Inr c \<and> storeMetadata sample_iso [] (jopt c ''metadata'') ([], []) = (Inl (Error e), ([], []))"
proof -
  obtain c where c: "builder_createNFT [] = Inr c"
    by (simp add: builder_createNFT_def nft_source_def js_includes_def as_name_def js_or_def proto_value_def proto_keys_def Let_def)
  then show ?thesis using built_metadata_refused [of "[]" c sample_iso "[]" "([], [])"] by auto
qed

text \<open>Whatever is typed into the playground, both buttons show a source: the token contract can mint and burn and cannot be
  paused.\<close>

theorem playground_always_generates:
  "\<exists>ls s. playground_gen20 n sy su = Inr (JStr (join_with [CHR 0x0A] ls)) \<and>
     mint_line \<in> set ls \<and> burn_line \<in> set ls \<and> pause_line \<notin> set ls \<and> playground_gen30 n sy su = Inr (JStr s)"
proof -
  let ?ls = "token_lines (if n = [] then ''My Token'' else n) (if sy = [] then ''MTK'' else sy) (to_str (js_nullish JUndef (JInt 18)))
    (if su = [] then ''1000000000000000000000000'' else su) ''10000000000000000000000000'' False True True"
  have "playground_gen20 n sy su = Inr (JStr (join_with [CHR 0x0A] ?ls))"
    by (simp add: playground_gen20_def builder_createToken_def token_source_def set_has_def as_name_def or_text_def js_or_def
          contract_value_def proto_value_def proto_keys_def Let_def)
  moreover have "mint_line \<in> set ?ls" "burn_line \<in> set ?ls" "pause_line \<notin> set ?ls" by (simp_all only: token_lines_members not_False_eq_True)
  moreover have "\<exists>s. playground_gen30 n sy su = Inr (JStr s)"
    by (cases "n = []")
       (auto simp: playground_gen30_def builder_createNFT_def nft_source_def js_includes_def as_name_def or_text_def js_or_def
          contract_value_def proto_value_def proto_keys_def Let_def)
  ultimately show ?thesis by blast
qed

text \<open>The address of a simulated deployment has at least the length of a real one.\<close>

lemma deploy_address_length:
  "env (length tr) (Call ''Math.random().toString'' [JInt 16]) = Inr r \<Longrightarrow>
   \<exists>d. creator_deploy env (s, tr) = (Inr (''0x'' @ d), (s, tr @ [Call ''Math.random().toString'' [JInt 16]])) \<and>
     length d = max 40 (length (to_str r) - 2)"
  by (simp add: creator_deploy_def js_simps pad_end_def)

end
