(* ===== verification/LegalDialog.thy ===== *)
theory LegalDialog
  imports Effects Pricing
begin

text \<open>
  The legal notices of the Telegram mini app, telegram/LegalDisclaimerTelegramMiniApp.js: the elements it builds and
  the dialog it puts on the page.  The page body is the list of the nodes the component appends, a dialog
  being named by the number of dialogs shown before it.  The bullet of the signature and the warning emoji are left out; the style
  sheet is one opaque node.
\<close>

section \<open>Texts and elements\<close>

definition buildSignature :: string where
  "buildSignature = ''Built by Shahcoin Team '' @ [CHR 0xA9] @ '' Hamid Rad''"

definition versionInfo :: string where
  "versionInfo = ''Shahcoin Core v1.0.0 | Signed Build by Shahcoin Team '' @ [CHR 0xA9] @ '' Hamid Rad''"

datatype element = El (el_tag: string) (el_class: string) (el_text: string) (el_children: "element list")

definition getFooterText :: string where
  "getFooterText = ''SHAHCOIN'' @ [CHR 0xAE] @ '' is a registered trademark owned by Hamid Rad. Licensed under Apache 2.0.''"

definition getAboutText :: string where
  "getAboutText = join_with nl
    [[],
     ''            <p><strong>SHAHCOIN'' @ [CHR 0xAE] @ '', SHAH, SHAHI</strong>, and associated logos are registered trademarks of the Shahcoin project.</p>'',
     ''            '',
     ''            <h4>Trademark Notice:</h4>'',
     ''            <ul>'',
     ''                <li>SHAHCOIN'' @ [CHR 0xAE] @ '', SHAH, SHAHI are protected trademarks</li>'',
     ''                <li>Unauthorized use of branding is strictly prohibited</li>'',
     ''                <li>You may not use these names in forked projects</li>'',
     ''            </ul>'',
     ''            '',
     ''            <h4>Code License:</h4>'',
     ''            <ul>'',
     ''                <li>Core blockchain: Apache 2.0 License</li>'',
     ''                <li>UI modules: Apache 2.0 with branding restrictions</li>'',
     ''            </ul>'',
     ''            '',
     ''            <p>For licensing inquiries: <strong>Info@shah.vip</strong></p>'',
     ''        '']"

definition getCreationWarningText :: string where
  "getCreationWarningText = ''You may not use '' @ [CHR 0x22] @ ''SHAH'' @ [CHR 0x22] @ '', '' @ [CHR 0x22] @ ''SHAHCOIN'' @ [CHR 0x22] @ '' or any official branding in your project name or logo unless explicitly authorized. See LICENSE and NOTICE files for legal terms.''"

definition getFullLegalText :: string where
  "getFullLegalText = join_with nl
    [[],
     ''            <h3>Trademark Protection</h3>'',
     ''            <p><strong>SHAHCOIN'' @ [CHR 0xAE] @ '', SHAH, SHAHI</strong>, and associated logos are registered trademarks of the Shahcoin project. '',
     ''            Unauthorized use of these names, marks, or graphical assets is strictly prohibited.</p>'',
     ''            '',
     ''            <h3>License Information</h3>'',
     ''            <p>This project uses a dual licensing strategy:</p>'',
     ''            <ul>'',
     ''                <li><strong>Core blockchain code:</strong> Apache License 2.0</li>'',
     ''                <li><strong>UI modules and premium features:</strong> Apache 2.0 with branding restrictions</li>'',
     ''            </ul>'',
     ''            '',
     ''            <h3>Usage Restrictions</h3>'',
     ''            <p>You may:</p>'',
     ''            <ul>'',
     ''                <li>Fork and modify the code under Apache 2.0 license</li>'',
     ''                <li>Use the code in your own projects with attribution</li>'',
     ''            </ul>'',
     ''            '',
     ''            <p>You may NOT:</p>'',
     ''            <ul>'',
     ''                <li>Use SHAHCOIN'' @ [CHR 0xAE] @ '', SHAH, or SHAHI names in your projects</li>'',
     ''                <li>Use SHAHCOIN logos or branding without permission</li>'',
     ''                <li>Create tokens/NFTs with SHAH-branded names</li>'',
     ''                <li>Imply affiliation with the Shahcoin project</li>'',
     ''            </ul>'',
     ''            '',
     ''            <h3>Enforcement</h3>'',
     ''            <p>Violations of trademark rights will result in:</p>'',
     ''            <ul>'',
     ''                <li>Legal action and takedown requests</li>'',
     ''                <li>DMCA notices for unauthorized use</li>'',
     ''                <li>Potential legal proceedings</li>'',
     ''            </ul>'',
     ''            '',
     ''            <h3>Contact Information</h3>'',
     ''            <p>For licensing requests and legal inquiries: <strong>Info@shah.vip</strong></p>'',
     ''            '',
     ''            <hr>'',
     ''            <p><em>'' @ buildSignature @ ''</em></p>'',
     ''        '']"

definition createFooterDisclaimer :: element where
  "createFooterDisclaimer = El ''div'' ''legal-footer-disclaimer'' []
     [El ''p'' ''disclaimer-text'' getFooterText [], El ''p'' ''build-info'' buildSignature []]"

definition createAboutDisclaimer :: element where
  "createAboutDisclaimer = El ''div'' ''legal-about-disclaimer'' []
     [El ''h3'' ''legal-title'' (''SHAHCOIN'' @ [CHR 0xAE] @ '' Legal Information'') [],
      El ''div'' ''legal-content'' getAboutText [], El ''p'' ''build-signature'' buildSignature []]"

definition createCreationWarning :: element where
  "createCreationWarning = El ''div'' ''legal-creation-warning'' []
     [El ''span'' ''warning-icon'' [] [], El ''p'' ''warning-text'' getCreationWarningText []]"

definition createFullLegalDialog :: element where
  "createFullLegalDialog = El ''div'' ''legal-full-dialog'' []
     [El ''div'' ''dialog-header'' (''<h2>SHAHCOIN'' @ [CHR 0xAE] @ '' Legal Information</h2>'') [],
      El ''div'' ''dialog-content'' getFullLegalText [],
      El ''div'' ''dialog-footer'' []
        [El ''button'' ''dialog-button license-button'' ''View License'' [], El ''button'' ''dialog-button close-button'' ''Close'' []]]"

section \<open>The page\<close>

text \<open>An overlay carries the dialog its click handler closes.\<close>

datatype body_node = DialogNode nat element | OverlayNode nat

record legal_page =
  lp_body :: "body_node list"
  lp_styles :: nat
  lp_shown :: nat

definition legal_init :: "env \<Rightarrow> (legal_page, unit) js" where
  "legal_init env = js_bind (js_ext env (Call ''console.log'' [JStr ''Shahcoin Legal Disclaimer System initialized''])) (\<lambda>_.
     js_update (\<lambda>s. s\<lparr>lp_styles := lp_styles s + 1\<rparr>))"

definition is_dialog :: "nat \<Rightarrow> body_node \<Rightarrow> bool" where
  "is_dialog n x = (case x of DialogNode m _ \<Rightarrow> m = n | OverlayNode _ \<Rightarrow> False)"

definition closeDialog :: "nat \<Rightarrow> (legal_page, unit) js" where
  "closeDialog n = js_bind js_this (\<lambda>s.
     if list_ex (is_dialog n) (lp_body s) then js_update (\<lambda>s. s\<lparr>lp_body := filter (\<lambda>x. \<not> is_dialog n x) (lp_body s)\<rparr>)
     else js_return ())"

definition license_url :: string where
  "license_url = ''https://github.com/shahcoin/shahcoin/blob/main/LICENSE.md''"

definition openLicense :: "env \<Rightarrow> bool \<Rightarrow> (legal_page, unit) js" where
  "openLicense env in_telegram =
     (if in_telegram then js_bind (js_ext env (Call ''Telegram.WebApp.openLink'' [JStr license_url])) (\<lambda>_. js_return ())
      else js_bind (js_ext env (Call ''window.open'' [JStr license_url, JStr ''_blank''])) (\<lambda>_. js_return ()))"

definition showFullLegalDialog :: "(legal_page, unit) js" where
  "showFullLegalDialog = js_update (\<lambda>s. s\<lparr>lp_body := lp_body s @ [DialogNode (lp_shown s) createFullLegalDialog, OverlayNode (lp_shown s)],
     lp_shown := lp_shown s + 1\<rparr>)"

datatype legal_event = Init | Show | ClickClose nat | ClickOverlay nat | ClickLicense nat bool

definition legal_enabled :: "legal_page \<Rightarrow> legal_event \<Rightarrow> bool" where
  "legal_enabled s ev = (case ev of ClickClose n \<Rightarrow> list_ex (is_dialog n) (lp_body s)
     | ClickOverlay n \<Rightarrow> OverlayNode n \<in> set (lp_body s)
     | ClickLicense n _ \<Rightarrow> list_ex (is_dialog n) (lp_body s) | _ \<Rightarrow> True)"

primrec legal_handler :: "env \<Rightarrow> legal_event \<Rightarrow> (legal_page, unit) js" where
  "legal_handler env Init = legal_init env"
| "legal_handler env Show = showFullLegalDialog"
| "legal_handler env (ClickClose n) = closeDialog n"
| "legal_handler env (ClickOverlay n) = closeDialog n"
| "legal_handler env (ClickLicense n t) = openLicense env t"

inductive legal_reach :: "env \<Rightarrow> legal_page world \<Rightarrow> bool" for env where
  start: "legal_reach env (\<lparr>lp_body = [], lp_styles = 0, lp_shown = 0\<rparr>, [])"
| step: "legal_reach env w \<Longrightarrow> legal_enabled (fst w) ev \<Longrightarrow> legal_reach env (snd (legal_handler env ev w))"

section \<open>Overlays are never removed\<close>

definition overlays :: "legal_page \<Rightarrow> nat list" where
  "overlays s = concat (map (\<lambda>x. case x of OverlayNode n \<Rightarrow> [n] | DialogNode _ _ \<Rightarrow> []) (lp_body s))"

definition dialogs :: "legal_page \<Rightarrow> nat list" where
  "dialogs s = concat (map (\<lambda>x. case x of OverlayNode _ \<Rightarrow> [] | DialogNode n _ \<Rightarrow> [n]) (lp_body s))"

lemma overlays_close: "overlays (s\<lparr>lp_body := filter (\<lambda>x. \<not> is_dialog n x) (lp_body s)\<rparr>) = overlays s"
proof -
  have "concat (map (\<lambda>x. case x of OverlayNode n \<Rightarrow> [n] | DialogNode _ _ \<Rightarrow> []) (filter (\<lambda>x. \<not> is_dialog n x) xs)) =
      concat (map (\<lambda>x. case x of OverlayNode n \<Rightarrow> [n] | DialogNode _ _ \<Rightarrow> []) xs)" for xs
    by (induction xs) (auto simp: is_dialog_def split: body_node.splits)
  then show ?thesis by (simp add: overlays_def)
qed

lemma dialogs_close: "dialogs (s\<lparr>lp_body := filter (\<lambda>x. \<not> is_dialog n x) (lp_body s)\<rparr>) = filter (\<lambda>m. m \<noteq> n) (dialogs s)"
proof -
  have "concat (map (\<lambda>x. case x of OverlayNode _ \<Rightarrow> [] | DialogNode n _ \<Rightarrow> [n]) (filter (\<lambda>x. \<not> is_dialog n x) xs)) =
      filter (\<lambda>m. m \<noteq> n) (concat (map (\<lambda>x. case x of OverlayNode _ \<Rightarrow> [] | DialogNode n _ \<Rightarrow> [n]) xs))" for xs
    by (induction xs) (auto simp: is_dialog_def split: body_node.splits)
  then show ?thesis by (simp add: dialogs_def)
qed

lemma closeDialog_effect:
  "\<exists>s'. closeDialog n (s, tr) = (Inr (), (s', tr)) \<and> overlays s' = overlays s \<and>
    dialogs s' = filter (\<lambda>m. m \<noteq> n) (dialogs s) \<and> lp_shown s' = lp_shown s"
proof (cases "list_ex (is_dialog n) (lp_body s)")
  case True
  then show ?thesis by (simp add: closeDialog_def js_simps overlays_close dialogs_close)
next
  case False
  then have "filter (\<lambda>x. \<not> is_dialog n x) (lp_body s) = lp_body s" by (auto simp: list_ex_iff filter_id_conv)
  with False dialogs_close [of n s] show ?thesis by (simp add: closeDialog_def js_simps)
qed

definition legal_ok :: "legal_page \<Rightarrow> bool" where
  "legal_ok s = (overlays s = [0..<lp_shown s] \<and> sorted_wrt (<) (dialogs s) \<and> list_all (\<lambda>n. n < lp_shown s) (dialogs s))"

lemma legal_handler_ok:
  assumes "legal_ok s"
  shows "legal_ok (fst (snd (legal_handler env ev (s, tr))))"
proof -
  have close: "legal_ok (fst (snd (closeDialog n (s, tr))))" for n
    using closeDialog_effect [of n s tr] assms
    by (auto simp: legal_ok_def list_all_iff intro: sorted_wrt_filter)
  show ?thesis
  proof (cases ev)
    case Show
    then show ?thesis using assms
      by (auto simp: showFullLegalDialog_def js_simps legal_ok_def overlays_def dialogs_def list_all_iff sorted_wrt_append less_Suc_eq)
  qed (use assms close in \<open>auto simp: legal_init_def openLicense_def js_simps legal_ok_def overlays_def dialogs_def
        split: sum.splits\<close>)
qed

lemma legal_reach_ok: "legal_reach env w \<Longrightarrow> legal_ok (fst w)"
proof (induction rule: legal_reach.induct)
  case start
  then show ?case by (simp add: legal_ok_def overlays_def dialogs_def)
next
  case (step w ev)
  then show ?case using legal_handler_ok by (cases w) simp
qed

text \<open>Closing the legal dialog, by its button or by a click on the overlay, removes that dialog and no other, and never an
  overlay: in every state the page can reach it holds one overlay for each time the dialog was shown, still covering the page after the
  dialogs are gone.\<close>

theorem legal_overlays_stay:
  assumes "legal_reach env w"
  shows "overlays (fst w) = [0..<lp_shown (fst w)] \<and>
    dialogs (fst (snd (closeDialog n w))) = filter (\<lambda>m. m \<noteq> n) (dialogs (fst w)) \<and>
    overlays (fst (snd (closeDialog n w))) = overlays (fst w)"
  using legal_reach_ok [OF assms] closeDialog_effect [of n "fst w" "snd w"] by (auto simp: legal_ok_def)

definition legal_sample :: "legal_page world" where
  "legal_sample = snd (legal_handler (\<lambda>i c. Inr JUndef) Show (\<lparr>lp_body = [], lp_styles = 0, lp_shown = 0\<rparr>, []))"

theorem legal_overlays_stay_witness:
  "overlays (fst legal_sample) = [0] \<and> dialogs (fst (snd (closeDialog 0 legal_sample))) = [] \<and>
   overlays (fst (snd (closeDialog 0 legal_sample))) = [0]"
proof -
  have "legal_reach (\<lambda>i c. Inr JUndef) legal_sample"
    unfolding legal_sample_def by (intro legal_reach.intros) (simp add: legal_enabled_def)
  moreover have "lp_shown (fst legal_sample) = 1" "dialogs (fst legal_sample) = [0]"
    by (simp_all add: legal_sample_def showFullLegalDialog_def js_simps dialogs_def)
  ultimately show ?thesis using legal_overlays_stay [of "\<lambda>i c. Inr JUndef" legal_sample 0] by simp
qed

end
