(* ===== verification/SdkErrors.thy ===== *)
theory SdkErrors
  imports Values
begin

text \<open>
  The error classes of the TypeScript packages, sdk/packages/core, wallet, tokens and nfts (src/types.ts).  Each class is a
  constructor that runs the one of its parent and then sets its name; \<open>instanceof\<close> walks the chain of parents.
\<close>

datatype error_class = C_Error | SHAHCOINError | RPCError
  | WalletError | EncryptionError | TransactionError | AddressError
  | TokenError | TokenCreationError | TokenTransferError | TokenApprovalError
  | NFTError | NFTCreationError | NFTMintError | NFTTransferError | MetadataError

fun parent_class :: "error_class \<Rightarrow> error_class option" where
  "parent_class C_Error = None"
| "parent_class RPCError = Some SHAHCOINError"
| "parent_class EncryptionError = Some WalletError"
| "parent_class TransactionError = Some WalletError"
| "parent_class AddressError = Some WalletError"
| "parent_class TokenCreationError = Some TokenError"
| "parent_class TokenTransferError = Some TokenError"
| "parent_class TokenApprovalError = Some TokenError"
| "parent_class NFTCreationError = Some NFTError"
| "parent_class NFTMintError = Some NFTError"
| "parent_class NFTTransferError = Some NFTError"
| "parent_class MetadataError = Some NFTError"
| "parent_class _ = Some C_Error"

record sdk_error =
  err_class :: error_class
  err_name :: string
  err_message :: string
  err_code :: jv
  err_details :: jv

definition new_base_error :: "error_class \<Rightarrow> string \<Rightarrow> string \<Rightarrow> jv \<Rightarrow> jv \<Rightarrow> sdk_error" where
  "new_base_error c name msg code details =
     \<lparr>err_class = c, err_name = name, err_message = msg, err_code = code, err_details = details\<rparr>"

definition new_SHAHCOINError :: "string \<Rightarrow> jv \<Rightarrow> jv \<Rightarrow> sdk_error" where
  "new_SHAHCOINError msg code details = new_base_error SHAHCOINError ''SHAHCOINError'' msg code details"

definition new_RPCError :: "string \<Rightarrow> jv \<Rightarrow> jv \<Rightarrow> sdk_error" where
  "new_RPCError msg rpcCode rpcMessage =
     (new_SHAHCOINError msg (JStr ''RPC_ERROR'') (JObj [(''rpcCode'', rpcCode), (''rpcMessage'', rpcMessage)]))
       \<lparr>err_class := RPCError, err_name := ''RPCError''\<rparr>"

definition new_WalletError :: "string \<Rightarrow> jv \<Rightarrow> jv \<Rightarrow> sdk_error" where
  "new_WalletError msg code details = new_base_error WalletError ''WalletError'' msg code details"

definition new_EncryptionError :: "string \<Rightarrow> jv \<Rightarrow> sdk_error" where
  "new_EncryptionError msg details =
     (new_WalletError msg (JStr ''ENCRYPTION_ERROR'') details)\<lparr>err_class := EncryptionError, err_name := ''EncryptionError''\<rparr>"

definition new_TransactionError :: "string \<Rightarrow> jv \<Rightarrow> sdk_error" where
  "new_TransactionError msg details =
     (new_WalletError msg (JStr ''TRANSACTION_ERROR'') details)\<lparr>err_class := TransactionError, err_name := ''TransactionError''\<rparr>"

definition new_AddressError :: "string \<Rightarrow> jv \<Rightarrow> sdk_error" where
  "new_AddressError msg details =
     (new_WalletError msg (JStr ''ADDRESS_ERROR'') details)\<lparr>err_class := AddressError, err_name := ''AddressError''\<rparr>"

definition new_TokenError :: "string \<Rightarrow> jv \<Rightarrow> jv \<Rightarrow> sdk_error" where
  "new_TokenError msg code details = new_base_error TokenError ''TokenError'' msg code details"

definition new_TokenCreationError :: "string \<Rightarrow> jv \<Rightarrow> sdk_error" where
  "new_TokenCreationError msg details =
     (new_TokenError msg (JStr ''TOKEN_CREATION_ERROR'') details)\<lparr>err_class := TokenCreationError, err_name := ''TokenCreationError''\<rparr>"

definition new_TokenTransferError :: "string \<Rightarrow> jv \<Rightarrow> sdk_error" where
  "new_TokenTransferError msg details =
     (new_TokenError msg (JStr ''TOKEN_TRANSFER_ERROR'') details)\<lparr>err_class := TokenTransferError, err_name := ''TokenTransferError''\<rparr>"

definition new_TokenApprovalError :: "string \<Rightarrow> jv \<Rightarrow> sdk_error" where
  "new_TokenApprovalError msg details =
     (new_TokenError msg (JStr ''TOKEN_APPROVAL_ERROR'') details)\<lparr>err_class := TokenApprovalError, err_name := ''TokenApprovalError''\<rparr>"

definition new_NFTError :: "string \<Rightarrow> jv \<Rightarrow> jv \<Rightarrow> sdk_error" where
  "new_NFTError msg code details = new_base_error NFTError ''NFTError'' msg code details"

definition new_NFTCreationError :: "string \<Rightarrow> jv \<Rightarrow> sdk_error" where
  "new_NFTCreationError msg details =
     (new_NFTError msg (JStr ''NFT_CREATION_ERROR'') details)\<lparr>err_class := NFTCreationError, err_name := ''NFTCreationError''\<rparr>"

definition new_NFTMintError :: "string \<Rightarrow> jv \<Rightarrow> sdk_error" where
  "new_NFTMintError msg details =
     (new_NFTError msg (JStr ''NFT_MINT_ERROR'') details)\<lparr>err_class := NFTMintError, err_name := ''NFTMintError''\<rparr>"

definition new_NFTTransferError :: "string \<Rightarrow> jv \<Rightarrow> sdk_error" where
  "new_NFTTransferError msg details =
     (new_NFTError msg (JStr ''NFT_TRANSFER_ERROR'') details)\<lparr>err_class := NFTTransferError, err_name := ''NFTTransferError''\<rparr>"

definition new_MetadataError :: "string \<Rightarrow> jv \<Rightarrow> sdk_error" where
  "new_MetadataError msg details =
     (new_NFTError msg (JStr ''METADATA_ERROR'') details)\<lparr>err_class := MetadataError, err_name := ''MetadataError''\<rparr>"

section \<open>Classes\<close>

text \<open>\<open>instanceof\<close>: the class or one of its ancestors.\<close>

function ancestors :: "error_class \<Rightarrow> error_class list" where
  "ancestors c = c # (case parent_class c of None \<Rightarrow> [] | Some p \<Rightarrow> ancestors p)"
  by pat_completeness auto

definition class_depth :: "error_class \<Rightarrow> nat" where
  "class_depth c = (if c = C_Error then 0 else if parent_class c = Some C_Error then 1 else 2)"

termination ancestors
proof (relation "measure class_depth")
  fix c p assume "parent_class c = Some p"
  then show "(p, c) \<in> measure class_depth" by (cases c) (auto simp: class_depth_def)
qed simp

declare ancestors.simps [simp del]

definition instance_of :: "sdk_error \<Rightarrow> error_class \<Rightarrow> bool" where
  "instance_of e c = (c \<in> set (ancestors (err_class e)))"

text \<open>One error of every class that fixes its code.\<close>

definition coded_errors :: "string \<Rightarrow> jv \<Rightarrow> jv \<Rightarrow> sdk_error list" where
  "coded_errors msg d d' = [new_RPCError msg d d', new_EncryptionError msg d, new_TransactionError msg d, new_AddressError msg d,
     new_TokenCreationError msg d, new_TokenTransferError msg d, new_TokenApprovalError msg d,
     new_NFTCreationError msg d, new_NFTMintError msg d, new_NFTTransferError msg d, new_MetadataError msg d]"

lemmas new_error_defs = new_base_error_def new_SHAHCOINError_def new_RPCError_def new_WalletError_def new_EncryptionError_def
  new_TransactionError_def new_AddressError_def new_TokenError_def new_TokenCreationError_def new_TokenTransferError_def
  new_TokenApprovalError_def new_NFTError_def new_NFTCreationError_def new_NFTMintError_def new_NFTTransferError_def new_MetadataError_def

definition class_families :: "error_class list" where
  "class_families = [SHAHCOINError, WalletError, TokenError, NFTError]"

lemma coded_classes:
  "map err_class (coded_errors msg d d') = [RPCError, EncryptionError, TransactionError, AddressError, TokenCreationError,
     TokenTransferError, TokenApprovalError, NFTCreationError, NFTMintError, NFTTransferError, MetadataError]"
  by (simp add: coded_errors_def new_error_defs)

lemma class_in_one_family:
  "list_all (\<lambda>c. length (filter (\<lambda>f. f \<in> set (ancestors c)) class_families) = 1 \<and> C_Error \<in> set (ancestors c))
    [RPCError, EncryptionError, TransactionError, AddressError, TokenCreationError,
     TokenTransferError, TokenApprovalError, NFTCreationError, NFTMintError, NFTTransferError, MetadataError]"
  by code_simp

text \<open>The error classes of the packages can be told apart: the codes are pairwise different and so are the names, the message
  is the one given, and every error is an instance of Error, of its own class and of exactly one of the four base
  classes.\<close>

theorem sdk_errors_distinguishable:
  "distinct (map err_code (coded_errors msg d d')) \<and> distinct (map err_name (coded_errors msg d d')) \<and>
   list_all (\<lambda>e. err_message e = msg \<and> instance_of e C_Error \<and> instance_of e (err_class e) \<and>
     length (filter (instance_of e) class_families) = 1) (coded_errors msg d d')"
proof (intro conjI)
  show "distinct (map err_code (coded_errors msg d d'))" by (simp add: coded_errors_def new_error_defs)
  show "distinct (map err_name (coded_errors msg d d'))" by (simp add: coded_errors_def new_error_defs)
  have "list_all (\<lambda>e. err_message e = msg) (coded_errors msg d d')" by (simp add: coded_errors_def new_error_defs)
  moreover have "c \<in> set (ancestors c)" for c by (subst ancestors.simps) simp
  moreover have "list_all ((\<lambda>c. length (filter (\<lambda>f. f \<in> set (ancestors c)) class_families) = 1 \<and> C_Error \<in> set (ancestors c)) \<circ> err_class)
      (coded_errors msg d d')"
    using class_in_one_family unfolding coded_classes [of msg d d', symmetric] by (simp only: list.pred_map)
  ultimately show "list_all (\<lambda>e. err_message e = msg \<and> instance_of e C_Error \<and> instance_of e (err_class e) \<and>
     length (filter (instance_of e) class_families) = 1) (coded_errors msg d d')"
    by (simp add: list_all_iff instance_of_def [abs_def])
qed

end
