(* ===== verification/Portal.thy ===== *)
theory Portal
  imports Effects
begin

text \<open>
  The developer portal's dashboard (web/devportal/src/pages/index.tsx), the verified badge of the web wallet
  (web/components/VerifiedBadgeSystem.jsx) and the networks of the dApp SDK (packages/shahcoin-sdk/src/index.ts).

  The date formatter of the portal is a third-party function, the argument \<open>format\<close>, and so is the locale's way to
  write numbers, \<open>locale_str\<close>.  Markup, icons and colours are left out.
\<close>

section \<open>The dashboard\<close>

record dashboard_stats =
  totalDevelopers :: int
  activeProjects :: int
  apiCallsToday :: int
  totalDownloads :: int
  verifiedDevelopers :: int
  pluginsPublished :: int

record usage_day =
  ud_date :: string
  ud_apiCalls :: jsnum
  ud_downloads :: jsnum

record portal =
  po_stats :: dashboard_stats
  po_usageData :: "usage_day list"
  po_isLoading :: bool

definition new_portal :: portal where
  "new_portal = \<lparr>po_stats = \<lparr>totalDevelopers = 0, activeProjects = 0, apiCallsToday = 0, totalDownloads = 0,
     verifiedDevelopers = 0, pluginsPublished = 0\<rparr>, po_usageData = [], po_isLoading = True\<rparr>"

text \<open>\<open>Math.floor(Math.random() * n) + base\<close>.\<close>

definition random_count :: "env \<Rightarrow> rat \<Rightarrow> rat \<Rightarrow> ('s, jsnum) js" where
  "random_count env n base = js_bind (js_ext env (Call ''Math.random'' [])) (\<lambda>r.
     js_return (num_add (num_floor (num_mul (to_number r) (Fin n))) (Fin base)))"

definition day_ms :: rat where
  "day_ms = 24 * 60 * 60 * 1000"

definition mock_day :: "env \<Rightarrow> (jsnum \<Rightarrow> string) \<Rightarrow> nat \<Rightarrow> ('s, usage_day) js" where
  "mock_day env format i =
     js_bind (date_now env) (\<lambda>now.
     js_bind (random_count env 5000 10000) (\<lambda>calls.
     js_bind (random_count env 1000 500) (\<lambda>downloads.
     js_return \<lparr>ud_date = format (num_sub now (Fin ((6 - of_nat i) * day_ms))), ud_apiCalls = calls, ud_downloads = downloads\<rparr>)))"

text \<open>\<open>Array.from({ length: n }, f)\<close> from index \<open>i\<close> on.\<close>

fun array_from :: "(nat \<Rightarrow> ('s, 'a) js) \<Rightarrow> nat \<Rightarrow> nat \<Rightarrow> ('s, 'a list) js" where
  "array_from f i 0 = js_return []"
| "array_from f i (Suc n) = js_bind (f i) (\<lambda>x. js_bind (array_from f (Suc i) n) (\<lambda>xs. js_return (x # xs)))"

definition loadDashboardData :: "env \<Rightarrow> (jsnum \<Rightarrow> string) \<Rightarrow> (portal, unit) js" where
  "loadDashboardData env format =
     js_bind (js_update (\<lambda>s. s\<lparr>po_isLoading := True\<rparr>)) (\<lambda>_.
     js_bind (js_ext env (Call ''setTimeout'' [JInt 1000])) (\<lambda>_.
     js_bind (js_update (\<lambda>s. s\<lparr>po_stats := \<lparr>totalDevelopers = 1247, activeProjects = 89, apiCallsToday = 15420,
        totalDownloads = 45678, verifiedDevelopers = 234, pluginsPublished = 67\<rparr>\<rparr>)) (\<lambda>_.
     js_bind (array_from (mock_day env format) 0 7) (\<lambda>mockUsageData.
     js_bind (js_update (\<lambda>s. s\<lparr>po_usageData := mockUsageData\<rparr>)) (\<lambda>_.
     js_update (\<lambda>s. s\<lparr>po_isLoading := False\<rparr>))))))"

text \<open>Title, value and change of a card, and title, description and link of a quick action.\<close>

definition statCards :: "(int \<Rightarrow> string) \<Rightarrow> dashboard_stats \<Rightarrow> (string \<times> string \<times> string) list" where
  "statCards locale_str stats =
    [(''Total Developers'', locale_str (totalDevelopers stats), ''+12%''),
     (''Active Projects'', locale_str (activeProjects stats), ''+8%''),
     (''API Calls Today'', locale_str (apiCallsToday stats), ''+23%''),
     (''Total Downloads'', locale_str (totalDownloads stats), ''+15%''),
     (''Verified Developers'', locale_str (verifiedDevelopers stats), ''+5%''),
     (''Plugins Published'', locale_str (pluginsPublished stats), ''+18%'')]"

definition quickActions :: "(string \<times> string \<times> string) list" where
  "quickActions =
    [(''Download SDK'', ''Get the latest SHAHCOIN SDK'', ''/sdk''), (''API Keys'', ''Manage your API keys'', ''/api-keys''),
     (''Plugin Registry'', ''Browse and publish plugins'', ''/registry''), (''Documentation'', ''Read the latest docs'', ''/docs'')]"

definition render_portal :: "(int \<Rightarrow> string) \<Rightarrow> portal \<Rightarrow> (string \<times> string \<times> string) list option" where
  "render_portal locale_str s = (if po_isLoading s then None else Some (statCards locale_str (po_stats s)))"

section \<open>The verified badge\<close>

definition web_badge_types :: "string list" where
  "web_badge_types = [''verified-token'', ''verified-nft'', ''trusted-creator'', ''legal-warning'']"

datatype badge_output = FilterWidget bool | NoBadge | BadgeFor string bool

text \<open>The state is the filter flag; a badge of an unknown type has no picture.\<close>

definition badge_handleFilterChange :: "env \<Rightarrow> bool \<Rightarrow> bool \<Rightarrow> (bool, unit) js" where
  "badge_handleFilterChange env has_callback checked = js_bind (js_update (\<lambda>_. checked)) (\<lambda>_.
     if has_callback then js_bind (js_ext env (Call ''onFilterChange'' [JBool checked])) (\<lambda>_. js_return ()) else js_return ())"

definition VerifiedBadgeSystem :: "string option \<Rightarrow> bool \<Rightarrow> bool \<Rightarrow> badge_output" where
  "VerifiedBadgeSystem badgeType showFilter showVerifiedOnly =
     (if showFilter then FilterWidget showVerifiedOnly
      else case badgeType of None \<Rightarrow> NoBadge
        | Some t \<Rightarrow> if t = [] then NoBadge else BadgeFor t (t \<in> set web_badge_types))"

section \<open>Networks\<close>

record network =
  chainId :: nat
  net_name :: string
  rpcUrl :: string
  explorerUrl :: string
  shahSwapUrl :: string

definition NETWORKS :: "(string \<times> network) list" where
  "NETWORKS =
    [(''mainnet'', \<lparr>chainId = 1, net_name = ''Shahcoin Mainnet'', rpcUrl = ''https://rpc.shah.vip'',
        explorerUrl = ''https://explorer.shah.vip'', shahSwapUrl = ''https://swap.shah.vip''\<rparr>),
     (''testnet'', \<lparr>chainId = 2, net_name = ''Shahcoin Testnet'', rpcUrl = ''https://testnet-rpc.shah.vip'',
        explorerUrl = ''https://testnet-explorer.shah.vip'', shahSwapUrl = ''https://testnet-swap.shah.vip''\<rparr>),
     (''regtest'', \<lparr>chainId = 3, net_name = ''Shahcoin Regtest'', rpcUrl = ''http://localhost:8332'',
        explorerUrl = ''http://localhost:3001'', shahSwapUrl = ''http://localhost:3002''\<rparr>)]"

text \<open>The chain identifier determines the network.\<close>

lemma networks_by_chainId: "map_of NETWORKS a = Some n \<Longrightarrow> map_of NETWORKS b = Some m \<Longrightarrow> chainId n = chainId m \<Longrightarrow> a = b"
  by (auto simp: NETWORKS_def split: if_splits)

section \<open>The dashboard data\<close>

definition day_ok :: "usage_day \<Rightarrow> bool" where
  "day_ok d = (case (ud_apiCalls d, ud_downloads d) of
     (Fin a, Fin b) \<Rightarrow> a \<in> \<int> \<and> 10000 \<le> a \<and> a < 15000 \<and> b \<in> \<int> \<and> 500 \<le> b \<and> b < 1500 | _ \<Rightarrow> False)"

lemma random_count_run:
  assumes "random_ok env" and "0 < n"
  shows "\<exists>k::int. 0 \<le> k \<and> of_int k < n \<and>
    random_count env n base (s, tr) = (Inr (Fin (of_int k + base)), (s, tr @ [Call ''Math.random'' []]))"
proof -
  obtain q where q: "env (length tr) (Call ''Math.random'' []) = Inr (JNum (Fin q))" "0 \<le> q" "q < 1"
    using assms(1) unfolding random_ok_def by blast
  have "0 \<le> \<lfloor>q * n\<rfloor>" using q assms(2) by simp
  moreover have "of_int \<lfloor>q * n\<rfloor> < n"
    using q(3) assms(2) of_int_floor_le [of "q * n"] mult_strict_right_mono [of q 1 n] by linarith
  ultimately show ?thesis using q(1) by (auto simp: random_count_def js_simps)
qed

lemma mock_day_run:
  assumes "random_ok env" and "clock_ok env"
  shows "\<exists>d tr'. mock_day env format i (s, tr) = (Inr d, (s, tr')) \<and> day_ok d"
proof -
  obtain t where t: "env (length tr) (Call ''Date.now'' []) = Inr (JNum t)" using assms(2) unfolding clock_ok_def by blast
  let ?tr = "tr @ [Call ''Date.now'' []]"
  obtain a where a: "0 \<le> a" "of_int a < (5000::rat)"
    "random_count env 5000 10000 (s, ?tr) = (Inr (Fin (of_int a + 10000)), (s, ?tr @ [Call ''Math.random'' []]))"
    using random_count_run [OF assms(1), of 5000 10000 s ?tr] by auto
  obtain b where b: "0 \<le> b" "of_int b < (1000::rat)"
    "random_count env 1000 500 (s, ?tr @ [Call ''Math.random'' []]) =
       (Inr (Fin (of_int b + 500)), (s, (?tr @ [Call ''Math.random'' []]) @ [Call ''Math.random'' []]))"
    using random_count_run [OF assms(1), of 1000 500 s "?tr @ [Call ''Math.random'' []]"] by auto
  let ?d = "\<lparr>ud_date = format (num_sub t (Fin ((6 - of_nat i) * day_ms))), ud_apiCalls = Fin (of_int a + 10000),
      ud_downloads = Fin (of_int b + 500)\<rparr>"
  have "day_ok ?d" using a(1,2) b(1,2) by (simp add: day_ok_def)
  moreover have "mock_day env format i (s, tr) = (Inr ?d, (s, (?tr @ [Call ''Math.random'' []]) @ [Call ''Math.random'' []]))"
    unfolding mock_day_def js_bind_now [of env tr t, OF t] by (simp only: js_bind_apply a(3) b(3) prod.case sum.case js_return_apply)
  ultimately show ?thesis by blast
qed

lemma array_from_run:
  assumes "\<And>i s tr. \<exists>x tr'. f i (s, tr) = (Inr x, (s, tr')) \<and> P x"
  shows "\<exists>xs tr'. array_from f i n (s, tr) = (Inr xs, (s, tr')) \<and> length xs = n \<and> list_all P xs"
proof (induction n arbitrary: i tr)
  case 0
  then show ?case by (simp add: js_simps)
next
  case (Suc n)
  obtain x tr1 where x: "f i (s, tr) = (Inr x, (s, tr1))" "P x" using assms by blast
  obtain xs tr2 where xs: "array_from f (Suc i) n (s, tr1) = (Inr xs, (s, tr2))" "length xs = n" "list_all P xs"
    using Suc.IH by blast
  from x xs show ?case by (simp add: js_bind_apply js_return_apply)
qed

text \<open>Loading the dashboard always ends: the spinner goes, the six cards show the fixed figures, and there are seven days
  of usage with whole numbers in the ranges the code draws from.\<close>

theorem dashboard_loads:
  assumes "clock_ok env" and "random_ok env" and "timer_ok env"
  shows "\<exists>s' tr'. loadDashboardData env format (s, tr) = (Inr (), (s', tr')) \<and>
    map_option (map fst) (render_portal locale_str s') = Some (map fst (statCards locale_str (po_stats s'))) \<and>
    apiCallsToday (po_stats s') = 15420 \<and> length (po_usageData s') = 7 \<and> list_all day_ok (po_usageData s')"
proof -
  let ?c = "Call ''setTimeout'' [JInt 1000]"
  let ?s = "s\<lparr>po_isLoading := True, po_stats := \<lparr>totalDevelopers = 1247, activeProjects = 89, apiCallsToday = 15420,
        totalDownloads = 45678, verifiedDevelopers = 234, pluginsPublished = 67\<rparr>\<rparr>"
  obtain h where h: "env (length tr) ?c = Inr h" using assms(3) unfolding timer_ok_def by blast
  obtain xs tr' where xs: "array_from (mock_day env format) 0 7 (?s, tr @ [?c]) = (Inr xs, (?s, tr'))"
    "length xs = 7" "list_all day_ok xs"
    using array_from_run [of "mock_day env format" day_ok, OF mock_day_run [OF assms(2,1)], where i = 0 and n = 7 and s = ?s
        and tr = "tr @ [?c]"] by (elim exE conjE) rule
  have "loadDashboardData env format (s, tr) = (Inr (), (?s\<lparr>po_usageData := xs, po_isLoading := False\<rparr>, tr'))"
    using h xs(1) by (simp add: loadDashboardData_def js_bind_apply js_update_apply js_ext_apply)
  with xs(2,3) show ?thesis by (simp add: render_portal_def)
qed

definition sample_platform :: env where
  "sample_platform i c = Inr (JInt 0)"

theorem dashboard_loads_witness:
  "\<exists>s' tr'. loadDashboardData sample_platform (\<lambda>_. []) (new_portal, []) = (Inr (), (s', tr')) \<and>
    map_option (map fst) (render_portal int_str s') = Some (map fst (statCards int_str (po_stats s'))) \<and>
    apiCallsToday (po_stats s') = 15420 \<and> length (po_usageData s') = 7 \<and> list_all day_ok (po_usageData s')"
  by (rule dashboard_loads) (simp_all add: clock_ok_def random_ok_def timer_ok_def sample_platform_def)

end
