(* ===== verification/Spec2Isabelle.thy ===== *)
theory Spec2Isabelle
  imports BundleCreationIntegration Security SmartUnits PriceOracle DynamicFee Metadata WalletSDK RpcClient Marketplace
    NodeSDK PremiumBot Checkout MarketplaceViews FeeExplanation Upgrade PremiumSubscription ContractBuilder LegalDialog
    SdkErrors Portal
begin

text \<open>
  \<^bold>\<open>The JavaScript and TypeScript programs of Shahcoin.\<close>

  Shahcoin is a cryptocurrency node with a family of programs around it.  This development is about those
  programs: the contract toolkit that sells the creation of tokens and NFTs, the marketplace, the SDKs that talk to a
  node or a wallet, the wallet's web pages, the Telegram mini apps and bot, and a few HTTP endpoints.  Paths are
  relative to src/.

  \<^bold>\<open>How code becomes definitions.\<close>

  \<^item> \<open>Prelude\<close>, \<open>Values\<close> and \<open>Decimals\<close> hold the part of JavaScript the code uses: numbers with
    infinities and NaN, dynamic values, property access with its TypeError, truthiness, equality and
    comparison, conversions, strings, \<open>toFixed\<close> and \<open>parseFloat\<close> with their round trips.
  \<^item> \<open>Effects\<close> holds code with effects: a state monad with exceptions over a component's state and a log of
    external calls.  Everything that is not code of the repository - HTTP, Stripe, contracts, the clock, random
    numbers, the console, callbacks - is a call answered by an environment \<open>env\<close>, an argument of every operation, which
    may answer anything or throw.  Where a theorem relies on the platform, that is a named hypothesis
    (\<open>clock_ok\<close>, \<open>iso_ok\<close>, \<open>random_ok\<close>, \<open>timer_ok\<close>) with a witness.  The theory also gives the logic of the proofs: triples,
    invariants, the calls a program avoids, programs that keep the state, never throw or always throw.
  \<^item> A class or component is a record, a method or handler one definition with every early return and
    \<open>catch\<close>; several steps in any order are an inductive reachability relation over them.  What a render
    function computes is modelled by the values it shows and the controls it offers.

  \<^bold>\<open>Interfaces.\<close>  Four locales carry the laws that several components share, each interpreted on their
  definitions: \<open>addon_catalogue\<close> and \<open>paid_creation\<close> (theory \<open>Pricing\<close>, interpreted for tokens and for NFTs), \<open>session_flow\<close>
  (theory \<open>Sessions\<close>, interpreted for both creation integrations) and \<open>registry\<close> (theory \<open>Registry\<close>, interpreted for
  the metadata store, the verified assets and the vault of bundles).

  \<^bold>\<open>Creating tokens and NFTs\<close> (sdk-core/smart-contract-toolkit).

  \<^item> \<open>TokenMonetization\<close> (token-monetization.js) and \<open>NFTMonetization\<close> (NFTMonetization.js): quotes, payment, creation, payment
    modal.  The quote is the fee plus the chosen add-ons whatever their order; nothing is deployed before a charge; a
    card payment charges the quoted total once.
  \<^item> \<open>BundleMonetization\<close> and \<open>BundleCreationIntegration\<close> (files of the same names): bundles, whose price calculation reads a
    constant before it is initialised, so that no bundle is ever created or charged.
  \<^item> \<open>TokenCreationIntegration\<close> and \<open>NFTCreationIntegration\<close>: sessions over the systems above, the generated contracts, deployment, tiers
    and gas.  In every reachable state a deployment follows a charge and a paid status means a charge.
  \<^item> \<open>FeeExplanation\<close> (TokenCreationFeeExplanation.js): the page that explains the fee shows what the monetization system quotes.
  \<^item> \<open>Metadata\<close> (metadata-standards.js, TokenBadge.jsx, telegram/VerifiedBadgeTelegramMiniApp.js): schemas, validation, badges and the
    store, in which the last write under an address wins.
  \<^item> \<open>ContractBuilder\<close> (sdk-core/smart-contract-creator, developer-playground): the Solidity builders; the functions in a
    source are those asked for, a royalty percentage is cut to an integer, and the stores above refuse the metadata of every built contract.
  \<^item> \<open>DevTools\<close> (sdk-core/metadata-explorer-apis, vault-deploy-tool, transaction-sandbox, developer-analytics, web/lib/AIBalanceChecker.ts,
    web/components/AIHelpPanel.tsx): the explorer refines the metadata store, the vault exports what was stored last, the sandbox
    ledger stays consistent under interleaved broadcasts, tracked events are sent at most once and in order.

  \<^bold>\<open>Prices, fees and amounts.\<close>

  \<^item> \<open>PriceOracle\<close> (sdk-core/marketplace-api/price-oracle.js): the cached oracle refines a price cell, its prices are positive and it
    runs at most one timer.
  \<^item> \<open>DynamicFee\<close> (sdk-core/price-oracle-dynamic-fee, web/lib/PriceOracle.ts): fee quotes and the price watcher.
  \<^item> \<open>SmartUnits\<close> (web/components/SmartUnitDisplay.jsx, telegram/SmartUnitDisplayTelegramMiniApp.js): breakdowns add up to the amount.
  \<^item> \<open>Upgrade\<close> (shah-wallet-dashboard/api, api/email, web/components/UpgradeAIWallet.tsx and BuyShah.tsx): the endpoint and the
    page ask for the same amount; what the webhook and the mail endpoint leave undone.

  \<^bold>\<open>The marketplace.\<close>

  \<^item> \<open>Marketplace\<close> (sdk-core/marketplace-ui/index.js, marketplace-api/index.js): utilities, hook and client; filtering selects exactly the
    matches, analytics add up, only the owner's transfers leave the client.
  \<^item> \<open>MarketplaceViews\<close> (WebMarketplace.js, MobileMarketplace.js): both screens from shared definitions; what is listed always matches the
    filters, as the utilities would select it.
  \<^item> \<open>Checkout\<close> (marketplace-api/stripe-payments.js, web/components/StripeNFTPayment.jsx, the hook of price-oracle.js): a session charges the
    listed price at the oracle's rate up to half a cent, and an attempt always settles.

  \<^bold>\<open>SDKs.\<close>

  \<^item> \<open>WalletSDK\<close> (packages/shahcoin-sdk/src/shahcoin-sdk.ts): wallet operations reach the API only on a granted connection.
  \<^item> \<open>RpcClient\<close> (sdk/packages/core/src/rpc/client.ts): identifiers are distinct, attempts bounded, reconnecting to a dead node ends.
  \<^item> \<open>NodeSDK\<close> (sdk-core/shahcoin.js): nothing reaches the node without a connection, and results have the documented fields.
  \<^item> \<open>SdkErrors\<close> (sdk/packages/*/src/types.ts): the error classes can be told apart.

  \<^bold>\<open>Wallet pages, Telegram and security.\<close>

  \<^item> \<open>PremiumBot\<close> (telegram/PremiumTelegramMiniApp.js): premium content only for an active subscription, for every update.
  \<^item> \<open>PremiumSubscription\<close> (web/components/PremiumSubscription.jsx): hook, gate, upgrade dialog and dashboard; which states of the dialog
    crash and what its orders name.
  \<^item> \<open>LegalDialog\<close> (telegram/LegalDisclaimerTelegramMiniApp.js): closing a dialog never removes its overlay.
  \<^item> \<open>Portal\<close> (web/devportal, web/components/VerifiedBadgeSystem.jsx, packages/shahcoin-sdk/src/index.ts): the dashboard, the badge and the networks.
  \<^item> \<open>Security\<close> (shah-security, web/components/SHAHSecurity.js, telegram/SHAHSecurityTelegramMiniApp.js): the score's bounds and badge, and exactly
    which addresses the URL check calls safe.

  \<^bold>\<open>Idealisations.\<close>

  \<^item> Finite numbers are exact rationals, so results are those of the code up to floating-point rounding.
  \<^item> Strings are lists of characters; emoji and characters outside Latin-1 in labels are left out, and
    where the engine's wording of an exception matters to nothing its text is our own.
  \<^item> A method with awaits is one step unless its theory says otherwise: the timers of the sandbox and of the RPC client, socket
    events and React events are separate steps.  Requests a program makes concurrently are made in the order of the code.
  \<^item> The order of a sort with an inconsistent comparator, date parsing, locale formatting and the \<open>URL\<close> class are
    arguments of the definitions that use them.
  \<^item> No loop of the code is cut off: each is a structural recursion or has a termination proof, and the
    reconnection loops, which need not end, are step relations.  The one bound is in printing numbers: \<open>rat_str\<close> writes at most
    twenty decimals, where JavaScript keeps at most seventeen significant digits; exponent notation is not reproduced.

  \<^bold>\<open>Not modelled.\<close>

  \<^item> Markup, style sheets, SVG pictures and React scheduling; LegalFooter.jsx is nothing else.
  \<^item> api/dev-api/src/index.ts: it registers third-party middleware and route modules that are not in the repository; what a
    request does is decided there.
  \<^item> TypeScript interfaces and type aliases (types.ts of the packages), erased at compile time, and the re-exporting index files.
  \<^item> The node, the wallet and the Qt interface in C++ under src/, the game engine plugins, and the build, deployment and test scripts: other
    languages, no part of the programs above.
\<close>

end
